(* ===== verification/JsPrelude.thy ===== *)
theory JsPrelude
  imports Main "HOL-Library.Word" "HOL-Library.Sublist"
begin

text \<open>
  Shared ground of the development: the string type of JavaScript (a list of
  UTF-16 code units, each a 16-bit word), the string operations of the
  language that the sources of web/src call (trim, join, padStart, startsWith,
  endsWith, Array.from, the UTF-8 size of a Blob), decimal printing of numbers,
  and the generic list lemmas the components share. The collections
  \<open>js_defs\<close> (definitions unfolded to evaluate string code) and \<open>char_defs\<close>
  (character classes) are filled here and in the theories that import this one.
\<close>

named_theorems js_defs "definitions unfolded to evaluate string code"
named_theorems char_defs "character classes"

type_synonym cu = "16 word"
type_synonym jstr = "cu list"

text \<open>An ASCII literal of the source, as code units.\<close>

definition js :: "string \<Rightarrow> jstr" where
  [js_defs]: "js s = map of_char s"

lemma js_Nil [simp]: "js [] = []"
  by (simp add: js_def)

lemma js_Cons [simp]: "js (c # s) = of_char c # js s"
  by (simp add: js_def)

lemma js_append: "js (s @ t) = js s @ js t"
  by (simp add: js_def)

lemma length_js [simp]: "length (js s) = length s"
  by (simp add: js_def)

section \<open>Character classes\<close>

definition is_digit :: "cu \<Rightarrow> bool" where
  [char_defs]: "is_digit c \<longleftrightarrow> 48 \<le> c \<and> c \<le> 57"

definition is_upper :: "cu \<Rightarrow> bool" where
  [char_defs]: "is_upper c \<longleftrightarrow> 65 \<le> c \<and> c \<le> 90"

definition is_lower :: "cu \<Rightarrow> bool" where
  [char_defs]: "is_lower c \<longleftrightarrow> 97 \<le> c \<and> c \<le> 122"

definition is_alnum :: "cu \<Rightarrow> bool" where
  [char_defs]: "is_alnum c \<longleftrightarrow> is_lower c \<or> is_upper c \<or> is_digit c"

text \<open>
  White space as \<^verbatim>\<open>String.prototype.trim\<close> and \<^verbatim>\<open>\s\<close> in a regular expression see it:
  tab, line feed, vertical tab, form feed, carriage return, space, no-break
  space, the byte-order mark, the line and paragraph separators and the Unicode
  space separators.
\<close>

definition is_ws :: "cu \<Rightarrow> bool" where
  [char_defs]: "is_ws c \<longleftrightarrow>
     (9 \<le> c \<and> c \<le> 13) \<or> c = 32 \<or> c = 160 \<or> c = 5760 \<or> (8192 \<le> c \<and> c \<le> 8202) \<or>
     c = 8232 \<or> c = 8233 \<or> c = 8239 \<or> c = 8287 \<or> c = 12288 \<or> c = 65279"

definition is_high_surrogate :: "cu \<Rightarrow> bool" where
  [char_defs]: "is_high_surrogate c \<longleftrightarrow> 55296 \<le> c \<and> c \<le> 56319"

definition is_low_surrogate :: "cu \<Rightarrow> bool" where
  [char_defs]: "is_low_surrogate c \<longleftrightarrow> 56320 \<le> c \<and> c \<le> 57343"

definition upper_cu :: "cu \<Rightarrow> cu" where
  [char_defs]: "upper_cu c = (if is_lower c then c - 32 else c)"

definition lower_cu :: "cu \<Rightarrow> cu" where
  [char_defs]: "lower_cu c = (if is_upper c then c + 32 else c)"

lemma cu_le_numeral_iff: "(a :: cu) \<le> b \<longleftrightarrow> unat a \<le> unat b"
  by (rule word_le_nat_alt)

lemma unat_minus_32: "is_lower c \<Longrightarrow> unat (c - 32) = unat c - 32"
  by (subst unat_sub) (auto simp: char_defs word_le_nat_alt)

lemma upper_cu_upper: "is_lower c \<Longrightarrow> is_upper (upper_cu c)"
  using unat_minus_32 [of c] by (auto simp: char_defs word_le_nat_alt)

lemma is_upper_not_lower: "is_upper c \<Longrightarrow> \<not> is_lower c"
  by (auto simp: char_defs word_le_nat_alt)

lemma is_digit_not_lower: "is_digit c \<Longrightarrow> \<not> is_lower c"
  by (auto simp: char_defs word_le_nat_alt)

lemma upper_cu_idem [simp]: "upper_cu (upper_cu c) = upper_cu c"
  using upper_cu_upper [of c] by (cases "is_lower c") (auto simp: upper_cu_def is_upper_not_lower)

lemma is_alnum_upper_cu [simp]: "is_alnum (upper_cu c) \<longleftrightarrow> is_alnum c"
  using upper_cu_upper [of c] by (cases "is_lower c") (auto simp: upper_cu_def is_alnum_def)

lemma is_alnum_not_ws: "is_alnum c \<Longrightarrow> \<not> is_ws c"
  by (auto simp: char_defs word_le_nat_alt)

section \<open>Strings\<close>

abbreviation js_toUpperCase :: "jstr \<Rightarrow> jstr" where
  "js_toUpperCase s \<equiv> map upper_cu s"

abbreviation js_toLowerCase :: "jstr \<Rightarrow> jstr" where
  "js_toLowerCase s \<equiv> map lower_cu s"

definition js_trim :: "jstr \<Rightarrow> jstr" where
  [js_defs]: "js_trim s = rev (dropWhile is_ws (rev (dropWhile is_ws s)))"

fun js_join :: "jstr \<Rightarrow> jstr list \<Rightarrow> jstr" where
  "js_join sep [] = []"
| "js_join sep [s] = s"
| "js_join sep (s # t # ss) = s @ sep @ js_join sep (t # ss)"

definition js_padStart :: "nat \<Rightarrow> cu \<Rightarrow> jstr \<Rightarrow> jstr" where
  [js_defs]: "js_padStart n c s = replicate (n - length s) c @ s"

definition js_startsWith :: "jstr \<Rightarrow> jstr \<Rightarrow> bool" where
  [js_defs]: "js_startsWith s p \<longleftrightarrow> take (length p) s = p"

definition js_endsWith :: "jstr \<Rightarrow> jstr \<Rightarrow> bool" where
  [js_defs]: "js_endsWith s p \<longleftrightarrow> js_startsWith (rev s) (rev p)"

text \<open>\<^verbatim>\<open>value.replace(/[...]/g, r)\<close> with a class of single code units.\<close>

definition js_replaceAll :: "(cu \<Rightarrow> bool) \<Rightarrow> jstr \<Rightarrow> jstr \<Rightarrow> jstr" where
  [js_defs]: "js_replaceAll p r s = concat (map (\<lambda>c. if p c then r else [c]) s)"

text \<open>\<^verbatim>\<open>s.replace("a", r)\<close> with a one-unit string pattern: the first occurrence only.\<close>

fun js_replaceFirst :: "cu \<Rightarrow> jstr \<Rightarrow> jstr \<Rightarrow> jstr" where
  "js_replaceFirst c r [] = []"
| "js_replaceFirst c r (x # xs) = (if x = c then r @ xs else x # js_replaceFirst c r xs)"

text \<open>\<^verbatim>\<open>s.split(".")\<close> with a one-unit separator.\<close>

fun js_split1 :: "cu \<Rightarrow> jstr \<Rightarrow> jstr list" where
  "js_split1 c [] = [[]]"
| "js_split1 c (x # xs) =
     (if x = c then [] # js_split1 c xs
      else case js_split1 c xs of [] \<Rightarrow> [[x]] | y # ys \<Rightarrow> (x # y) # ys)"

text \<open>
  \<^verbatim>\<open>Array.from(s)\<close> iterates by code point: a high surrogate followed by a low
  one is one element.
\<close>

fun code_points :: "jstr \<Rightarrow> nat list" where
  "code_points [] = []"
| "code_points [c] = [unat c]"
| "code_points (c # d # s) =
     (if is_high_surrogate c \<and> is_low_surrogate d
      then (65536 + (unat c - 55296) * 1024 + (unat d - 56320)) # code_points s
      else unat c # code_points (d # s))"

text \<open>
  \<^verbatim>\<open>new Blob([s]).size\<close>: the length of the UTF-8 encoding (a lone surrogate is
  encoded as U+FFFD, three bytes).
\<close>

fun utf8_len :: "nat \<Rightarrow> nat" where
  "utf8_len p = (if p < 128 then 1 else if p < 2048 then 2 else if p < 65536 then 3 else 4)"

definition blob_size :: "jstr \<Rightarrow> nat" where
  [js_defs]: "blob_size s = sum_list (map utf8_len (code_points s))"

lemma length_code_points: "length (code_points s) \<le> length s"
  by (induction s rule: code_points.induct) auto

lemma code_points_Nil_iff [simp]: "code_points s = [] \<longleftrightarrow> s = []"
  by (induction s rule: code_points.induct) auto

lemma blob_size_Nil [simp]: "blob_size [] = 0"
  by (simp add: blob_size_def)

lemma js_split1_nonempty [simp]: "js_split1 c s \<noteq> []"
  by (cases s) (auto split: list.split)

lemma js_trim_Nil [simp]: "js_trim [] = []"
  by (simp add: js_trim_def)

lemma dropWhile_rev_last: "s \<noteq> [] \<Longrightarrow> \<not> p (last s) \<Longrightarrow> rev (dropWhile p (rev s)) = s"
  by (cases s rule: rev_cases) auto

lemma js_trim_id: "s = [] \<or> (\<not> is_ws (hd s) \<and> \<not> is_ws (last s)) \<Longrightarrow> js_trim s = s"
  using dropWhile_rev_last [of s is_ws] by (cases s) (auto simp: js_trim_def)

lemma js_trim_no_ws: "(\<And>c. c \<in> set s \<Longrightarrow> \<not> is_ws c) \<Longrightarrow> js_trim s = s"
  by (rule js_trim_id) auto

lemma js_trim_hd: "js_trim s \<noteq> [] \<Longrightarrow> \<not> is_ws (hd (js_trim s))"
proof -
  assume ne: "js_trim s \<noteq> []"
  let ?d = "dropWhile is_ws s"
  obtain u where u: "?d = rev (dropWhile is_ws (rev ?d)) @ u"
    by (metis takeWhile_dropWhile_id rev_append rev_rev_ident)
  then have "hd (js_trim s) = hd ?d"
    using ne by (metis js_trim_def hd_append2)
  moreover from ne have "?d \<noteq> []"
    by (metis js_trim_def dropWhile.simps(1) rev.simps(1))
  ultimately show ?thesis
    by (metis hd_dropWhile)
qed

lemma js_trim_last: "js_trim s \<noteq> [] \<Longrightarrow> \<not> is_ws (last (js_trim s))"
  unfolding js_trim_def by (metis hd_dropWhile last_rev rev_is_Nil_conv)

lemma js_trim_idem [simp]: "js_trim (js_trim s) = js_trim s"
  using js_trim_hd [of s] js_trim_last [of s] by (blast intro: js_trim_id)

lemma set_js_trim: "set (js_trim s) \<subseteq> set s"
  unfolding js_trim_def by (auto dest!: set_dropWhileD)

lemma js_trim_eq_Nil_iff: "js_trim s = [] \<longleftrightarrow> (\<forall>c \<in> set s. is_ws c)"
  by (simp add: js_trim_def)
     (metis dropWhile_eq_Nil_conv hd_dropWhile hd_in_set empty_iff list.set(1))

lemma length_js_trim: "length (js_trim s) \<le> length s"
  unfolding js_trim_def by (metis length_dropWhile_le length_rev order_trans)

lemma js_join_Cons: "js_join sep (s # ss) = (if ss = [] then s else s @ sep @ js_join sep ss)"
  by (cases ss) auto

section \<open>Decimal printing\<close>

text \<open>\<^verbatim>\<open>String(n)\<close> for a non-negative integer.\<close>

definition digit_cu :: "nat \<Rightarrow> cu" where
  [js_defs]: "digit_cu d = 48 + of_nat d"

fun nat_str :: "nat \<Rightarrow> jstr" where
  "nat_str n = (if n < 10 then [digit_cu n] else nat_str (n div 10) @ [digit_cu (n mod 10)])"

declare nat_str.simps [simp del]

definition int_str :: "int \<Rightarrow> jstr" where
  [js_defs]: "int_str i = (if i < 0 then 45 # nat_str (nat (- i)) else nat_str (nat i))"

definition digit_val :: "cu \<Rightarrow> nat" where
  [js_defs]: "digit_val c = unat (c - 48)"

definition digits_val :: "jstr \<Rightarrow> nat" where
  "digits_val s = foldl (\<lambda>a c. 10 * a + digit_val c) 0 s"

lemma digit_val_digit_cu [simp]: "d < 10 \<Longrightarrow> digit_val (digit_cu d) = d"
  by (simp add: digit_val_def digit_cu_def unat_of_nat take_bit_nat_eq_self)

lemma unat_digit_cu: "d < 10 \<Longrightarrow> unat (digit_cu d) = 48 + d"
proof -
  assume d: "d < 10"
  have "unat (48 + of_nat d :: cu) = (48 + d) mod 65536"
    by (simp add: unat_word_ariths unat_of_nat take_bit_eq_mod mod_add_right_eq)
  with d show ?thesis by (simp add: digit_cu_def)
qed

lemma is_digit_digit_cu [simp]: "d < 10 \<Longrightarrow> is_digit (digit_cu d)"
  by (simp add: is_digit_def word_le_nat_alt unat_digit_cu)

lemma digit_cu_eq_iff: "d < 10 \<Longrightarrow> e < 10 \<Longrightarrow> digit_cu d = digit_cu e \<longleftrightarrow> d = e"
  by (metis digit_val_digit_cu)

lemma nat_str_nonempty [simp]: "nat_str n \<noteq> []"
  by (subst nat_str.simps) simp

lemma digits_val_Nil [simp]: "digits_val [] = 0"
  by (simp add: digits_val_def)

lemma digits_val_snoc [simp]: "digits_val (s @ [c]) = 10 * digits_val s + digit_val c"
  by (simp add: digits_val_def)

lemma digits_val_append: "digits_val (s @ t) = digits_val s * 10 ^ length t + digits_val t"
proof (induction t rule: rev_induct)
  case Nil
  show ?case by simp
next
  case (snoc c t)
  have "digits_val (s @ t @ [c]) = 10 * digits_val (s @ t) + digit_val c"
    by (metis append_assoc digits_val_snoc)
  with snoc show ?case by (simp add: algebra_simps)
qed

lemma digits_val_zeros [simp]: "digits_val (replicate n 48) = 0"
proof (induction n)
  case (Suc n)
  have "replicate (Suc n) (48::cu) = replicate n 48 @ [48]"
    by (simp add: replicate_append_same)
  then show ?case using Suc
    by (simp add: digit_val_def del: replicate_Suc)
qed simp

lemma digits_val_nat_str [simp]: "digits_val (nat_str n) = n"
proof (induction n rule: nat_str.induct)
  case (1 n)
  then show ?case
    by (subst nat_str.simps) (auto simp: digits_val_def)
qed

lemma nat_str_inj [simp]: "nat_str m = nat_str n \<longleftrightarrow> m = n"
  by (metis digits_val_nat_str)

lemma nat_str_digits: "c \<in> set (nat_str n) \<Longrightarrow> is_digit c"
proof (induction n rule: nat_str.induct)
  case (1 n)
  then show ?case
    by (cases "n < 10") (auto simp: nat_str.simps [of n])
qed

lemma nat_str_all_digits [simp]: "list_all is_digit (nat_str n)"
  by (auto simp: list_all_iff nat_str_digits)

lemma nat_str_zero [simp]: "nat_str 0 = [48]"
  by (subst nat_str.simps) (simp add: digit_cu_def)

lemma nat_str_hd_nonzero: "0 < n \<Longrightarrow> hd (nat_str n) \<noteq> 48"
proof (induction n rule: nat_str.induct)
  case (1 n)
  show ?case
  proof (cases "n < 10")
    case True
    with 1 have "digit_cu n \<noteq> digit_cu 0"
      by (subst digit_cu_eq_iff) auto
    with True show ?thesis
      by (simp add: nat_str.simps [of n] digit_cu_def)
  next
    case False
    with 1 show ?thesis by (simp add: nat_str.simps [of n])
  qed
qed

section \<open>Generic list lemmas\<close>

lemma takeWhile_append_stop: "list_all p s \<Longrightarrow> t = [] \<or> \<not> p (hd t) \<Longrightarrow> takeWhile p (s @ t) = s"
  by (induction s) (auto simp: list_all_iff, cases t, auto)

lemma dropWhile_append_stop: "list_all p s \<Longrightarrow> t = [] \<or> \<not> p (hd t) \<Longrightarrow> dropWhile p (s @ t) = t"
  by (induction s) (auto simp: list_all_iff, cases t, auto)

lemma distinct_map_prefix:
  assumes "\<And>i j x y. i < length xs \<Longrightarrow> j < length xs \<Longrightarrow> f i (xs ! i) = f j (xs ! j) \<Longrightarrow> i = j"
  shows "distinct (map (\<lambda>i. f i (xs ! i)) [0..<length xs])"
  unfolding distinct_map using assms by (auto intro!: inj_onI)

lemma map_filter_idem: "filter p (filter p xs) = filter p xs"
  by simp

lemma filter_map_Some_id: "(\<And>x. x \<in> set xs \<Longrightarrow> p x) \<Longrightarrow> filter p xs = xs"
  by (rule filter_True) auto

end
