(* ===== verification/JsRegex.thy ===== *)
theory JsRegex
  imports JsPrelude
begin

text \<open>
  The regular expressions of the sources, with the backtracking semantics of
  ECMAScript: \<open>rmatch r p s\<close> lists, in the order the engine tries them, the
  states (previous code unit, rest of the input) after \<open>r\<close> has matched a prefix
  of \<open>s\<close>. The head of the list is the match the engine reports. \<open>regex_test\<close>,
  \<open>regex_group\<close> and \<open>regex_split\<close> are \<^verbatim>\<open>RegExp.prototype.test\<close>, the first
  capture group of \<^verbatim>\<open>String.prototype.match\<close> and \<^verbatim>\<open>String.prototype.split\<close>.
  The lemmas relate the engine on the patterns of the sources to direct
  descriptions (runs of a character class, literal prefixes).
\<close>

datatype cls = CRange cu cu | CSpace | CDigit

fun cls_mem :: "cls \<Rightarrow> cu \<Rightarrow> bool" where
  "cls_mem (CRange a b) c \<longleftrightarrow> a \<le> c \<and> c \<le> b"
| "cls_mem CSpace c \<longleftrightarrow> is_ws c"
| "cls_mem CDigit c \<longleftrightarrow> is_digit c"

text \<open>\<open>RSet neg cs\<close> is \<^verbatim>\<open>[cs]\<close>, or \<^verbatim>\<open>[^cs]\<close> when \<open>neg\<close>.\<close>

datatype regex =
    REps
  | RSet bool "cls list"
  | RSeq regex regex
  | RAlt regex regex
  | RStar regex
  | RBegin
  | REnd
  | RWordB

definition set_mem :: "bool \<Rightarrow> cls list \<Rightarrow> cu \<Rightarrow> bool" where
  "set_mem neg cs c \<longleftrightarrow> (list_ex (\<lambda>k. cls_mem k c) cs \<noteq> neg)"

definition is_word_cu :: "cu \<Rightarrow> bool" where
  "is_word_cu c \<longleftrightarrow> is_alnum c \<or> c = 95"

definition word_boundary :: "cu option \<Rightarrow> jstr \<Rightarrow> bool" where
  "word_boundary p s \<longleftrightarrow>
     (case p of None \<Rightarrow> False | Some c \<Rightarrow> is_word_cu c) \<noteq>
     (case s of [] \<Rightarrow> False | c # _ \<Rightarrow> is_word_cu c)"

type_synonym mstate = "cu option \<times> jstr"

text \<open>
  The star repeats its body greedily and gives up a round that consumed
  nothing, as the empty check of RepeatMatcher does.
\<close>

function rmatch :: "regex \<Rightarrow> cu option \<Rightarrow> jstr \<Rightarrow> mstate list" where
  "rmatch REps p s = [(p, s)]"
| "rmatch (RSet neg cs) p s =
     (case s of [] \<Rightarrow> [] | c # t \<Rightarrow> if set_mem neg cs c then [(Some c, t)] else [])"
| "rmatch (RSeq a b) p s = concat (map (\<lambda>(q, t). rmatch b q t) (rmatch a p s))"
| "rmatch (RAlt a b) p s = rmatch a p s @ rmatch b p s"
| "rmatch (RStar a) p s =
     concat (map (\<lambda>(q, t). if length t < length s then rmatch (RStar a) q t else [])
       (rmatch a p s)) @ [(p, s)]"
| "rmatch RBegin p s = (if p = None then [(p, s)] else [])"
| "rmatch REnd p s = (if s = [] then [(p, s)] else [])"
| "rmatch RWordB p s = (if word_boundary p s then [(p, s)] else [])"
  by pat_completeness auto
termination
  by (relation "measures [\<lambda>(r, p, s). size r, \<lambda>(r, p, s). length s]") auto

declare rmatch.simps(5) [simp del]

abbreviation RPlus :: "regex \<Rightarrow> regex" where
  "RPlus r \<equiv> RSeq r (RStar r)"

abbreviation ROpt :: "regex \<Rightarrow> regex" where
  "ROpt r \<equiv> RAlt r REps"

abbreviation RChr :: "cu \<Rightarrow> regex" where
  "RChr c \<equiv> RSet False [CRange c c]"

fun RLit :: "jstr \<Rightarrow> regex" where
  "RLit [] = REps"
| "RLit (c # s) = RSeq (RChr c) (RLit s)"

text \<open>\<^verbatim>\<open>r.test(s)\<close>: a match at some position.\<close>

fun regex_search :: "regex \<Rightarrow> cu option \<Rightarrow> jstr \<Rightarrow> bool" where
  "regex_search r p [] \<longleftrightarrow> rmatch r p [] \<noteq> []"
| "regex_search r p (c # s) \<longleftrightarrow> rmatch r p (c # s) \<noteq> [] \<or> regex_search r (Some c) s"

definition regex_test :: "regex \<Rightarrow> jstr \<Rightarrow> bool" where
  "regex_test r s = regex_search r None s"

text \<open>
  \<^verbatim>\<open>s.match(/a(b)/)\<close>: the text of the group of the leftmost match, in the order
  the engine backtracks through \<open>a\<close> and then \<open>b\<close>.
\<close>

definition group_at :: "regex \<Rightarrow> regex \<Rightarrow> cu option \<Rightarrow> jstr \<Rightarrow> jstr list" where
  "group_at a b p s =
     concat (map (\<lambda>(q, t). map (\<lambda>(q', t'). take (length t - length t') t) (rmatch b q t))
       (rmatch a p s))"

fun regex_group_from :: "regex \<Rightarrow> regex \<Rightarrow> cu option \<Rightarrow> jstr \<Rightarrow> jstr option" where
  "regex_group_from a b p [] =
     (case group_at a b p [] of [] \<Rightarrow> None | g # _ \<Rightarrow> Some g)"
| "regex_group_from a b p (c # s) =
     (case group_at a b p (c # s) of
        g # _ \<Rightarrow> Some g
      | [] \<Rightarrow> regex_group_from a b (Some c) s)"

definition regex_group :: "regex \<Rightarrow> regex \<Rightarrow> jstr \<Rightarrow> jstr option" where
  "regex_group a b s = regex_group_from a b None s"

text \<open>
  \<^verbatim>\<open>s.split(r)\<close>. The loop keeps the token read so far (reversed); at each
  position it tries a match there and ignores an empty match at the start of
  the token. With \<open>cap\<close> the whole pattern is one capture group, whose text
  split inserts between the tokens.
\<close>

function split_loop :: "bool \<Rightarrow> regex \<Rightarrow> jstr \<Rightarrow> cu option \<Rightarrow> jstr \<Rightarrow> jstr list" where
  "split_loop cap r acc p [] = [rev acc]"
| "split_loop cap r acc p (c # s) =
     (case rmatch r p (c # s) of
        [] \<Rightarrow> split_loop cap r (c # acc) (Some c) s
      | (q, t) # _ \<Rightarrow>
          if length t < length (c # s)
          then rev acc # (if cap then [take (length (c # s) - length t) (c # s)] else [])
                 @ split_loop cap r [] q t
          else if acc = [] then split_loop cap r (c # acc) (Some c) s
          else rev acc # (if cap then [[]] else []) @ split_loop cap r [] p (c # s))"
  by pat_completeness auto
termination
  by (relation "measures [\<lambda>(cap, r, acc, p, s). length s, \<lambda>(cap, r, acc, p, s). length acc]") auto

definition regex_split :: "bool \<Rightarrow> regex \<Rightarrow> jstr \<Rightarrow> jstr list" where
  "regex_split cap r s =
     (if s = [] then (if rmatch r None [] = [] then [[]] else [])
      else split_loop cap r [] None s)"

section \<open>Facts about the engine\<close>

lemma rmatch_suffix: "(q, t) \<in> set (rmatch r p s) \<Longrightarrow> suffix t s"
proof (induction r p s arbitrary: q t rule: rmatch.induct)
  case (2 neg cs p s)
  then show ?case by (auto simp: suffix_def split: list.splits if_splits)
next
  case (3 a b p s)
  then show ?case by (fastforce intro: suffix_order.trans)
next
  case (5 a p s)
  then show ?case
    by (auto simp: rmatch.simps(5) [of a p s] split: if_splits)
       (meson suffix_order.trans)
qed (auto split: if_splits)

lemma rmatch_star_set:
  "rmatch (RStar (RSet neg cs)) p [] = [(p, [])]"
  "rmatch (RStar (RSet neg cs)) p (c # s) =
     (if set_mem neg cs c then rmatch (RStar (RSet neg cs)) (Some c) s @ [(p, c # s)]
      else [(p, c # s)])"
  by (simp_all add: rmatch.simps(5))

lemma rmatch_star_set_nonempty [simp]: "rmatch (RStar (RSet neg cs)) p s \<noteq> []"
  by (cases s) (simp_all add: rmatch_star_set)

text \<open>A greedy star over a class first takes the longest run.\<close>

lemma hd_rmatch_star_set:
  "\<exists>q. hd (rmatch (RStar (RSet neg cs)) p s) = (q, dropWhile (set_mem neg cs) s)"
  by (induction s arbitrary: p) (auto simp: rmatch_star_set)

lemma rmatch_plus_set_Nil:
  "rmatch (RPlus (RSet neg cs)) p (c # s) = [] \<longleftrightarrow> \<not> set_mem neg cs c"
  by simp

lemma rmatch_plus_set_Cons:
  assumes "set_mem neg cs c"
  obtains q rest where
    "rmatch (RPlus (RSet neg cs)) p (c # s) = (q, dropWhile (set_mem neg cs) s) # rest"
proof -
  from hd_rmatch_star_set [of neg cs "Some c" s] obtain q where
    q: "hd (rmatch (RStar (RSet neg cs)) (Some c) s) = (q, dropWhile (set_mem neg cs) s)" ..
  have "rmatch (RPlus (RSet neg cs)) p (c # s) = rmatch (RStar (RSet neg cs)) (Some c) s"
    using assms by simp
  with q that show thesis
    by (metis list.collapse rmatch_star_set_nonempty)
qed

lemma rmatch_lit:
  "rmatch (RLit l) p s =
     (if js_startsWith s l
      then [(if l = [] then p else Some (last l), drop (length l) s)] else [])"
proof (induction l arbitrary: p s)
  case Nil
  show ?case by (simp add: js_startsWith_def)
next
  case (Cons c l)
  show ?case
    by (cases s) (auto simp: Cons set_mem_def js_startsWith_def)
qed

lemma search_begin_Some [simp]: "rmatch (RSeq RBegin r) (Some c) s = []"
  by simp

lemma regex_search_begin_Some [simp]: "\<not> regex_search (RSeq RBegin r) (Some c) s"
  by (induction s arbitrary: c) auto

text \<open>An anchored pattern is tried at position 0 only.\<close>

lemma regex_test_begin: "regex_test (RSeq RBegin r) s \<longleftrightarrow> rmatch r None s \<noteq> []"
  by (cases s) (simp_all add: regex_test_def)

lemma regex_test_begin_lit: "regex_test (RSeq RBegin (RLit l)) s \<longleftrightarrow> js_startsWith s l"
  by (simp add: regex_test_begin rmatch_lit)

section \<open>Splitting at runs of a class\<close>

text \<open>The reference: maximal runs of code units outside the class.\<close>

function runs :: "(cu \<Rightarrow> bool) \<Rightarrow> jstr \<Rightarrow> jstr list" where
  "runs m s =
     (case dropWhile m s of
        [] \<Rightarrow> []
      | c # t \<Rightarrow> (c # takeWhile (\<lambda>x. \<not> m x) t) # runs m (dropWhile (\<lambda>x. \<not> m x) t))"
  by pat_completeness auto
termination
proof (relation "measure (\<lambda>(m, s). length s)", goal_cases)
  case (2 m s c t)
  have "length (dropWhile (\<lambda>x. \<not> m x) t) \<le> length t"
    by (rule length_dropWhile_le)
  also have "length t < length (dropWhile m s)"
    using 2 by simp
  also have "\<dots> \<le> length s"
    by (rule length_dropWhile_le)
  finally show ?case by simp
qed simp

declare runs.simps [simp del]

lemma runs_Nil [simp]: "runs m [] = []"
  by (simp add: runs.simps)

lemma runs_skip: "m c \<Longrightarrow> runs m (c # s) = runs m s"
  by (simp add: runs.simps [of m "c # s"] runs.simps [of m s])

lemma runs_dropWhile [simp]: "runs m (dropWhile m s) = runs m s"
  by (induction s) (auto simp: runs_skip)

lemma runs_append:
  assumes "acc \<noteq> []" and "list_all (\<lambda>x. \<not> m x) acc" and "s = [] \<or> m (hd s)"
  shows "runs m (acc @ s) = acc # runs m s"
proof -
  obtain c t where acc: "acc = c # t"
    using assms(1) by (cases acc) auto
  have "takeWhile (\<lambda>x. \<not> m x) (t @ s) = t" "dropWhile (\<lambda>x. \<not> m x) (t @ s) = s"
    using assms acc by (auto intro!: takeWhile_append_stop dropWhile_append_stop)
  with assms acc show ?thesis
    by (simp add: runs.simps [of m "c # t @ s"])
qed

lemma filter_split_loop_runs:
  assumes "list_all (\<lambda>x. \<not> set_mem neg cs x) acc"
  shows "filter (\<lambda>t. t \<noteq> []) (split_loop False (RPlus (RSet neg cs)) acc p s)
       = runs (set_mem neg cs) (rev acc @ s)"
  using assms
proof (induction "length s" arbitrary: acc p s rule: less_induct)
  case less
  let ?m = "set_mem neg cs"
  show ?case
  proof (cases s)
    case Nil
    then show ?thesis
      using less.prems runs_append [of "rev acc" ?m "[]"]
      by (cases acc) (auto simp: list_all_iff)
  next
    case (Cons c t)
    show ?thesis
    proof (cases "?m c")
      case False
      then have "rmatch (RPlus (RSet neg cs)) p (c # t) = []"
        by simp
      then have "split_loop False (RPlus (RSet neg cs)) acc p s
          = split_loop False (RPlus (RSet neg cs)) (c # acc) (Some c) t"
        using Cons by simp
      with less.hyps [of t "c # acc" "Some c"] less.prems False Cons show ?thesis
        by simp
    next
      case True
      from True obtain q rest where m: "rmatch (RPlus (RSet neg cs)) p (c # t)
          = (q, dropWhile ?m t) # rest"
        by (rule rmatch_plus_set_Cons)
      have short: "length (dropWhile ?m t) < length s"
        using Cons length_dropWhile_le [of ?m t] by (simp add: le_imp_less_Suc)
      have "split_loop False (RPlus (RSet neg cs)) acc p s
          = rev acc # split_loop False (RPlus (RSet neg cs)) [] q (dropWhile ?m t)"
        using Cons m short by (simp del: rmatch.simps)
      with less.hyps [OF short, of "[]" q] have
        "filter (\<lambda>t. t \<noteq> []) (split_loop False (RPlus (RSet neg cs)) acc p s)
          = filter (\<lambda>t. t \<noteq> []) [rev acc] @ runs ?m t"
        by simp
      also have "\<dots> = runs ?m (rev acc @ s)"
        using Cons True less.prems runs_append [of "rev acc" ?m s]
        by (cases acc) (auto simp: list_all_iff runs_skip)
      finally show ?thesis .
    qed
  qed
qed

lemma filter_regex_split_runs:
  "filter (\<lambda>t. t \<noteq> []) (regex_split False (RPlus (RSet neg cs)) s) = runs (set_mem neg cs) s"
  using filter_split_loop_runs [of neg cs "[]" None s] by (simp add: regex_split_def)

lemma runs_no_class: "t \<in> set (runs m s) \<Longrightarrow> t \<noteq> [] \<and> list_all (\<lambda>x. \<not> m x) t"
proof (induction m s rule: runs.induct)
  case (1 m s)
  show ?case
  proof (cases "dropWhile m s")
    case Nil
    with 1 show ?thesis by (simp add: runs.simps [of m s])
  next
    case (Cons c u)
    then have c: "\<not> m c"
      by (metis hd_dropWhile list.distinct(1) list.sel(1))
    have "runs m s = (c # takeWhile (\<lambda>x. \<not> m x) u) # runs m (dropWhile (\<lambda>x. \<not> m x) u)"
      using Cons by (simp add: runs.simps [of m s])
    with "1.prems" consider "t = c # takeWhile (\<lambda>x. \<not> m x) u"
      | "t \<in> set (runs m (dropWhile (\<lambda>x. \<not> m x) u))"
      by auto
    then show ?thesis
    proof cases
      case 1
      with c show ?thesis by (auto simp: list_all_iff dest: set_takeWhileD)
    next
      case 2
      with "1.IH" Cons show ?thesis by blast
    qed
  qed
qed

lemma runs_join:
  assumes "\<And>t. t \<in> set ts \<Longrightarrow> t \<noteq> [] \<and> list_all (\<lambda>x. \<not> m x) t" and "m sep"
  shows "runs m (js_join [sep] ts) = ts"
  using assms(1)
proof (induction ts)
  case Nil
  show ?case by simp
next
  case (Cons t ts)
  note t = Cons.prems [of t, simplified]
  show ?case
  proof (cases "ts = []")
    case True
    with t show ?thesis using runs_append [of t m "[]"] by simp
  next
    case False
    have "runs m (t @ sep # js_join [sep] ts) = t # runs m (sep # js_join [sep] ts)"
      using t \<open>m sep\<close> by (intro runs_append) auto
    also have "\<dots> = t # ts"
      using Cons \<open>m sep\<close> by (simp add: runs_skip)
    finally show ?thesis using False by (simp add: js_join_Cons)
  qed
qed

end
