(* ===== verification/JsonProofs.thy ===== *)
theory JsonProofs
  imports Json
begin

text \<open>
  The laws of \<^verbatim>\<open>JSON.parse\<close> and \<^verbatim>\<open>JSON.stringify\<close>: the parser's fuel is enough,
  what it returns is well formed, and it inverts the printer, compact or
  indented. The locale \<open>json_codec\<close> is the interface the storage and archive
  components use; it is interpreted on the definitions of theory Json.
\<close>

declare dropWhile_eq_Nil_conv [simp del]

lemmas parser_simps = pv.simps parr.simps pobj.simps

section \<open>Strings\<close>

lemma unat_offset: "b + d < 65536 \<Longrightarrow> unat (of_nat b + of_nat d :: cu) = b + d"
  by (simp add: unat_of_nat take_bit_eq_mod flip: of_nat_add)

lemma hex_val_hex_cu: "d < 16 \<Longrightarrow> hex_val (hex_cu d) = Some d"
  using unat_offset [of 48 d] unat_offset [of 87 d]
  by (auto simp: hex_val_def hex_cu_def is_digit_def word_le_nat_alt)

lemma hex_digits_sum:
  "(n::nat) div 4096 * 4096 + n div 256 mod 16 * 256 + n div 16 mod 16 * 16 + n mod 16 = n"
proof -
  have "n div 256 = n div 16 div 16" "n div 4096 = n div 16 div 16 div 16"
    by (simp_all add: div_mult2_eq [symmetric])
  moreover have "a * 16 + b = x \<Longrightarrow> c * 16 + d = a \<Longrightarrow> e * 16 + f = c \<Longrightarrow>
      e * 4096 + f * 256 + d * 16 + b = x" for a b c d e f x :: nat
    by simp
  ultimately show ?thesis
    by (metis div_mult_mod_eq)
qed

lemma hex4_val_u_escape:
  "let n = unat (c :: cu) in
   hex4_val (hex_cu (n div 4096)) (hex_cu (n div 256 mod 16)) (hex_cu (n div 16 mod 16))
     (hex_cu (n mod 16)) = Some c"
proof -
  let ?n = "unat c"
  have lt: "?n < 65536"
    using unsigned_less [of c] by simp
  then have "?n div 4096 < 16" by simp
  moreover have "?n div 4096 * 4096 + ?n div 256 mod 16 * 256 + ?n div 16 mod 16 * 16 + ?n mod 16
      = ?n"
    by (rule hex_digits_sum)
  ultimately show ?thesis
    by (simp add: Let_def hex4_val_def hex_val_hex_cu del: of_nat_add of_nat_mult)
qed

lemma parse_chars_quote_unit: "parse_chars (quote_unit c @ s) = cons_fst c (parse_chars s)"
proof -
  have esc: "parse_chars (u_escape c @ s) = cons_fst c (parse_chars s)"
    using hex4_val_u_escape [of c] by (simp add: u_escape_def Let_def)
  show ?thesis
    by (auto simp: quote_unit_def esc simple_escape_def)
qed

lemma surrogate_plain:
  assumes "is_high_surrogate c \<or> is_low_surrogate c"
  shows "c \<noteq> 34" "\<not> c < 32" "c \<noteq> 92"
proof -
  from assms have "55296 \<le> unat c"
    by (auto simp: char_defs word_le_nat_alt)
  then show "c \<noteq> 34" "\<not> c < 32" "c \<noteq> 92"
    by (auto simp: word_less_nat_alt)
qed

lemma parse_chars_quote: "parse_chars (quote_units s @ 34 # r) = Some (s, r)"
proof (induction s rule: quote_units.induct)
  case (3 c d s)
  show ?case
  proof (cases "is_high_surrogate c \<and> is_low_surrogate d")
    case True
    then have "parse_chars (quote_units s @ 34 # r) = Some (s, r)"
      using 3 by blast
    then show ?thesis
      using True surrogate_plain [of c] surrogate_plain [of d] by (simp add: cons_fst_def)
  next
    case False
    then have "parse_chars (quote_units (d # s) @ 34 # r) = Some (d # s, r)"
      using 3 by blast
    moreover have "quote_units (c # d # s) = quote_unit c @ quote_units (d # s)"
      using False by auto
    ultimately show ?thesis
      by (simp add: parse_chars_quote_unit cons_fst_def del: quote_units.simps)
  qed
qed (auto simp: parse_chars_quote_unit cons_fst_def)

lemma cons_fst_eq_Some [simp]:
  "cons_fst x r = Some y \<longleftrightarrow> (\<exists>xs s. r = Some (xs, s) \<and> y = (x # xs, s))"
  by (auto simp: cons_fst_def)

lemma parse_chars_shorter: "parse_chars s = Some (u, r) \<Longrightarrow> length r < length s"
proof (induction "length s" arbitrary: s u r rule: less_induct)
  case less
  have IH: "parse_chars t = Some (v, r) \<Longrightarrow> length t < length s \<Longrightarrow> length r < length s" for t v
    using less.hyps [of t v r] by simp
  from less.prems show ?case
    by (cases s) (auto split: if_splits list.splits option.splits dest!: IH)
qed

section \<open>Numbers\<close>

lemma norm_num_mult: "0 < m \<Longrightarrow> m mod 10 \<noteq> 0 \<Longrightarrow> norm_num (m * 10 ^ j) e = (m, e + int j)"
proof (induction j arbitrary: e)
  case 0
  then show ?case by (simp add: norm_num.simps)
next
  case (Suc j)
  have "norm_num (m * 10 ^ Suc j) e = norm_num (m * 10 ^ j) (e + 1)"
    using Suc.prems by (subst norm_num.simps) (simp add: mult.assoc [symmetric])
  with Suc show ?case by simp
qed

lemma norm_num_id: "0 < m \<Longrightarrow> m mod 10 \<noteq> 0 \<Longrightarrow> norm_num m e = (m, e)"
  using norm_num_mult [of m 0 e] by simp

lemma norm_num_wf: "norm_num m e = (m', e') \<Longrightarrow> wf_num (int m') e' \<and> wf_num (- int m') e'"
proof (induction m e rule: norm_num.induct)
  case (1 m e)
  show ?case
  proof (cases "m = 0 \<or> m mod 10 \<noteq> 0")
    case True
    have "int m mod 10 \<noteq> 0" "(- int m) mod 10 \<noteq> 0" if "m mod 10 \<noteq> 0"
      using that by presburger+
    with True "1.prems" show ?thesis
      by (auto simp: norm_num.simps [of m e] wf_num_def split: if_splits)
  next
    case False
    with 1 show ?thesis by (simp add: norm_num.simps [of m e])
  qed
qed

text \<open>What may follow a number without becoming part of it.\<close>

definition num_stop :: "jstr \<Rightarrow> bool" where
  "num_stop r \<longleftrightarrow> r = [] \<or> \<not> is_digit (hd r) \<and> hd r \<noteq> 46 \<and> hd r \<noteq> 101 \<and> hd r \<noteq> 69"

lemma digit_chars: "is_digit c \<Longrightarrow> c \<noteq> 46 \<and> c \<noteq> 45 \<and> c \<noteq> 43 \<and> c \<noteq> 101 \<and> c \<noteq> 69"
  by (auto simp: is_digit_def)

lemma parse_exp_stop: "num_stop r \<Longrightarrow> parse_exp r = Some (0, r)"
  by (cases r) (auto simp: parse_exp_def num_stop_def)

lemma parse_frac_stop: "num_stop r \<Longrightarrow> parse_frac r = Some ([], r)"
  by (cases r) (auto simp: parse_frac_def num_stop_def)

lemma parse_exp_printed:
  assumes "num_stop r"
  shows "parse_exp (101 # (if x < 0 then 45 else 43) # nat_str (nat \<bar>x\<bar>) @ r) = Some (x, r)"
proof -
  let ?ds = "nat_str (nat \<bar>x\<bar>)"
  have "takeWhile is_digit (?ds @ r) = ?ds" "dropWhile is_digit (?ds @ r) = r"
    using assms by (auto intro!: takeWhile_append_stop dropWhile_append_stop simp: num_stop_def)
  moreover have "\<not> x < 0 \<Longrightarrow> \<bar>x\<bar> = x" by simp
  ultimately show ?thesis
    using nat_str_nonempty [symmetric] by (auto simp: parse_exp_def Let_def)
qed

lemma parse_frac_printed:
  assumes "fs \<noteq> []" "list_all is_digit fs" "r = [] \<or> \<not> is_digit (hd r)"
  shows "parse_frac (46 # fs @ r) = Some (fs, r)"
  using assms by (simp add: parse_frac_def takeWhile_append_stop dropWhile_append_stop)

lemma parse_int_printed:
  assumes "is \<noteq> []" "list_all is_digit is" "hd is \<noteq> 48" "r = [] \<or> \<not> is_digit (hd r)"
  shows "parse_int (is @ r) = Some (is, r)"
proof -
  have "is_digit (hd is)"
    using assms by (cases "is") auto
  then show ?thesis using assms
    by (simp add: parse_int_def takeWhile_append_stop dropWhile_append_stop)
qed

text \<open>The shape shared by every printed number: integer part, fraction, exponent.\<close>

lemma parse_num_parts:
  assumes "is \<noteq> []" "list_all is_digit is"
    and "parse_int (is @ t) = Some (is, t)" "parse_frac t = Some (fs, u)" "parse_exp u = Some (x, r)"
    and "norm_num (digits_val (is @ fs)) (x - int (length fs)) = (m, e)"
  shows "parse_num (is @ t) = Some (JNum (int m) e, r)"
    and "parse_num (45 # is @ t) = Some (JNum (- int m) e, r)"
proof -
  have "hd (is @ t) \<noteq> 45"
    using assms(1,2) digit_chars [of "hd is"] by (cases "is") auto
  with assms show "parse_num (is @ t) = Some (JNum (int m) e, r)"
    by (simp add: parse_num_def mk_num_def Let_def)
  from assms show "parse_num (45 # is @ t) = Some (JNum (- int m) e, r)"
    by (simp add: parse_num_def mk_num_def Let_def)
qed

definition num_reads :: "jstr \<Rightarrow> nat \<Rightarrow> int \<Rightarrow> jstr \<Rightarrow> bool" where
  "num_reads s m e r \<longleftrightarrow>
     parse_num (s @ r) = Some (JNum (int m) e, r) \<and>
     parse_num (45 # s @ r) = Some (JNum (- int m) e, r)"

lemma num_reads_parts:
  assumes "is \<noteq> []" "list_all is_digit is"
    and "parse_int (is @ t @ r) = Some (is, t @ r)" "parse_frac (t @ r) = Some (fs, u)"
    and "parse_exp u = Some (x, r)"
    and "norm_num (digits_val (is @ fs)) (x - int (length fs)) = (m, e)"
  shows "num_reads (is @ t) m e r"
  using parse_num_parts [OF assms] by (simp add: num_reads_def)

definition sig_digits :: "jstr \<Rightarrow> nat \<Rightarrow> bool" where
  "sig_digits ds m \<longleftrightarrow>
     ds \<noteq> [] \<and> list_all is_digit ds \<and> hd ds \<noteq> 48 \<and> digits_val ds = m \<and> 0 < m \<and> m mod 10 \<noteq> 0"

lemma not_digit_marks [simp]: "\<not> is_digit 101" "\<not> is_digit 46"
  by (simp_all add: is_digit_def)

lemma num_stop_not_digit: "num_stop r \<Longrightarrow> r = [] \<or> \<not> is_digit (hd r)"
  by (auto simp: num_stop_def)

lemma all_digits_sub:
  assumes "list_all is_digit ds"
  shows "list_all is_digit (take j ds)" "list_all is_digit (drop j ds)" "list_all is_digit (tl ds)"
    and "list_all is_digit (replicate j 48 @ ds)" "list_all is_digit (ds @ replicate j 48)"
  using assms
  by (auto simp: list_all_iff is_digit_def dest: in_set_takeD in_set_dropD list.set_sel(2))
     (cases ds, auto)+

text \<open>One lemma per branch of Number::toString.\<close>

lemma reads_integer:
  assumes "sig_digits ds m" "num_stop r"
  shows "num_reads (ds @ replicate j 48) m (int j) r"
proof -
  let ?is = "ds @ replicate j 48"
  have ds: "ds \<noteq> []" "list_all is_digit ds" "hd ds \<noteq> 48" "digits_val ds = m" "0 < m" "m mod 10 \<noteq> 0"
    using assms by (simp_all add: sig_digits_def)
  have "norm_num (digits_val (?is @ [])) (0 - int (length ([]::jstr))) = (m, int j)"
    using norm_num_mult [OF ds(5,6), of j 0] ds by (simp add: digits_val_append)
  moreover have "parse_int (?is @ [] @ r) = Some (?is, [] @ r)"
    using parse_int_printed [of ?is r] ds all_digits_sub [OF ds(2)] num_stop_not_digit [OF assms(2)]
    by simp
  ultimately show ?thesis
    using num_reads_parts [of ?is "[]" r "[]" r 0 m "int j"] ds all_digits_sub [OF ds(2)] assms(2)
    by (simp add: parse_frac_stop parse_exp_stop)
qed

lemma reads_fraction:
  assumes "sig_digits ds m" "num_stop r" "0 < j" "j < length ds"
  shows "num_reads (take j ds @ 46 # drop j ds) m (- int (length ds - j)) r"
proof -
  let ?i = "take j ds" and ?f = "drop j ds"
  have ds: "list_all is_digit ds" "hd ds \<noteq> 48" "digits_val ds = m" "0 < m" "m mod 10 \<noteq> 0"
    using assms by (simp_all add: sig_digits_def)
  have ne: "?i \<noteq> []" "?f \<noteq> []" "hd ?i \<noteq> 48"
    using assms ds by (auto simp: hd_take)
  have "norm_num (digits_val (?i @ ?f)) (0 - int (length ?f)) = (m, - int (length ds - j))"
    using norm_num_id [OF ds(4,5)] ds(3) by simp
  moreover have "parse_int (?i @ (46 # ?f) @ r) = Some (?i, (46 # ?f) @ r)"
    using ne all_digits_sub [OF ds(1)] by (intro parse_int_printed) auto
  moreover have "parse_frac ((46 # ?f) @ r) = Some (?f, r)"
    using parse_frac_printed [of ?f r] ne all_digits_sub [OF ds(1)] num_stop_not_digit [OF assms(2)]
    by simp
  ultimately show ?thesis
    using num_reads_parts [of ?i "46 # ?f" r ?f r 0 m] ne all_digits_sub [OF ds(1)] assms(2)
    by (simp add: parse_exp_stop)
qed

lemma reads_small:
  assumes "sig_digits ds m" "num_stop r"
  shows "num_reads (48 # 46 # replicate j 48 @ ds) m (- int (j + length ds)) r"
proof -
  let ?f = "replicate j 48 @ ds"
  have ds: "ds \<noteq> []" "list_all is_digit ds" "digits_val ds = m" "0 < m" "m mod 10 \<noteq> 0"
    using assms by (simp_all add: sig_digits_def)
  have "digits_val (replicate (Suc j) 48 @ ds) = m"
    using ds by (simp only: digits_val_append digits_val_zeros mult_0 add_0)
  then have "norm_num (digits_val ([48] @ ?f)) (0 - int (length ?f)) = (m, - int (j + length ds))"
    using norm_num_id [OF ds(4,5)] by simp
  moreover have "parse_frac ((46 # ?f) @ r) = Some (?f, r)"
    using parse_frac_printed [of ?f r] ds all_digits_sub [OF ds(2)] num_stop_not_digit [OF assms(2)]
    by simp
  ultimately show ?thesis
    using num_reads_parts [of "[48]" "46 # ?f" r ?f r 0 m "- int (j + length ds)"] assms(2)
    by (simp add: parse_exp_stop parse_int_def is_digit_def)
qed

abbreviation exp_str :: "int \<Rightarrow> jstr" where
  "exp_str x \<equiv> (if x < 0 then 45 else 43) # nat_str (nat \<bar>x\<bar>)"

lemma reads_exp1:
  assumes "sig_digits ds m" "num_stop r" "length ds = 1"
  shows "num_reads (ds @ 101 # exp_str x) m x r"
proof -
  have ds: "ds \<noteq> []" "list_all is_digit ds" "hd ds \<noteq> 48" "digits_val ds = m" "0 < m" "m mod 10 \<noteq> 0"
    using assms by (simp_all add: sig_digits_def)
  have "norm_num (digits_val (ds @ [])) (x - int (length ([]::jstr))) = (m, x)"
    using norm_num_id [OF ds(5,6)] ds by simp
  moreover have "parse_int (ds @ (101 # exp_str x) @ r) = Some (ds, (101 # exp_str x) @ r)"
    using ds by (intro parse_int_printed) auto
  ultimately show ?thesis
    using num_reads_parts [of ds "101 # exp_str x" r "[]" "101 # exp_str x @ r" x m x] ds
      parse_exp_printed [OF assms(2), of x]
    by (simp add: parse_frac_def)
qed

lemma reads_exp:
  assumes "sig_digits ds m" "num_stop r" "length ds \<noteq> 1"
  shows "num_reads (hd ds # 46 # tl ds @ 101 # exp_str x) m (x + 1 - int (length ds)) r"
proof -
  have ds: "ds \<noteq> []" "list_all is_digit ds" "hd ds \<noteq> 48" "digits_val ds = m" "0 < m" "m mod 10 \<noteq> 0"
    using assms by (simp_all add: sig_digits_def)
  have two: "tl ds \<noteq> []" "[hd ds] @ tl ds = ds" "int (length (tl ds)) = int (length ds) - 1"
    "is_digit (hd ds)"
    using assms(3) ds by (cases ds; auto)+
  have "norm_num (digits_val ([hd ds] @ tl ds)) (x - int (length (tl ds)))
      = (m, x + 1 - int (length ds))"
    using norm_num_id [OF ds(5,6)] two ds(4) by simp
  moreover have "parse_int ([hd ds] @ (46 # tl ds @ 101 # exp_str x) @ r)
      = Some ([hd ds], (46 # tl ds @ 101 # exp_str x) @ r)"
    using ds two by (intro parse_int_printed) auto
  moreover have "parse_frac ((46 # tl ds @ 101 # exp_str x) @ r) = Some (tl ds, 101 # exp_str x @ r)"
    using parse_frac_printed [of "tl ds" "101 # exp_str x @ r"] two all_digits_sub [OF ds(2)] by simp
  ultimately show ?thesis
    using num_reads_parts [of "[hd ds]" "46 # tl ds @ 101 # exp_str x" r "tl ds"
        "101 # exp_str x @ r" x m] two parse_exp_printed [OF assms(2), of x]
    by simp
qed

lemma num_pos_str_reads:
  assumes "0 < m" "m mod 10 \<noteq> 0" "num_stop r"
  shows "num_reads (num_pos_str m e) m e r"
proof -
  let ?ds = "nat_str m"
  let ?n = "int (length ?ds) + e"
  have sd: "sig_digits ?ds m"
    using assms by (simp add: sig_digits_def nat_str_hd_nonzero)
  consider "int (length ?ds) \<le> ?n" "?n \<le> 21" | "0 < ?n" "?n < int (length ?ds)" "?n \<le> 21"
    | "-6 < ?n" "?n \<le> 0" | "length ?ds = 1" "?n > 21 \<or> ?n \<le> -6"
    | "length ?ds \<noteq> 1" "?n > 21 \<or> ?n \<le> -6"
    by linarith
  then show ?thesis
  proof cases
    case 1
    with reads_integer [OF sd assms(3), of "nat e"] show ?thesis
      by (simp add: num_pos_str_def Let_def)
  next
    case 2
    then have "int (length ?ds - nat ?n) = - e" by simp
    with 2 reads_fraction [OF sd assms(3), of "nat ?n"] show ?thesis
      by (simp add: num_pos_str_def Let_def)
  next
    case 3
    then have e: "- int (nat (- ?n) + length ?ds) = e" by linarith
    have "0 < int (length ?ds)" by simp
    with 3 have "num_pos_str m e = 48 # 46 # replicate (nat (- ?n)) 48 @ ?ds"
      unfolding num_pos_str_def Let_def by (auto simp del: of_nat_0_less_iff length_greater_0_conv)
    with reads_small [OF sd assms(3), of "nat (- ?n)"] e show ?thesis by simp
  next
    case 4
    with reads_exp1 [OF sd assms(3), of "?n - 1"] show ?thesis
      by (auto simp: num_pos_str_def Let_def)
  next
    case 5
    with reads_exp [OF sd assms(3), of "?n - 1"] show ?thesis
      by (auto simp: num_pos_str_def Let_def)
  qed
qed

lemma parse_num_num_str:
  assumes "wf_num m e" "num_stop r"
  shows "parse_num (num_str m e @ r) = Some (JNum m e, r)"
proof (cases "m = 0")
  case True
  then show ?thesis using assms
    by (simp add: num_str_def parse_num_def parse_int_def is_digit_def parse_frac_stop
        parse_exp_stop mk_num_def norm_num.simps digits_val_def digit_val_def wf_num_def)
next
  case False
  then have "\<not> 10 dvd m"
    using assms by (simp add: wf_num_def dvd_eq_mod_eq_0)
  then have "nat \<bar>m\<bar> mod 10 \<noteq> 0"
    by (metis dvd_abs_iff int_dvd_int_iff int_nat_eq abs_ge_zero mod_0_imp_dvd of_nat_numeral)
  with False assms num_pos_str_reads [of "nat \<bar>m\<bar>" r e] show ?thesis
    by (auto simp: num_str_def num_reads_def)
qed

section \<open>The parser consumes input, and its fuel is enough\<close>

lemma length_skip_ws: "length (skip_ws s) \<le> length s"
  by (rule length_dropWhile_le)

lemma skip_ws_Cons: "skip_ws s = c # t \<Longrightarrow> length t < length s"
  using length_skip_ws [of s] by simp

lemma parse_num_shorter: "parse_num s = Some (v, r) \<Longrightarrow> length r < length s"
proof -
  assume a: "parse_num s = Some (v, r)"
  have tl: "length (tl u) \<le> length u" for u :: jstr
    by simp
  have i: "parse_int u = Some (is, u') \<Longrightarrow> length u' < length u" for u "is" u'
    by (cases u) (auto simp: parse_int_def less_Suc_eq_le length_dropWhile_le split: if_splits)
  have f: "parse_frac u = Some (fs, u') \<Longrightarrow> length u' \<le> length u" for u fs u'
    by (cases u) (auto simp: parse_frac_def le_SucI length_dropWhile_le split: if_splits)
  have x: "parse_exp u = Some (n, u') \<Longrightarrow> length u' \<le> length u" for u n u'
  proof (cases u)
    case (Cons c t)
    have "length (dropWhile is_digit t) \<le> Suc (length t)"
      "length (dropWhile is_digit (tl t)) \<le> Suc (length t)"
      using length_dropWhile_le [of is_digit t] length_dropWhile_le [of is_digit "tl t"] by auto
    with Cons show "parse_exp u = Some (n, u') \<Longrightarrow> length u' \<le> length u"
      by (auto simp: parse_exp_def Let_def split: if_splits)
  qed (auto simp: parse_exp_def)
  from a show ?thesis
    unfolding parse_num_def Let_def
    by (auto split: option.splits prod.splits if_splits dest!: i f x)
qed

lemma length_tl_skip_ws: "length (tl (skip_ws s)) \<le> length s"
  using length_skip_ws [of s] by simp

lemma parser_shorter:
  "(\<forall>s v r. pv f s = Some (v, r) \<longrightarrow> length r < length s) \<and>
   (\<forall>s xs r. parr f s = Some (xs, r) \<longrightarrow> length r < length s) \<and>
   (\<forall>s kvs r. pobj f s = Some (kvs, r) \<longrightarrow> length r < length s)"
proof (induction f)
  case (Suc f)
  then have v: "\<And>s v r. pv f s = Some (v, r) \<Longrightarrow> length r < length s"
    and a: "\<And>s xs r. parr f s = Some (xs, r) \<Longrightarrow> length r < length s"
    and b: "\<And>s kvs r. pobj f s = Some (kvs, r) \<Longrightarrow> length r < length s"
    by blast+
  note dests = skip_ws_Cons parse_chars_shorter parse_num_shorter v a b
  have "length r < length s" if "pv (Suc f) s = Some (u, r)" for s u r
    using that length_tl_skip_ws
    by (auto simp: parser_simps split: list.splits if_splits option.splits dest!: dests) (meson le_less_trans)+
  moreover have "length r < length s" if "parr (Suc f) s = Some (u, r)" for s u r
    using that by (auto simp: parser_simps split: list.splits if_splits option.splits dest!: dests)
  moreover have "length r < length s" if "pobj (Suc f) s = Some (u, r)" for s u r
    using that by (auto simp: parser_simps split: list.splits if_splits option.splits dest!: dests)
  ultimately show ?case by blast
qed (simp add: parser_simps)

lemma pv_shorter: "pv f s = Some (v, r) \<Longrightarrow> length r < length s"
  using parser_shorter by blast

text \<open>Beyond twice the length of the input, more fuel changes nothing.\<close>

lemma parser_fuel_step:
  "(\<forall>s. 2 * length s < f \<longrightarrow> pv (Suc f) s = pv f s) \<and>
   (\<forall>s. 2 * length s + 1 < f \<longrightarrow> parr (Suc f) s = parr f s) \<and>
   (\<forall>s. 2 * length s + 1 < f \<longrightarrow> pobj (Suc f) s = pobj f s)"
proof (induction f)
  case (Suc f)
  then have v: "\<And>s. 2 * length s < f \<Longrightarrow> pv (Suc f) s = pv f s"
    and a: "\<And>s. 2 * length s + 1 < f \<Longrightarrow> parr (Suc f) s = parr f s"
    and b: "\<And>s. 2 * length s + 1 < f \<Longrightarrow> pobj (Suc f) s = pobj f s"
    by blast+
  have "pv (Suc (Suc f)) s = pv (Suc f) s" if "2 * length s < Suc f" for s
  proof (cases "skip_ws s")
    case (Cons c t)
    then have "2 * length t + 1 < f"
      using that skip_ws_Cons [OF Cons] by simp
    with Cons a b show ?thesis by (simp add: pv.simps(2))
  qed (simp add: pv.simps(2))
  moreover have "parr (Suc (Suc f)) s = parr (Suc f) s" if l: "2 * length s + 1 < Suc f" for s
  proof (cases "pv f s")
    case None
    with l v show ?thesis by (simp add: parr.simps(2))
  next
    case (Some vr)
    obtain w r where vr: "vr = (w, r)" by force
    have "length r < length s"
      using Some vr pv_shorter by blast
    then have "parr (Suc f) u = parr f u" if "skip_ws r = c # u" for c u
      using skip_ws_Cons [OF that] l by (intro a) simp
    with Some vr l v show ?thesis
      by (simp add: parr.simps(2) split: list.split)
  qed
  moreover have "pobj (Suc (Suc f)) s = pobj (Suc f) s" if l: "2 * length s + 1 < Suc f" for s
  proof -
    have "pv (Suc f) u = pv f u" if "skip_ws s = q # t" "parse_chars t = Some (k, r)"
      "skip_ws r = c # u" for q t k r c u
      using that l by (intro v) (auto dest!: skip_ws_Cons parse_chars_shorter)
    moreover have "pobj (Suc f) x = pobj f x" if "skip_ws s = q # t" "parse_chars t = Some (k, r)"
      "skip_ws r = c # u" "pv f u = Some (w, y)" "skip_ws y = d # x" for q t k r c u w y d x
      using that l by (intro b) (auto dest!: skip_ws_Cons parse_chars_shorter pv_shorter)
    ultimately show ?thesis
      by (simp add: pobj.simps(2) split: list.split option.split)
  qed
  ultimately show ?case by blast
qed (simp add: parser_simps)

lemma pv_more_fuel: "2 * length s < f \<Longrightarrow> pv (f + d) s = pv f s"
  by (induction d) (use parser_fuel_step in auto)

section \<open>Whatever parses is well formed\<close>

lemma wf_keys_append:
  "wf_keys (xs @ ys) \<longleftrightarrow> wf_keys xs \<and> wf_keys ys \<and> (\<forall>x \<in> set xs. \<forall>y \<in> set ys. key_before x y)"
  by (induction xs) (auto simp: list_all_iff)

lemma index_key_inj: "index_key a = Some i \<Longrightarrow> index_key b = Some i \<Longrightarrow> a = b"
proof -
  have key: "k = nat_str i" if "index_key k = Some i" for k
  proof -
    have "k = nat_str (digits_val k)" if "k \<noteq> []" "list_all is_digit k" "k = [48] \<or> hd k \<noteq> 48" for k
      using that
    proof (induction k rule: rev_induct)
      case (snoc c k)
      have c: "is_digit c" "digit_cu (digit_val c) = c" "digit_val c < 10"
        using snoc.prems(2)
        by (auto simp: digit_cu_def digit_val_def is_digit_def word_le_nat_alt unat_sub)
      show ?case
      proof (cases "k = []")
        case True
        with c show ?thesis by (simp add: nat_str.simps digits_val_def)
      next
        case False
        with snoc have k: "k = nat_str (digits_val k)" "hd k \<noteq> 48"
          by auto
        have "digits_val k \<noteq> 0"
          using k by (metis list.sel(1) nat_str_zero)
        with k c show ?thesis
          by (simp add: nat_str.simps [of "10 * digits_val k + digit_val c"])
      qed
    qed simp
    with that show ?thesis by (auto simp: index_key_def split: if_splits)
  qed
  show "index_key a = Some i \<Longrightarrow> index_key b = Some i \<Longrightarrow> a = b"
    using key by blast
qed

lemma wf_keys_put_index:
  assumes "wf_keys (map fst kvs)" "index_key k = Some i" "k \<notin> fst ` set kvs"
  shows "wf_keys (map fst (takeWhile (before_index i) kvs @ (k, v) # dropWhile (before_index i) kvs))"
  using assms(1,3)
proof (induction kvs)
  case (Cons kv kvs)
  show ?case
  proof (cases "before_index i kv")
    case True
    then have "key_before (fst kv) k"
      using assms(2) by (auto simp: before_index_def key_before_def split: option.splits)
    moreover have "\<forall>a \<in> fst ` set kvs. key_before (fst kv) a"
      using Cons.prems(1) by (auto simp: list_all_iff)
    ultimately have "\<forall>a \<in> fst ` set (takeWhile (before_index i) kvs @ (k, v)
        # dropWhile (before_index i) kvs). key_before (fst kv) a"
      by (auto dest: set_takeWhileD set_dropWhileD)
    then show ?thesis
      using Cons True by (simp add: list_all_iff image_Un ball_Un)
  next
    case False
    have "key_before k a" if "a \<in> fst ` set (kv # kvs)" for a
    proof -
      have ne: "index_key a \<noteq> Some i"
        using that Cons.prems(2) assms(2) index_key_inj by blast
      have "a = fst kv \<or> key_before (fst kv) a"
        using that Cons.prems(1) by (auto simp: list_all_iff)
      with False ne assms(2) show ?thesis
        by (auto simp: before_index_def key_before_def split: option.splits)
    qed
    with False Cons.prems show ?thesis
      by (simp add: list_all_iff)
  qed
qed simp

lemma fst_replace [simp]:
  "map fst (map (\<lambda>(k', v'). if k' = k then (k, v) else (k', v')) kvs) = map fst kvs"
  by (induction kvs) auto

lemma wf_keys_obj_put: "wf_keys (map fst kvs) \<Longrightarrow> wf_keys (map fst (obj_put kvs k v))"
proof (cases "k \<in> fst ` set kvs")
  case True
  then show "wf_keys (map fst kvs) \<Longrightarrow> ?thesis"
    by (simp only: obj_put_def if_True fst_replace)
next
  case False
  assume w: "wf_keys (map fst kvs)"
  show ?thesis
  proof (cases "index_key k")
    case None
    then show ?thesis
      using w False by (auto simp: obj_put_def wf_keys_append key_before_def split: option.splits)
  next
    case (Some i)
    with wf_keys_put_index [OF w Some False] False show ?thesis
      by (simp add: obj_put_def)
  qed
qed

lemma set_obj_put: "set (obj_put kvs k v) \<subseteq> insert (k, v) (set kvs)"
  by (auto simp: obj_put_def split: if_splits option.splits dest: set_takeWhileD set_dropWhileD)

lemma wf_obj_put:
  "wf_json (JObj kvs) \<Longrightarrow> wf_json v \<Longrightarrow> wf_json (JObj (obj_put kvs k v))"
  using set_obj_put [of kvs k v] by (auto simp: wf_keys_obj_put list_all_iff)

lemma wf_obj_build:
  "wf_json (JObj acc) \<Longrightarrow> list_all (\<lambda>(k, v). wf_json v) kvs \<Longrightarrow> wf_json (JObj (obj_build acc kvs))"
proof (induction acc kvs rule: obj_build.induct)
  case (2 acc k v kvs)
  then show ?case
    using wf_obj_put [of acc v k] by (simp del: wf_json.simps add: list_all_iff)
qed simp

lemma wf_parse_num: "parse_num s = Some (v, r) \<Longrightarrow> wf_json v"
  by (auto simp: parse_num_def mk_num_def Let_def split: option.splits prod.splits
      dest: norm_num_wf)

lemma parser_wf:
  "(\<forall>s v r. pv f s = Some (v, r) \<longrightarrow> wf_json v) \<and>
   (\<forall>s xs r. parr f s = Some (xs, r) \<longrightarrow> list_all wf_json xs) \<and>
   (\<forall>s kvs r. pobj f s = Some (kvs, r) \<longrightarrow> list_all (\<lambda>(k, v). wf_json v) kvs)"
proof (induction f)
  case (Suc f)
  then have v: "\<And>s v r. pv f s = Some (v, r) \<Longrightarrow> wf_json v"
    and a: "\<And>s xs r. parr f s = Some (xs, r) \<Longrightarrow> list_all wf_json xs"
    and b: "\<And>s kvs r. pobj f s = Some (kvs, r) \<Longrightarrow> list_all (\<lambda>(k, v). wf_json v) kvs"
    by blast+
  have bo: "wf_json (JObj (obj_build [] kvs))" if "pobj f s = Some (kvs, r)" for s kvs r
    using b [OF that] by (intro wf_obj_build) simp_all
  have "wf_json u" if "pv (Suc f) s = Some (u, r)" for s u r
    using that by (auto simp: pv.simps(2) simp del: wf_json.simps(3)
        split: list.splits if_splits option.splits intro: a bo wf_parse_num) simp_all
  moreover have "list_all wf_json u" if "parr (Suc f) s = Some (u, r)" for s u r
    using that by (auto simp: parr.simps(2) split: list.splits if_splits option.splits)
      (blast intro: v a)+
  moreover have "list_all (\<lambda>(k, v). wf_json v) u" if "pobj (Suc f) s = Some (u, r)" for s u r
    using that by (auto simp: pobj.simps(2) split: list.splits if_splits option.splits)
      (blast intro: v b)+
  ultimately show ?case by blast
qed (simp add: parser_simps)

lemma pv_wf: "pv f s = Some (v, r) \<Longrightarrow> wf_json v"
  using parser_wf by blast

lemma JSON_parse_wf: "JSON_parse s = Some v \<Longrightarrow> wf_json v"
  unfolding JSON_parse_def by (auto split: option.splits if_splits dest: pv_wf)

section \<open>Parsing inverts printing\<close>

text \<open>\<open>reads s v\<close>: with enough fuel the parser takes \<open>s\<close> as the value \<open>v\<close>, whatever
  follows, provided it does not continue a number.\<close>

definition reads :: "jstr \<Rightarrow> json \<Rightarrow> bool" where
  "reads s v \<longleftrightarrow> (\<forall>r. num_stop r \<longrightarrow> (\<exists>n. \<forall>f \<ge> n. pv f (s @ r) = Some (v, r)))"

lemma readsI: "(\<And>r f. num_stop r \<Longrightarrow> pv (Suc f) (s @ r) = Some (v, r)) \<Longrightarrow> reads s v"
  unfolding reads_def by (metis Suc_le_D)

lemma skip_ws_append: "list_all is_json_ws w \<Longrightarrow> skip_ws (w @ s) = skip_ws s"
  by (induction w) auto

lemma pv_ws: "list_all is_json_ws w \<Longrightarrow> pv f (w @ s) = pv f s"
  by (cases f) (simp_all add: pv.simps skip_ws_append)

lemma not_json_ws [simp]:
  "\<not> is_json_ws 34" "\<not> is_json_ws 91" "\<not> is_json_ws 93" "\<not> is_json_ws 123" "\<not> is_json_ws 125"
  "\<not> is_json_ws 44" "\<not> is_json_ws 58" "is_json_ws 32" "is_json_ws 10"
  by (simp_all add: is_json_ws_def)

lemma num_stop_ws: "list_all is_json_ws w \<Longrightarrow> num_stop (c # s) \<Longrightarrow> num_stop (w @ c # s)"
  by (cases w) (auto simp: num_stop_def is_json_ws_def is_digit_def)

lemma num_stop_marks [simp]: "num_stop (44 # s)" "num_stop (93 # s)" "num_stop (125 # s)" "num_stop []"
  by (simp_all add: num_stop_def is_digit_def)

lemma pv_bracket [simp]: "pv f (93 # s) = None" "pv f (125 # s) = None"
  by (cases f; simp add: pv.simps js_startsWith_def parse_num_def parse_int_def is_digit_def)+

lemma reads_not_bracket: "reads s v \<Longrightarrow> num_stop r \<Longrightarrow> skip_ws (s @ r) \<noteq> 93 # t"
proof
  assume a: "reads s v" "num_stop r" "skip_ws (s @ r) = 93 # t"
  then obtain f where f: "pv f (s @ r) = Some (v, r)"
    unfolding reads_def by blast
  have "s @ r = takeWhile is_json_ws (s @ r) @ 93 # t"
    by (metis a(3) takeWhile_dropWhile_id)
  then have "pv f (s @ r) = pv f (93 # t)"
    by (metis pv_ws list_all_iff set_takeWhileD)
  with f show False by simp
qed

lemma num_pos_str_hd: "num_pos_str m e \<noteq> [] \<and> is_digit (hd (num_pos_str m e))"
proof -
  have d: "is_digit (hd (nat_str m))"
    by (rule nat_str_digits [of _ m]) simp
  have "0 < j \<Longrightarrow> hd (take j (nat_str m)) = hd (nat_str m)" for j
    by (simp add: hd_take)
  with d show ?thesis
    by (auto simp: num_pos_str_def Let_def is_digit_def [of 48] hd_append)
qed

lemma num_str_hd: obtains c t where "num_str m e = c # t" "is_digit c \<or> c = 45"
  using num_pos_str_hd [of "nat m" e]
  by (cases "num_str m e") (auto simp: num_str_def is_digit_def [of 48] split: if_splits)

lemma reads_num: "wf_num m e \<Longrightarrow> reads (num_str m e) (JNum m e)"
proof (rule readsI)
  fix r f assume w: "wf_num m e" "num_stop r"
  obtain c t where ct: "num_str m e = c # t" "is_digit c \<or> c = 45"
    by (rule num_str_hd)
  then have "\<not> is_json_ws c" "c \<noteq> 34" "c \<noteq> 91" "c \<noteq> 123" "c \<noteq> 110" "c \<noteq> 116" "c \<noteq> 102"
    by (auto simp: is_json_ws_def is_digit_def)
  with ct parse_num_num_str [OF w] show "pv (Suc f) (num_str m e @ r) = Some (JNum m e, r)"
    by (simp add: pv.simps(2) js_startsWith_def)
qed

lemma reads_str: "reads (quote_str s) (JStr s)"
  by (rule readsI) (simp add: pv.simps(2) quote_str_def parse_chars_quote)

lemma reads_atoms:
  "reads (js ''null'') JNull" "reads (js ''true'') (JBool True)" "reads (js ''false'') (JBool False)"
  by (rule readsI; simp add: pv.simps(2) js_startsWith_def is_json_ws_def)+

lemma eventually_fuelI: "(\<And>g. (n::nat) \<le> g \<Longrightarrow> P (Suc g)) \<Longrightarrow> \<exists>m. \<forall>f \<ge> m. P f"
  by (metis Suc_le_D Suc_le_mono)

lemma parr_join:
  assumes "xs \<noteq> []" "\<And>x. x \<in> set xs \<Longrightarrow> reads (S x) x" "list_all is_json_ws w" "list_all is_json_ws w2"
  shows "\<exists>n. \<forall>f \<ge> n. parr f (js_join (44 # w) (map S xs) @ w2 @ 93 # r) = Some (xs, r)"
  using assms(1,2)
proof (induction xs)
  case (Cons x xs)
  let ?rest = "if xs = [] then w2 @ 93 # r else 44 # w @ js_join (44 # w) (map S xs) @ w2 @ 93 # r"
  have shape: "js_join (44 # w) (map S (x # xs)) @ w2 @ 93 # r = S x @ ?rest"
    by (simp add: js_join_Cons)
  have "num_stop ?rest"
    using assms(4) num_stop_ws by simp
  then obtain n where n: "\<And>f. f \<ge> n \<Longrightarrow> pv f (S x @ ?rest) = Some (x, ?rest)"
    using Cons.prems(2) [of x] unfolding reads_def by auto
  have sk: "skip_ws (w2 @ 93 # r) = 93 # r"
    using assms(4) by (simp add: skip_ws_append)
  have pw: "parr f (w @ s) = parr f s" for f s
    using assms(3) by (cases f) (simp_all add: parr.simps pv_ws)
  show ?case
  proof (cases "xs = []")
    case True
    show ?thesis unfolding shape
      by (rule eventually_fuelI [of n]) (use True n sk in \<open>simp add: parr.simps(2)\<close>)
  next
    case False
    with Cons obtain n' where n': "\<And>f. f \<ge> n' \<Longrightarrow>
        parr f (js_join (44 # w) (map S xs) @ w2 @ 93 # r) = Some (xs, r)"
      by auto
    show ?thesis unfolding shape
      by (rule eventually_fuelI [of "max n n'"])
         (use False n n' pw in \<open>simp add: parr.simps(2) cons_fst_def\<close>)
  qed
qed simp

lemma pobj_join:
  fixes M :: "jstr \<times> json \<Rightarrow> jstr"
  assumes "kvs \<noteq> []" "\<And>kv. kv \<in> set kvs \<Longrightarrow> reads (S (snd kv)) (snd kv)"
    and M: "\<And>k v. M (k, v) = quote_str k @ 58 # sp @ S v"
    and ws: "list_all is_json_ws w" "list_all is_json_ws w2" "list_all is_json_ws sp"
  shows "\<exists>n. \<forall>f \<ge> n. pobj f (js_join (44 # w) (map M kvs) @ w2 @ 125 # r) = Some (kvs, r)"
  using assms(1,2)
proof (induction kvs)
  case (Cons kv kvs)
  obtain k v where kv: "kv = (k, v)" by force
  let ?rest = "if kvs = [] then w2 @ 125 # r else 44 # w @ js_join (44 # w) (map M kvs) @ w2 @ 125 # r"
  have shape: "js_join (44 # w) (map M (kv # kvs)) @ w2 @ 125 # r
      = 34 # quote_units k @ 34 # 58 # sp @ S v @ ?rest"
    by (simp add: js_join_Cons kv M quote_str_def)
  have "num_stop ?rest"
    using ws num_stop_ws by simp
  then obtain n where n: "\<And>f. f \<ge> n \<Longrightarrow> pv f (S v @ ?rest) = Some (v, ?rest)"
    using Cons.prems(2) [of kv] kv unfolding reads_def by auto
  have sk: "skip_ws (w2 @ 125 # r) = 125 # r"
    using ws by (simp add: skip_ws_append)
  have pw: "pobj f (w @ s) = pobj f s" for f s
    using ws by (cases f) (simp_all add: pobj.simps skip_ws_append)
  show ?case
  proof (cases "kvs = []")
    case True
    show ?thesis unfolding shape
      by (rule eventually_fuelI [of n])
         (use True n sk kv ws in \<open>simp add: pobj.simps(2) parse_chars_quote pv_ws\<close>)
  next
    case False
    with Cons obtain n' where n': "\<And>f. f \<ge> n' \<Longrightarrow>
        pobj f (js_join (44 # w) (map M kvs) @ w2 @ 125 # r) = Some (kvs, r)"
      by auto
    show ?thesis unfolding shape
      by (rule eventually_fuelI [of "max n n'"])
         (use False n n' pw kv ws in \<open>simp add: pobj.simps(2) cons_fst_def parse_chars_quote pv_ws\<close>)
  qed
qed simp

lemma key_before_index: "key_before a b \<Longrightarrow> index_key b = Some i \<Longrightarrow> \<exists>j. index_key a = Some j \<and> j < i"
  by (auto simp: key_before_def split: option.splits)

lemma key_before_neq: "key_before a b \<Longrightarrow> a \<noteq> b"
  by (auto simp: key_before_def split: option.splits)

lemma obj_put_snoc:
  assumes "wf_keys (map fst kvs @ [k])"
  shows "obj_put kvs k v = kvs @ [(k, v)]"
proof -
  have kb: "\<And>x. x \<in> set kvs \<Longrightarrow> key_before (fst x) k"
    using assms by (auto simp: wf_keys_append)
  then have "k \<notin> fst ` set kvs"
    using key_before_neq by blast
  moreover have "\<forall>x \<in> set kvs. before_index i x" if "index_key k = Some i" for i
    using kb key_before_index [OF _ that] by (fastforce simp: before_index_def)
  then have "takeWhile (before_index i) kvs = kvs \<and> dropWhile (before_index i) kvs = []"
    if "index_key k = Some i" for i
    using that by (simp add: dropWhile_eq_Nil_conv)
  ultimately show ?thesis
    by (auto simp: obj_put_def split: option.split)
qed

lemma obj_build_wf: "wf_keys (map fst (acc @ kvs)) \<Longrightarrow> obj_build acc kvs = acc @ kvs"
proof (induction acc kvs rule: obj_build.induct)
  case (2 acc k v kvs)
  then have "obj_put acc k v = acc @ [(k, v)]"
    by (intro obj_put_snoc) (auto simp: wf_keys_append)
  with 2 show ?case by simp
qed simp

lemma nl_ws: "list_all is_json_ws gap \<Longrightarrow> list_all is_json_ws ind \<Longrightarrow> list_all is_json_ws (nl gap ind)"
  by (simp add: nl_def)

lemma join_not_bracket:
  assumes "xs \<noteq> []" "\<And>x. x \<in> set xs \<Longrightarrow> reads (S x) x" "list_all is_json_ws w" "list_all is_json_ws w2"
  shows "skip_ws (w @ js_join (44 # w) (map S xs) @ w2 @ 93 # r) \<noteq> 93 # t"
proof -
  obtain x ys where xs: "xs = x # ys"
    using assms(1) by (cases xs) auto
  let ?rest = "if ys = [] then w2 @ 93 # r else 44 # w @ js_join (44 # w) (map S ys) @ w2 @ 93 # r"
  have "num_stop ?rest"
    using assms(4) num_stop_ws by simp
  with assms(2) [of x] xs have "skip_ws (S x @ ?rest) \<noteq> 93 # t"
    by (intro reads_not_bracket) simp_all
  moreover have "js_join (44 # w) (map S xs) @ w2 @ 93 # r = S x @ ?rest"
    by (simp add: js_join_Cons xs)
  ultimately show ?thesis
    using assms(3) by (simp add: skip_ws_append)
qed

lemma reads_arr:
  assumes "xs \<noteq> []" "\<And>x. x \<in> set xs \<Longrightarrow> reads (S x) x" "list_all is_json_ws w" "list_all is_json_ws w2"
  shows "reads (91 # w @ js_join (44 # w) (map S xs) @ w2 @ [93]) (JArr xs)"
  unfolding reads_def
proof (intro allI impI)
  fix r assume "num_stop r"
  let ?t = "w @ js_join (44 # w) (map S xs) @ w2 @ 93 # r"
  obtain n where n: "\<And>f. f \<ge> n \<Longrightarrow> parr f (js_join (44 # w) (map S xs) @ w2 @ 93 # r) = Some (xs, r)"
    using parr_join [OF assms] by blast
  have "\<not> (skip_ws ?t \<noteq> [] \<and> hd (skip_ws ?t) = 93)"
    using join_not_bracket [OF assms] by (metis list.collapse)
  moreover have "parr f ?t = parr f (js_join (44 # w) (map S xs) @ w2 @ 93 # r)" for f
    using assms(3) by (cases f) (simp_all add: parr.simps pv_ws)
  ultimately have "\<exists>n. \<forall>f \<ge> n. pv f (91 # ?t) = Some (JArr xs, r)"
    using n by (intro eventually_fuelI [of n]) (auto simp: pv.simps(2))
  then show "\<exists>n. \<forall>f \<ge> n. pv f ((91 # w @ js_join (44 # w) (map S xs) @ w2 @ [93]) @ r)
      = Some (JArr xs, r)" by simp
qed

lemma reads_obj:
  fixes M :: "jstr \<times> json \<Rightarrow> jstr"
  assumes "kvs \<noteq> []" "\<And>kv. kv \<in> set kvs \<Longrightarrow> reads (S (snd kv)) (snd kv)"
    and M: "\<And>k v. M (k, v) = quote_str k @ 58 # sp @ S v"
    and ws: "list_all is_json_ws w" "list_all is_json_ws w2" "list_all is_json_ws sp"
    and keys: "wf_keys (map fst kvs)"
  shows "reads (123 # w @ js_join (44 # w) (map M kvs) @ w2 @ [125]) (JObj kvs)"
  unfolding reads_def
proof (intro allI impI)
  fix r assume "num_stop r"
  let ?t = "w @ js_join (44 # w) (map M kvs) @ w2 @ 125 # r"
  obtain n where n: "\<And>f. f \<ge> n \<Longrightarrow> pobj f (js_join (44 # w) (map M kvs) @ w2 @ 125 # r) = Some (kvs, r)"
    using pobj_join [OF assms(1-6)] by blast
  have "\<exists>u. js_join (44 # w) (map M kvs) = 34 # u"
    using assms(1) M by (cases kvs) (auto simp: js_join_Cons quote_str_def)
  then have "\<not> (skip_ws ?t \<noteq> [] \<and> hd (skip_ws ?t) = 125)"
    using ws by (auto simp: skip_ws_append)
  moreover have "pobj f ?t = pobj f (js_join (44 # w) (map M kvs) @ w2 @ 125 # r)" for f
    using ws by (cases f) (simp_all add: pobj.simps skip_ws_append)
  ultimately have "\<exists>n. \<forall>f \<ge> n. pv f (123 # ?t) = Some (JObj kvs, r)"
    using n obj_build_wf [of "[]" kvs] keys
    by (intro eventually_fuelI [of n]) (auto simp: pv.simps(2))
  then show "\<exists>n. \<forall>f \<ge> n. pv f ((123 # w @ js_join (44 # w) (map M kvs) @ w2 @ [125]) @ r)
      = Some (JObj kvs, r)" by simp
qed

lemma reads_ser:
  assumes "list_all is_json_ws gap"
  shows "wf_json v \<Longrightarrow> list_all is_json_ws ind \<Longrightarrow> reads (ser gap ind v) v"
proof (induction v arbitrary: ind)
  case (JArr xs)
  show ?case
  proof (cases "xs = []")
    case True
    then show ?thesis by (auto intro!: readsI simp: pv.simps(2))
  next
    case False
    let ?w = "nl gap (ind @ gap)"
    have ws: "list_all is_json_ws ?w" "list_all is_json_ws (nl gap ind)" "list_all is_json_ws (ind @ gap)"
      using JArr.prems assms by (auto intro: nl_ws)
    have "reads (ser gap (ind @ gap) x) x" if "x \<in> set xs" for x
      using JArr.IH [OF that _ ws(3)] JArr.prems that by (simp add: list_all_iff)
    from reads_arr [OF False this ws(1,2)] False show ?thesis by simp
  qed
next
  case (JObj kvs)
  show ?case
  proof (cases "kvs = []")
    case True
    then show ?thesis by (auto intro!: readsI simp: pv.simps(2))
  next
    case False
    let ?w = "nl gap (ind @ gap)" and ?sp = "if gap = [] then [] else [32 :: cu]"
    let ?M = "\<lambda>(k, v). quote_str k @ 58 # ?sp @ ser gap (ind @ gap) v"
    have ws: "list_all is_json_ws ?w" "list_all is_json_ws (nl gap ind)" "list_all is_json_ws ?sp"
      "list_all is_json_ws (ind @ gap)"
      using JObj.prems assms by (auto intro: nl_ws)
    have "reads (ser gap (ind @ gap) (snd kv)) (snd kv)" if "kv \<in> set kvs" for kv
      using JObj.IH [OF that _ _ ws(4), of "snd kv"] JObj.prems that
      by (cases kv) (fastforce simp: list_all_iff)
    from reads_obj [where S = "ser gap (ind @ gap)" and M = ?M, OF False this _ ws(1-3)]
      False JObj.prems show ?thesis by simp
  qed
qed (auto simp: reads_num reads_str reads_atoms [simplified])

lemma JSON_parse_reads: "reads s v \<Longrightarrow> JSON_parse s = Some v"
proof -
  assume "reads s v"
  then obtain n where "\<forall>f \<ge> n. pv f (s @ []) = Some (v, [])"
    unfolding reads_def by (metis num_stop_marks(4))
  then have "pv (2 * length s + 2 + n) s = Some (v, [])"
    by simp
  then have "pv (2 * length s + 2) s = Some (v, [])"
    using pv_more_fuel [of s "2 * length s + 2" n] by simp
  then show ?thesis by (simp add: JSON_parse_def)
qed

lemma JSON_parse_ser:
  "wf_json v \<Longrightarrow> list_all is_json_ws gap \<Longrightarrow> JSON_parse (ser gap [] v) = Some v"
  by (rule JSON_parse_reads [OF reads_ser]) simp_all

section \<open>The interface of the codec\<close>

text \<open>
  What a component that stores or downloads JSON relies on: a printed value
  parses back, and what parses is a well-formed value.
\<close>

locale json_codec =
  fixes print :: "'v \<Rightarrow> jstr" and parse :: "jstr \<Rightarrow> 'v option" and wf :: "'v \<Rightarrow> bool"
  assumes parse_print: "wf v \<Longrightarrow> parse (print v) = Some v"
    and parse_wf: "parse s = Some v \<Longrightarrow> wf v"
begin

lemma print_inj: "wf v \<Longrightarrow> wf w \<Longrightarrow> print v = print w \<longleftrightarrow> v = w"
  by (metis option.inject parse_print)

lemma parse_print_parse: "parse s = Some v \<Longrightarrow> parse (print v) = Some v"
  by (blast intro: parse_print parse_wf)

end

interpretation compact: json_codec stringify JSON_parse wf_json
  by unfold_locales (auto simp: stringify_def JSON_parse_ser JSON_parse_wf)

interpretation indented: json_codec stringify2 JSON_parse wf_json
  by unfold_locales (auto simp: stringify2_def JSON_parse_ser JSON_parse_wf)

declare dropWhile_eq_Nil_conv [simp]

end
