(* ===== verification/Messages.thy ===== *)
theory Messages
  imports JsPrelude
begin

text \<open>
  The user-visible strings of web/src that are not ASCII, as UTF-16 code units.
  Each constant names the source file of its literal and glosses it in English.
\<close>

text \<open>web/src/lib/api.ts: the server's answer is not readable, try again later\<close>

definition msg_api_bad_response :: jstr where
  "msg_api_bad_response = [26381, 21153, 22120, 21709, 24212, 24322, 24120, 65292, 35831, 31245,
     21518, 20877, 35797]"

text \<open>web/src/lib/api.ts: request failed, opening bracket\<close>

definition msg_api_failed_pre :: jstr where
  "msg_api_failed_pre = [35831, 27714, 22833, 36133, 65288]"

text \<open>web/src/lib/api.ts: closing bracket\<close>

definition msg_api_failed_post :: jstr where
  "msg_api_failed_post = [65289]"

text \<open>web/src/lib/clipboard.ts: copied to the clipboard\<close>

definition msg_clip_copied :: jstr where
  "msg_clip_copied = [24050, 22797, 21046, 21040, 21098, 36148, 26495]"

text \<open>web/src/lib/clipboard.ts: copying failed\<close>

definition msg_clip_failed :: jstr where
  "msg_clip_failed = [22797, 21046, 22833, 36133, 65292, 35831, 25163, 21160, 36873, 25321,
     22797, 21046]"

text \<open>web/src/lib/converter.ts: the input is empty\<close>

definition msg_conv_empty :: jstr where
  "msg_conv_empty = [36755, 20837, 20869, 23481, 20026, 31354]"

text \<open>web/src/lib/converter.ts: the input is over 10 MB\<close>

definition msg_conv_too_large :: jstr where
  "msg_conv_too_large = [36755, 20837, 20869, 23481, 36229, 36807, 32, 49, 48, 77, 66, 32, 38480,
     21046]"

text \<open>web/src/lib/converter.ts: the array of accounts is empty\<close>

definition msg_conv_empty_array :: jstr where
  "msg_conv_empty_array = [36134, 21495, 25968, 32452, 20026, 31354]"

text \<open>web/src/lib/converter.ts: array elements must be objects\<close>

definition msg_conv_elem_object :: jstr where
  "msg_conv_elem_object = [74, 83, 79, 78, 32, 25968, 32452, 20013, 30340, 20803, 32032, 24517,
     39035, 26159, 23545, 35937]"

text \<open>web/src/lib/converter.ts: the root must be an array or an object\<close>

definition msg_conv_root :: jstr where
  "msg_conv_root = [74, 83, 79, 78, 32, 26681, 24517, 39035, 26159, 25968, 32452, 25110, 23545,
     35937]"

text \<open>web/src/lib/converter.ts: line number, before\<close>

definition msg_conv_line_pre :: jstr where
  "msg_conv_line_pre = [31532, 32]"

text \<open>web/src/lib/converter.ts: this line must be a JSON object\<close>

definition msg_conv_line_object :: jstr where
  "msg_conv_line_object = [32, 34892, 24517, 39035, 26159, 32, 74, 83, 79, 78, 32, 23545, 35937]"

text \<open>web/src/lib/converter.ts: this line is not JSON\<close>

definition msg_conv_line_json :: jstr where
  "msg_conv_line_json = [32, 34892, 19981, 26159, 26377, 25928, 32, 74, 83, 79, 78]"

text \<open>web/src/lib/converter.ts: no account found\<close>

definition msg_conv_none :: jstr where
  "msg_conv_none = [26410, 35299, 26512, 21040, 20219, 20309, 36134, 21495]"

text \<open>web/src/lib/converter.ts: format name, JSON array\<close>

definition msg_fmt_array :: jstr where
  "msg_fmt_array = [74, 83, 79, 78, 32, 25968, 32452]"

text \<open>web/src/lib/converter.ts: format name, JSONL\<close>

definition msg_fmt_jsonl :: jstr where
  "msg_fmt_jsonl = [74, 83, 79, 78, 76]"

text \<open>web/src/lib/converter.ts: format name, JSON object\<close>

definition msg_fmt_object :: jstr where
  "msg_fmt_object = [74, 83, 79, 78, 32, 23545, 35937]"

text \<open>web/src/lib/redeem-archive.ts: nothing to pack\<close>

definition msg_arch_none :: jstr where
  "msg_arch_none = [27809, 26377, 21487, 25171, 21253, 30340, 25104, 21151, 20817, 25442, 32467,
     26524]"

text \<open>web/src/pages/redeem.tsx: loading failed\<close>

definition msg_red_load_failed :: jstr where
  "msg_red_load_failed = [21152, 36733, 22833, 36133]"

text \<open>web/src/pages/redeem.tsx: the history was not stored\<close>

definition msg_red_history_unsaved :: jstr where
  "msg_red_history_unsaved = [21382, 21490, 35760, 24405, 26410, 33021, 20445, 23384, 22312,
     24403, 21069, 26631, 31614, 39029, 65292, 20294, 19981, 24433, 21709, 26412, 27425, 20817,
     25442]"

text \<open>web/src/pages/redeem.tsx: results packed automatically\<close>

definition msg_red_count_auto :: jstr where
  "msg_red_count_auto = [32, 20010, 25104, 21151, 32467, 26524, 24050, 33258, 21160, 25171,
     21253, 19979, 36733]"

text \<open>web/src/pages/redeem.tsx: results packed again\<close>

definition msg_red_count_again :: jstr where
  "msg_red_count_again = [32, 20010, 25104, 21151, 32467, 26524, 24050, 37325, 26032, 25171,
     21253, 19979, 36733]"

text \<open>web/src/pages/redeem.tsx: packing failed\<close>

definition msg_red_pack_failed :: jstr where
  "msg_red_pack_failed = [25171, 21253, 19979, 36733, 22833, 36133, 65292, 35831, 31245, 21518,
     37325, 35797]"

text \<open>web/src/pages/redeem.tsx: the clipboard cannot be read\<close>

definition msg_red_no_clipboard :: jstr where
  "msg_red_no_clipboard = [26080, 27861, 35835, 21462, 21098, 36148, 26495, 65292, 35831, 25163,
     21160, 31896, 36148]"

text \<open>web/src/pages/redeem.tsx: an e-mail address is needed\<close>

definition msg_red_need_email :: jstr where
  "msg_red_need_email = [35831, 36755, 20837, 37038, 31665]"

text \<open>web/src/pages/redeem.tsx: the e-mail address is malformed\<close>

definition msg_red_bad_email :: jstr where
  "msg_red_bad_email = [37038, 31665, 26684, 24335, 19981, 27491, 30830, 65292, 35831, 26816,
     26597, 21518, 37325, 35797]"

text \<open>web/src/pages/redeem.tsx: a code is needed\<close>

definition msg_red_need_code :: jstr where
  "msg_red_need_code = [35831, 36755, 20837, 20817, 25442, 30721]"

text \<open>web/src/pages/redeem.tsx: all codes redeemed\<close>

definition msg_red_all_ok :: jstr where
  "msg_red_all_ok = [32, 20010, 20817, 25442, 30721, 20840, 37096, 20817, 25442, 25104, 21151]"

text \<open>web/src/pages/redeem.tsx: network error\<close>

definition msg_red_network :: jstr where
  "msg_red_network = [32593, 32476, 24322, 24120, 65292, 35831, 26816, 26597, 32593, 32476,
     21518, 37325, 35797]"

text \<open>web/src/pages/redeem.tsx: detection failed\<close>

definition msg_red_detect_failed :: jstr where
  "msg_red_detect_failed = [35782, 21035, 22833, 36133]"

text \<open>web/src/pages/redeem.tsx: enter text and detect first\<close>

definition msg_red_need_detect :: jstr where
  "msg_red_need_detect = [35831, 20808, 36755, 20837, 26377, 25928, 20869, 23481, 24182, 23436,
     25104, 35782, 21035]"

text \<open>web/src/pages/redeem.tsx: unsupported output format\<close>

definition msg_red_bad_format :: jstr where
  "msg_red_bad_format = [19981, 25903, 25345, 30340, 36755, 20986, 26684, 24335]"

text \<open>web/src/pages/redeem.tsx: download failed\<close>

definition msg_red_download_failed :: jstr where
  "msg_red_download_failed = [19979, 36733, 22833, 36133]"

text \<open>web/src/pages/redeem.tsx: the file cannot be read\<close>

definition msg_red_file_failed :: jstr where
  "msg_red_file_failed = [25991, 20214, 35835, 21462, 22833, 36133]"

text \<open>web/src/pages/redeem.tsx: the clipboard cannot be read (conversion tab)\<close>

definition msg_red_no_clipboard2 :: jstr where
  "msg_red_no_clipboard2 = [26080, 27861, 35835, 21462, 21098, 36148, 26495]"

text \<open>an em dash shown for a missing value\<close>

definition msg_dash :: jstr where
  "msg_dash = [8212]"

end
