(* ===== verification/JsValue.thy ===== *)
theory JsValue
  imports JsonProofs Messages
begin

text \<open>
  Untyped values as the TypeScript code sees them after type erasure: property
  access, truthiness, \<^verbatim>\<open>typeof\<close>, \<^verbatim>\<open>String(v)\<close>, \<^verbatim>\<open>Object.entries\<close> and assignment
  of a property, each with the exception it can raise. \<^verbatim>\<open>undefined\<close> is \<open>None\<close>,
  every other value a \<open>Some\<close> of a JSON value.
\<close>

text \<open>
  What a \<^verbatim>\<open>catch\<close> can receive: an \<^verbatim>\<open>Error\<close> the sources construct, an \<^verbatim>\<open>ApiError\<close>
  (message, status, errors), an engine error with a text the language leaves
  to the implementation, or a thrown value that is no \<^verbatim>\<open>Error\<close> at all.
\<close>

datatype js_error =
    ErrorMsg jstr
  | ApiErr jstr int "json option"
  | TypeErr
  | SyntaxErr
  | URIErr
  | NonError

type_synonym 'a res = "js_error + 'a"

definition bind_res :: "'a res \<Rightarrow> ('a \<Rightarrow> 'b res) \<Rightarrow> 'b res" where
  "bind_res r f = (case r of Inl e \<Rightarrow> Inl e | Inr a \<Rightarrow> f a)"

lemma bind_res_simps [simp]: "bind_res (Inl e) f = Inl e" "bind_res (Inr a) f = f a"
  by (simp_all add: bind_res_def)

lemma bind_res_Inr_iff [simp]: "bind_res r f = Inr b \<longleftrightarrow> (\<exists>a. r = Inr a \<and> f a = Inr b)"
  by (cases r) auto

lemma bind_res_Inl_iff: "bind_res r f = Inl e \<longleftrightarrow> r = Inl e \<or> (\<exists>a. r = Inr a \<and> f a = Inl e)"
  by (cases r) auto

definition is_api_error :: "js_error \<Rightarrow> bool" where
  "is_api_error e = (case e of ApiErr _ _ _ \<Rightarrow> True | _ \<Rightarrow> False)"

definition is_error :: "js_error \<Rightarrow> bool" where
  "is_error e \<longleftrightarrow> e \<noteq> NonError"

text \<open>\<^verbatim>\<open>err.message\<close>; \<open>em\<close> gives the engine's texts.\<close>

fun err_message :: "(js_error \<Rightarrow> jstr) \<Rightarrow> js_error \<Rightarrow> jstr" where
  "err_message em (ErrorMsg m) = m"
| "err_message em (ApiErr m st errs) = m"
| "err_message em e = em e"

text \<open>The two idioms of the sources for showing an error.\<close>

definition message_if_error :: "(js_error \<Rightarrow> jstr) \<Rightarrow> jstr \<Rightarrow> js_error \<Rightarrow> jstr" where
  "message_if_error em fallback e = (if is_error e then err_message em e else fallback)"

definition message_if_api :: "jstr \<Rightarrow> js_error \<Rightarrow> jstr" where
  "message_if_api fallback e = (case e of ApiErr m _ _ \<Rightarrow> m | _ \<Rightarrow> fallback)"

section \<open>Values\<close>

definition truthy :: "json option \<Rightarrow> bool" where
  "truthy v = (case v of
     None \<Rightarrow> False
   | Some JNull \<Rightarrow> False
   | Some (JBool b) \<Rightarrow> b
   | Some (JNum m e) \<Rightarrow> m \<noteq> 0
   | Some (JStr s) \<Rightarrow> s \<noteq> []
   | Some (JArr _) \<Rightarrow> True
   | Some (JObj _) \<Rightarrow> True)"

text \<open>\<^verbatim>\<open>typeof v === "object" && v !== null\<close>\<close>

definition is_object :: "json \<Rightarrow> bool" where
  "is_object v = (case v of JArr _ \<Rightarrow> True | JObj _ \<Rightarrow> True | _ \<Rightarrow> False)"

definition is_string :: "json option \<Rightarrow> bool" where
  "is_string v = (case v of Some (JStr _) \<Rightarrow> True | _ \<Rightarrow> False)"

text \<open>
  \<^verbatim>\<open>v.key\<close> for a key that no built-in prototype defines: reading from null or
  undefined throws, every other primitive and every array has no such property.
\<close>

definition get_prop :: "json option \<Rightarrow> jstr \<Rightarrow> json option res" where
  "get_prop v key = (case v of
     None \<Rightarrow> Inl TypeErr
   | Some JNull \<Rightarrow> Inl TypeErr
   | Some (JObj kvs) \<Rightarrow> Inr (map_of kvs key)
   | Some _ \<Rightarrow> Inr None)"

text \<open>The same on a value known to be an object.\<close>

definition obj_get :: "json \<Rightarrow> jstr \<Rightarrow> json option" where
  "obj_get v key = (case v of JObj kvs \<Rightarrow> map_of kvs key | _ \<Rightarrow> None)"

lemma get_prop_object: "is_object v \<Longrightarrow> get_prop (Some v) key = Inr (obj_get v key)"
  by (auto simp: is_object_def get_prop_def obj_get_def split: json.splits)

text \<open>\<^verbatim>\<open>v ?? d\<close>\<close>

definition nullish :: "json option \<Rightarrow> json \<Rightarrow> json" where
  "nullish v d = (case v of None \<Rightarrow> d | Some JNull \<Rightarrow> d | Some w \<Rightarrow> w)"

text \<open>
  \<^verbatim>\<open>String(v)\<close>. An object prints as \<^verbatim>\<open>[object Object]\<close> unless it has an own
  property \<^verbatim>\<open>toString\<close>, which a JSON value can only make a non-function: then
  no primitive can be produced and the conversion throws. An array joins its
  elements with commas, null as the empty string.
\<close>

fun js_String :: "json \<Rightarrow> jstr res"
and js_Strings :: "json list \<Rightarrow> jstr list res"
where
  "js_String JNull = Inr (js ''null'')"
| "js_String (JBool b) = Inr (if b then js ''true'' else js ''false'')"
| "js_String (JNum m e) = Inr (num_str m e)"
| "js_String (JStr s) = Inr s"
| "js_String (JArr xs) = bind_res (js_Strings xs) (\<lambda>ss. Inr (js_join [44] ss))"
| "js_String (JObj kvs) =
     (if js ''toString'' \<in> fst ` set kvs then Inl TypeErr else Inr (js ''[object Object]''))"
| "js_Strings [] = Inr []"
| "js_Strings (x # xs) =
     bind_res (if x = JNull then Inr [] else js_String x)
       (\<lambda>s. bind_res (js_Strings xs) (\<lambda>ss. Inr (s # ss)))"

text \<open>\<^verbatim>\<open>String(v ?? "")\<close>\<close>

definition string_or_empty :: "json option \<Rightarrow> jstr res" where
  "string_or_empty v = js_String (nullish v (JStr []))"

lemma string_or_empty_simps [simp]:
  "string_or_empty None = Inr []"
  "string_or_empty (Some JNull) = Inr []"
  "string_or_empty (Some (JStr s)) = Inr s"
  by (simp_all add: string_or_empty_def nullish_def)

text \<open>\<^verbatim>\<open>Object.entries(v)\<close> of an object or an array.\<close>

definition obj_entries :: "json \<Rightarrow> (jstr \<times> json) list" where
  "obj_entries v = (case v of
     JObj kvs \<Rightarrow> kvs
   | JArr xs \<Rightarrow> zip (map nat_str [0..<length xs]) xs
   | _ \<Rightarrow> [])"

text \<open>
  \<^verbatim>\<open>obj[key] = value\<close> on an ordinary object: the key \<^verbatim>\<open>__proto__\<close> reaches the
  setter of Object.prototype and creates no own property.
\<close>

definition obj_assign :: "(jstr \<times> json) list \<Rightarrow> jstr \<Rightarrow> json \<Rightarrow> (jstr \<times> json) list" where
  "obj_assign kvs key v = (if key = js ''__proto__'' then kvs else obj_put kvs key v)"

lemma map_of_replace:
  "k \<in> fst ` set kvs \<Longrightarrow>
   map_of (map (\<lambda>(k', v'). if k' = k then (k, v) else (k', v')) kvs) = (map_of kvs)(k \<mapsto> v)"
proof -
  have "map_of (map (\<lambda>(k', v'). if k' = k then (k, v) else (k', v')) kvs) x =
      (if x = k then if map_of kvs k = None then None else Some v else map_of kvs x)" for x
    by (cases "x = k"; induction kvs) (simp_all split: prod.split)
  moreover assume "k \<in> fst ` set kvs"
  then have "map_of kvs k \<noteq> None" by (simp add: map_of_eq_None_iff)
  ultimately show ?thesis by (simp add: fun_eq_iff)
qed

lemma map_of_insert_fresh:
  "k \<notin> fst ` set (xs @ ys) \<Longrightarrow> map_of (xs @ (k, v) # ys) = (map_of (xs @ ys))(k \<mapsto> v)"
  by (induction xs) (auto simp: fun_upd_twist)

lemma map_of_obj_put: "map_of (obj_put kvs k v) = (map_of kvs)(k \<mapsto> v)"
proof (cases "k \<in> fst ` set kvs")
  case True
  then show ?thesis by (simp add: obj_put_def map_of_replace)
next
  case False
  have "map_of (takeWhile p kvs @ (k, v) # dropWhile p kvs) = (map_of kvs)(k \<mapsto> v)" for p
    using False map_of_insert_fresh [of k "takeWhile p kvs" "dropWhile p kvs" v]
    by (metis takeWhile_dropWhile_id)
  moreover have "map_of (kvs @ [(k, v)]) = (map_of kvs)(k \<mapsto> v)"
    using False map_of_insert_fresh [of k kvs "[]" v] by simp
  ultimately show ?thesis
    using False by (auto simp: obj_put_def split: option.split)
qed

lemma map_of_obj_assign:
  "map_of (obj_assign kvs k v) x =
     (if x = k \<and> k \<noteq> js ''__proto__'' then Some v else map_of kvs x)"
  by (simp add: obj_assign_def map_of_obj_put)

end
