(* ===== verification/Page.thy ===== *)
theory Page
  imports JsValue
begin

text \<open>
  The frame every React component of web/src is modelled in. A component's
  state is a record that extends \<open>base\<close>: its hooks and refs, the asynchronous
  calls it has under way (each with the closure its continuation captured) and
  the effects it has had on the outside (toasts, navigation, downloads, the
  clipboard). A handler is a function on that record; its part after an
  \<^verbatim>\<open>await\<close> is a second function, run when the call settles. The step relation of
  a component interleaves user events with the settling of its calls in any
  order. The locale \<open>invariant_system\<close> is what all components share: an
  invariant kept by every step holds in every reachable state.
\<close>

datatype blob = BlobText jstr | BlobZip "(jstr \<times> jstr) list"

datatype effect =
    ToastSuccess jstr
  | ToastError jstr
  | ToastWarning jstr
  | Navigate jstr bool
  | Download blob jstr
  | WriteClipboard jstr
  | ExecCopy jstr

record 'c base =
  pend :: "'c list"
  log :: "effect list"

definition emit :: "effect \<Rightarrow> ('c, 'a) base_scheme \<Rightarrow> ('c, 'a) base_scheme" where
  "emit e s = s\<lparr>log := log s @ [e]\<rparr>"

definition call :: "'c \<Rightarrow> ('c, 'a) base_scheme \<Rightarrow> ('c, 'a) base_scheme" where
  "call c s = s\<lparr>pend := pend s @ [c]\<rparr>"

definition settled :: "'c \<Rightarrow> ('c, 'a) base_scheme \<Rightarrow> ('c, 'a) base_scheme" where
  "settled c s = s\<lparr>pend := remove1 c (pend s)\<rparr>"

lemma base_frame [simp]:
  "pend (emit e s) = pend s" "log (emit e s) = log s @ [e]"
  "pend (call c s) = pend s @ [c]" "log (call c s) = log s"
  "pend (settled c s) = remove1 c (pend s)" "log (settled c s) = log s"
  by (simp_all add: emit_def call_def settled_def)

lemma base_more [simp]:
  "base.more (emit e s) = base.more s" "base.more (call c s) = base.more s"
  "base.more (settled c s) = base.more s"
  by (simp_all add: emit_def call_def settled_def)

lemmas base_ops = emit_def call_def settled_def

text \<open>Reachability under a step relation, and invariants.\<close>

locale invariant_system =
  fixes init :: "'s \<Rightarrow> bool" and step :: "'s \<Rightarrow> 's \<Rightarrow> bool" and inv :: "'s \<Rightarrow> bool"
  assumes inv_init: "init s \<Longrightarrow> inv s"
    and inv_step: "inv s \<Longrightarrow> step s t \<Longrightarrow> inv t"
begin

lemma inv_steps: "step\<^sup>*\<^sup>* s t \<Longrightarrow> inv s \<Longrightarrow> inv t"
  by (induction rule: rtranclp_induct) (auto intro: inv_step)

lemma reachable_inv: "init s \<Longrightarrow> step\<^sup>*\<^sup>* s t \<Longrightarrow> inv t"
  by (blast intro: inv_steps inv_init)

end

text \<open>A system whose log only grows.\<close>

locale logged_system =
  fixes step :: "('c, 'a) base_scheme \<Rightarrow> ('c, 'a) base_scheme \<Rightarrow> bool"
  assumes log_grows: "step s t \<Longrightarrow> \<exists>es. log t = log s @ es"
begin

lemma log_prefix: "step\<^sup>*\<^sup>* s t \<Longrightarrow> \<exists>es. log t = log s @ es"
  by (induction rule: rtranclp_induct) (auto dest!: log_grows)

lemma effect_kept: "step\<^sup>*\<^sup>* s t \<Longrightarrow> e \<in> set (log s) \<Longrightarrow> e \<in> set (log t)"
  by (auto dest!: log_prefix)

end

section \<open>Copying text: lib/clipboard.ts\<close>

text \<open>
  \<^verbatim>\<open>copyText\<close>. \<open>has_api\<close> is \<^verbatim>\<open>navigator.clipboard && window.isSecureContext !== false\<close>,
  \<open>works\<close> says that the chosen primitive (writeText, or the textarea fallback)
  does not throw.
\<close>

definition copyText :: "bool \<Rightarrow> bool \<Rightarrow> jstr \<Rightarrow> jstr option \<Rightarrow> effect list" where
  "copyText has_api works txt tip =
     (if works
      then [if has_api then WriteClipboard txt else ExecCopy txt,
            ToastSuccess (case tip of None \<Rightarrow> msg_clip_copied | Some t \<Rightarrow> t)]
      else [ToastError msg_clip_failed])"

lemma copyText_one_toast:
  "length (filter (\<lambda>e. case e of ToastSuccess _ \<Rightarrow> True | ToastError _ \<Rightarrow> True | _ \<Rightarrow> False)
     (copyText h w t tip)) = 1"
  by (simp add: copyText_def)

end
