(* ===== verification/Api.thy ===== *)
theory Api
  imports Page
begin

text \<open>
  The HTTP client web/src/lib/api.ts: URL encoding, the CSRF token read from
  the cookie, the request that reaches \<^verbatim>\<open>fetch\<close>, the treatment of its answer,
  and one definition per endpoint of the \<^verbatim>\<open>api\<close> object. \<^verbatim>\<open>fetch\<close> itself is the
  environment: its outcome is an argument of \<open>request_result\<close>.
\<close>

section \<open>URI coding of the language\<close>

fun utf8_encode :: "nat \<Rightarrow> nat list" where
  "utf8_encode p =
     (if p < 128 then [p]
      else if p < 2048 then [192 + p div 64, 128 + p mod 64]
      else if p < 65536 then [224 + p div 4096, 128 + p div 64 mod 64, 128 + p mod 64]
      else [240 + p div 262144, 128 + p div 4096 mod 64, 128 + p div 64 mod 64, 128 + p mod 64])"

definition hex_upper :: "nat \<Rightarrow> cu" where
  "hex_upper d = (if d < 10 then 48 + of_nat d else 55 + of_nat d)"

definition pct :: "nat \<Rightarrow> jstr" where
  "pct b = [37, hex_upper (b div 16), hex_upper (b mod 16)]"

definition uri_unreserved :: "nat \<Rightarrow> bool" where
  "uri_unreserved p \<longleftrightarrow>
     p < 128 \<and> (is_alnum (of_nat p) \<or> p \<in> {45, 95, 46, 33, 126, 42, 39, 40, 41})"

definition is_surrogate_point :: "nat \<Rightarrow> bool" where
  "is_surrogate_point p \<longleftrightarrow> 55296 \<le> p \<and> p \<le> 57343"

definition encode_point :: "nat \<Rightarrow> jstr" where
  "encode_point p = (if uri_unreserved p then [of_nat p] else concat (map pct (utf8_encode p)))"

definition encodeURIComponent :: "jstr \<Rightarrow> jstr res" where
  "encodeURIComponent s =
     (if list_ex is_surrogate_point (code_points s) then Inl URIErr
      else Inr (concat (map encode_point (code_points s))))"

text \<open>The application/x-www-form-urlencoded serializer of URLSearchParams.\<close>

definition form_point :: "nat \<Rightarrow> jstr" where
  "form_point p =
     (if p = 32 then [43]
      else if p < 128 \<and> (is_alnum (of_nat p) \<or> p \<in> {42, 45, 46, 95}) then [of_nat p]
      else concat (map pct (utf8_encode (if is_surrogate_point p then 65533 else p))))"

definition form_encode :: "jstr \<Rightarrow> jstr" where
  "form_encode s = concat (map form_point (code_points s))"

definition search_params :: "(jstr \<times> jstr) list \<Rightarrow> jstr" where
  "search_params kvs = js_join [38] (map (\<lambda>(k, v). form_encode k @ 61 # form_encode v) kvs)"

text \<open>\<^verbatim>\<open>decodeURIComponent\<close>: escapes to bytes, then strict UTF-8.\<close>

fun uri_tokens :: "jstr \<Rightarrow> (cu + nat) list res" where
  "uri_tokens [] = Inr []"
| "uri_tokens (c # s) =
     (if c \<noteq> 37 then bind_res (uri_tokens s) (\<lambda>ts. Inr (Inl c # ts))
      else case s of
             h1 # h2 # t \<Rightarrow>
               (case (hex_val h1, hex_val h2) of
                  (Some a, Some b) \<Rightarrow> bind_res (uri_tokens t) (\<lambda>ts. Inr (Inr (16 * a + b) # ts))
                | _ \<Rightarrow> Inl URIErr)
           | _ \<Rightarrow> Inl URIErr)"

definition utf16_encode :: "nat \<Rightarrow> jstr" where
  "utf16_encode p =
     (if p < 65536 then [of_nat p]
      else [of_nat (55296 + (p - 65536) div 1024), of_nat (56320 + (p - 65536) mod 1024)])"

definition is_cont :: "nat \<Rightarrow> bool" where
  "is_cont b \<longleftrightarrow> 128 \<le> b \<and> b < 192"

fun utf8_decode :: "(cu + nat) list \<Rightarrow> jstr res" where
  "utf8_decode [] = Inr []"
| "utf8_decode (Inl c # ts) = bind_res (utf8_decode ts) (\<lambda>s. Inr (c # s))"
| "utf8_decode (Inr a # ts) =
     (if a < 128 then bind_res (utf8_decode ts) (\<lambda>s. Inr (of_nat a # s))
      else if a < 194 then Inl URIErr
      else if a < 224
      then (case ts of
              Inr b # us \<Rightarrow>
                if is_cont b
                then bind_res (utf8_decode us) (\<lambda>s. Inr (of_nat ((a - 192) * 64 + (b - 128)) # s))
                else Inl URIErr
            | _ \<Rightarrow> Inl URIErr)
      else if a < 240
      then (case ts of
              Inr b # Inr c # us \<Rightarrow>
                let p = (a - 224) * 4096 + (b - 128) * 64 + (c - 128) in
                if is_cont b \<and> is_cont c \<and> 2048 \<le> p \<and> \<not> is_surrogate_point p
                then bind_res (utf8_decode us) (\<lambda>s. Inr (of_nat p # s))
                else Inl URIErr
            | _ \<Rightarrow> Inl URIErr)
      else if a < 245
      then (case ts of
              Inr b # Inr c # Inr d # us \<Rightarrow>
                let p = (a - 240) * 262144 + (b - 128) * 4096 + (c - 128) * 64 + (d - 128) in
                if is_cont b \<and> is_cont c \<and> is_cont d \<and> 65536 \<le> p \<and> p < 1114112
                then bind_res (utf8_decode us) (\<lambda>s. Inr (utf16_encode p @ s))
                else Inl URIErr
            | _ \<Rightarrow> Inl URIErr)
      else Inl URIErr)"

definition decodeURIComponent :: "jstr \<Rightarrow> jstr res" where
  "decodeURIComponent s = bind_res (uri_tokens s) utf8_decode"

section \<open>Requests\<close>

record js_file =
  file_name :: jstr
  file_type :: jstr
  file_size :: nat
  file_text :: jstr

datatype form_value = FormText jstr | FormFile js_file

datatype body = NoBody | TextBody jstr | FormBody "(jstr \<times> form_value) list"

record request_init =
  ri_method :: "jstr option"
  ri_body :: body
  ri_headers :: "(jstr \<times> jstr) list"

record http_request =
  hr_url :: jstr
  hr_method :: jstr
  hr_headers :: "(jstr \<times> jstr) list"
  hr_body :: body
  hr_credentials :: jstr

text \<open>\<^verbatim>\<open>/(?:^|; )csrf_token=([^;]+)/\<close>\<close>

definition csrf_prefix_re :: regex where
  "csrf_prefix_re = RSeq (RAlt RBegin (RLit (js ''; ''))) (RLit (js ''csrf_token=''))"

definition csrf_value_re :: regex where
  "csrf_value_re = RPlus (RSet True [CRange 59 59])"

definition csrf_match :: "jstr \<Rightarrow> jstr option" where
  "csrf_match cookie = regex_group csrf_prefix_re csrf_value_re cookie"

definition getCSRFToken :: "jstr \<Rightarrow> jstr option res" where
  "getCSRFToken cookie =
     (case csrf_match cookie of
        None \<Rightarrow> Inr None
      | Some m \<Rightarrow> bind_res (decodeURIComponent m) (\<lambda>t. Inr (Some t)))"

definition isMutatingMethod :: "jstr option \<Rightarrow> bool" where
  "isMutatingMethod m \<longleftrightarrow>
     m = Some (js ''POST'') \<or> m = Some (js ''PUT'') \<or> m = Some (js ''PATCH'') \<or> m = Some (js ''DELETE'')"

definition set_header :: "(jstr \<times> jstr) list \<Rightarrow> jstr \<Rightarrow> jstr \<Rightarrow> (jstr \<times> jstr) list" where
  "set_header hs k v =
     (if k \<in> fst ` set hs then map (\<lambda>(k', v'). if k' = k then (k, v) else (k', v')) hs
      else hs @ [(k, v)])"

definition has_text_body :: "request_init option \<Rightarrow> bool" where
  "has_text_body init = (case init of
     None \<Rightarrow> False
   | Some i \<Rightarrow> (case ri_body i of TextBody t \<Rightarrow> t \<noteq> [] | _ \<Rightarrow> False))"

definition content_header :: "request_init option \<Rightarrow> (jstr \<times> jstr) list" where
  "content_header init =
     (if has_text_body init then [(js ''Content-Type'', js ''application/json'')] else [])"

text \<open>The first half of \<^verbatim>\<open>request\<close>: the arguments of \<^verbatim>\<open>fetch\<close>.\<close>

definition build_request :: "jstr \<Rightarrow> jstr \<Rightarrow> request_init option \<Rightarrow> http_request res" where
  "build_request cookie url init =
     bind_res
       (if isMutatingMethod (Option.bind init ri_method)
        then bind_res (getCSRFToken cookie)
               (\<lambda>tok. Inr (case tok of
                  Some t \<Rightarrow> (if t = [] then content_header init
                             else set_header (content_header init) (js ''X-CSRF-Token'') t)
                | None \<Rightarrow> content_header init))
        else Inr (content_header init))
       (\<lambda>hs. Inr
          \<lparr>hr_url = url,
           hr_method = (case Option.bind init ri_method of None \<Rightarrow> js ''GET'' | Some m \<Rightarrow> m),
           hr_headers = (case init of None \<Rightarrow> hs
                         | Some i \<Rightarrow> foldl (\<lambda>h (k, v). set_header h k v) hs (ri_headers i)),
           hr_body = (case init of None \<Rightarrow> NoBody | Some i \<Rightarrow> ri_body i),
           hr_credentials = js ''same-origin''\<rparr>)"

datatype fetch_outcome = FetchFails | Response int jstr

definition resp_ok :: "int \<Rightarrow> bool" where
  "resp_ok st \<longleftrightarrow> 200 \<le> st \<and> st \<le> 299"

text \<open>\<^verbatim>\<open>throw new ApiError(data.message || ..., resp.status, data.errors)\<close>\<close>

definition throw_api :: "json \<Rightarrow> int \<Rightarrow> 'a res" where
  "throw_api data st =
     bind_res (get_prop (Some data) (js ''message''))
       (\<lambda>m. bind_res
          (if truthy m then js_String (the m)
           else Inr (msg_api_failed_pre @ int_str st @ msg_api_failed_post))
          (\<lambda>msg. bind_res (get_prop (Some data) (js ''errors''))
             (\<lambda>errs. Inl (ApiErr msg st errs))))"

text \<open>The second half of \<^verbatim>\<open>request\<close>.\<close>

definition request_result :: "fetch_outcome \<Rightarrow> json res" where
  "request_result r = (case r of
     FetchFails \<Rightarrow> Inl TypeErr
   | Response st txt \<Rightarrow>
       (let data = (case JSON_parse txt of
                      Some v \<Rightarrow> v
                    | None \<Rightarrow> JObj [(js ''ok'', JBool False), (js ''message'', JStr msg_api_bad_response)])
        in if \<not> resp_ok st then throw_api data st else Inr data))"

definition download_result :: "fetch_outcome \<Rightarrow> blob res" where
  "download_result r = (case r of
     FetchFails \<Rightarrow> Inl TypeErr
   | Response st txt \<Rightarrow>
       if \<not> resp_ok st
       then throw_api (case JSON_parse txt of
                         Some v \<Rightarrow> v
                       | None \<Rightarrow> JObj [(js ''message'', JStr msg_api_bad_response)]) st
       else Inr (BlobText txt))"

section \<open>Endpoints\<close>

type_synonym endpoint = "jstr \<times> request_init option"

definition init_of :: "string \<Rightarrow> body \<Rightarrow> request_init option" where
  "init_of m b = Some \<lparr>ri_method = Some (js m), ri_body = b, ri_headers = []\<rparr>"

definition json_obj :: "(string \<times> json) list \<Rightarrow> json" where
  "json_obj kvs = JObj (map (\<lambda>(k, v). (js k, v)) kvs)"

definition jint :: "int \<Rightarrow> json" where
  "jint i = (let (m, e) = norm_num (nat \<bar>i\<bar>) 0 in JNum (if i < 0 then - int m else int m) e)"

definition post :: "jstr \<Rightarrow> json option \<Rightarrow> endpoint" where
  "post url b =
     (url, init_of ''POST'' (case b of None \<Rightarrow> NoBody | Some v \<Rightarrow> TextBody (stringify v)))"

definition api_siteSettings :: endpoint where
  "api_siteSettings = (js ''/api/site-settings'', None)"

definition api_updateSiteSettings :: "jstr \<Rightarrow> js_file option \<Rightarrow> bool \<Rightarrow> endpoint" where
  "api_updateSiteSettings site_title logo remove_logo =
     (js ''/api/admin/site-settings'',
      init_of ''POST'' (FormBody
        ([(js ''site_title'', FormText site_title)]
         @ (case logo of None \<Rightarrow> [] | Some f \<Rightarrow> [(js ''logo'', FormFile f)])
         @ (if remove_logo then [(js ''remove_logo'', FormText (js ''true''))] else []))))"

definition api_redeem :: "jstr \<Rightarrow> jstr \<Rightarrow> endpoint" where
  "api_redeem user_id code =
     (js ''/api/redeem'',
      init_of ''POST'' (TextBody (stringify
        (json_obj [(''user_id'', JStr user_id), (''code'', JStr code)]))))"

definition api_redeemBatch :: "jstr \<Rightarrow> jstr list \<Rightarrow> endpoint" where
  "api_redeemBatch user_id codes =
     (js ''/api/redeem/batch'',
      init_of ''POST'' (TextBody (stringify
        (json_obj [(''user_id'', JStr user_id), (''codes'', JArr (map JStr codes))]))))"

definition api_publicFaq :: endpoint where
  "api_publicFaq = (js ''/api/faq'', None)"

definition api_faq :: endpoint where
  "api_faq = (js ''/api/admin/faq'', None)"

definition faq_body :: "jstr \<Rightarrow> jstr \<Rightarrow> json" where
  "faq_body title content = json_obj [(''title'', JStr title), (''content'', JStr content)]"

definition api_createFaq :: "jstr \<Rightarrow> jstr \<Rightarrow> endpoint" where
  "api_createFaq title content = post (js ''/api/admin/faq'') (Some (faq_body title content))"

definition api_updateFaq :: "int \<Rightarrow> jstr \<Rightarrow> jstr \<Rightarrow> endpoint" where
  "api_updateFaq ident title content =
     (js ''/api/admin/faq/'' @ int_str ident,
      init_of ''PUT'' (TextBody (stringify (faq_body title content))))"

definition api_deleteFaq :: "int \<Rightarrow> endpoint" where
  "api_deleteFaq ident = (js ''/api/admin/faq/'' @ int_str ident, init_of ''DELETE'' NoBody)"

definition api_reorderFaq :: "int list \<Rightarrow> endpoint" where
  "api_reorderFaq ids =
     post (js ''/api/admin/faq/reorder'') (Some (json_obj [(''ids'', JArr (map jint ids))]))"

definition api_login :: "jstr \<Rightarrow> jstr \<Rightarrow> endpoint" where
  "api_login username password =
     post (js ''/api/admin/login'')
       (Some (json_obj [(''username'', JStr username), (''password'', JStr password)]))"

definition api_logout :: endpoint where
  "api_logout = post (js ''/api/admin/logout'') None"

definition api_me :: endpoint where
  "api_me = (js ''/api/admin/me'', None)"

definition api_stats :: endpoint where
  "api_stats = (js ''/api/admin/stats'', None)"

definition api_batches :: endpoint where
  "api_batches = (js ''/api/admin/batches'', None)"

definition api_createBatch :: "json \<Rightarrow> endpoint" where
  "api_createBatch input = post (js ''/api/admin/batches'') (Some input)"

definition api_batch :: "jstr \<Rightarrow> endpoint" where
  "api_batch ident = (js ''/api/admin/batches/'' @ ident, None)"

definition api_batchCodes :: "jstr \<Rightarrow> jstr \<Rightarrow> int \<Rightarrow> endpoint res" where
  "api_batchCodes ident state page =
     bind_res (encodeURIComponent state)
       (\<lambda>st. Inr (js ''/api/admin/batches/'' @ ident @ js ''/codes?state='' @ st
                  @ js ''&page='' @ int_str page, None))"

definition api_toggleBatch :: "int \<Rightarrow> endpoint" where
  "api_toggleBatch ident = post (js ''/api/admin/batches/'' @ int_str ident @ js ''/toggle'') None"

definition api_toggleCode :: "int \<Rightarrow> endpoint" where
  "api_toggleCode ident = post (js ''/api/admin/codes/'' @ int_str ident @ js ''/toggle'') None"

definition api_exportUrl :: "int \<Rightarrow> string \<Rightarrow> jstr" where
  "api_exportUrl ident fmt = js ''/api/admin/batches/'' @ int_str ident @ js ''/export?fmt='' @ js fmt"

record LogsParams =
  lp_batch_id :: "int option"
  lp_result :: "jstr option"
  lp_webhook :: "jstr option"
  lp_user_id :: "jstr option"
  lp_page :: "int option"

definition opt_param :: "string \<Rightarrow> jstr option \<Rightarrow> (jstr \<times> jstr) list" where
  "opt_param k v = (case v of None \<Rightarrow> [] | Some s \<Rightarrow> if s = [] then [] else [(js k, s)])"

definition opt_int_param :: "string \<Rightarrow> int option \<Rightarrow> (jstr \<times> jstr) list" where
  "opt_int_param k v = (case v of None \<Rightarrow> [] | Some i \<Rightarrow> if i = 0 then [] else [(js k, int_str i)])"

definition logs_query :: "LogsParams \<Rightarrow> (jstr \<times> jstr) list" where
  "logs_query p =
     opt_int_param ''batch_id'' (lp_batch_id p) @ opt_param ''result'' (lp_result p)
     @ opt_param ''webhook'' (lp_webhook p) @ opt_param ''user_id'' (lp_user_id p)
     @ opt_int_param ''page'' (lp_page p)"

definition api_logs :: "LogsParams \<Rightarrow> endpoint" where
  "api_logs p = (js ''/api/admin/logs?'' @ search_params (logs_query p), None)"

definition api_resendWebhook :: "int \<Rightarrow> endpoint" where
  "api_resendWebhook ident = post (js ''/api/admin/logs/'' @ int_str ident @ js ''/resend'') None"

definition api_credentials :: "string \<Rightarrow> int \<Rightarrow> int \<Rightarrow> endpoint" where
  "api_credentials state page pageSize =
     (js ''/api/admin/credentials?'' @ search_params
        [(js ''state'', js state), (js ''page'', int_str page), (js ''page_size'', int_str pageSize)],
      None)"

definition api_credential :: "int \<Rightarrow> endpoint" where
  "api_credential ident = (js ''/api/admin/credentials/'' @ int_str ident, None)"

definition api_downloadCredential :: "int \<Rightarrow> jstr" where
  "api_downloadCredential ident = js ''/api/admin/credentials/'' @ int_str ident @ js ''/download''"

definition api_credentialStats :: endpoint where
  "api_credentialStats = (js ''/api/admin/credentials/stats'', None)"

definition api_credentialPlans :: endpoint where
  "api_credentialPlans = (js ''/api/admin/credentials/plans'', None)"

definition api_uploadCredentials :: "js_file \<Rightarrow> jstr \<Rightarrow> endpoint" where
  "api_uploadCredentials f planType =
     (js ''/api/admin/credentials/upload'',
      init_of ''POST'' (FormBody [(js ''file'', FormFile f), (js ''plan_type'', FormText planType)]))"

definition api_deleteCredential :: "int \<Rightarrow> endpoint" where
  "api_deleteCredential ident = (js ''/api/admin/credentials/'' @ int_str ident, init_of ''DELETE'' NoBody)"

definition api_batchDeleteCredentials :: "int list \<Rightarrow> endpoint" where
  "api_batchDeleteCredentials ids =
     post (js ''/api/admin/credentials/batch-delete'')
       (Some (json_obj [(''ids'', JArr (map jint ids))]))"

end
