(* ===== verification/Types.thy ===== *)
theory Types
  imports Api
begin

text \<open>
  The data of web/src/lib/types.ts: one record per interface of the JSON API, in
  the order of the file. A field keeps its name behind a short prefix. Optional
  and nullable fields are options, literal unions are datatypes where the code
  branches on them. A redemption (\<^verbatim>\<open>RedeemSuccess\<close>) is kept as the JSON object
  the server sent, because the code stores it, prints it and validates it as
  such; the same holds for a batch's payload. The records of the API's own
  parameter types (\<^verbatim>\<open>SiteSettings\<close> in lib/api.ts) follow.
\<close>

datatype batch_status = BatchActive | BatchDisabled

record Batch =
  b_id :: int
  b_name :: jstr
  b_description :: jstr
  b_payload_json :: json
  b_prefix :: jstr
  b_code_length :: int
  b_expires_at :: "jstr option"
  b_max_uses_per_code :: int
  b_max_redeems_per_user :: int
  b_assign_credential :: bool
  b_credential_plan_type :: jstr
  b_webhook_url :: jstr
  b_webhook_secret :: jstr
  b_status :: batch_status
  b_created_at :: jstr
  b_code_count :: "int option"
  b_used_count :: "int option"

record BatchInput =
  bi_name :: jstr
  bi_description :: jstr
  bi_payload_json :: jstr
  bi_count :: json
  bi_prefix :: jstr
  bi_code_length :: json
  bi_expires_at :: jstr
  bi_max_uses_per_code :: json
  bi_max_redeems_per_user :: json
  bi_assign_credential :: bool
  bi_credential_plan_type :: jstr
  bi_webhook_url :: jstr
  bi_webhook_secret :: jstr

record BatchCounts =
  bc_total :: int
  bc_disabled :: "int option"
  bc_usedup :: "int option"
  bc_total_uses :: int

datatype code_status = CodeUnused | CodeDisabled

record CodeItem =
  ci_id :: int
  ci_code :: jstr
  ci_display :: jstr
  ci_status :: code_status
  ci_use_count :: int
  ci_created_at :: jstr

record LogItem =
  li_id :: int
  li_created_at :: jstr
  li_batch_name :: "jstr option"
  li_code :: jstr
  li_user_id :: jstr
  li_result :: jstr
  li_message :: jstr
  li_webhook_status :: jstr
  li_webhook_response :: jstr
  li_ip :: jstr

record Stats =
  st_codes_total :: int
  st_codes_used :: int
  st_batches :: int
  st_redeem_total :: int
  st_today :: int
  st_webhook_failed :: int

record DailyPoint =
  dp_date :: jstr
  dp_count :: int

record RecentItem =
  rc_id :: int
  rc_created_at :: jstr
  rc_batch_name :: "jstr option"
  rc_code :: jstr
  rc_user_id :: jstr
  rc_result :: jstr
  rc_message :: jstr
  rc_webhook_status :: jstr

record Credential =
  cr_id :: int
  cr_email :: jstr
  cr_plan_type :: jstr
  cr_expired :: "jstr option"
  cr_used :: bool
  cr_redemption_id :: "int option"
  cr_created_at :: jstr
  cr_updated_at :: jstr

record CredentialPlan =
  cp_plan_type :: jstr
  cp_total :: int
  cp_available :: int
  cp_used :: int
  cp_expired :: int

record RedeemBatchItem =
  ri_code :: jstr
  ri_ok :: bool
  ri_result :: jstr
  ri_message :: jstr
  ri_redemption :: "json option"

record RedeemBatchResponse =
  rb_ok :: bool
  rb_total :: int
  rb_succeeded :: int
  rb_failed :: int
  rb_results :: "RedeemBatchItem list"

record FaqItem =
  fq_id :: int
  fq_sort_order :: int
  fq_title :: jstr
  fq_content :: jstr
  fq_created_at :: jstr

record Paged =
  pg_total :: int
  pg_page :: int
  pg_pages :: int

record SiteSettings =
  ss_site_title :: jstr
  ss_has_logo :: bool
  ss_logo_url :: jstr
  ss_updated_at :: jstr

end
