(* ===== verification/EntryNames.thy ===== *)
theory EntryNames
  imports Types
begin

text \<open>
  Entry names of the archives the program builds. Both archive writers number
  their entries (\<^verbatim>\<open>String(i + 1).padStart(4, "0")\<close> and an underscore) and clean the
  rest of the name with a character class. JSZip replaces an entry that is added
  twice and opens a folder at a slash, so what matters is that the names of one
  archive differ and have no slash. The locale \<open>numbered_names\<close> states what a
  name scheme promises; its lemmas are used for every archive.
\<close>

definition entry_number :: "nat \<Rightarrow> jstr" where
  "entry_number i = js_padStart 4 48 (nat_str (i + 1))"

lemma digits_val_entry_number: "digits_val (entry_number i) = i + 1"
  by (simp add: entry_number_def js_padStart_def digits_val_append)

lemma entry_number_digits: "c \<in> set (entry_number i) \<Longrightarrow> is_digit c"
proof -
  have "is_digit 48" by (simp add: is_digit_def)
  then show "c \<in> set (entry_number i) \<Longrightarrow> is_digit c"
    by (auto simp: entry_number_def js_padStart_def nat_str_digits)
qed

lemma is_digit_not_underscore: "is_digit c \<Longrightarrow> c \<noteq> 95"
  by (auto simp: is_digit_def word_le_nat_alt)

definition entry_safe :: "cu \<Rightarrow> bool" where
  "entry_safe c \<longleftrightarrow> is_alnum c \<or> c \<in> {64, 46, 95, 45}"

lemma entry_safe_no_slash: "entry_safe c \<Longrightarrow> c \<noteq> 47 \<and> c \<noteq> 92"
  by (auto simp: entry_safe_def char_defs word_le_nat_alt)

lemma entry_number_safe: "list_all entry_safe (entry_number i)"
  by (auto simp: list_all_iff entry_safe_def is_alnum_def dest: entry_number_digits)

lemma replaceAll_safe:
  "list_all q r \<Longrightarrow> (\<And>c. \<not> p c \<Longrightarrow> q c) \<Longrightarrow> list_all q (js_replaceAll p r s)"
  by (induction s) (auto simp: js_replaceAll_def)

lemma replaceAll_none: "list_all (\<lambda>c. \<not> p c) s \<Longrightarrow> js_replaceAll p r s = s"
  by (induction s) (auto simp: js_replaceAll_def)

locale numbered_names =
  fixes name :: "nat \<Rightarrow> 'a \<Rightarrow> jstr"
  assumes numbered: "\<exists>rest. name i x = entry_number i @ 95 # rest"
    and safe: "list_all entry_safe (name i x)"
begin

lemma name_index: "takeWhile (\<lambda>c. c \<noteq> 95) (name i x) = entry_number i"
proof -
  obtain rest where r: "name i x = entry_number i @ 95 # rest"
    using numbered by blast
  show ?thesis
    unfolding r
    by (intro takeWhile_append_stop)
       (auto simp: list_all_iff dest: entry_number_digits is_digit_not_underscore)
qed

lemma name_inj: "name i x = name j y \<Longrightarrow> i = j"
  by (metis name_index digits_val_entry_number add_right_cancel)

lemma distinct_names: "distinct (map (\<lambda>i. name i (xs i)) [0..<n])"
  unfolding distinct_map by (auto intro!: inj_onI dest: name_inj)

lemma no_slash: "47 \<notin> set (name i x) \<and> 92 \<notin> set (name i x)"
  using safe [of i x] entry_safe_no_slash by (auto simp: list_all_iff)

end

end
