(* ===== verification/Converter.thy ===== *)
theory Converter
  imports Types
begin

text \<open>
  The account converter web/src/lib/converter.ts: reading pasted text as a JSON
  array, a JSON object or JSONL, decoding the access token, and building the
  target documents and archives. \<^verbatim>\<open>new Date()\<close> is an argument (\<open>clock\<close>, one
  reading per call), \<^verbatim>\<open>new Date(s).getTime()\<close> the function \<open>date_parse\<close> (None for
  NaN) since the language leaves most date formats to the engine. JSZip is not
  part of the repository: \<open>BlobZip\<close> is the sequence of files handed to it.
\<close>

section \<open>Time stamps\<close>

record ltime =
  lt_year :: nat
  lt_month :: nat
  lt_date :: nat
  lt_hours :: nat
  lt_minutes :: nat
  lt_seconds :: nat

record clock =
  ck_local :: ltime
  ck_utc :: ltime
  ck_ms :: nat

definition pad :: "nat \<Rightarrow> jstr" where
  "pad n = js_padStart 2 48 (nat_str n)"

definition filenameTimestamp :: "ltime \<Rightarrow> jstr" where
  "filenameTimestamp now =
     nat_str (lt_year now) @ pad (lt_month now + 1) @ pad (lt_date now) @ js ''_''
     @ pad (lt_hours now) @ pad (lt_minutes now) @ pad (lt_seconds now)"

text \<open>\<^verbatim>\<open>toISOString\<close> for the years 0 to 9999.\<close>

definition toISOString :: "clock \<Rightarrow> jstr" where
  "toISOString c = (let u = ck_utc c in
     js_padStart 4 48 (nat_str (lt_year u)) @ js ''-'' @ pad (lt_month u + 1) @ js ''-'' @ pad (lt_date u)
     @ js ''T'' @ pad (lt_hours u) @ js '':'' @ pad (lt_minutes u) @ js '':'' @ pad (lt_seconds u)
     @ js ''.'' @ js_padStart 3 48 (nat_str (ck_ms c)) @ js ''Z'')"

section \<open>Reading the input\<close>

definition MAX_INPUT_SIZE :: nat where
  "MAX_INPUT_SIZE = 10 * 1024 * 1024"

datatype DetectedFormat = FmtArray | FmtJSONL | FmtObject

definition format_name :: "DetectedFormat \<Rightarrow> jstr" where
  "format_name f = (case f of
     FmtArray \<Rightarrow> msg_fmt_array | FmtJSONL \<Rightarrow> msg_fmt_jsonl | FmtObject \<Rightarrow> msg_fmt_object)"

record ParsedInput =
  pi_accounts :: "json list"
  pi_format :: DetectedFormat

text \<open>\<^verbatim>\<open>/\r?\n/\<close>\<close>

definition newline_re :: regex where
  "newline_re = RSeq (ROpt (RChr 13)) (RChr 10)"

text \<open>The loop over the lines; \<open>i\<close> is the line index.\<close>

fun parse_lines :: "nat \<Rightarrow> jstr list \<Rightarrow> json list res" where
  "parse_lines i [] = Inr []"
| "parse_lines i (l # ls) =
     (let line = js_trim l in
      if line = [] then parse_lines (i + 1) ls
      else case JSON_parse line of
             None \<Rightarrow> Inl (ErrorMsg (msg_conv_line_pre @ nat_str (i + 1) @ msg_conv_line_json))
           | Some v \<Rightarrow>
               if \<not> is_object v
               then Inl (ErrorMsg (msg_conv_line_pre @ nat_str (i + 1) @ msg_conv_line_object))
               else bind_res (parse_lines (i + 1) ls) (\<lambda>vs. Inr (v # vs)))"

definition detectAndParse :: "jstr \<Rightarrow> ParsedInput res" where
  "detectAndParse shape =
     (let trimmed = js_trim shape in
      if trimmed = [] then Inl (ErrorMsg msg_conv_empty)
      else if blob_size trimmed > MAX_INPUT_SIZE then Inl (ErrorMsg msg_conv_too_large)
      else case JSON_parse trimmed of
             Some (JArr xs) \<Rightarrow>
               if xs = [] then Inl (ErrorMsg msg_conv_empty_array)
               else if \<not> list_all is_object xs then Inl (ErrorMsg msg_conv_elem_object)
               else Inr \<lparr>pi_accounts = xs, pi_format = FmtArray\<rparr>
           | Some (JObj kvs) \<Rightarrow> Inr \<lparr>pi_accounts = [JObj kvs], pi_format = FmtObject\<rparr>
           | Some _ \<Rightarrow> Inl (ErrorMsg msg_conv_root)
           | None \<Rightarrow>
               bind_res (parse_lines 0 (regex_split False newline_re trimmed))
                 (\<lambda>accounts.
                    if accounts = [] then Inl (ErrorMsg msg_conv_none)
                    else Inr \<lparr>pi_accounts = accounts, pi_format = FmtJSONL\<rparr>))"

section \<open>The access token\<close>

text \<open>\<^verbatim>\<open>atob\<close>: forgiving base64; None is the exception it throws.\<close>

definition b64_val :: "cu \<Rightarrow> nat option" where
  "b64_val c =
     (if is_upper c then Some (unat c - 65)
      else if is_lower c then Some (unat c - 71)
      else if is_digit c then Some (unat c + 4)
      else if c = 43 then Some 62 else if c = 47 then Some 63 else None)"

fun b64_groups :: "nat list \<Rightarrow> jstr" where
  "b64_groups (a # b # c # d # r) =
     of_nat (a * 4 + b div 16) # of_nat (b mod 16 * 16 + c div 4) # of_nat (c mod 4 * 64 + d)
       # b64_groups r"
| "b64_groups [a, b, c] = [of_nat (a * 4 + b div 16), of_nat (b mod 16 * 16 + c div 4)]"
| "b64_groups [a, b] = [of_nat (a * 4 + b div 16)]"
| "b64_groups _ = []"

definition is_ascii_ws :: "cu \<Rightarrow> bool" where
  "is_ascii_ws c \<longleftrightarrow> c = 9 \<or> c = 10 \<or> c = 12 \<or> c = 13 \<or> c = 32"

definition strip_padding :: "jstr \<Rightarrow> jstr" where
  "strip_padding s =
     (if length s mod 4 \<noteq> 0 then s
      else if js_endsWith s [61, 61] then take (length s - 2) s
      else if js_endsWith s [61] then take (length s - 1) s else s)"

definition atob :: "jstr \<Rightarrow> jstr option" where
  "atob s =
     (let t = strip_padding (filter (\<lambda>c. \<not> is_ascii_ws c) s) in
      if length t mod 4 = 1 \<or> list_ex (\<lambda>c. b64_val c = None) t then None
      else Some (b64_groups (map (\<lambda>c. the (b64_val c)) t)))"

definition decodeJWT :: "jstr \<Rightarrow> json" where
  "decodeJWT token =
     (let parts = js_split1 46 token in
      if length parts \<noteq> 3 then JObj []
      else let p = parts ! 1;
               b64 = p @ replicate ((4 - length p mod 4) mod 4) 61
           in case atob (js_replaceAll (\<lambda>c. c = 95) [47] (js_replaceAll (\<lambda>c. c = 45) [43] b64)) of
                None \<Rightarrow> JObj []
              | Some s \<Rightarrow> (case JSON_parse s of None \<Rightarrow> JObj [] | Some v \<Rightarrow> v))"

definition parseExpired :: "(jstr \<Rightarrow> int option) \<Rightarrow> jstr \<Rightarrow> int option" where
  "parseExpired date_parse expired =
     (if expired = [] then None
      else case date_parse expired of None \<Rightarrow> None | Some t \<Rightarrow> Some (t div 1000))"

section \<open>Conversion\<close>

definition safeFilename :: "jstr \<Rightarrow> jstr" where
  "safeFilename name = js_replaceAll (\<lambda>c. \<not> (is_alnum c \<or> c \<in> {64, 46, 95, 45})) [95] name"

record ConvertSummary =
  cs_index :: nat
  cs_email :: "jstr option"
  cs_account_id :: "jstr option"

text \<open>\<^verbatim>\<open>typeof v === "string" ? v : undefined\<close>\<close>

definition str_opt :: "json option \<Rightarrow> jstr option" where
  "str_opt v = (case v of Some (JStr s) \<Rightarrow> Some s | _ \<Rightarrow> None)"

definition buildSummary :: "json list \<Rightarrow> ConvertSummary list" where
  "buildSummary accounts =
     map (\<lambda>(idx, acc). \<lparr>cs_index = idx + 1,
            cs_email = str_opt (obj_get acc (js ''email'')),
            cs_account_id = str_opt (obj_get acc (js ''account_id''))\<rparr>)
       (enumerate 0 accounts)"

record Sub2ApiAccount =
  sa_exported_at :: jstr
  sa_proxies :: "json list"
  sa_accounts :: "json list"

definition sub2api_json :: "Sub2ApiAccount \<Rightarrow> json" where
  "sub2api_json a =
     json_obj [(''exported_at'', JStr (sa_exported_at a)), (''proxies'', JArr (sa_proxies a)),
               (''accounts'', JArr (sa_accounts a))]"

definition is_token_key :: "jstr \<Rightarrow> bool" where
  "is_token_key k \<longleftrightarrow> k = js ''access_token'' \<or> k = js ''id_token'' \<or> k = js ''refresh_token''"

text \<open>The loop that copies the other properties into \<^verbatim>\<open>account.extra\<close>.\<close>

fun copy_extra :: "(jstr \<times> json) list \<Rightarrow> (jstr \<times> json) list \<Rightarrow> (jstr \<times> json) list" where
  "copy_extra extra [] = extra"
| "copy_extra extra ((key, v) # es) =
     copy_extra (if \<not> is_token_key key then obj_assign extra key v else extra) es"

definition account_name :: "jstr \<Rightarrow> nat \<Rightarrow> jstr" where
  "account_name email index =
     (if email \<noteq> [] then email else js ''account_'' @ js_padStart 4 48 (nat_str index))"

text \<open>\<^verbatim>\<open>String(v[key] ?? "")\<close>\<close>

definition prop_string :: "json \<Rightarrow> string \<Rightarrow> jstr res" where
  "prop_string v key = bind_res (get_prop (Some v) (js key)) string_or_empty"

record cpa_fields =
  f_email :: jstr
  f_access_token :: jstr
  f_account_id :: jstr
  f_plan_type :: jstr
  f_id_token :: jstr
  f_refresh_token :: jstr
  f_expired :: jstr

definition read_cpa :: "json \<Rightarrow> cpa_fields res" where
  "read_cpa cpa =
     bind_res (prop_string cpa ''email'') (\<lambda>email.
     bind_res (prop_string cpa ''access_token'') (\<lambda>accessToken.
     bind_res (prop_string cpa ''account_id'') (\<lambda>accountId.
     bind_res (prop_string cpa ''plan_type'') (\<lambda>planType.
     bind_res (prop_string cpa ''id_token'') (\<lambda>idToken.
     bind_res (prop_string cpa ''refresh_token'') (\<lambda>refreshToken.
     bind_res (prop_string cpa ''expired'') (\<lambda>expired.
       Inr \<lparr>f_email = email, f_access_token = accessToken, f_account_id = accountId,
            f_plan_type = planType, f_id_token = idToken, f_refresh_token = refreshToken,
            f_expired = expired\<rparr>)))))))"

record jwt_fields =
  j_user_id :: jstr
  j_client_id :: jstr
  j_email :: jstr
  j_plan_type :: jstr

text \<open>
  The claims read from the decoded token. The profile's e-mail and the plan are
  converted only when the account itself has none (\<^verbatim>\<open>email || String(...)\<close>).
\<close>

definition read_jwt :: "json \<Rightarrow> jstr \<Rightarrow> jstr \<Rightarrow> jwt_fields res" where
  "read_jwt jwt email planType =
     bind_res (get_prop (Some jwt) (js ''https://api.openai.com/auth'')) (\<lambda>auth.
     bind_res (get_prop (Some jwt) (js ''https://api.openai.com/profile'')) (\<lambda>profile.
       let openaiAuth = nullish auth (JObj []); openaiProfile = nullish profile (JObj []) in
       bind_res (prop_string openaiAuth ''chatgpt_user_id'') (\<lambda>userId.
       bind_res (prop_string jwt ''client_id'') (\<lambda>clientId.
       bind_res (if email \<noteq> [] then Inr email else prop_string openaiProfile ''email'') (\<lambda>em.
       bind_res (if planType \<noteq> [] then Inr planType else prop_string openaiAuth ''chatgpt_plan_type'')
         (\<lambda>plan.
         Inr \<lparr>j_user_id = userId, j_client_id = clientId, j_email = em, j_plan_type = plan\<rparr>))))))"

definition stamped_name :: "ltime \<Rightarrow> jstr \<Rightarrow> jstr" where
  "stamped_name now name =
     name @ js ''-'' @ pad (lt_month now + 1) @ js ''-'' @ pad (lt_date now) @ js ''-''
     @ pad (lt_hours now) @ js '':'' @ pad (lt_minutes now)"

definition credentials_json :: "(jstr \<Rightarrow> int option) \<Rightarrow> cpa_fields \<Rightarrow> jwt_fields \<Rightarrow> json" where
  "credentials_json date_parse f j =
     json_obj
       [(''access_token'', JStr (f_access_token f)),
        (''chatgpt_account_id'', JStr (f_account_id f)),
        (''chatgpt_user_id'', JStr (j_user_id j)),
        (''client_id'', JStr (j_client_id j)),
        (''email'', JStr (j_email j)),
        (''expires_at'', case parseExpired date_parse (f_expired f) of None \<Rightarrow> JNull | Some t \<Rightarrow> jint t),
        (''id_token'', JStr (f_id_token f)),
        (''organization_id'', JStr []),
        (''plan_type'', JStr (j_plan_type j)),
        (''refresh_token'', JStr (f_refresh_token f))]"

definition extra_json :: "jwt_fields \<Rightarrow> json \<Rightarrow> json" where
  "extra_json j cpa =
     JObj (copy_extra
       [(js ''email'', JStr (j_email j)), (js ''converted_from'', JStr (js ''cpa''))]
       (obj_entries cpa))"

definition account_json :: "(jstr \<Rightarrow> int option) \<Rightarrow> ltime \<Rightarrow> nat \<Rightarrow> cpa_fields \<Rightarrow> jwt_fields \<Rightarrow> json \<Rightarrow> json" where
  "account_json date_parse now index f j cpa =
     json_obj
       [(''name'', JStr (stamped_name now (account_name (f_email f) index))),
        (''platform'', JStr (js ''openai'')),
        (''type'', JStr (js ''oauth'')),
        (''credentials'', credentials_json date_parse f j),
        (''extra'', extra_json j cpa),
        (''concurrency'', jint 10),
        (''priority'', jint 1),
        (''rate_multiplier'', jint 1),
        (''auto_pause_on_expired'', JBool False)]"

definition convertOne :: "(jstr \<Rightarrow> int option) \<Rightarrow> ltime \<Rightarrow> json \<Rightarrow> jstr \<Rightarrow> nat \<Rightarrow> Sub2ApiAccount res" where
  "convertOne date_parse now cpa exportedAt index =
     bind_res (read_cpa cpa) (\<lambda>f.
     bind_res (read_jwt (if f_access_token f \<noteq> [] then decodeJWT (f_access_token f) else JObj [])
                 (f_email f) (f_plan_type f)) (\<lambda>j.
       Inr \<lparr>sa_exported_at = exportedAt, sa_proxies = [],
            sa_accounts = [account_json date_parse now index f j cpa]\<rparr>))"

fun map_res :: "('a \<Rightarrow> 'b res) \<Rightarrow> 'a list \<Rightarrow> 'b list res" where
  "map_res f [] = Inr []"
| "map_res f (x # xs) = bind_res (f x) (\<lambda>y. bind_res (map_res f xs) (\<lambda>ys. Inr (y # ys)))"

definition convertAll :: "(jstr \<Rightarrow> int option) \<Rightarrow> clock \<Rightarrow> json list \<Rightarrow> Sub2ApiAccount list res" where
  "convertAll date_parse c accounts =
     (let exportedAt = toISOString c in
      map_res (\<lambda>(idx, acc). convertOne date_parse (ck_local c) acc exportedAt (idx + 1))
        (enumerate 0 accounts))"

definition buildMerged :: "(jstr \<Rightarrow> int option) \<Rightarrow> clock \<Rightarrow> json list \<Rightarrow> Sub2ApiAccount res" where
  "buildMerged date_parse c accounts =
     bind_res (convertAll date_parse c accounts) (\<lambda>converted.
       Inr \<lparr>sa_exported_at = toISOString c, sa_proxies = [],
            sa_accounts = map (\<lambda>item. sa_accounts item ! 0) converted\<rparr>)"

section \<open>Archives\<close>

text \<open>The entry name of account \<open>i\<close> in the archive of single files.\<close>

definition single_entry :: "nat \<Rightarrow> json \<Rightarrow> jstr" where
  "single_entry i acc =
     (let email = (case str_opt (obj_get acc (js ''email'')) of None \<Rightarrow> [] | Some e \<Rightarrow> e);
          number = js_padStart 4 48 (nat_str (i + 1));
          identifier = (if email \<noteq> [] then safeFilename email else js ''account_'' @ number)
      in number @ js ''_'' @ identifier @ js ''.json'')"

definition createSingleZip :: "(jstr \<Rightarrow> int option) \<Rightarrow> clock \<Rightarrow> json list \<Rightarrow> (blob \<times> jstr) res" where
  "createSingleZip date_parse c accounts =
     bind_res (convertAll date_parse c accounts) (\<lambda>converted.
       Inr (BlobZip (map (\<lambda>i. (single_entry i (accounts ! i), stringify2 (sub2api_json (converted ! i))))
                       [0..<length converted]),
            js ''04-sub_'' @ nat_str (length converted) @ js ''_'' @ filenameTimestamp (ck_local c) @ js ''.zip''))"

definition merged_name :: "string \<Rightarrow> clock \<Rightarrow> json list \<Rightarrow> string \<Rightarrow> jstr" where
  "merged_name pre c accounts ext =
     js pre @ nat_str (length accounts) @ js ''_'' @ filenameTimestamp (ck_local c) @ js ext"

definition createMergedZip :: "(jstr \<Rightarrow> int option) \<Rightarrow> clock \<Rightarrow> json list \<Rightarrow> (blob \<times> jstr) res" where
  "createMergedZip date_parse c accounts =
     bind_res (buildMerged date_parse c accounts) (\<lambda>m.
       Inr (BlobZip [(merged_name ''sub2api_merged_'' c accounts ''.json'', stringify2 (sub2api_json m))],
            merged_name ''04-sub_merged_'' c accounts ''.zip''))"

definition createMergedJson :: "(jstr \<Rightarrow> int option) \<Rightarrow> clock \<Rightarrow> json list \<Rightarrow> (blob \<times> jstr) res" where
  "createMergedJson date_parse c accounts =
     bind_res (buildMerged date_parse c accounts) (\<lambda>m.
       Inr (BlobText (stringify2 (sub2api_json m)), merged_name ''sub2api_merged_'' c accounts ''.json''))"

end
