(* ===== verification/RedeemArchive.thy ===== *)
theory RedeemArchive
  imports EntryNames Converter
begin

text \<open>
  web/src/lib/redeem-archive.ts: the archive of the successful results of a
  batch redemption.
\<close>

definition safeFilename_archive :: "jstr \<Rightarrow> jstr" where
  "safeFilename_archive v =
     (let safe = js_replaceAll (\<lambda>c. \<not> (is_alnum c \<or> c \<in> {46, 95, 45})) [95] v
      in if safe \<noteq> [] then safe else js ''redeemed-item'')"

definition timestamp_archive :: "ltime \<Rightarrow> jstr" where
  "timestamp_archive now =
     nat_str (lt_year now) @ pad (lt_month now + 1) @ pad (lt_date now) @ js ''_''
     @ pad (lt_hours now) @ pad (lt_minutes now) @ pad (lt_seconds now)"

text \<open>\<^verbatim>\<open>results.filter((item) => item.ok && item.redemption)\<close>\<close>

definition successful_items :: "RedeemBatchItem list \<Rightarrow> RedeemBatchItem list" where
  "successful_items results = filter (\<lambda>item. ri_ok item \<and> truthy (ri_redemption item)) results"

text \<open>\<^verbatim>\<open>redemption.code || item.code\<close>; \<^verbatim>\<open>replace\<close> on anything but a string throws.\<close>

definition archive_code :: "RedeemBatchItem \<Rightarrow> json \<Rightarrow> jstr res" where
  "archive_code item redemption =
     bind_res (get_prop (Some redemption) (js ''code'')) (\<lambda>code.
       if truthy code then (case code of Some (JStr s) \<Rightarrow> Inr s | _ \<Rightarrow> Inl TypeErr)
       else Inr (ri_code item))"

definition archive_name :: "nat \<Rightarrow> bool \<times> jstr \<Rightarrow> jstr" where
  "archive_name index hc =
     (let number = js_padStart 4 48 (nat_str (index + 1))
      in number @ (if fst hc then js ''_credential-'' else js ''_redemption-'')
         @ safeFilename_archive (snd hc) @ js ''.json'')"

definition archive_entry :: "nat \<Rightarrow> RedeemBatchItem \<Rightarrow> (jstr \<times> jstr) res" where
  "archive_entry index item =
     (let redemption = the (ri_redemption item) in
      bind_res (archive_code item redemption) (\<lambda>code.
      bind_res (get_prop (Some redemption) (js ''credential'')) (\<lambda>credential.
        Inr (archive_name index (credential \<noteq> None, code),
             stringify2 (case credential of Some c \<Rightarrow> c | None \<Rightarrow> redemption)))))"

definition createRedeemArchive :: "ltime \<Rightarrow> RedeemBatchItem list \<Rightarrow> (blob \<times> jstr \<times> nat) res" where
  "createRedeemArchive now results =
     (let successful = successful_items results in
      if length successful = 0 then Inl (ErrorMsg msg_arch_none)
      else bind_res (map_res (\<lambda>(index, item). archive_entry index item) (enumerate 0 successful))
        (\<lambda>files. Inr (BlobZip files,
           js ''redeemed-files_'' @ nat_str (length successful) @ js ''_'' @ timestamp_archive now @ js ''.zip'',
           length successful)))"

section \<open>Names and contents\<close>

lemma list_all_safe_lits:
  "list_all entry_safe (js ''_credential-'')" "list_all entry_safe (js ''_redemption-'')"
  "list_all entry_safe (js ''.json'')" "list_all entry_safe (js ''redeemed-item'')"
  "list_all entry_safe (js ''_'')" "list_all entry_safe (js ''account_'')"
  by code_simp+

lemma safeFilename_archive_safe: "list_all entry_safe (safeFilename_archive s)"
  using list_all_safe_lits(4)
  by (auto simp: safeFilename_archive_def Let_def simp del: js_Cons
      intro!: replaceAll_safe) (auto simp: entry_safe_def)

lemma archive_name_split:
  "archive_name i hc = entry_number i @ 95 # tl (if fst hc then js ''_credential-'' else js ''_redemption-'')
     @ safeFilename_archive (snd hc) @ js ''.json''"
  by (simp add: archive_name_def entry_number_def)

interpretation arch: numbered_names archive_name
proof unfold_locales
  fix i hc
  show "\<exists>rest. archive_name i hc = entry_number i @ 95 # rest"
    by (metis archive_name_split)
  show "list_all entry_safe (archive_name i hc)"
    unfolding archive_name_def Let_def entry_number_def [symmetric] list_all_append
    using entry_number_safe [of i] safeFilename_archive_safe [of "snd hc"] list_all_safe_lits
    by (auto simp del: js_Cons)
qed

lemma length_map_res: "map_res f xs = Inr ys \<Longrightarrow> length ys = length xs"
  by (induction xs arbitrary: ys) auto

lemma map_res_nth: "map_res f xs = Inr ys \<Longrightarrow> i < length xs \<Longrightarrow> f (xs ! i) = Inr (ys ! i)"
proof (induction xs arbitrary: ys i)
  case (Cons x xs)
  then show ?case by (cases i) auto
qed simp

lemma map_res_Inr: "(\<And>x. x \<in> set xs \<Longrightarrow> \<exists>y. f x = Inr y) \<Longrightarrow> \<exists>ys. map_res f xs = Inr ys"
  by (induction xs) fastforce+

lemma archive_entry_Inr:
  "archive_entry i item = Inr nc \<Longrightarrow> \<exists>hc. fst nc = archive_name i hc"
  by (auto simp: archive_entry_def Let_def simp del: split_paired_Ex)

lemma archive_files:
  assumes "map_res (\<lambda>(index, item). archive_entry index item) (enumerate 0 items) = Inr files"
  shows "\<exists>hc. map fst files = map (\<lambda>i. archive_name i (hc i)) [0..<length items]"
proof -
  have len: "length files = length items"
    using length_map_res [OF assms] by simp
  have "\<exists>hc. fst (files ! i) = archive_name i hc" if "i < length items" for i
    using map_res_nth [OF assms, of i] that archive_entry_Inr [of i "items ! i" "files ! i"]
    by (simp add: nth_enumerate_eq del: split_paired_Ex)
  then obtain hc where "\<And>i. i < length items \<Longrightarrow> fst (files ! i) = archive_name i (hc i)"
    by metis
  with len have "map fst files = map (\<lambda>i. archive_name i (hc i)) [0..<length items]"
    by (auto intro!: nth_equalityI)
  then show ?thesis by blast
qed

lemma successful_redemption:
  "item \<in> set (successful_items results) \<Longrightarrow> \<exists>v. ri_redemption item = Some v \<and> v \<noteq> JNull"
  by (cases "ri_redemption item") (auto simp: successful_items_def truthy_def)

lemma get_prop_nonnull: "v \<noteq> JNull \<Longrightarrow> get_prop (Some v) k = Inr (obj_get v k)"
  by (simp add: get_prop_def obj_get_def split: json.split)

text \<open>A redemption as the server sends it: its code, if any, is a string.\<close>

definition code_typed :: "RedeemBatchItem \<Rightarrow> bool" where
  "code_typed item = (case ri_redemption item of
     None \<Rightarrow> True
   | Some v \<Rightarrow> (case obj_get v (js ''code'') of None \<Rightarrow> True | Some (JStr _) \<Rightarrow> True | Some _ \<Rightarrow> False))"

lemma archive_entry_ok:
  assumes "item \<in> set (successful_items results)" "code_typed item"
  shows "\<exists>nc. archive_entry i item = Inr nc"
proof -
  obtain v where v: "ri_redemption item = Some v" "v \<noteq> JNull"
    using assms(1) by (blast dest: successful_redemption)
  have "\<exists>s. archive_code item v = Inr s"
    using assms(2) v
    by (auto simp: archive_code_def get_prop_nonnull code_typed_def truthy_def simp del: js_Cons
        split: option.splits json.splits)
  with v show ?thesis
    by (auto simp: archive_entry_def get_prop_nonnull)
qed

lemma createRedeemArchive_ok:
  assumes "successful_items results \<noteq> []" "\<forall>item \<in> set results. code_typed item"
  shows "\<exists>files fname n. createRedeemArchive now results = Inr (BlobZip files, fname, n)"
proof -
  have "\<exists>nc. (case p of (i, item) \<Rightarrow> archive_entry i item) = Inr nc"
    if "p \<in> set (enumerate 0 (successful_items results))" for p
  proof -
    obtain i item where p: "p = (i, item)" by force
    then have "item \<in> set (successful_items results)"
      using that by (auto simp: in_set_enumerate_eq)
    moreover from this have "code_typed item"
      using assms(2) by (simp add: successful_items_def)
    ultimately show ?thesis using p archive_entry_ok by fastforce
  qed
  then obtain files where
    "map_res (\<lambda>(i, item). archive_entry i item) (enumerate 0 (successful_items results)) = Inr files"
    using map_res_Inr [of "enumerate 0 (successful_items results)" "\<lambda>(i, item). archive_entry i item"]
    by blast
  with assms(1) show ?thesis
    by (simp add: createRedeemArchive_def Let_def)
qed

text \<open>C17: The archive of a batch redemption has one entry per successful result
  (count, file name and entries agree), no two entries have the same name and
  no name contains a path separator, so that none replaces another or escapes
  into a folder. Each entry holds the credential of its result, or the whole
  redemption when there is no credential, and reads back as that value.\<close>

theorem redeem_archive_entries:
  assumes "createRedeemArchive now results = Inr (BlobZip files, fname, n)"
  shows "n = length (successful_items results) \<and> 0 < n \<and> length files = n
    \<and> distinct (map fst files) \<and> (\<forall>f \<in> set files. 47 \<notin> set (fst f) \<and> 92 \<notin> set (fst f))
    \<and> (\<forall>i < n. \<exists>v. ri_redemption (successful_items results ! i) = Some v
         \<and> (let content = (case obj_get v (js ''credential'') of Some c \<Rightarrow> c | None \<Rightarrow> v)
            in snd (files ! i) = stringify2 content
               \<and> (wf_json content \<longrightarrow> JSON_parse (snd (files ! i)) = Some content)))"
proof -
  let ?s = "successful_items results"
  from assms have n: "n = length ?s" "0 < n"
    and files: "map_res (\<lambda>(index, item). archive_entry index item) (enumerate 0 ?s) = Inr files"
    by (auto simp: createRedeemArchive_def Let_def split: if_splits)
  then have len: "length files = n"
    using length_map_res [OF files] by simp
  obtain hc where names: "map fst files = map (\<lambda>i. archive_name i (hc i)) [0..<length ?s]"
    using archive_files [OF files] by blast
  have safe: "47 \<notin> set (fst f) \<and> 92 \<notin> set (fst f)" if "f \<in> set files" for f
  proof -
    have "fst f \<in> set (map fst files)" using that by simp
    then obtain i where "fst f = archive_name i (hc i)" unfolding names by auto
    then show ?thesis using arch.no_slash [of i "hc i"] by simp
  qed
  have content: "\<exists>v. ri_redemption (?s ! i) = Some v
         \<and> (let content = (case obj_get v (js ''credential'') of Some c \<Rightarrow> c | None \<Rightarrow> v)
            in snd (files ! i) = stringify2 content
               \<and> (wf_json content \<longrightarrow> JSON_parse (snd (files ! i)) = Some content))" if "i < n" for i
  proof -
    have "?s ! i \<in> set ?s" using that n by simp
    then obtain v where v: "ri_redemption (?s ! i) = Some v" "v \<noteq> JNull"
      by (blast dest: successful_redemption)
    note get_prop_nonnull [OF v(2), simp]
    have "archive_entry i (?s ! i) = Inr (files ! i)"
      using map_res_nth [OF files, of i] that n by (simp add: nth_enumerate_eq)
    then have "snd (files ! i) = stringify2 (case obj_get v (js ''credential'') of Some c \<Rightarrow> c | None \<Rightarrow> v)"
      using v by (cases "files ! i") (auto simp: archive_entry_def Let_def simp del: js_Cons)
    then show ?thesis
      using v(1) indented.parse_print by (simp add: Let_def del: js_Cons)
  qed
  show ?thesis
    using n len safe content arch.distinct_names [of hc "length ?s"] by (simp add: names del: js_Cons)
qed

text \<open>C17 for two results with the same code, one of them a credential.\<close>

theorem redeem_archive_entries_witness:
  "\<exists>files fname.
     createRedeemArchive \<lparr>lt_year = 2026, lt_month = 0, lt_date = 2, lt_hours = 3, lt_minutes = 4, lt_seconds = 5\<rparr>
       [\<lparr>ri_code = js ''A'', ri_ok = True, ri_result = [], ri_message = [],
          ri_redemption = Some (JObj [(js ''code'', JStr (js ''A''))])\<rparr>,
        \<lparr>ri_code = js ''A'', ri_ok = True, ri_result = [], ri_message = [],
          ri_redemption = Some (JObj [(js ''credential'', JNull)])\<rparr>] = Inr (BlobZip files, fname, 2)
     \<and> distinct (map fst files)"
proof -
  let ?now = "\<lparr>lt_year = 2026, lt_month = 0, lt_date = 2, lt_hours = 3, lt_minutes = 4, lt_seconds = 5\<rparr>"
  let ?r = "[\<lparr>ri_code = js ''A'', ri_ok = True, ri_result = [], ri_message = [],
          ri_redemption = Some (JObj [(js ''code'', JStr (js ''A''))])\<rparr>,
        \<lparr>ri_code = js ''A'', ri_ok = True, ri_result = [], ri_message = [],
          ri_redemption = Some (JObj [(js ''credential'', JNull)])\<rparr>]"
  have s: "length (successful_items ?r) = 2"
    by (simp add: successful_items_def truthy_def)
  then have "successful_items ?r \<noteq> []"
    by auto
  moreover have "\<forall>item \<in> set ?r. code_typed item"
    by (simp add: code_typed_def obj_get_def)
  ultimately obtain files fname n where c: "createRedeemArchive ?now ?r = Inr (BlobZip files, fname, n)"
    using createRedeemArchive_ok by blast
  from redeem_archive_entries [OF this] s have "n = 2" "distinct (map fst files)"
    by blast+
  with c show ?thesis by blast
qed

end
