(* ===== verification/ApiProofs.thy ===== *)
theory ApiProofs
  imports Api
begin

text \<open>
  Properties of the HTTP client: which cookie the CSRF token comes from, which
  headers a request carries, what every status code and body lead to, that
  request bodies decode to what the caller passed, and that query strings
  cannot be broken out of.
\<close>

section \<open>The CSRF cookie\<close>

text \<open>The cookie pattern for a name \<open>nm\<close>: \<^verbatim>\<open>(?:^|; )nm=\<close> and then \<^verbatim>\<open>([^;]+)\<close>.\<close>

definition cookie_prefix :: "jstr \<Rightarrow> regex" where
  "cookie_prefix nm = RSeq (RAlt RBegin (RLit [59, 32])) (RLit (nm @ [61]))"

lemma csrf_prefix_cookie: "csrf_prefix_re = cookie_prefix (js ''csrf_token'')"
  by (simp add: csrf_prefix_re_def cookie_prefix_def)

definition cookie_vals :: "jstr \<Rightarrow> jstr list" where
  "cookie_vals t = map (\<lambda>(q', t'). take (length t - length t') t) (rmatch csrf_value_re (Some 61) t)"

lemma js_startsWith_append: "js_startsWith (s @ t) s"
  by (simp add: js_startsWith_def)

lemma group_at_cookie:
  "group_at (cookie_prefix nm) csrf_value_re p s =
     (if p = None \<and> js_startsWith s (nm @ [61]) then cookie_vals (drop (length nm + 1) s) else [])
     @ (if js_startsWith s [59, 32] \<and> js_startsWith (drop 2 s) (nm @ [61])
        then cookie_vals (drop (length nm + 1) (drop 2 s)) else [])"
proof -
  let ?lit = "\<lambda>q t. if js_startsWith t (nm @ [61]) then [(Some 61, drop (length nm + 1) t)] else []"
  have lit: "rmatch (RLit (nm @ [61])) q t = ?lit q t" for q t
    by (simp add: rmatch_lit)
  have two: "rmatch (RLit [59, 32]) p s = (if js_startsWith s [59, 32] then [(Some 32, drop 2 s)] else [])"
    by (subst rmatch_lit) (simp add: numeral_2_eq_2)
  have "rmatch (cookie_prefix nm) p s = (if p = None then ?lit p s else [])
      @ (if js_startsWith s [59, 32] then ?lit (Some 32) (drop 2 s) else [])"
    unfolding cookie_prefix_def rmatch.simps(3,4) two by (simp add: lit)
  then show ?thesis
    unfolding group_at_def cookie_vals_def
    by (cases p; cases "js_startsWith s [59, 32]";
        cases "js_startsWith s (nm @ [61])"; cases "js_startsWith (drop 2 s) (nm @ [61])")
       (simp_all del: drop_drop)
qed

lemma set_mem_not_semicolon: "set_mem True [CRange 59 59] = (\<lambda>c. c \<noteq> 59)"
  by (auto simp: set_mem_def fun_eq_iff)

lemma cookie_vals_Nil: "cookie_vals t = [] \<longleftrightarrow> t = [] \<or> hd t = 59"
  by (cases t) (auto simp: cookie_vals_def csrf_value_re_def set_mem_not_semicolon)

lemma take_before_dropWhile: "take (Suc (length u) - length (dropWhile p u)) (c # u) = c # takeWhile p u"
proof -
  have "length u = length (takeWhile p u) + length (dropWhile p u)"
    by (metis length_append takeWhile_dropWhile_id)
  moreover have "take (length (takeWhile p u)) u = takeWhile p u"
    by (metis append_eq_conv_conj takeWhile_dropWhile_id)
  ultimately show ?thesis by (simp add: Suc_diff_le)
qed

lemma hd_cookie_vals:
  assumes "t \<noteq> []" "hd t \<noteq> 59"
  obtains vs where "cookie_vals t = takeWhile (\<lambda>c. c \<noteq> 59) t # vs"
proof -
  obtain c u where t: "t = c # u" "c \<noteq> 59"
    using assms by (cases t) auto
  then have "set_mem True [CRange 59 59] c"
    by (simp add: set_mem_not_semicolon)
  then obtain q' rest where m: "rmatch csrf_value_re (Some 61) (c # u)
      = (q', dropWhile (set_mem True [CRange 59 59]) u) # rest"
    unfolding csrf_value_re_def by (rule rmatch_plus_set_Cons)
  have "cookie_vals t = take (Suc (length u) - length (dropWhile (\<lambda>c. c \<noteq> 59) u)) (c # u)
      # map (\<lambda>(q', t'). take (length t - length t') t) rest"
    using m t by (simp add: cookie_vals_def set_mem_not_semicolon)
  then show thesis
    using that t by (simp add: take_before_dropWhile)
qed

text \<open>Inside a segment without semicolons nothing matches.\<close>

lemma skip_segment:
  assumes "59 \<notin> set u"
  shows "\<exists>c'. regex_group_from (cookie_prefix nm) csrf_value_re (Some c) (u @ r)
           = regex_group_from (cookie_prefix nm) csrf_value_re (Some c') r"
  using assms
proof (induction u arbitrary: c)
  case (Cons x u)
  then have "group_at (cookie_prefix nm) csrf_value_re (Some c) (x # u @ r) = []"
    by (auto simp: group_at_cookie js_startsWith_def)
  with Cons show ?case by simp
qed auto

text \<open>\<^verbatim>\<open>document.cookie\<close>: the pairs, joined by a semicolon and a space.\<close>

definition cookie_str :: "(jstr \<times> jstr) list \<Rightarrow> jstr" where
  "cookie_str ps = js_join [59, 32] (map (\<lambda>(n, v). n @ 61 # v) ps)"

definition cookie_ok :: "(jstr \<times> jstr) list \<Rightarrow> bool" where
  "cookie_ok ps = list_all (\<lambda>(n, v). 59 \<notin> set n \<and> 61 \<notin> set n \<and> 59 \<notin> set v) ps"

definition cookie_get :: "jstr \<Rightarrow> (jstr \<times> jstr) list \<Rightarrow> jstr option" where
  "cookie_get nm ps = map_of (filter (\<lambda>(n, v). v \<noteq> []) ps) nm"

lemma starts_name_iff:
  assumes "61 \<notin> set n" "61 \<notin> set nm"
  shows "js_startsWith (n @ 61 # v) (nm @ [61]) \<longleftrightarrow> n = nm"
proof
  assume "js_startsWith (n @ 61 # v) (nm @ [61])"
  then have "take (length (nm @ [61])) (n @ 61 # v) = nm @ [61]"
    unfolding js_startsWith_def .
  then obtain w where "n @ 61 # v = nm @ 61 # w"
    by (metis append_take_drop_id append.assoc append_Cons append_Nil)
  then have "takeWhile (\<lambda>c. c \<noteq> 61) (n @ 61 # v) = takeWhile (\<lambda>c. c \<noteq> 61) (nm @ 61 # w)"
    by simp
  moreover have "takeWhile (\<lambda>c. c \<noteq> 61) (x @ 61 # y) = x" if "61 \<notin> set x" for x y :: jstr
    using that by (intro takeWhile_append_stop) (auto simp: list_all_iff)
  ultimately show "n = nm" using assms by metis
qed (simp add: js_startsWith_def)

lemma cookie_str_Cons:
  "cookie_str ((n, v) # ps) = n @ 61 # v @ (if ps = [] then [] else [59, 32] @ cookie_str ps)"
  by (simp add: cookie_str_def js_join_Cons)

text \<open>One pair: the group is the value when the name is right and the value not
  empty; otherwise the search goes on after it.\<close>

lemma cookie_vals_pair:
  assumes "59 \<notin> set v" "r = [] \<or> hd r = 59"
  shows "cookie_vals (v @ r) = [] \<longleftrightarrow> v = []" and "v \<noteq> [] \<Longrightarrow> \<exists>vs. cookie_vals (v @ r) = v # vs"
proof -
  show "cookie_vals (v @ r) = [] \<longleftrightarrow> v = []"
    using assms by (cases v) (auto simp: cookie_vals_Nil)
  assume "v \<noteq> []"
  then have "v @ r \<noteq> []" "hd (v @ r) \<noteq> 59"
    using assms(1) by (cases v; auto)+
  moreover have "takeWhile (\<lambda>c. c \<noteq> 59) (v @ r) = v"
    using assms by (intro takeWhile_append_stop) (auto simp: list_all_iff)
  ultimately show "\<exists>vs. cookie_vals (v @ r) = v # vs"
    by (metis hd_cookie_vals)
qed

lemma cookie_from_tail:
  assumes "61 \<notin> set nm"
  shows "cookie_ok ps \<Longrightarrow> ps \<noteq> [] \<Longrightarrow>
    regex_group_from (cookie_prefix nm) csrf_value_re (Some c) ([59, 32] @ cookie_str ps)
      = cookie_get nm ps"
proof (induction ps arbitrary: c)
  case (Cons nv ps)
  obtain n v where nv: "nv = (n, v)" by force
  define tail where "tail = (if ps = [] then [] else [59, 32] @ cookie_str ps)"
  have ok: "59 \<notin> set n" "61 \<notin> set n" "59 \<notin> set v" "cookie_ok ps"
    using Cons.prems(1) nv by (auto simp: cookie_ok_def)
  have rest: "regex_group_from (cookie_prefix nm) csrf_value_re (Some c') tail = cookie_get nm ps" for c'
    using Cons.IH ok(4)
    by (cases "ps = []") (auto simp: tail_def cookie_get_def group_at_cookie js_startsWith_def)
  have "59 \<notin> set (32 # n @ 61 # v)"
    using ok by simp
  then obtain c' where skip: "regex_group_from (cookie_prefix nm) csrf_value_re (Some 59)
      ((32 # n @ 61 # v) @ tail) = regex_group_from (cookie_prefix nm) csrf_value_re (Some c') tail"
    using skip_segment by blast
  have "js_startsWith (n @ 61 # v @ tail) (nm @ [61]) \<longleftrightarrow> n = nm"
    by (rule starts_name_iff [OF ok(2) assms])
  then have g: "group_at (cookie_prefix nm) csrf_value_re (Some c) (59 # 32 # n @ 61 # v @ tail)
      = (if n = nm then cookie_vals (v @ tail) else [])"
    by (simp add: group_at_cookie) (simp add: js_startsWith_def)
  have tl: "tail = [] \<or> hd tail = 59"
    by (simp add: tail_def)
  have "regex_group_from (cookie_prefix nm) csrf_value_re (Some c) (59 # 32 # n @ 61 # v @ tail)
      = (if n = nm \<and> v \<noteq> [] then Some v else cookie_get nm ps)"
    using g cookie_vals_pair [OF ok(3) tl] rest [of c'] skip
    by (auto split: list.split)
  then show ?case
    by (simp add: nv cookie_str_Cons cookie_get_def tail_def)
qed simp

lemma cookie_group:
  assumes nm: "61 \<notin> set nm" "59 \<notin> set nm" and ok: "cookie_ok ps"
  shows "regex_group (cookie_prefix nm) csrf_value_re (cookie_str ps) = cookie_get nm ps"
proof (cases ps)
  case Nil
  then show ?thesis
    by (simp add: regex_group_def cookie_str_def cookie_get_def group_at_cookie js_startsWith_def)
next
  case (Cons nv qs)
  obtain n v where nv: "nv = (n, v)" by force
  define tail where "tail = (if qs = [] then [] else [59, 32] @ cookie_str qs)"
  have o: "59 \<notin> set n" "61 \<notin> set n" "59 \<notin> set v" "cookie_ok qs"
    using ok Cons nv by (auto simp: cookie_ok_def)
  have rest: "regex_group_from (cookie_prefix nm) csrf_value_re (Some c') tail = cookie_get nm qs" for c'
    using cookie_from_tail [OF nm(1) o(4)]
    by (cases "qs = []") (auto simp: tail_def cookie_get_def group_at_cookie js_startsWith_def)
  obtain x u where xu: "n @ 61 # v = x # u" "x \<noteq> 59" "59 \<notin> set u"
    using o by (cases n) auto
  obtain c' where skip: "regex_group_from (cookie_prefix nm) csrf_value_re (Some x) (u @ tail)
      = regex_group_from (cookie_prefix nm) csrf_value_re (Some c') tail"
    using skip_segment [OF xu(3)] by blast
  have st: "js_startsWith (x # u @ tail) (nm @ [61]) \<longleftrightarrow> n = nm"
    using starts_name_iff [OF o(2) nm(1), of "v @ tail"] xu(1)
    by (metis append_Cons append_assoc)
  have dr: "n = nm \<Longrightarrow> drop (length nm + 1) (x # u @ tail) = v @ tail"
    using xu(1) by (metis append_Cons append_assoc append_eq_conv_conj length_append_singleton
        Suc_eq_plus1 append_Nil)
  have g: "group_at (cookie_prefix nm) csrf_value_re None (x # u @ tail)
      = (if n = nm then cookie_vals (v @ tail) else [])"
    using st dr xu(2) by (auto simp: group_at_cookie js_startsWith_def [of _ "[59, 32]"])
  have tl: "tail = [] \<or> hd tail = 59"
    by (simp add: tail_def)
  have "regex_group_from (cookie_prefix nm) csrf_value_re None (x # u @ tail)
      = (if n = nm \<and> v \<noteq> [] then Some v else cookie_get nm qs)"
    using g cookie_vals_pair [OF o(3) tl] rest [of c'] skip by (auto split: list.split)
  moreover have "cookie_str ps = x # u @ tail"
    using xu(1) by (simp add: Cons nv cookie_str_Cons tail_def)
  ultimately show ?thesis
    by (simp add: regex_group_def Cons nv cookie_get_def)
qed

lemma csrf_match_cookie:
  "cookie_ok ps \<Longrightarrow> csrf_match (cookie_str ps) = cookie_get (js ''csrf_token'') ps"
  unfolding csrf_match_def csrf_prefix_cookie by (rule cookie_group) (simp_all add: js_def)


section \<open>Requests\<close>

text \<open>The token a request with a given cookie jar carries.\<close>

definition jar_token :: "(jstr \<times> jstr) list \<Rightarrow> jstr option res" where
  "jar_token ps = (case cookie_get (js ''csrf_token'') ps of
     None \<Rightarrow> Inr None
   | Some v \<Rightarrow> bind_res (decodeURIComponent v) (\<lambda>t. Inr (if t = [] then None else Some t)))"

lemma header_names: "js ''X-CSRF-Token'' \<noteq> js ''Content-Type''"
  by (simp add: js_def)

lemma map_of_set_header [simp]: "map_of (set_header hs k v) = (map_of hs)(k \<mapsto> v)"
  by (auto simp: set_header_def map_of_replace map_of_insert_fresh [of _ _ "[]", simplified])

lemma map_of_content_header:
  "map_of (content_header init) = (if has_text_body init
     then [js ''Content-Type'' \<mapsto> js ''application/json''] else Map.empty)"
  by (simp add: content_header_def)

definition plain_init :: "request_init option \<Rightarrow> bool" where
  "plain_init init = (case init of None \<Rightarrow> True | Some i \<Rightarrow> ri_headers i = [])"

lemma build_request_mutating:
  assumes "cookie_ok ps" "plain_init init" "isMutatingMethod (Option.bind init ri_method)"
    "jar_token ps = Inr tok"
  shows "\<exists>r. build_request (cookie_str ps) url init = Inr r
    \<and> hr_url r = url \<and> Some (hr_method r) = Option.bind init ri_method
    \<and> map_of (hr_headers r) (js ''X-CSRF-Token'') = tok
    \<and> map_of (hr_headers r) (js ''Content-Type'')
        = (if has_text_body init then Some (js ''application/json'') else None)"
proof -
  obtain i m where i: "init = Some i" "ri_method i = Some m" "ri_headers i = []"
    using assms(2,3)
    by (cases init; cases "Option.bind init ri_method") (auto simp: isMutatingMethod_def plain_init_def)
  note [simp del] = js_Cons
  show ?thesis
    using assms(1,3,4) i header_names
    by (cases "cookie_get (js ''csrf_token'') ps"; cases tok)
       (auto simp: build_request_def getCSRFToken_def csrf_match_cookie jar_token_def
        map_of_content_header split: if_splits)
qed

lemma build_request_reading:
  assumes "\<not> isMutatingMethod (Option.bind init ri_method)" "plain_init init"
  shows "\<exists>r. build_request cookie url init = Inr r \<and> hr_url r = url
    \<and> map_of (hr_headers r) (js ''X-CSRF-Token'') = None"
proof -
  note [simp del] = js_Cons
  show ?thesis
    using assms header_names
    by (auto simp: build_request_def map_of_content_header plain_init_def split: option.splits)
qed

lemma build_request_bad_token:
  "cookie_ok ps \<Longrightarrow> isMutatingMethod (Option.bind init ri_method) \<Longrightarrow> jar_token ps = Inl e \<Longrightarrow>
   build_request (cookie_str ps) url init = Inl e"
  by (auto simp: build_request_def getCSRFToken_def csrf_match_cookie jar_token_def bind_res_Inl_iff
      split: option.splits)

section \<open>Answers\<close>

lemma throw_api_never_Inr [simp]: "throw_api d st \<noteq> Inr v"
  by (simp add: throw_api_def)

lemma throw_api_Inl: "\<exists>e. (throw_api d st :: 'a res) = Inl e"
  by (cases "throw_api d st :: 'a res") simp_all

lemma throw_api_obj:
  assumes "map_of kvs (js ''message'') = Some (JStr m)" "m \<noteq> []"
  shows "throw_api (JObj kvs) st = Inl (ApiErr m st (map_of kvs (js ''errors'')))"
proof -
  note [simp del] = js_Cons
  show ?thesis
    using assms by (simp add: throw_api_def get_prop_def truthy_def)
qed

lemma throw_api_no_message:
  assumes "map_of kvs (js ''message'') = None"
  shows "throw_api (JObj kvs) st = Inl (ApiErr (msg_api_failed_pre @ int_str st @ msg_api_failed_post) st
    (map_of kvs (js ''errors'')))"
proof -
  note [simp del] = js_Cons
  show ?thesis
    using assms by (simp add: throw_api_def get_prop_def truthy_def)
qed

section \<open>Query strings\<close>

definition form_safe :: "cu \<Rightarrow> bool" where
  "form_safe c \<longleftrightarrow> is_alnum c \<or> c \<in> {42, 45, 46, 95, 43, 37}"

lemma form_safe_not_sep: "form_safe c \<Longrightarrow> c \<noteq> 38 \<and> c \<noteq> 61"
  by (auto simp: form_safe_def char_defs word_le_nat_alt)

lemma hex_upper_table: "d < 16 \<Longrightarrow> hex_upper d \<in> set (js ''0123456789ABCDEF'')"
proof -
  have "list_all (\<lambda>d. hex_upper d \<in> set (js ''0123456789ABCDEF'')) [0..<16]"
    by (simp add: upt_rec hex_upper_def)
  then show "d < 16 \<Longrightarrow> hex_upper d \<in> set (js ''0123456789ABCDEF'')"
    by (auto simp: list_all_iff)
qed

lemma form_safe_hex: "d < 16 \<Longrightarrow> form_safe (hex_upper d)"
  using hex_upper_table [of d] by (auto simp: form_safe_def char_defs word_le_nat_alt)

lemma utf8_encode_byte: "p < 1114112 \<Longrightarrow> b \<in> set (utf8_encode p) \<Longrightarrow> b < 256"
proof -
  assume "p < 1114112" "b \<in> set (utf8_encode p)"
  moreover have "p < 1114112 \<Longrightarrow> p div 262144 < 16" "p < 2048 \<Longrightarrow> p div 64 < 32"
    "p < 65536 \<Longrightarrow> p div 4096 < 16"
    by (simp_all add: less_mult_imp_div_less)
  moreover have "p mod 64 < 64" "p div 64 mod 64 < 64" "p div 4096 mod 64 < 64"
    by simp_all
  ultimately show ?thesis
    by (auto split: if_splits)
qed

lemma code_points_bound: "p \<in> set (code_points s) \<Longrightarrow> p < 1114112"
proof (induction s rule: code_points.induct)
  case (2 c)
  then show ?case using unsigned_less [of c, where 'a = nat] by simp
next
  case (3 c d s)
  have "unat c < 1114112" for c :: cu
    using unsigned_less [of c, where 'a = nat] by simp
  moreover have "unat c - 55296 \<le> 1023" "unat d - 56320 \<le> 1023"
    if "is_high_surrogate c" "is_low_surrogate d"
    using that by (auto simp: char_defs word_le_nat_alt)
  then have "65536 + (unat c - 55296) * 1024 + (unat d - 56320) < 1114112"
    if "is_high_surrogate c" "is_low_surrogate d"
    using that by fastforce
  ultimately show ?case
    using 3 by (auto split: if_splits simp: order.strict_trans)
qed simp

lemma form_point_safe: "p < 1114112 \<Longrightarrow> c \<in> set (form_point p) \<Longrightarrow> form_safe c"
proof -
  assume p: "p < 1114112" and c: "c \<in> set (form_point p)"
  have esc: "form_safe x" if "b < 256" "x \<in> set (pct b)" for b x
  proof -
    have "b div 16 < 16" "b mod 16 < 16"
      using that(1) by (simp_all add: less_mult_imp_div_less)
    then show ?thesis
      using that(2) form_safe_hex by (auto simp: pct_def) (simp add: form_safe_def)
  qed
  have "form_safe c" if "c \<in> set (concat (map pct (utf8_encode q)))" "q < 1114112" for q
    using that utf8_encode_byte esc by (auto simp del: utf8_encode.simps)
  then show ?thesis
    using p c
    by (auto simp: form_point_def form_safe_def split: if_splits simp del: utf8_encode.simps)
qed

lemma form_encode_safe: "list_all form_safe (form_encode s)"
  by (auto simp: form_encode_def list_all_iff dest: code_points_bound form_point_safe)

lemma js_split1_none: "c \<notin> set s \<Longrightarrow> js_split1 c s = [s]"
  by (induction s) auto

lemma js_split1_append: "c \<notin> set s \<Longrightarrow> js_split1 c (s @ c # t) = s # js_split1 c t"
  by (induction s) auto

lemma js_split1_join:
  "ss \<noteq> [] \<Longrightarrow> (\<And>s. s \<in> set ss \<Longrightarrow> c \<notin> set s) \<Longrightarrow> js_split1 c (js_join [c] ss) = ss"
proof (induction ss)
  case (Cons s ss)
  then show ?case
    by (cases ss) (simp_all add: js_split1_none js_split1_append)
qed simp

lemma form_encode_no_sep: "38 \<notin> set (form_encode s)" "61 \<notin> set (form_encode s)"
  using form_encode_safe [of s] form_safe_not_sep by (fastforce simp: list_all_iff)+

lemma search_params_split:
  "kvs \<noteq> [] \<Longrightarrow> map (js_split1 61) (js_split1 38 (search_params kvs))
     = map (\<lambda>(k, v). [form_encode k, form_encode v]) kvs"
  unfolding search_params_def
  by (subst js_split1_join) (auto simp: form_encode_no_sep js_split1_append js_split1_none)


section \<open>Properties\<close>

lemma wf_index_alpha: "wf_keys [js ''user_id'', js ''codes'']"
  by code_simp

text \<open>C9: Every POST, PUT, PATCH or DELETE request reaches fetch with the header
  X-CSRF-Token set to the decoded value of the csrf_token cookie, wherever that
  cookie stands among the others and whatever their names (a cookie whose name
  merely ends in csrf_token is not taken), without the header when there is no
  such cookie, and not at all when its value is not valid percent encoding; a
  JSON content type is declared exactly when the body is text.\<close>

theorem mutating_request_token:
  assumes "cookie_ok ps" "plain_init init" "isMutatingMethod (Option.bind init ri_method)"
  shows "case jar_token ps of
      Inl e \<Rightarrow> build_request (cookie_str ps) url init = Inl e
    | Inr tok \<Rightarrow> (\<exists>r. build_request (cookie_str ps) url init = Inr r
        \<and> hr_url r = url \<and> Some (hr_method r) = Option.bind init ri_method
        \<and> map_of (hr_headers r) (js ''X-CSRF-Token'') = tok
        \<and> map_of (hr_headers r) (js ''Content-Type'')
            = (if has_text_body init then Some (js ''application/json'') else None))"
proof (cases "jar_token ps")
  case (Inl e)
  with build_request_bad_token [OF assms(1,3)] show ?thesis by simp
next
  case (Inr tok)
  with build_request_mutating [OF assms Inr, of url] show ?thesis by simp
qed

text \<open>C9 at the logout endpoint, with a cookie before the token.\<close>

theorem mutating_request_token_witness:
  "\<exists>r. build_request (cookie_str [(js ''xcsrf_token'', js ''no''), (js ''csrf_token'', js ''t%20k'')])
       (fst api_logout) (snd api_logout) = Inr r
     \<and> map_of (hr_headers r) (js ''X-CSRF-Token'') = Some (js ''t k'')"
proof -
  let ?ps = "[(js ''xcsrf_token'', js ''no''), (js ''csrf_token'', js ''t%20k'')]"
  have tok: "jar_token ?ps = Inr (Some (js ''t k''))"
    by code_simp
  have "cookie_ok ?ps" "plain_init (snd api_logout)"
    "isMutatingMethod (Option.bind (snd api_logout) ri_method)"
    by code_simp+
  from mutating_request_token [OF this, of "fst api_logout"] tok show ?thesis
    by auto
qed



text \<open>A 2xx answer whose body is not JSON is not an error for the caller: the
  call resolves with the fallback object whose ok field is false.\<close>

lemma request_result_ok_not_json:
  assumes "resp_ok st" "JSON_parse t = None"
  shows "\<exists>kvs. request_result (Response st t) = Inr (JObj kvs)
    \<and> map_of kvs (js ''ok'') = Some (JBool False)
    \<and> map_of kvs (js ''message'') = Some (JStr msg_api_bad_response)"
  using assms by (simp add: request_result_def)

text \<open>The body of a batch redemption request decodes to an object with the
  user's e-mail address and the codes, unchanged and in order, whatever
  characters they contain.\<close>

lemma redeemBatch_body_roundtrip:
  assumes "build_request cookie (fst (api_redeemBatch u cs)) (snd (api_redeemBatch u cs)) = Inr r"
  shows "\<exists>t. hr_body r = TextBody t \<and>
    JSON_parse t = Some (JObj [(js ''user_id'', JStr u), (js ''codes'', JArr (map JStr cs))])"
proof -
  have wf: "wf_json (JObj [(js ''user_id'', JStr u), (js ''codes'', JArr (map JStr cs))])"
    using wf_index_alpha by (simp add: list_all_iff del: js_Cons)
  have "hr_body r = TextBody (stringify (JObj [(js ''user_id'', JStr u), (js ''codes'', JArr (map JStr cs))]))"
    using assms by (auto simp: build_request_def api_redeemBatch_def init_of_def json_obj_def simp del: js_Cons)
  with compact.parse_print [OF wf] show ?thesis by blast
qed

text \<open>C18: The query string of the log listing splits at the ampersands and equal
  signs into exactly the parameters that are set, each name and value in its
  encoded form: no user_id filter can add or override a parameter.\<close>

theorem logs_query_split:
  assumes "logs_query p \<noteq> []"
  shows "\<exists>q. fst (api_logs p) = js ''/api/admin/logs?'' @ q
    \<and> map (js_split1 61) (js_split1 38 q)
      = map (\<lambda>(k, v). [form_encode k, form_encode v]) (logs_query p)"
  using search_params_split [OF assms] by (auto simp: api_logs_def simp del: js_Cons)

text \<open>C18 for a filter text that looks like two parameters.\<close>

theorem logs_query_split_witness:
  "\<exists>q. fst (api_logs \<lparr>lp_batch_id = None, lp_result = None, lp_webhook = None,
        lp_user_id = Some (js ''a&page=9''), lp_page = Some 1\<rparr>) = js ''/api/admin/logs?'' @ q
    \<and> length (js_split1 38 q) = 2"
proof -
  let ?p = "\<lparr>lp_batch_id = None, lp_result = None, lp_webhook = None,
        lp_user_id = Some (js ''a&page=9''), lp_page = Some 1\<rparr>"
  have len: "length (logs_query ?p) = 2"
    by code_simp
  then have "logs_query ?p \<noteq> []"
    by auto
  from logs_query_split [OF this] obtain q where q: "fst (api_logs ?p) = js ''/api/admin/logs?'' @ q"
    and "map (js_split1 61) (js_split1 38 q) = map (\<lambda>(k, v). [form_encode k, form_encode v]) (logs_query ?p)"
    by blast
  then have "length (js_split1 38 q) = 2"
    by (metis len length_map)
  with q show ?thesis by blast
qed

end
