(* ===== verification/ConverterProofs.thy ===== *)
theory ConverterProofs
  imports RedeemArchive ApiProofs
begin

text \<open>
  The account converter: what input is accepted and how it is read, which
  properties of an account reach the target document and which never do, what
  the archives contain, and that the token decoder inverts base64url.
\<close>

section \<open>Splitting into lines\<close>

lemma set_mem_chr: "set_mem False [CRange a a] c \<longleftrightarrow> c = a"
  by (auto simp: set_mem_def)

lemma rmatch_newline:
  "rmatch newline_re p s =
     (case s of [] \<Rightarrow> []
      | c # t \<Rightarrow> (if c = 13 \<and> t \<noteq> [] \<and> hd t = 10 then [(Some 10, tl t)]
                 else if c = 10 then [(Some 10, t)] else []))"
  by (auto simp: newline_re_def set_mem_chr split: list.split)

text \<open>A line break without a carriage return before it ends exactly one line.\<close>

lemma split_loop_line:
  assumes "10 \<notin> set u" "13 \<notin> set u"
  shows "split_loop False newline_re acc p (u @ 10 # t)
      = (rev acc @ u) # split_loop False newline_re [] (Some 10) t"
    and "split_loop False newline_re acc p u = [rev acc @ u]"
  using assms by (induction u arbitrary: acc p) (auto simp: rmatch_newline)

lemma split_join_lines:
  assumes "\<And>l. l \<in> set ls \<Longrightarrow> 10 \<notin> set l \<and> 13 \<notin> set l" "ls \<noteq> []"
  shows "split_loop False newline_re [] p (js_join [10] ls) = ls"
  using assms
proof (induction ls arbitrary: p)
  case (Cons l ls)
  then show ?case
    by (cases ls) (auto simp: split_loop_line)
qed simp

section \<open>Reading JSON lines\<close>

definition blank :: "jstr \<Rightarrow> bool" where
  "blank l \<longleftrightarrow> js_trim l = []"

lemma parse_lines_Inr:
  "parse_lines i ls = Inr vs \<longleftrightarrow>
     map (\<lambda>l. JSON_parse (js_trim l)) (filter (\<lambda>l. \<not> blank l) ls) = map Some vs \<and> list_all is_object vs"
proof (induction ls arbitrary: i vs)
  case (Cons l ls)
  show ?case
  proof (cases "JSON_parse (js_trim l)")
    case None
    then show ?thesis using Cons by (auto simp: blank_def Let_def)
  next
    case (Some v)
    then show ?thesis using Cons
      by (cases vs) (auto simp: blank_def Let_def)
  qed
qed auto

lemma parse_lines_Inl:
  "parse_lines i ls = Inl e \<Longrightarrow>
     \<exists>k < length ls. \<not> blank (ls ! k)
       \<and> (\<exists>vs. parse_lines i (take k ls) = Inr vs)
       \<and> e = ErrorMsg (msg_conv_line_pre @ nat_str (i + k + 1) @
             (if JSON_parse (js_trim (ls ! k)) = None then msg_conv_line_json else msg_conv_line_object))
       \<and> (JSON_parse (js_trim (ls ! k)) = None \<or> \<not> is_object (the (JSON_parse (js_trim (ls ! k)))))"
proof (induction ls arbitrary: i)
  case (Cons l ls)
  let ?bad = "JSON_parse (js_trim l) = None \<or> \<not> is_object (the (JSON_parse (js_trim l)))"
  show ?case
  proof (cases "\<not> blank l \<and> ?bad")
    case True
    then show ?thesis using Cons.prems
      by (intro exI [of _ 0]) (auto simp: blank_def Let_def split: option.splits)
  next
    case False
    then have "parse_lines (i + 1) ls = Inl e"
      using Cons.prems by (auto simp: blank_def Let_def bind_res_Inl_iff split: option.splits if_splits)
    from Cons.IH [OF this] obtain k vs where k: "k < length ls" "\<not> blank (ls ! k)"
      "parse_lines (i + 1) (take k ls) = Inr vs"
      "e = ErrorMsg (msg_conv_line_pre @ nat_str (i + 1 + k + 1) @
             (if JSON_parse (js_trim (ls ! k)) = None then msg_conv_line_json else msg_conv_line_object))"
      "JSON_parse (js_trim (ls ! k)) = None \<or> \<not> is_object (the (JSON_parse (js_trim (ls ! k))))"
      by blast
    have "\<exists>ws. parse_lines i (take (Suc k) (l # ls)) = Inr ws"
      using False k(3) by (auto simp: blank_def Let_def)
    then show ?thesis
      using k by (intro exI [of _ "Suc k"]) auto
  qed
qed simp

section \<open>What is accepted\<close>

lemma detectAndParse_Inr:
  "detectAndParse s = Inr p \<Longrightarrow>
     pi_accounts p \<noteq> [] \<and> list_all is_object (pi_accounts p) \<and> list_all wf_json (pi_accounts p)"
proof -
  assume d: "detectAndParse s = Inr p"
  let ?t = "js_trim s"
  show ?thesis
  proof (cases "JSON_parse ?t")
    case None
    then obtain vs where "parse_lines 0 (regex_split False newline_re ?t) = Inr vs" "vs \<noteq> []"
      "pi_accounts p = vs"
      using d by (auto simp: detectAndParse_def Let_def split: if_splits)
    moreover from this have "list_all wf_json vs"
      unfolding parse_lines_Inr list_all_iff
      by (auto simp: in_set_conv_nth) (metis JSON_parse_wf length_map nth_map)
    ultimately show ?thesis by (simp add: parse_lines_Inr)
  next
    case (Some v)
    then have "wf_json v" by (rule JSON_parse_wf)
    with Some d show ?thesis
      by (auto simp: detectAndParse_def Let_def is_object_def split: if_splits json.splits)
  qed
qed

section \<open>Compact JSON has no line breaks\<close>

abbreviation printable :: "cu \<Rightarrow> bool" where
  "printable c \<equiv> 32 \<le> c"

lemma digit_printable: "is_digit c \<Longrightarrow> printable c"
  by (auto simp: is_digit_def word_le_nat_alt)

lemma nat_str_printable: "list_all printable (nat_str n)"
  by (auto simp: list_all_iff digit_printable dest: nat_str_digits)

lemma hex_cu_printable: "d < 16 \<Longrightarrow> printable (hex_cu d)"
proof -
  have "list_all (\<lambda>d. printable (hex_cu d)) [0..<16]"
    by (simp add: upt_rec hex_cu_def)
  then show "d < 16 \<Longrightarrow> printable (hex_cu d)"
    by (auto simp: list_all_iff)
qed

lemma quote_unit_printable: "list_all printable (quote_unit c)"
proof -
  have "unat c < 65536"
    using unsigned_less [of c, where 'a = nat] by simp
  then have "unat c div 4096 < 16"
    by (simp add: less_mult_imp_div_less)
  then show ?thesis
    by (auto simp: quote_unit_def u_escape_def Let_def hex_cu_printable)
qed

lemma quote_units_printable: "list_all printable (quote_units s)"
proof (induction s rule: quote_units.induct)
  case (3 c d s)
  then show ?case
    using quote_unit_printable [of c] by (auto simp: char_defs word_le_nat_alt)
qed (simp_all add: quote_unit_printable)

lemma quote_str_printable: "list_all printable (quote_str s)"
  by (simp add: quote_str_def quote_units_printable)

lemma num_str_printable: "list_all printable (num_str m e)"
proof -
  have all: "c \<in> set (nat_str n) \<Longrightarrow> printable c" for n c
    using nat_str_printable by (simp add: list_all_iff)
  have "printable (hd (nat_str n))" "c \<in> set (tl (nat_str n)) \<Longrightarrow> printable c" for n c
    using all hd_in_set [OF nat_str_nonempty] list.set_sel(2) [OF nat_str_nonempty] by blast+
  then have "list_all printable (num_pos_str n e)" for n
    by (auto simp: num_pos_str_def Let_def list_all_iff all dest!: in_set_takeD in_set_dropD)
  then show ?thesis
    by (simp add: num_str_def)
qed

lemma js_join_all: "list_all p sep \<Longrightarrow> (\<And>s. s \<in> set ss \<Longrightarrow> list_all p s) \<Longrightarrow> list_all p (js_join sep ss)"
  by (induction sep ss rule: js_join.induct) auto

lemma ser_compact_printable: "list_all printable (ser [] ind v)"
proof (induction v arbitrary: ind)
  case (JNum m e)
  then show ?case by (simp add: num_str_printable)
next
  case (JStr s)
  then show ?case by (simp add: quote_str_printable)
next
  case (JArr xs)
  have "list_all printable (js_join [44] (map (ser [] ind) xs))"
    using JArr by (intro js_join_all) auto
  then show ?case by (simp add: nl_def)
next
  case (JObj kvs)
  have "list_all printable (js_join [44] (map (\<lambda>(k, v). quote_str k @ 58 # ser [] ind v) kvs))"
    using JObj by (intro js_join_all) (auto simp: quote_str_printable)
  then show ?case by (simp add: nl_def)
qed auto

lemma stringify_no_break: "10 \<notin> set (stringify v)" "13 \<notin> set (stringify v)"
  using ser_compact_printable [of "[]" v] by (auto simp: stringify_def list_all_iff)

section \<open>Documents read back\<close>

lemma stringify_object_ends:
  assumes "is_object v"
  shows "stringify v \<noteq> [] \<and> \<not> is_ws (hd (stringify v)) \<and> \<not> is_ws (last (stringify v))"
  using assms by (cases v) (auto simp: stringify_def is_object_def is_ws_def)

lemma js_trim_stringify: "is_object v \<Longrightarrow> js_trim (stringify v) = stringify v"
  using stringify_object_ends by (intro js_trim_id) auto

lemma js_trim_ends:
  assumes "a \<noteq> []" "b \<noteq> []" "\<not> is_ws (hd a)" "\<not> is_ws (last b)"
  shows "js_trim (a @ m @ b) = a @ m @ b"
  using assms by (intro js_trim_id) auto

lemma join_object_lines_ends:
  assumes "vs \<noteq> []" "list_all is_object vs"
  shows "js_trim (js_join [10] (map stringify vs)) = js_join [10] (map stringify vs)"
proof -
  have "js_join [10] (map stringify vs) \<noteq> [] \<and> \<not> is_ws (hd (js_join [10] (map stringify vs)))
      \<and> \<not> is_ws (last (js_join [10] (map stringify vs)))"
    using assms
  proof (induction vs)
    case (Cons v vs)
    then show ?case
      using stringify_object_ends [of v] by (cases vs) auto
  qed simp
  then show ?thesis by (intro js_trim_id) simp
qed

text \<open>Two documents one after the other are not one JSON text.\<close>

lemma JSON_parse_two:
  assumes "wf_json v" "s \<noteq> []" "\<not> is_json_ws (hd s)"
  shows "JSON_parse (stringify v @ 10 # s) = None"
proof -
  have stop: "num_stop (10 # s)" by (simp add: num_stop_def is_digit_def)
  have "reads (stringify v) v"
    unfolding stringify_def by (rule reads_ser) (simp_all add: assms)
  then obtain n where n: "\<forall>f \<ge> n. pv f (stringify v @ 10 # s) = Some (v, 10 # s)"
    unfolding reads_def using stop by blast
  let ?t = "stringify v @ 10 # s"
  have "pv (2 * length ?t + 2 + n) ?t = Some (v, 10 # s)"
    using n by simp
  then have "pv (2 * length ?t + 2) ?t = Some (v, 10 # s)"
    using pv_more_fuel [of ?t "2 * length ?t + 2" n] by simp
  moreover have "skip_ws (10 # s) \<noteq> []"
    using assms by (cases s) simp_all
  ultimately show ?thesis by (simp add: JSON_parse_def)
qed

lemma parse_lines_stringify:
  "list_all is_object vs \<Longrightarrow> list_all wf_json vs \<Longrightarrow> parse_lines i (map stringify vs) = Inr vs"
  unfolding parse_lines_Inr
  by (induction vs)
     (auto simp: blank_def js_trim_stringify compact.parse_print stringify_object_ends)

lemma is_ws_json_ws: "is_json_ws c \<Longrightarrow> is_ws c"
  by (auto simp: is_json_ws_def is_ws_def)

lemma detect_jsonl:
  assumes "list_all is_object vs" "list_all wf_json vs" "2 \<le> length vs"
    "blob_size (js_join [10] (map stringify vs)) \<le> MAX_INPUT_SIZE"
  shows "detectAndParse (js_join [10] (map stringify vs)) = Inr \<lparr>pi_accounts = vs, pi_format = FmtJSONL\<rparr>"
proof -
  let ?t = "js_join [10] (map stringify vs)"
  obtain v w ws where vs: "vs = v # w # ws"
    using assms(3) by (cases vs; cases "tl vs") auto
  have trim: "js_trim ?t = ?t"
    using join_object_lines_ends assms(1) vs by blast
  have t: "?t = stringify v @ 10 # js_join [10] (map stringify (w # ws))"
    using vs by simp
  have "js_join [10] (map stringify (w # ws)) \<noteq> [] \<and> \<not> is_json_ws (hd (js_join [10] (map stringify (w # ws))))"
    using assms(1) vs stringify_object_ends [of w] is_ws_json_ws by (cases ws) auto
  then have none: "JSON_parse ?t = None"
    unfolding t using JSON_parse_two assms(2) vs by simp
  have ne: "?t \<noteq> []" unfolding t by simp
  have "split_loop False newline_re [] None ?t = map stringify vs"
    using stringify_no_break vs by (intro split_join_lines) auto
  then have "regex_split False newline_re ?t = map stringify vs"
    using ne by (simp add: regex_split_def)
  with trim none ne assms vs parse_lines_stringify show ?thesis
    by (simp add: detectAndParse_def Let_def del: js_join.simps list.map)
qed

lemma detect_array:
  assumes "list_all is_object vs" "list_all wf_json vs" "vs \<noteq> []"
    "blob_size (stringify (JArr vs)) \<le> MAX_INPUT_SIZE"
  shows "detectAndParse (stringify (JArr vs)) = Inr \<lparr>pi_accounts = vs, pi_format = FmtArray\<rparr>"
proof -
  have "js_trim (stringify (JArr vs)) = stringify (JArr vs)" "stringify (JArr vs) \<noteq> []"
    "JSON_parse (stringify (JArr vs)) = Some (JArr vs)"
    using js_trim_stringify [of "JArr vs"] stringify_object_ends [of "JArr vs"] assms(2)
      compact.parse_print [of "JArr vs"] by (simp_all add: is_object_def)
  with assms show ?thesis
    by (simp add: detectAndParse_def Let_def)
qed

lemma detect_object:
  assumes "wf_json (JObj kvs)" "blob_size (stringify (JObj kvs)) \<le> MAX_INPUT_SIZE"
  shows "detectAndParse (stringify (JObj kvs)) = Inr \<lparr>pi_accounts = [JObj kvs], pi_format = FmtObject\<rparr>"
proof -
  have "js_trim (stringify (JObj kvs)) = stringify (JObj kvs)" "stringify (JObj kvs) \<noteq> []"
    "JSON_parse (stringify (JObj kvs)) = Some (JObj kvs)"
    using js_trim_stringify [of "JObj kvs"] stringify_object_ends [of "JObj kvs"] assms(1)
      compact.parse_print [of "JObj kvs"] by (simp_all add: is_object_def)
  with assms(2) show ?thesis
    by (simp add: detectAndParse_def Let_def)
qed

section \<open>What reaches the extra object\<close>

lemma map_of_copy_extra:
  assumes "distinct (map fst es)"
  shows "map_of (copy_extra extra es) k =
     (if is_token_key k \<or> k = js ''__proto__'' then map_of extra k
      else case map_of es k of Some v \<Rightarrow> Some v | None \<Rightarrow> map_of extra k)"
  using assms
proof (induction es arbitrary: extra)
  case (Cons e es)
  obtain key v where e: "e = (key, v)" by force
  have "map_of es key = None"
    using Cons.prems e by (auto simp: map_of_eq_None_iff)
  moreover have "distinct (map fst es)" using Cons.prems by simp
  ultimately show ?case
    using Cons.IH e by (auto simp: map_of_obj_assign simp del: js_Cons split: option.split)
qed simp

lemma wf_keys_copy_extra:
  "wf_keys (map fst extra) \<Longrightarrow> wf_keys (map fst (copy_extra extra es))"
  by (induction extra es rule: copy_extra.induct) (auto simp: obj_assign_def wf_keys_obj_put)

lemma copy_extra_vals:
  "list_all (\<lambda>(k, v). wf_json v) extra \<Longrightarrow> list_all (\<lambda>(k, v). wf_json v) es \<Longrightarrow>
   list_all (\<lambda>(k, v). wf_json v) (copy_extra extra es)"
proof (induction extra es rule: copy_extra.induct)
  case (2 extra key v es)
  have "list_all (\<lambda>(k, v). wf_json v) (obj_put extra key v)"
    using 2(2,3) set_obj_put [of extra key v] by (auto simp: list_all_iff)
  with 2 show ?case by (auto simp: obj_assign_def)
qed simp

lemma wf_keys_distinct: "wf_keys ks \<Longrightarrow> distinct ks"
  by (induction ks) (auto dest: key_before_neq simp: list_all_iff)

lemma obj_entries_distinct: "wf_json v \<Longrightarrow> distinct (map fst (obj_entries v))"
proof (cases v)
  case (JArr xs)
  then show ?thesis by (auto simp: obj_entries_def distinct_map inj_on_def)
qed (auto simp: obj_entries_def intro: wf_keys_distinct)

lemma obj_entries_wf: "wf_json v \<Longrightarrow> list_all (\<lambda>(k, v). wf_json v) (obj_entries v)"
  by (cases v) (auto simp: obj_entries_def list_all_iff dest: set_zip_rightD)

text \<open>The parts of a converted account.\<close>

definition account_extra :: "json \<Rightarrow> jstr \<Rightarrow> json option" where
  "account_extra a k = (case obj_get a (js ''extra'') of Some e \<Rightarrow> obj_get e k | None \<Rightarrow> None)"

definition account_credential :: "json \<Rightarrow> string \<Rightarrow> json option" where
  "account_credential a k =
     (case obj_get a (js ''credentials'') of Some e \<Rightarrow> obj_get e (js k) | None \<Rightarrow> None)"

lemma account_extra_json:
  "account_extra (account_json dp now i f j cpa) k = map_of (copy_extra
     [(js ''email'', JStr (j_email j)), (js ''converted_from'', JStr (js ''cpa''))] (obj_entries cpa)) k"
  by (simp add: account_extra_def account_json_def json_obj_def obj_get_def extra_json_def)

lemma convertOne_Inr:
  "convertOne dp now cpa at i = Inr a \<longleftrightarrow>
   (\<exists>f j. read_cpa cpa = Inr f
      \<and> read_jwt (if f_access_token f \<noteq> [] then decodeJWT (f_access_token f) else JObj [])
          (f_email f) (f_plan_type f) = Inr j
      \<and> a = \<lparr>sa_exported_at = at, sa_proxies = [], sa_accounts = [account_json dp now i f j cpa]\<rparr>)"
  by (auto simp: convertOne_def)

lemma convertAll_nth:
  assumes "convertAll dp c accounts = Inr cs"
  shows "length cs = length accounts"
    and "i < length accounts \<Longrightarrow> convertOne dp (ck_local c) (accounts ! i) (toISOString c) (i + 1) = Inr (cs ! i)"
proof -
  let ?f = "\<lambda>(idx, acc). convertOne dp (ck_local c) acc (toISOString c) (idx + 1)"
  have m: "map_res ?f (enumerate 0 accounts) = Inr cs"
    using assms by (simp add: convertAll_def Let_def)
  then show "length cs = length accounts"
    using length_map_res by fastforce
  show "i < length accounts \<Longrightarrow> convertOne dp (ck_local c) (accounts ! i) (toISOString c) (i + 1) = Inr (cs ! i)"
    using map_res_nth [OF m, of i] by (simp add: nth_enumerate_eq)
qed

section \<open>Converted documents are JSON\<close>

lemma wf_jint [simp]: "wf_json (jint i)"
proof -
  obtain m e where me: "norm_num (nat \<bar>i\<bar>) 0 = (m, e)" by force
  then show ?thesis
    using norm_num_wf [OF me] by (simp add: jint_def)
qed

lemma wf_literal_keys:
  "wf_keys (map js [''name'', ''platform'', ''type'', ''credentials'', ''extra'', ''concurrency'',
      ''priority'', ''rate_multiplier'', ''auto_pause_on_expired''])"
  "wf_keys (map js [''access_token'', ''chatgpt_account_id'', ''chatgpt_user_id'', ''client_id'', ''email'',
      ''expires_at'', ''id_token'', ''organization_id'', ''plan_type'', ''refresh_token''])"
  "wf_keys (map js [''email'', ''converted_from''])"
  "wf_keys (map js [''exported_at'', ''proxies'', ''accounts''])"
  by code_simp+

lemma wf_json_obj:
  "map fst kvs = ks \<Longrightarrow> wf_keys (map js ks) \<Longrightarrow> list_all wf_json (map snd kvs) \<Longrightarrow> wf_json (json_obj kvs)"
  by (auto simp: json_obj_def comp_def case_prod_unfold list_all_iff simp del: js_Cons)

lemma wf_credentials_json: "wf_json (credentials_json dp f j)"
  unfolding credentials_json_def
  by (rule wf_json_obj [OF _ wf_literal_keys(2)]) (simp_all split: option.split)

lemma wf_extra_json:
  assumes "wf_json cpa"
  shows "wf_json (extra_json j cpa)"
proof -
  have "wf_keys (map fst [(js ''email'', JStr (j_email j)), (js ''converted_from'', JStr (js ''cpa''))])"
    using wf_literal_keys(3) by (simp del: js_Cons)
  then show ?thesis
    using obj_entries_wf [OF assms]
    by (simp add: extra_json_def wf_keys_copy_extra copy_extra_vals del: js_Cons)
qed

lemma wf_account_json: "wf_json cpa \<Longrightarrow> wf_json (account_json dp now i f j cpa)"
  unfolding account_json_def
  by (rule wf_json_obj [OF _ wf_literal_keys(1)]) (simp_all add: wf_credentials_json wf_extra_json)

lemma wf_sub2api_json:
  assumes "list_all wf_json (sa_accounts a)" "sa_proxies a = []"
  shows "wf_json (sub2api_json a)"
  unfolding sub2api_json_def using assms by (intro wf_json_obj [OF _ wf_literal_keys(4)]) simp_all

section \<open>Entry names\<close>

lemma safeFilename_safe: "list_all entry_safe (safeFilename s)"
  by (auto simp: safeFilename_def entry_safe_def intro!: replaceAll_safe)

lemma single_entry_split:
  "\<exists>ident. single_entry i acc = entry_number i @ js ''_'' @ ident @ js ''.json'' \<and> list_all entry_safe ident"
proof -
  define email where "email = (case str_opt (obj_get acc (js ''email'')) of None \<Rightarrow> [] | Some e \<Rightarrow> e)"
  have "single_entry i acc = entry_number i @ js ''_''
      @ (if email \<noteq> [] then safeFilename email else js ''account_'' @ entry_number i) @ js ''.json''"
    by (simp add: single_entry_def email_def entry_number_def Let_def)
  moreover have "list_all entry_safe (if email \<noteq> [] then safeFilename email else js ''account_'' @ entry_number i)"
    using safeFilename_safe entry_number_safe list_all_safe_lits(6) by (simp del: js_Cons)
  ultimately show ?thesis by blast
qed

interpretation single: numbered_names single_entry
proof unfold_locales
  fix i acc
  obtain ident where id: "single_entry i acc = entry_number i @ js ''_'' @ ident @ js ''.json''"
    "list_all entry_safe ident"
    using single_entry_split by blast
  show "\<exists>rest. single_entry i acc = entry_number i @ 95 # rest"
    unfolding id(1) by simp
  show "list_all entry_safe (single_entry i acc)"
    unfolding id(1) using id(2) entry_number_safe [of i] list_all_safe_lits by (simp del: js_Cons)
qed

section \<open>base64url\<close>

text \<open>The encoder of RFC 7515, as a reference: sextets and their characters.\<close>

definition b64url_cu :: "nat \<Rightarrow> cu" where
  "b64url_cu d =
     (if d < 26 then of_nat (65 + d) else if d < 52 then of_nat (71 + d)
      else if d < 62 then of_nat (d - 4) else if d = 62 then 45 else 95)"

fun sextets :: "nat list \<Rightarrow> nat list" where
  "sextets (a # b # c # r) =
     a div 4 # (a mod 4 * 16 + b div 16) # (b mod 16 * 4 + c div 64) # c mod 64 # sextets r"
| "sextets [a, b] = [a div 4, a mod 4 * 16 + b div 16, b mod 16 * 4]"
| "sextets [a] = [a div 4, a mod 4 * 16]"
| "sextets [] = []"

definition b64url :: "nat list \<Rightarrow> jstr" where
  "b64url bs = map b64url_cu (sextets bs)"

definition to_std :: "cu \<Rightarrow> cu" where
  "to_std c = (if c = 45 then 43 else if c = 95 then 47 else c)"

lemma b64url_cu_table:
  "list_all (\<lambda>d. b64_val (to_std (b64url_cu d)) = Some d \<and> b64url_cu d \<noteq> 46 \<and> to_std (b64url_cu d) \<noteq> 61
     \<and> \<not> is_ascii_ws (to_std (b64url_cu d))) [0..<64]"
  by code_simp

lemma b64url_cu_val:
  assumes "d < 64"
  shows "b64_val (to_std (b64url_cu d)) = Some d" "b64url_cu d \<noteq> 46" "to_std (b64url_cu d) \<noteq> 61"
    "\<not> is_ascii_ws (to_std (b64url_cu d))"
  using b64url_cu_table assms by (auto simp: list_all_iff)

lemma byte_parts:
  fixes a :: nat
  assumes "a < 256"
  shows "a div 4 < 64" "a div 16 < 16" "a div 64 < 4"
  using assms by (simp_all add: less_mult_imp_div_less)

lemma byte_sextets:
  fixes a b :: nat
  shows "b < 256 \<Longrightarrow> a mod 4 * 16 + b div 16 < 64" "a < 256 \<Longrightarrow> b mod 16 * 4 + a div 64 < 64"
    "b mod 16 * 4 < 64" "a mod 4 * 16 < 64"
proof -
  have m: "a mod 4 < 4" "b mod 16 < 16" by simp_all
  then show "b mod 16 * 4 < 64" "a mod 4 * 16 < 64" by linarith+
  show "b < 256 \<Longrightarrow> a mod 4 * 16 + b div 16 < 64" "a < 256 \<Longrightarrow> b mod 16 * 4 + a div 64 < 64"
    using m byte_parts [of a] byte_parts [of b] by linarith+
qed

lemma sextets_small: "list_all (\<lambda>b. b < 256) bs \<Longrightarrow> list_all (\<lambda>d. d < 64) (sextets bs)"
  by (induction bs rule: sextets.induct) (simp_all add: byte_sextets byte_parts)

lemma glue_sextets:
  fixes x h :: nat
  shows "h < 16 \<Longrightarrow> (x * 16 + h) div 16 = x" "h < 16 \<Longrightarrow> (x * 16 + h) mod 16 = h"
    "h < 4 \<Longrightarrow> (x * 4 + h) div 4 = x" "h < 4 \<Longrightarrow> (x * 4 + h) mod 4 = h"
  by simp_all

lemma b64_groups_sextets: "list_all (\<lambda>b. b < 256) bs \<Longrightarrow> b64_groups (sextets bs) = map of_nat bs"
  by (induction bs rule: sextets.induct)
     (simp_all add: glue_sextets byte_parts div_mult_mod_eq
       del: of_nat_add of_nat_mult of_nat_numeral div_mult_self3 div_mult_self4)

lemma length_sextets: "length (sextets bs) mod 4 \<noteq> 1"
  by (induction bs rule: sextets.induct) simp_all

lemma replace_url_chars:
  "js_replaceAll (\<lambda>c. c = 95) [47] (js_replaceAll (\<lambda>c. c = 45) [43] s) = map to_std s"
  by (induction s) (auto simp: js_replaceAll_def to_std_def)

lemma last_snoc_not:
  "list_all (\<lambda>c. c \<noteq> 61) s \<Longrightarrow> \<not> js_endsWith s [61] \<and> \<not> js_endsWith s [61, 61]"
  by (cases s rule: rev_cases) (auto simp: js_endsWith_def js_startsWith_def)

lemma strip_added_padding:
  assumes "list_all (\<lambda>c. c \<noteq> 61) s" "length s mod 4 \<noteq> 1"
  shows "strip_padding (s @ replicate ((4 - length s mod 4) mod 4) 61) = s"
proof -
  have "length s mod 4 < 4" by simp
  then consider "length s mod 4 = 0" | "length s mod 4 = 2" | "length s mod 4 = 3"
    using assms(2) by linarith
  then show ?thesis
  proof cases
    case 1
    then show ?thesis using last_snoc_not [OF assms(1)] by (simp add: strip_padding_def)
  next
    case 2
    then have "(length s + 2) mod 4 = 0" by presburger
    with 2 show ?thesis
      by (simp add: strip_padding_def js_endsWith_def js_startsWith_def numeral_2_eq_2)
  next
    case 3
    then have "(length s + 1) mod 4 = 0" by presburger
    moreover have "\<not> js_endsWith (s @ [61]) [61, 61]"
      using assms(1) by (cases s rule: rev_cases) (auto simp: js_endsWith_def js_startsWith_def)
    ultimately show ?thesis using 3
      by (simp add: strip_padding_def js_endsWith_def [of _ "[61]"] js_startsWith_def)
  qed
qed

lemma atob_b64url:
  assumes "list_all (\<lambda>b. b < 256) bs"
  shows "atob (map to_std (b64url bs) @ replicate ((4 - length (b64url bs) mod 4) mod 4) 61)
    = Some (map of_nat bs)"
proof -
  let ?s = "map to_std (b64url bs)"
  have small: "d < 64" if "d \<in> set (sextets bs)" for d
    using sextets_small [OF assms] that by (simp add: list_all_iff)
  have plain: "list_all (\<lambda>c. c \<noteq> 61) ?s" "list_all (\<lambda>c. \<not> is_ascii_ws c) ?s"
    using small b64url_cu_val by (auto simp: list_all_iff b64url_def)
  have "\<not> is_ascii_ws 61" by (simp add: is_ascii_ws_def)
  then have "filter (\<lambda>c. \<not> is_ascii_ws c) (?s @ replicate n 61) = ?s @ replicate n 61" for n
    using plain(2) by (intro filter_True) (auto simp: list_all_iff)
  moreover have "strip_padding (?s @ replicate ((4 - length (b64url bs) mod 4) mod 4) 61) = ?s"
    using strip_added_padding [OF plain(1)] length_sextets [of bs] by (simp add: b64url_def)
  moreover have "map (\<lambda>c. the (b64_val c)) ?s = sextets bs" "\<not> list_ex (\<lambda>c. b64_val c = None) ?s"
    using small b64url_cu_val(1)
    by (auto simp: b64url_def list_ex_iff intro!: map_idI)
  ultimately show ?thesis
    using length_sextets [of bs] b64_groups_sextets [OF assms] by (simp add: atob_def b64url_def)
qed

lemma b64url_no_dot: "list_all (\<lambda>b. b < 256) bs \<Longrightarrow> 46 \<notin> set (b64url bs)"
  using sextets_small [of bs] b64url_cu_val(2) by (fastforce simp: b64url_def list_all_iff)

lemma decodeJWT_b64url:
  assumes "list_all (\<lambda>b. b < 256) bs" "46 \<notin> set h" "46 \<notin> set sg"
  shows "decodeJWT (h @ 46 # b64url bs @ 46 # sg)
    = (case JSON_parse (map of_nat bs) of None \<Rightarrow> JObj [] | Some v \<Rightarrow> v)"
proof -
  have "js_split1 46 (h @ 46 # b64url bs @ 46 # sg) = [h, b64url bs, sg]"
    using assms b64url_no_dot by (simp add: js_split1_append js_split1_none)
  moreover have "to_std 61 = 61" by (simp add: to_std_def)
  ultimately show ?thesis
    using atob_b64url [OF assms(1)]
    by (simp add: decodeJWT_def replace_url_chars map_replicate)
qed

section \<open>When a conversion succeeds\<close>

definition scalar :: "json option \<Rightarrow> bool" where
  "scalar v = (case v of Some (JArr _) \<Rightarrow> False | Some (JObj _) \<Rightarrow> False | _ \<Rightarrow> True)"

lemma string_or_empty_scalar: "scalar v \<Longrightarrow> \<exists>s. string_or_empty v = Inr s"
  by (auto simp: scalar_def string_or_empty_def nullish_def split: option.splits json.splits)

lemma prop_string_scalar: "v \<noteq> JNull \<Longrightarrow> scalar (obj_get v (js k)) \<Longrightarrow> \<exists>s. prop_string v k = Inr s"
  using string_or_empty_scalar by (auto simp: prop_string_def get_prop_nonnull)

lemma prop_string_str: "v \<noteq> JNull \<Longrightarrow> obj_get v (js k) = Some (JStr s) \<Longrightarrow> prop_string v k = Inr s"
  by (simp add: prop_string_def get_prop_nonnull)

definition cpa_keys :: "string list" where
  "cpa_keys = [''email'', ''access_token'', ''account_id'', ''plan_type'', ''id_token'', ''refresh_token'', ''expired'']"

lemma read_cpa_scalar:
  assumes "v \<noteq> JNull" "list_all (\<lambda>k. scalar (obj_get v (js k))) cpa_keys"
  shows "\<exists>f. read_cpa v = Inr f"
proof -
  have "\<exists>s. prop_string v k = Inr s" if "k \<in> set cpa_keys" for k
    using assms that by (intro prop_string_scalar) (auto simp: list_all_iff)
  then have "\<exists>s. prop_string v ''email'' = Inr s" "\<exists>s. prop_string v ''access_token'' = Inr s"
    "\<exists>s. prop_string v ''account_id'' = Inr s" "\<exists>s. prop_string v ''plan_type'' = Inr s"
    "\<exists>s. prop_string v ''id_token'' = Inr s" "\<exists>s. prop_string v ''refresh_token'' = Inr s"
    "\<exists>s. prop_string v ''expired'' = Inr s"
    by (simp_all add: cpa_keys_def)
  then show ?thesis
    by (auto simp: read_cpa_def)
qed

text \<open>The claims of a token are usable: not null, and the two claim objects hold scalars.\<close>

definition jwt_claim :: "json \<Rightarrow> string \<Rightarrow> json" where
  "jwt_claim jwt k = nullish (obj_get jwt (js k)) (JObj [])"

definition usable_claims :: "json \<Rightarrow> bool" where
  "usable_claims jwt \<longleftrightarrow> jwt \<noteq> JNull
     \<and> scalar (obj_get (jwt_claim jwt ''https://api.openai.com/auth'') (js ''chatgpt_user_id''))
     \<and> scalar (obj_get (jwt_claim jwt ''https://api.openai.com/auth'') (js ''chatgpt_plan_type''))
     \<and> scalar (obj_get (jwt_claim jwt ''https://api.openai.com/profile'') (js ''email''))
     \<and> scalar (obj_get jwt (js ''client_id''))"

lemma nullish_not_null: "nullish v (JObj []) \<noteq> JNull"
  by (simp add: nullish_def split: option.split json.split)

lemma read_jwt_usable:
  assumes "usable_claims jwt"
  shows "\<exists>j. read_jwt jwt email plan = Inr j"
proof -
  note [simp del] = js_Cons
  let ?auth = "jwt_claim jwt ''https://api.openai.com/auth''"
  let ?prof = "jwt_claim jwt ''https://api.openai.com/profile''"
  have nn: "jwt \<noteq> JNull" "?auth \<noteq> JNull" "?prof \<noteq> JNull"
    using assms by (auto simp: usable_claims_def jwt_claim_def nullish_not_null)
  have "\<exists>s. prop_string ?auth ''chatgpt_user_id'' = Inr s" "\<exists>s. prop_string ?auth ''chatgpt_plan_type'' = Inr s"
    "\<exists>s. prop_string ?prof ''email'' = Inr s" "\<exists>s. prop_string jwt ''client_id'' = Inr s"
    using assms nn by (simp_all add: usable_claims_def prop_string_scalar)
  then show ?thesis
    by (auto simp: read_jwt_def get_prop_nonnull [OF nn(1)] jwt_claim_def [symmetric])
qed

lemma read_cpa_fields:
  assumes "read_cpa v = Inr f"
  shows "prop_string v ''email'' = Inr (f_email f)" "prop_string v ''access_token'' = Inr (f_access_token f)"
    "prop_string v ''account_id'' = Inr (f_account_id f)" "prop_string v ''plan_type'' = Inr (f_plan_type f)"
    "prop_string v ''id_token'' = Inr (f_id_token f)" "prop_string v ''refresh_token'' = Inr (f_refresh_token f)"
    "prop_string v ''expired'' = Inr (f_expired f)"
  using assms by (auto simp: read_cpa_def)

lemma read_jwt_email: "read_jwt jwt email plan = Inr j \<Longrightarrow> email \<noteq> [] \<Longrightarrow> j_email j = email"
  "read_jwt jwt email plan = Inr j \<Longrightarrow> plan \<noteq> [] \<Longrightarrow> j_plan_type j = plan"
  by (auto simp: read_jwt_def Let_def)

lemma account_credential_json:
  "account_credential (account_json dp now i f j cpa) k
     = obj_get (credentials_json dp f j) (js k)"
  by (simp add: account_credential_def account_json_def json_obj_def obj_get_def)

lemma credentials_json_get:
  "obj_get (credentials_json dp f j) (js ''access_token'') = Some (JStr (f_access_token f))"
  "obj_get (credentials_json dp f j) (js ''chatgpt_account_id'') = Some (JStr (f_account_id f))"
  "obj_get (credentials_json dp f j) (js ''id_token'') = Some (JStr (f_id_token f))"
  "obj_get (credentials_json dp f j) (js ''refresh_token'') = Some (JStr (f_refresh_token f))"
  "obj_get (credentials_json dp f j) (js ''email'') = Some (JStr (j_email j))"
  "obj_get (credentials_json dp f j) (js ''plan_type'') = Some (JStr (j_plan_type j))"
  by (simp_all add: credentials_json_def json_obj_def obj_get_def)

end
