(* ===== verification/ConverterProps.thy ===== *)
theory ConverterProps
  imports ConverterProofs
begin

text \<open>
  The properties of the converter, each over the definitions of Converter and
  with a witness where it has hypotheses.
\<close>

lemma extra_default_keys:
  "js ''email'' \<noteq> js ''converted_from''" "\<not> is_token_key (js ''email'')"
  "\<not> is_token_key (js ''converted_from'')" "\<not> is_token_key (js ''__proto__'')"
  "js ''__proto__'' \<noteq> js ''email''" "js ''__proto__'' \<noteq> js ''converted_from''"
  by (simp_all add: is_token_key_def)

lemma map_of_token_default:
  "is_token_key k \<Longrightarrow> map_of [(js ''email'', a), (js ''converted_from'', b)] k = None"
  using extra_default_keys by (auto simp del: js_Cons)

text \<open>C11: The extra object of a converted account never carries the access, id or
  refresh token. Every other property of the account is copied into it under
  its own name and with its own value (also email and converted_from, which it
  overrides), except a property called __proto__, which is lost; the defaults
  for email and converted_from stay when the account has no such property.\<close>

theorem convertOne_extra:
  assumes "wf_json cpa" "convertOne dp now cpa at i = Inr a"
  shows "\<exists>acc em. sa_accounts a = [acc] \<and> account_credential acc ''email'' = Some (JStr em) \<and>
    (\<forall>k. account_extra acc k =
       (if is_token_key k \<or> k = js ''__proto__'' then None
        else case map_of (obj_entries cpa) k of
               Some v \<Rightarrow> Some v
             | None \<Rightarrow> if k = js ''email'' then Some (JStr em)
                       else if k = js ''converted_from'' then Some (JStr (js ''cpa'')) else None))"
proof -
  note [simp del] = js_Cons
  obtain f j where a: "a = \<lparr>sa_exported_at = at, sa_proxies = [], sa_accounts = [account_json dp now i f j cpa]\<rparr>"
    using assms(2) unfolding convertOne_Inr by blast
  have "account_extra (account_json dp now i f j cpa) k =
       (if is_token_key k \<or> k = js ''__proto__'' then None
        else case map_of (obj_entries cpa) k of
               Some v \<Rightarrow> Some v
             | None \<Rightarrow> if k = js ''email'' then Some (JStr (j_email j))
                       else if k = js ''converted_from'' then Some (JStr (js ''cpa'')) else None)" for k
    unfolding account_extra_json map_of_copy_extra [OF obj_entries_distinct [OF assms(1)]]
    using extra_default_keys by (auto split: option.split)
  then show ?thesis
    by (auto simp: a account_credential_json credentials_json_get)
qed

text \<open>A small account, with a token that is no JWT.\<close>

definition sample_account :: json where
  "sample_account = JObj [(js ''email'', JStr (js ''a@b.c'')), (js ''access_token'', JStr (js ''t'')),
     (js ''note'', JNull)]"

definition sample_time :: ltime where
  "sample_time = \<lparr>lt_year = 2026, lt_month = 0, lt_date = 2, lt_hours = 3, lt_minutes = 4, lt_seconds = 5\<rparr>"

definition sample_clock :: clock where
  "sample_clock = \<lparr>ck_local = sample_time, ck_utc = sample_time, ck_ms = 7\<rparr>"

lemma sample_converts: "\<exists>a. convertOne dp now sample_account at i = Inr a"
proof -
  have "\<exists>f. read_cpa sample_account = Inr f"
  proof (rule read_cpa_scalar)
    show "sample_account \<noteq> JNull" by (simp add: sample_account_def)
    show "list_all (\<lambda>k. scalar (obj_get sample_account (js k))) cpa_keys" by code_simp
  qed
  then obtain f where f: "read_cpa sample_account = Inr f" by blast
  have "usable_claims (JObj [])" by code_simp
  moreover have "decodeJWT (f_access_token f) = JObj []"
  proof -
    have "prop_string sample_account ''access_token'' = Inr (js ''t'')"
      by (rule prop_string_str) (simp_all add: sample_account_def obj_get_def)
    then have "f_access_token f = js ''t''"
      using read_cpa_fields(2) [OF f] by simp
    moreover have "decodeJWT (js ''t'') = JObj []" by code_simp
    ultimately show ?thesis by simp
  qed
  ultimately show ?thesis
    using f read_jwt_usable by (simp add: convertOne_def)
qed

lemma sample_wf: "wf_json sample_account" "is_object sample_account"
  by code_simp+

text \<open>C11 for an account with a token and a note.\<close>

theorem convertOne_extra_witness:
  "\<exists>a acc. convertOne (\<lambda>_. None) sample_time sample_account [] 1 = Inr a \<and> sa_accounts a = [acc]
     \<and> account_extra acc (js ''access_token'') = None \<and> account_extra acc (js ''note'') = Some JNull"
proof -
  obtain a where a: "convertOne (\<lambda>_. None) sample_time sample_account [] 1 = Inr a"
    using sample_converts by blast
  from convertOne_extra [OF sample_wf(1) a] obtain acc em where acc: "sa_accounts a = [acc]"
    and k: "\<forall>k. account_extra acc k =
       (if is_token_key k \<or> k = js ''__proto__'' then None
        else case map_of (obj_entries sample_account) k of
               Some v \<Rightarrow> Some v
             | None \<Rightarrow> if k = js ''email'' then Some (JStr em)
                       else if k = js ''converted_from'' then Some (JStr (js ''cpa'')) else None)"
    by blast
  have "account_extra acc (js ''access_token'') = None"
    by (simp add: k is_token_key_def)
  moreover have "account_extra acc (js ''note'') = Some JNull"
    by (simp add: k is_token_key_def sample_account_def obj_entries_def)
  ultimately show ?thesis using a acc by blast
qed



text \<open>C14: A conversion succeeds whenever the seven fields it reads are scalars (or
  missing) and the token's claims are usable; a token that decodes to the JSON
  value null makes it throw a TypeError instead of being ignored like any other
  malformed token.\<close>

theorem convertOne_total:
  assumes "cpa \<noteq> JNull" "list_all (\<lambda>k. scalar (obj_get cpa (js k))) cpa_keys"
    "prop_string cpa ''access_token'' = Inr tok"
  shows "(usable_claims (if tok \<noteq> [] then decodeJWT tok else JObj []) \<longrightarrow>
           (\<exists>a. convertOne dp now cpa at i = Inr a))
       \<and> (tok \<noteq> [] \<and> decodeJWT tok = JNull \<longrightarrow> convertOne dp now cpa at i = Inl TypeErr)"
proof -
  note [simp del] = js_Cons
  obtain f where f: "read_cpa cpa = Inr f"
    using read_cpa_scalar [OF assms(1,2)] by blast
  then have "f_access_token f = tok"
    using read_cpa_fields(2) [OF f] assms(3) by simp
  moreover have "read_jwt JNull e p = Inl TypeErr" for e p
    by (simp add: read_jwt_def get_prop_def)
  ultimately show ?thesis
    using f read_jwt_usable by (auto simp: convertOne_def)
qed

text \<open>C14 for an account whose token is h.bnVsbA.s, a JWT with payload null.\<close>

theorem convertOne_total_witness:
  "convertOne (\<lambda>_. None) sample_time (JObj [(js ''access_token'', JStr (js ''h.bnVsbA.s''))]) [] 1 = Inl TypeErr"
proof -
  let ?cpa = "JObj [(js ''access_token'', JStr (js ''h.bnVsbA.s''))]"
  have h: "?cpa \<noteq> JNull" "list_all (\<lambda>k. scalar (obj_get ?cpa (js k))) cpa_keys"
    "prop_string ?cpa ''access_token'' = Inr (js ''h.bnVsbA.s'')"
    by code_simp+
  have "decodeJWT (js ''h.bnVsbA.s'') = JNull"
    by code_simp
  with convertOne_total [OF h] show ?thesis by simp
qed

text \<open>C15: The payload segment of a token is read with the inverse of base64url
  encoding: a token built from any byte sequence decodes to the JSON value its
  bytes spell (one code unit per byte), and to the empty object when they do
  not spell one.\<close>

theorem decodeJWT_inverts_b64url:
  assumes "list_all (\<lambda>b. b < 256) bs" "46 \<notin> set h" "46 \<notin> set sg"
  shows "decodeJWT (h @ js ''.'' @ b64url bs @ js ''.'' @ sg)
    = (case JSON_parse (map of_nat bs) of None \<Rightarrow> JObj [] | Some v \<Rightarrow> v)"
  using decodeJWT_b64url [OF assms] by simp

text \<open>C15 for the payload true.\<close>

theorem decodeJWT_inverts_b64url_witness:
  "decodeJWT (js ''h'' @ js ''.'' @ b64url [116, 114, 117, 101] @ js ''.'' @ js ''s'') = JBool True"
proof -
  have "list_all (\<lambda>b. b < 256) [116, 114, 117, 101 :: nat]" "46 \<notin> set (js ''h'')" "46 \<notin> set (js ''s'')"
    by simp_all
  note decodeJWT_inverts_b64url [OF this]
  moreover have "JSON_parse (map of_nat [116, 114, 117, 101]) = Some (JBool True)"
    by code_simp
  ultimately show ?thesis by simp
qed

lemma concat_singletons:
  "(\<And>x. x \<in> set xs \<Longrightarrow> \<exists>y. f x = [y]) \<Longrightarrow> concat (map f xs) = map (\<lambda>x. f x ! 0) xs"
  by (induction xs) fastforce+

text \<open>The merged document holds exactly the accounts of the single documents,
  in input order, and merging fails exactly when converting fails, with the
  same error.\<close>

lemma buildMerged_concat:
  "(case convertAll dp c accounts of
      Inl e \<Rightarrow> buildMerged dp c accounts = Inl e
    | Inr cs \<Rightarrow> length cs = length accounts
        \<and> buildMerged dp c accounts = Inr \<lparr>sa_exported_at = toISOString c, sa_proxies = [],
            sa_accounts = concat (map sa_accounts cs)\<rparr>
        \<and> length (concat (map sa_accounts cs)) = length accounts)"
proof (cases "convertAll dp c accounts")
  case (Inl e)
  then show ?thesis by (simp add: buildMerged_def)
next
  case (Inr cs)
  have one: "\<exists>acc. sa_accounts (cs ! i) = [acc]" if "i < length accounts" for i
    using convertAll_nth(2) [OF Inr that] by (auto simp: convertOne_Inr)
  have "concat (map sa_accounts cs) = map (\<lambda>item. sa_accounts item ! 0) cs"
    by (rule concat_singletons) (metis one in_set_conv_nth convertAll_nth(1) [OF Inr])
  then show ?thesis
    using Inr convertAll_nth(1) [OF Inr] by (simp add: buildMerged_def)
qed


text \<open>C16: The archive of single documents has one entry per account, in order; no
  two entries share a name (even for equal e-mail addresses) and no name has a
  path separator; each entry reads back as the converted document of its
  account.\<close>

theorem single_zip_entries:
  assumes "list_all wf_json accounts" "createSingleZip dp c accounts = Inr (BlobZip files, fname)"
  shows "length files = length accounts \<and> distinct (map fst files)
    \<and> (\<forall>f \<in> set files. 47 \<notin> set (fst f) \<and> 92 \<notin> set (fst f))
    \<and> (\<forall>i < length accounts. \<exists>a.
         convertOne dp (ck_local c) (accounts ! i) (toISOString c) (i + 1) = Inr a
         \<and> JSON_parse (snd (files ! i)) = Some (sub2api_json a))"
proof -
  obtain cs where cs: "convertAll dp c accounts = Inr cs"
    and f: "files = map (\<lambda>i. (single_entry i (accounts ! i), stringify2 (sub2api_json (cs ! i)))) [0..<length cs]"
    using assms(2) by (auto simp: createSingleZip_def)
  have len: "length cs = length accounts"
    by (rule convertAll_nth(1) [OF cs])
  have "\<exists>a. convertOne dp (ck_local c) (accounts ! i) (toISOString c) (i + 1) = Inr a
         \<and> JSON_parse (snd (files ! i)) = Some (sub2api_json a)" if i: "i < length accounts" for i
  proof -
    have conv: "convertOne dp (ck_local c) (accounts ! i) (toISOString c) (i + 1) = Inr (cs ! i)"
      by (rule convertAll_nth(2) [OF cs i])
    then have "wf_json (sub2api_json (cs ! i))"
      using assms(1) i by (intro wf_sub2api_json) (auto simp: convertOne_Inr list_all_length wf_account_json)
    from indented.parse_print [OF this] conv show ?thesis
      using i len by (simp add: f)
  qed
  moreover have "map fst files = map (\<lambda>i. single_entry i (accounts ! i)) [0..<length accounts]"
    by (simp add: f len comp_def)
  then have "distinct (map fst files)"
    using single.distinct_names [of "\<lambda>i. accounts ! i" "length accounts"] by simp
  ultimately show ?thesis
    using single.no_slash len by (auto simp: f)
qed

text \<open>C16 for the same account twice.\<close>

theorem single_zip_entries_witness:
  "\<exists>files fname. createSingleZip (\<lambda>_. None) sample_clock [sample_account, sample_account]
     = Inr (BlobZip files, fname) \<and> length files = 2 \<and> distinct (map fst files)"
proof -
  let ?accs = "[sample_account, sample_account]"
  have "\<exists>cs. convertAll (\<lambda>_. None) sample_clock ?accs = Inr cs"
    unfolding convertAll_def Let_def
    by (rule map_res_Inr) (use sample_converts in auto)
  then obtain files fname where z: "createSingleZip (\<lambda>_. None) sample_clock ?accs = Inr (BlobZip files, fname)"
    by (auto simp: createSingleZip_def)
  have "list_all wf_json ?accs" using sample_wf by simp
  from single_zip_entries [OF this z] have "length files = 2" "distinct (map fst files)"
    by simp_all
  with z show ?thesis by blast
qed

text \<open>C13: Whatever the detector accepts is a non-empty list of well-formed objects,
  and it recognises each of the three formats: a printed array of accounts, a
  printed object, and two or more printed accounts on lines of their own read
  back as those accounts, up to the size limit.\<close>

theorem detectAndParse_formats:
  assumes "list_all is_object vs" "list_all wf_json vs" "vs \<noteq> []"
  shows "(blob_size (stringify (JArr vs)) \<le> MAX_INPUT_SIZE \<longrightarrow>
           detectAndParse (stringify (JArr vs)) = Inr \<lparr>pi_accounts = vs, pi_format = FmtArray\<rparr>)
    \<and> (2 \<le> length vs \<and> blob_size (js_join [10] (map stringify vs)) \<le> MAX_INPUT_SIZE \<longrightarrow>
           detectAndParse (js_join [10] (map stringify vs)) = Inr \<lparr>pi_accounts = vs, pi_format = FmtJSONL\<rparr>)
    \<and> (\<forall>kvs. vs = [JObj kvs] \<and> blob_size (stringify (JObj kvs)) \<le> MAX_INPUT_SIZE \<longrightarrow>
           detectAndParse (stringify (JObj kvs)) = Inr \<lparr>pi_accounts = vs, pi_format = FmtObject\<rparr>)
    \<and> (\<forall>s p. detectAndParse s = Inr p \<longrightarrow> pi_accounts p \<noteq> [] \<and> list_all is_object (pi_accounts p)
           \<and> list_all wf_json (pi_accounts p))"
  using assms detect_array detect_jsonl detect_object detectAndParse_Inr by auto

text \<open>C13 for two empty accounts on two lines.\<close>

theorem detectAndParse_formats_witness:
  "detectAndParse (js_join [10] (map stringify [JObj [], JObj []]))
     = Inr \<lparr>pi_accounts = [JObj [], JObj []], pi_format = FmtJSONL\<rparr>"
proof -
  have h: "list_all is_object [JObj [], JObj []]" "list_all wf_json [JObj [], JObj []]"
    "[JObj [], JObj []] \<noteq> []"
    by (simp_all add: is_object_def)
  have "blob_size (js_join [10] (map stringify [JObj [], JObj []])) \<le> MAX_INPUT_SIZE"
    by (simp add: stringify_def blob_size_def MAX_INPUT_SIZE_def char_defs)
  with detectAndParse_formats [OF h] show ?thesis by simp
qed

text \<open>When JSON lines are rejected, the message names the first line (counted
  from one, blank lines included) that is not a JSON object, and says whether it
  is not JSON or not an object; all lines before it are fine.\<close>

lemma detectAndParse_line_error:
  assumes "JSON_parse (js_trim s) = None" "js_trim s \<noteq> []" "blob_size (js_trim s) \<le> MAX_INPUT_SIZE"
    "detectAndParse s = Inl e"
  shows "let ls = regex_split False newline_re (js_trim s) in
    (\<forall>l \<in> set ls. blank l) \<and> e = ErrorMsg msg_conv_none \<or>
    (\<exists>k < length ls. \<not> blank (ls ! k) \<and> (\<exists>vs. parse_lines 0 (take k ls) = Inr vs) \<and>
       (if JSON_parse (js_trim (ls ! k)) = None
        then e = ErrorMsg (msg_conv_line_pre @ nat_str (k + 1) @ msg_conv_line_json)
        else \<not> is_object (the (JSON_parse (js_trim (ls ! k)))) \<and>
             e = ErrorMsg (msg_conv_line_pre @ nat_str (k + 1) @ msg_conv_line_object)))"
proof -
  define ls where "ls = regex_split False newline_re (js_trim s)"
  have "bind_res (parse_lines 0 ls) (\<lambda>accounts. if accounts = [] then Inl (ErrorMsg msg_conv_none)
      else Inr \<lparr>pi_accounts = accounts, pi_format = FmtJSONL\<rparr>) = Inl e"
    using assms by (simp add: detectAndParse_def ls_def)
  then consider "parse_lines 0 ls = Inl e" | "parse_lines 0 ls = Inr []" "e = ErrorMsg msg_conv_none"
    by (auto simp: bind_res_Inl_iff split: if_splits)
  then show ?thesis
  proof cases
    case 1
    from parse_lines_Inl [OF this] show ?thesis
      unfolding ls_def [symmetric] by auto
  next
    case 2
    then show ?thesis
      unfolding ls_def [symmetric] by (auto simp: parse_lines_Inr filter_empty_conv)
  qed
qed

end
