(* ===== verification/CdkInput.thy ===== *)
theory CdkInput
  imports ConverterProps
begin

text \<open>
  The input functions of web/src/pages/redeem.tsx: cleaning a code, splitting the
  text area into codes, and checking an e-mail address; each is related to a
  direct description.
\<close>

definition normalizeCdk :: "jstr \<Rightarrow> jstr" where
  "normalizeCdk v = js_toUpperCase (js_replaceAll (\<lambda>c. \<not> is_alnum c) [] v)"

text \<open>\<^verbatim>\<open>/[\s,;]+/\<close> with both the ASCII and the full-width comma and semicolon\<close>

definition cdk_sep_cls :: "cls list" where
  "cdk_sep_cls = [CSpace, CRange 44 44, CRange 65292 65292, CRange 59 59, CRange 65307 65307]"

definition cdk_sep_re :: regex where
  "cdk_sep_re = RPlus (RSet False cdk_sep_cls)"

text \<open>The loop over the parts; \<open>seen\<close> is the set of the codes pushed so far.\<close>

fun push_codes :: "jstr list \<Rightarrow> jstr list \<Rightarrow> jstr list" where
  "push_codes codes [] = codes"
| "push_codes codes (part # parts) =
     (let code = normalizeCdk part in
      if code = [] \<or> code \<in> set codes then push_codes codes parts
      else push_codes (codes @ [code]) parts)"

definition parseCdkList :: "jstr \<Rightarrow> jstr list" where
  "parseCdkList v = push_codes [] (regex_split False cdk_sep_re v)"

text \<open>\<^verbatim>\<open>/^[^\s@]+@[^\s@]+\.[^\s@]+$/\<close>\<close>

definition email_part :: regex where
  "email_part = RPlus (RSet True [CSpace, CRange 64 64])"

definition email_re :: regex where
  "email_re = RSeq RBegin (RSeq email_part (RSeq (RChr 64) (RSeq email_part
     (RSeq (RChr 46) (RSeq email_part REnd)))))"

definition isValidEmail :: "jstr \<Rightarrow> bool" where
  "isValidEmail v \<longleftrightarrow> length v \<le> 254 \<and> regex_test email_re v"

section \<open>Codes\<close>

definition is_sep :: "cu \<Rightarrow> bool" where
  "is_sep c \<longleftrightarrow> is_ws c \<or> c \<in> {44, 65292, 59, 65307}"

lemma set_mem_sep: "set_mem False cdk_sep_cls = is_sep"
  by (auto simp: set_mem_def cdk_sep_cls_def is_sep_def fun_eq_iff)

lemma alnum_not_sep: "is_alnum c \<Longrightarrow> \<not> is_sep c"
  using is_alnum_not_ws by (auto simp: is_sep_def char_defs word_le_nat_alt)

lemma normalizeCdk_filter: "normalizeCdk v = map upper_cu (filter is_alnum v)"
  by (induction v) (auto simp: normalizeCdk_def js_replaceAll_def)

text \<open>A cleaned code: digits and upper-case letters.\<close>

definition clean_code :: "jstr \<Rightarrow> bool" where
  "clean_code c \<longleftrightarrow> c \<noteq> [] \<and> list_all (\<lambda>x. is_upper x \<or> is_digit x) c"

lemma clean_code_alnum: "clean_code c \<Longrightarrow> list_all is_alnum c"
  by (auto simp: clean_code_def list_all_iff is_alnum_def)

lemma clean_code_no_sep: "clean_code t \<Longrightarrow> t \<noteq> [] \<and> list_all (\<lambda>x. \<not> is_sep x) t"
  using clean_code_alnum alnum_not_sep by (auto simp: list_all_iff clean_code_def)

lemma normalize_clean: "clean_code c \<Longrightarrow> normalizeCdk c = c"
proof -
  assume c: "clean_code c"
  then have "filter is_alnum c = c"
    using clean_code_alnum by (auto simp: list_all_iff intro: filter_True)
  moreover have "map upper_cu c = c"
    using c by (auto simp: clean_code_def list_all_iff upper_cu_def is_upper_not_lower is_digit_not_lower
        intro!: map_idI)
  ultimately show ?thesis by (simp add: normalizeCdk_filter)
qed

lemma upper_cu_clean: "is_alnum x \<Longrightarrow> is_upper (upper_cu x) \<or> is_digit (upper_cu x)"
  using upper_cu_upper [of x] by (cases "is_lower x") (auto simp: upper_cu_def is_alnum_def)

lemma normalizeCdk_clean: "normalizeCdk v \<noteq> [] \<Longrightarrow> clean_code (normalizeCdk v)"
  by (auto simp: clean_code_def normalizeCdk_filter list_all_iff upper_cu_clean)

text \<open>Keeping the first of equal elements.\<close>

definition first_occurrences :: "'a list \<Rightarrow> 'a list" where
  "first_occurrences xs = rev (remdups (rev xs))"

lemma first_occurrences_snoc:
  "first_occurrences (xs @ [x]) = (if x \<in> set xs then first_occurrences xs else first_occurrences xs @ [x])"
  by (simp add: first_occurrences_def)

lemma set_first_occurrences [simp]: "set (first_occurrences xs) = set xs"
  by (simp add: first_occurrences_def)

lemma distinct_first_occurrences [simp]: "distinct (first_occurrences xs)"
  by (simp add: first_occurrences_def)

lemma first_occurrences_distinct: "distinct xs \<Longrightarrow> first_occurrences xs = xs"
  by (simp add: first_occurrences_def distinct_remdups_id)

lemma push_codes_first:
  "push_codes (first_occurrences done) parts =
     first_occurrences (done @ filter (\<lambda>c. c \<noteq> []) (map normalizeCdk parts))"
proof (induction parts arbitrary: "done")
  case (Cons p ps)
  show ?case
  proof (cases "normalizeCdk p = []")
    case True
    then show ?thesis using Cons [of "done"] by simp
  next
    case False
    have "push_codes (first_occurrences done) (p # ps)
        = push_codes (first_occurrences (done @ [normalizeCdk p])) ps"
      using False by (simp add: first_occurrences_snoc Let_def)
    then show ?thesis using Cons [of "done @ [normalizeCdk p]"] False by simp
  qed
qed simp

lemma map_filter_nonempty:
  "f [] = [] \<Longrightarrow> filter (\<lambda>c. c \<noteq> []) (map f xs) = filter (\<lambda>c. c \<noteq> []) (map f (filter (\<lambda>t. t \<noteq> []) xs))"
  by (induction xs) auto

lemma parseCdkList_runs:
  "parseCdkList v = first_occurrences (filter (\<lambda>c. c \<noteq> []) (map normalizeCdk (runs is_sep v)))"
proof -
  have "normalizeCdk [] = []" by (simp add: normalizeCdk_filter)
  then have "parseCdkList v = first_occurrences (filter (\<lambda>c. c \<noteq> []) (map normalizeCdk
      (filter (\<lambda>t. t \<noteq> []) (regex_split False cdk_sep_re v))))"
    using push_codes_first [of "[]" "regex_split False cdk_sep_re v"]
      map_filter_nonempty [of normalizeCdk "regex_split False cdk_sep_re v"]
    by (simp add: parseCdkList_def first_occurrences_def)
  then show ?thesis
    by (simp add: cdk_sep_re_def filter_regex_split_runs set_mem_sep)
qed

lemma parseCdkList_clean: "c \<in> set (parseCdkList v) \<Longrightarrow> clean_code c"
  by (auto simp: parseCdkList_runs intro: normalizeCdk_clean)

lemma parseCdkList_distinct: "distinct (parseCdkList v)"
  by (simp add: parseCdkList_runs)

lemma is_sep_newline: "is_sep 10"
  by (simp add: is_sep_def is_ws_def)

lemma parseCdkList_join:
  assumes "distinct cs" "list_all clean_code cs"
  shows "parseCdkList (js_join [10] cs) = cs"
proof -
  have "runs is_sep (js_join [10] cs) = cs"
  proof (rule runs_join)
    show "is_sep 10" by (rule is_sep_newline)
    show "\<And>t. t \<in> set cs \<Longrightarrow> t \<noteq> [] \<and> list_all (\<lambda>x. \<not> is_sep x) t"
      using assms(2) by (intro clean_code_no_sep) (simp add: list_all_iff)
  qed
  moreover have "map normalizeCdk cs = cs"
    using assms(2) by (auto simp: list_all_iff normalize_clean intro: map_idI)
  moreover have "filter (\<lambda>c. c \<noteq> []) cs = cs"
    using assms(2) by (auto simp: list_all_iff clean_code_def intro: filter_True)
  ultimately show ?thesis
    using assms(1) by (simp add: parseCdkList_runs first_occurrences_distinct)
qed

section \<open>E-mail addresses\<close>

definition email_char :: "cu \<Rightarrow> bool" where
  "email_char c \<longleftrightarrow> \<not> is_ws c \<and> c \<noteq> 64"

lemma set_mem_email: "set_mem True [CSpace, CRange 64 64] = email_char"
  by (auto simp: set_mem_def email_char_def fun_eq_iff)

text \<open>All states a repeated class can stop in.\<close>

lemma rmatch_star_iff:
  "(q, t) \<in> set (rmatch (RStar (RSet neg cs)) p s) \<longleftrightarrow>
     (\<exists>u. s = u @ t \<and> list_all (set_mem neg cs) u \<and> q = (if u = [] then p else Some (last u)))"
proof (induction s arbitrary: p)
  case Nil
  then show ?case by (auto simp: rmatch.simps(5))
next
  case (Cons c s)
  show ?case
  proof (cases "set_mem neg cs c")
    case True
    then have "(q, t) \<in> set (rmatch (RStar (RSet neg cs)) p (c # s)) \<longleftrightarrow>
        (q, t) \<in> set (rmatch (RStar (RSet neg cs)) (Some c) s) \<or> (q = p \<and> t = c # s)"
      by (auto simp: rmatch.simps(5) [of _ p])
    also have "\<dots> \<longleftrightarrow> (\<exists>u. c # s = u @ t \<and> list_all (set_mem neg cs) u \<and> q = (if u = [] then p else Some (last u)))"
      (is "?l \<longleftrightarrow> ?r")
    proof
      assume ?l
      then show ?r
      proof
        assume "(q, t) \<in> set (rmatch (RStar (RSet neg cs)) (Some c) s)"
        then obtain u where "s = u @ t" "list_all (set_mem neg cs) u" "q = (if u = [] then Some c else Some (last u))"
          using Cons.IH by blast
        then show ?r using True by (intro exI [of _ "c # u"]) auto
      next
        assume "q = p \<and> t = c # s"
        then show ?r by (intro exI [of _ "[]"]) auto
      qed
    next
      assume ?r
      then obtain u where u: "c # s = u @ t" "list_all (set_mem neg cs) u" "q = (if u = [] then p else Some (last u))"
        by blast
      then show ?l
        unfolding Cons.IH by (cases u) auto
    qed
    finally show ?thesis .
  next
    case False
    then have "rmatch (RStar (RSet neg cs)) p (c # s) = [(p, c # s)]"
      by (simp add: rmatch.simps(5))
    moreover have "u = []" if "c # s = u @ t" "list_all (set_mem neg cs) u" for u
      using that False by (cases u) auto
    ultimately show ?thesis by auto
  qed
qed

lemma rmatch_plus_iff:
  "(q, t) \<in> set (rmatch (RPlus (RSet neg cs)) p s) \<longleftrightarrow>
     (\<exists>u. u \<noteq> [] \<and> s = u @ t \<and> list_all (set_mem neg cs) u \<and> q = Some (last u))"
proof (cases s)
  case (Cons c r)
  have "(q, t) \<in> set (rmatch (RPlus (RSet neg cs)) p s) \<longleftrightarrow>
      set_mem neg cs c \<and> (\<exists>u. r = u @ t \<and> list_all (set_mem neg cs) u
        \<and> q = (if u = [] then Some c else Some (last u)))"
    using Cons by (auto simp: rmatch_star_iff)
  also have "\<dots> \<longleftrightarrow> (\<exists>u. u \<noteq> [] \<and> s = u @ t \<and> list_all (set_mem neg cs) u \<and> q = Some (last u))"
    (is "?l \<longleftrightarrow> ?r")
  proof
    assume ?l
    then obtain u where "set_mem neg cs c" "r = u @ t" "list_all (set_mem neg cs) u"
      "q = (if u = [] then Some c else Some (last u))" by blast
    then show ?r using Cons by (intro exI [of _ "c # u"]) auto
  next
    assume ?r
    then obtain u where u: "u \<noteq> []" "s = u @ t" "list_all (set_mem neg cs) u" "q = Some (last u)"
      by blast
    then obtain u' where "u = c # u'" "r = u' @ t"
      using Cons by (cases u) auto
    then show ?l using u by auto
  qed
  finally show ?thesis .
qed auto

lemma rmatch_chr_iff: "(q, t) \<in> set (rmatch (RChr c) p s) \<longleftrightarrow> s = c # t \<and> q = Some c"
  by (cases s) (auto simp: set_mem_chr)

lemma rmatch_seq_iff:
  "(q, t) \<in> set (rmatch (RSeq a b) p s) \<longleftrightarrow> (\<exists>q' t'. (q', t') \<in> set (rmatch a p s) \<and> (q, t) \<in> set (rmatch b q' t'))"
  by auto

lemma email_part_iff:
  "(q, t) \<in> set (rmatch email_part p s) \<longleftrightarrow>
     (\<exists>u. u \<noteq> [] \<and> s = u @ t \<and> list_all email_char u \<and> q = Some (last u))"
  unfolding email_part_def rmatch_plus_iff set_mem_email ..

lemma email_partI:
  "u \<noteq> [] \<Longrightarrow> list_all email_char u \<Longrightarrow> (Some (last u), t) \<in> set (rmatch email_part p (u @ t))"
  unfolding email_part_iff by blast

lemma rmatch_chrI: "(Some c, t) \<in> set (rmatch (RChr c) p (c # t))"
  unfolding rmatch_chr_iff by simp

lemma rmatch_seqI:
  "(q', t') \<in> set (rmatch a p s) \<Longrightarrow> (q, t) \<in> set (rmatch b q' t') \<Longrightarrow> (q, t) \<in> set (rmatch (RSeq a b) p s)"
  unfolding rmatch_seq_iff by blast

lemma email_re_iff:
  "regex_test email_re s \<longleftrightarrow>
     (\<exists>a b c. s = a @ 64 # b @ 46 # c \<and> a \<noteq> [] \<and> b \<noteq> [] \<and> c \<noteq> []
        \<and> list_all email_char a \<and> list_all email_char b \<and> list_all email_char c)"
  (is "_ \<longleftrightarrow> ?r")
proof -
  let ?tail = "RSeq email_part (RSeq (RChr 64) (RSeq email_part (RSeq (RChr 46) (RSeq email_part REnd))))"
  have "regex_test email_re s \<longleftrightarrow> (\<exists>q t. (q, t) \<in> set (rmatch ?tail None s))"
    unfolding email_re_def regex_test_begin by (metis ex_in_conv old.prod.exhaust set_empty)
  also have "\<dots> \<longleftrightarrow> ?r"
  proof
    assume "\<exists>q t. (q, t) \<in> set (rmatch ?tail None s)"
    then obtain q t where "(q, t) \<in> set (rmatch ?tail None s)" by blast
    then show ?r
      unfolding rmatch_seq_iff email_part_iff rmatch_chr_iff
      by (simp split: if_splits) blast
  next
    assume ?r
    then obtain a b c where s: "s = a @ 64 # b @ 46 # c" "a \<noteq> []" "b \<noteq> []" "c \<noteq> []"
      "list_all email_char a" "list_all email_char b" "list_all email_char c" by blast
    have last: "(Some (last c), []) \<in> set (rmatch (RSeq email_part REnd) p c)" for p
      unfolding rmatch_seq_iff
      by (rule exI [of _ "Some (last c)"], rule exI [of _ "[]"]) (use s in \<open>auto simp: email_part_iff\<close>)
    have mid: "(Some (last c), []) \<in> set (rmatch (RSeq email_part (RSeq (RChr 46) (RSeq email_part REnd))) p (b @ 46 # c))" for p
      by (rule rmatch_seqI [OF email_partI [OF s(3,6)] rmatch_seqI [OF rmatch_chrI last]])
    have "(Some (last c), []) \<in> set (rmatch ?tail None s)"
      unfolding s(1) by (rule rmatch_seqI [OF email_partI [OF s(2,5)] rmatch_seqI [OF rmatch_chrI mid]])
    then show "\<exists>q t. (q, t) \<in> set (rmatch ?tail None s)" by blast
  qed
  finally show ?thesis .
qed

section \<open>Properties\<close>

text \<open>C21: The text area is read as the codes between separators (white space, comma,
  semicolon, in both widths), each reduced to its upper-case letters and digits,
  without empty ones and without repetitions, in the order of first occurrence.
  Every code of the result is a non-empty string of digits and capitals.\<close>

theorem parseCdkList_reference:
  "parseCdkList v = first_occurrences (filter (\<lambda>c. c \<noteq> []) (map normalizeCdk (runs is_sep v)))
   \<and> distinct (parseCdkList v) \<and> list_all clean_code (parseCdkList v)"
  using parseCdkList_clean parseCdkList_distinct by (auto simp: parseCdkList_runs list_all_iff)

text \<open>Writing codes back into the text area, one per line, and reading it again
  gives the same codes: what the page puts there after a partly failed batch is
  what the next submission sends.\<close>

lemma parseCdkList_join_roundtrip:
  assumes "distinct cs" "set cs \<subseteq> set (parseCdkList v)"
  shows "parseCdkList (js_join [10] cs) = cs"
  using assms parseCdkList_clean by (intro parseCdkList_join) (auto simp: list_all_iff)

text \<open>C22: An e-mail address is accepted exactly when it has at most 254 code units
  and consists of a local part, one at sign and a domain with a dot inside it,
  all three pieces around them non-empty and free of white space and at signs.\<close>

theorem isValidEmail_reference:
  "isValidEmail s \<longleftrightarrow> length s \<le> 254 \<and>
     (\<exists>a b c. s = a @ js ''@'' @ b @ js ''.'' @ c \<and> a \<noteq> [] \<and> b \<noteq> [] \<and> c \<noteq> []
        \<and> list_all email_char (a @ b @ c))"
  by (auto simp: isValidEmail_def email_re_iff)

end
