(* ===== verification/UiMessages.thy ===== *)
theory UiMessages
  imports JsPrelude
begin

text \<open>
  The texts of the pages and components of web/src that are not ASCII, as UTF-16
  code units. Each constant names the source file of its literal and glosses it.
\<close>

text \<open>web/src/pages/redeem.tsx: dash\<close>

definition msg_rd_dash :: jstr where
  "msg_rd_dash = [8212]"

text \<open>web/src/pages/redeem.tsx: show\<close>

definition msg_rd_show :: jstr where
  "msg_rd_show = [26597, 30475]"

text \<open>web/src/pages/redeem.tsx: batch results\<close>

definition msg_rd_batch_results :: jstr where
  "msg_rd_batch_results = [25209, 37327, 20817, 25442, 32467, 26524]"

text \<open>web/src/pages/redeem.tsx: succeeded\<close>

definition msg_rd_succeeded :: jstr where
  "msg_rd_succeeded = [25104, 21151, 32]"

text \<open>web/src/pages/redeem.tsx: failed\<close>

definition msg_rd_failed :: jstr where
  "msg_rd_failed = [32, 183, 32, 22833, 36133, 32]"

text \<open>web/src/pages/redeem.tsx: download zip\<close>

definition msg_rd_download_zip :: jstr where
  "msg_rd_download_zip = [19979, 36733, 32, 90, 73, 80]"

text \<open>web/src/pages/redeem.tsx: redeeming\<close>

definition msg_rd_redeeming :: jstr where
  "msg_rd_redeeming = [20817, 25442, 20013, 8230]"

text \<open>web/src/pages/redeem.tsx: redeem batch\<close>

definition msg_rd_redeem_batch :: jstr where
  "msg_rd_redeem_batch = [25209, 37327, 20817, 25442, 32]"

text \<open>web/src/pages/redeem.tsx: pieces\<close>

definition msg_rd_pieces :: jstr where
  "msg_rd_pieces = [32, 20010]"

text \<open>web/src/pages/redeem.tsx: redeem now\<close>

definition msg_rd_redeem_now :: jstr where
  "msg_rd_redeem_now = [31435, 21363, 20817, 25442]"

text \<open>web/src/pages/redeem.tsx: email label\<close>

definition msg_rd_email_label :: jstr where
  "msg_rd_email_label = [37038, 31665, 32, 42]"

text \<open>web/src/pages/redeem.tsx: email hint\<close>

definition msg_rd_email_hint :: jstr where
  "msg_rd_email_hint = [20165, 29992, 20110, 35760, 24405, 21644, 26680, 23545, 20817, 25442]"

text \<open>web/src/pages/redeem.tsx: codes label\<close>

definition msg_rd_codes_label :: jstr where
  "msg_rd_codes_label = [20817, 25442, 30721, 65288, 25903, 25345, 25209, 37327, 65289]"

text \<open>web/src/pages/redeem.tsx: paste\<close>

definition msg_rd_paste :: jstr where
  "msg_rd_paste = [31896, 36148]"

text \<open>web/src/pages/redeem.tsx: codes hint\<close>

definition msg_rd_codes_hint :: jstr where
  "msg_rd_codes_hint = [27599, 34892, 12289, 31354, 26684, 25110, 36887, 21495, 20998, 38548,
     65292, 37325, 22797, 20817, 25442, 30721, 33258, 21160, 21435, 37325]"

text \<open>web/src/pages/redeem.tsx: total\<close>

definition msg_rd_total :: jstr where
  "msg_rd_total = [20849, 32]"

text \<open>web/src/pages/redeem.tsx: redeem failed\<close>

definition msg_rd_redeem_failed :: jstr where
  "msg_rd_redeem_failed = [20817, 25442, 22833, 36133]"

text \<open>web/src/pages/redeem.tsx: delete entry\<close>

definition msg_rd_delete_entry :: jstr where
  "msg_rd_delete_entry = [21024, 38500, 36825, 26465, 21382, 21490, 35760, 24405]"

text \<open>web/src/pages/redeem.tsx: history\<close>

definition msg_rd_history :: jstr where
  "msg_rd_history = [20817, 25442, 21382, 21490]"

text \<open>web/src/pages/redeem.tsx: history hint\<close>

definition msg_rd_history_hint :: jstr where
  "msg_rd_history_hint = [20165, 20445, 23384, 22312, 24403, 21069, 26631, 31614, 39029, 65292,
     21047, 26032, 21518, 20173, 21487, 26597, 30475, 65292, 20851, 38381, 26631, 31614, 39029,
     21518, 33258, 21160, 28165, 38500, 12290, 26368, 22810, 20445, 30041, 26368, 36817, 32, 50,
     48, 32, 26465, 12290]"

text \<open>web/src/pages/redeem.tsx: no history\<close>

definition msg_rd_no_history :: jstr where
  "msg_rd_no_history = [26242, 26080, 20817, 25442, 21382, 21490]"

text \<open>web/src/pages/redeem.tsx: no history hint\<close>

definition msg_rd_no_history_hint :: jstr where
  "msg_rd_no_history_hint = [25104, 21151, 20817, 25442, 21518, 65292, 35760, 24405, 20250,
     26174, 31034, 22312, 36825, 37324, 12290]"

text \<open>web/src/pages/redeem.tsx: clear history\<close>

definition msg_rd_clear_history :: jstr where
  "msg_rd_clear_history = [28165, 31354, 21382, 21490]"

text \<open>web/src/pages/redeem.tsx: clear title\<close>

definition msg_rd_clear_title :: jstr where
  "msg_rd_clear_title = [28165, 31354, 20840, 37096, 20817, 25442, 21382, 21490, 65311]"

text \<open>web/src/pages/redeem.tsx: clear hint\<close>

definition msg_rd_clear_hint :: jstr where
  "msg_rd_clear_hint = [36825, 21482, 20250, 21024, 38500, 24403, 21069, 27983, 35272, 22120,
     20013, 20445, 23384, 30340, 21382, 21490, 35760, 24405, 65292, 19988, 26080, 27861, 24674,
     22797, 12290]"

text \<open>web/src/pages/redeem.tsx: clear confirm\<close>

definition msg_rd_clear_confirm :: jstr where
  "msg_rd_clear_confirm = [30830, 35748, 28165, 31354]"

text \<open>web/src/pages/redeem.tsx: close\<close>

definition msg_rd_close :: jstr where
  "msg_rd_close = [20851, 38381]"

text \<open>web/src/pages/redeem.tsx: payload\<close>

definition msg_rd_payload :: jstr where
  "msg_rd_payload = [20817, 25442, 20869, 23481]"

text \<open>web/src/pages/redeem.tsx: payload copied\<close>

definition msg_rd_payload_copied :: jstr where
  "msg_rd_payload_copied = [20817, 25442, 20869, 23481, 24050, 22797, 21046]"

text \<open>web/src/pages/redeem.tsx: copy payload\<close>

definition msg_rd_copy_payload :: jstr where
  "msg_rd_copy_payload = [22797, 21046, 20869, 23481]"

text \<open>web/src/pages/redeem.tsx: download payload\<close>

definition msg_rd_download_payload :: jstr where
  "msg_rd_download_payload = [19979, 36733, 20869, 23481]"

text \<open>web/src/pages/redeem.tsx: credential\<close>

definition msg_rd_credential :: jstr where
  "msg_rd_credential = [20998, 37197, 21040, 30340, 20973, 35777]"

text \<open>web/src/pages/redeem.tsx: email\<close>

definition msg_rd_email :: jstr where
  "msg_rd_email = [37038, 31665]"

text \<open>web/src/pages/redeem.tsx: plan\<close>

definition msg_rd_plan :: jstr where
  "msg_rd_plan = [22871, 39184]"

text \<open>web/src/pages/redeem.tsx: expires\<close>

definition msg_rd_expires :: jstr where
  "msg_rd_expires = [36807, 26399, 26102, 38388]"

text \<open>web/src/pages/redeem.tsx: credential copied\<close>

definition msg_rd_credential_copied :: jstr where
  "msg_rd_credential_copied = [20973, 35777, 24050, 22797, 21046]"

text \<open>web/src/pages/redeem.tsx: copy credential\<close>

definition msg_rd_copy_credential :: jstr where
  "msg_rd_copy_credential = [22797, 21046, 20973, 35777]"

text \<open>web/src/pages/redeem.tsx: download credential\<close>

definition msg_rd_download_credential :: jstr where
  "msg_rd_download_credential = [19979, 36733, 20973, 35777]"

text \<open>web/src/pages/redeem.tsx: redeemed\<close>

definition msg_rd_redeemed :: jstr where
  "msg_rd_redeemed = [20817, 25442, 25104, 21151]"

text \<open>web/src/pages/redeem.tsx: dot\<close>

definition msg_rd_dot :: jstr where
  "msg_rd_dot = [32, 183, 32]"

text \<open>web/src/pages/redeem.tsx: code\<close>

definition msg_rd_code :: jstr where
  "msg_rd_code = [20817, 25442, 30721]"

text \<open>web/src/pages/redeem.tsx: finish\<close>

definition msg_rd_finish :: jstr where
  "msg_rd_finish = [23436, 25104]"

text \<open>web/src/pages/redeem.tsx: open history\<close>

definition msg_rd_open_history :: jstr where
  "msg_rd_open_history = [25171, 24320, 20817, 25442, 21382, 21490]"

text \<open>web/src/pages/redeem.tsx: page hint\<close>

definition msg_rd_page_hint :: jstr where
  "msg_rd_page_hint = [20817, 25442, 32, 67, 68, 75, 32, 25110, 36716, 25442, 36134, 21495,
     26684, 24335]"

text \<open>web/src/pages/redeem.tsx: faq title\<close>

definition msg_rd_faq_title :: jstr where
  "msg_rd_faq_title = [20817, 25442, 39035, 30693]"

text \<open>web/src/pages/redeem.tsx: page footer\<close>

definition msg_rd_page_footer :: jstr where
  "msg_rd_page_footer = [32, 183, 32, 27599, 20010, 20817, 25442, 30721, 35831, 22312, 26377,
     25928, 26399, 20869, 20351, 29992]"

text \<open>web/src/pages/redeem.tsx: opt single\<close>

definition msg_cv_opt_single :: jstr where
  "msg_cv_opt_single = [115, 117, 98, 50, 97, 112, 105, 32, 21333, 36134, 21495, 32, 90, 73, 80,
     65288, 27599, 20010, 36134, 21495, 19968, 20010, 32, 74, 83, 79, 78, 65289]"

text \<open>web/src/pages/redeem.tsx: opt merged zip\<close>

definition msg_cv_opt_merged_zip :: jstr where
  "msg_cv_opt_merged_zip = [115, 117, 98, 50, 97, 112, 105, 32, 21512, 24182, 32, 90, 73, 80,
     65288, 19968, 20010, 21512, 24182, 32, 74, 83, 79, 78, 65289]"

text \<open>web/src/pages/redeem.tsx: opt merged json\<close>

definition msg_cv_opt_merged_json :: jstr where
  "msg_cv_opt_merged_json = [115, 117, 98, 50, 97, 112, 105, 32, 21512, 24182, 32, 74, 83, 79,
     78, 65288, 30452, 25509, 19979, 36733, 32, 46, 106, 115, 111, 110, 65289]"

text \<open>web/src/pages/redeem.tsx: bad format\<close>

definition msg_cv_bad_format :: jstr where
  "msg_cv_bad_format = [19981, 25903, 25345, 30340, 36755, 20986, 26684, 24335]"

text \<open>web/src/pages/redeem.tsx: download failed\<close>

definition msg_cv_download_failed :: jstr where
  "msg_cv_download_failed = [19979, 36733, 22833, 36133]"

text \<open>web/src/pages/redeem.tsx: detect first\<close>

definition msg_cv_detect_first :: jstr where
  "msg_cv_detect_first = [35831, 20808, 36755, 20837, 26377, 25928, 20869, 23481, 24182, 23436,
     25104, 35782, 21035]"

text \<open>web/src/pages/redeem.tsx: read failed\<close>

definition msg_cv_read_failed :: jstr where
  "msg_cv_read_failed = [25991, 20214, 35835, 21462, 22833, 36133]"

text \<open>web/src/pages/redeem.tsx: no clipboard\<close>

definition msg_cv_no_clipboard :: jstr where
  "msg_cv_no_clipboard = [26080, 27861, 35835, 21462, 21098, 36148, 26495]"

text \<open>web/src/pages/redeem.tsx: detected\<close>

definition msg_cv_detected :: jstr where
  "msg_cv_detected = [35782, 21035, 25104, 21151]"

text \<open>web/src/pages/redeem.tsx: format\<close>

definition msg_cv_format :: jstr where
  "msg_cv_format = [26684, 24335, 65306]"

text \<open>web/src/pages/redeem.tsx: and total\<close>

definition msg_cv_and_total :: jstr where
  "msg_cv_and_total = [32, 183, 32, 20849, 32]"

text \<open>web/src/pages/redeem.tsx: accounts\<close>

definition msg_cv_accounts :: jstr where
  "msg_cv_accounts = [32, 20010, 36134, 21495]"

text \<open>web/src/pages/redeem.tsx: first\<close>

definition msg_cv_first :: jstr where
  "msg_cv_first = [21069, 32]"

text \<open>web/src/pages/redeem.tsx: entries\<close>

definition msg_cv_entries :: jstr where
  "msg_cv_entries = [32, 26465, 65306]"

text \<open>web/src/pages/redeem.tsx: source\<close>

definition msg_cv_source :: jstr where
  "msg_cv_source = [21407, 22987, 36134, 21495, 25968, 25454]"

text \<open>web/src/pages/redeem.tsx: upload\<close>

definition msg_cv_upload :: jstr where
  "msg_cv_upload = [19978, 20256, 25991, 20214]"

text \<open>web/src/pages/redeem.tsx: paste\<close>

definition msg_cv_paste :: jstr where
  "msg_cv_paste = [31896, 36148]"

text \<open>web/src/pages/redeem.tsx: drop hint\<close>

definition msg_cv_drop_hint :: jstr where
  "msg_cv_drop_hint = [21487, 25302, 25341, 32, 46, 106, 115, 111, 110, 32, 47, 32, 46, 116, 120,
     116, 32, 25991, 20214, 21040, 19978, 26041, 25991, 26412, 26694, 65292, 25110, 30452, 25509,
     31896, 36148, 20869, 23481]"

text \<open>web/src/pages/redeem.tsx: detect\<close>

definition msg_cv_detect :: jstr where
  "msg_cv_detect = [33258, 21160, 35782, 21035, 26684, 24335]"

text \<open>web/src/pages/redeem.tsx: convert failed\<close>

definition msg_cv_convert_failed :: jstr where
  "msg_cv_convert_failed = [36716, 25442, 22833, 36133]"

text \<open>web/src/pages/redeem.tsx: converting\<close>

definition msg_cv_converting :: jstr where
  "msg_cv_converting = [36716, 25442, 20013, 8230]"

text \<open>web/src/pages/redeem.tsx: convert\<close>

definition msg_cv_convert :: jstr where
  "msg_cv_convert = [36716, 25442, 24182, 19979, 36733]"

text \<open>web/src/components: cancel\<close>

definition msg_cm_cancel :: jstr where
  "msg_cm_cancel = [21462, 28040]"

text \<open>web/src/components: confirm\<close>

definition msg_cm_confirm :: jstr where
  "msg_cm_confirm = [30830, 35748]"

text \<open>web/src/components: total\<close>

definition msg_cm_total :: jstr where
  "msg_cm_total = [20849, 32]"

text \<open>web/src/components: entries\<close>

definition msg_cm_entries :: jstr where
  "msg_cm_entries = [32, 26465]"

text \<open>web/src/components: previous\<close>

definition msg_cm_previous :: jstr where
  "msg_cm_previous = [19978, 19968, 39029]"

text \<open>web/src/components: next\<close>

definition msg_cm_next :: jstr where
  "msg_cm_next = [19979, 19968, 39029]"

text \<open>web/src/components: pending\<close>

definition msg_cm_pending :: jstr where
  "msg_cm_pending = [25512, 36865, 20013]"

text \<open>web/src/components: delivered\<close>

definition msg_cm_delivered :: jstr where
  "msg_cm_delivered = [24050, 36865, 36798]"

text \<open>web/src/components: failed\<close>

definition msg_cm_failed :: jstr where
  "msg_cm_failed = [22833, 36133]"

text \<open>web/src/components: dead letter\<close>

definition msg_cm_dead_letter :: jstr where
  "msg_cm_dead_letter = [37325, 35797, 32791, 23613]"

text \<open>web/src/components: dash\<close>

definition msg_cm_dash :: jstr where
  "msg_cm_dash = [8212]"

text \<open>web/src/components: active\<close>

definition msg_cm_active :: jstr where
  "msg_cm_active = [21551, 29992, 20013]"

text \<open>web/src/components: disabled\<close>

definition msg_cm_disabled :: jstr where
  "msg_cm_disabled = [24050, 20572, 29992]"

text \<open>web/src/components: code off\<close>

definition msg_cm_code_off :: jstr where
  "msg_cm_code_off = [24050, 31105, 29992]"

text \<open>web/src/components: code used up\<close>

definition msg_cm_code_used_up :: jstr where
  "msg_cm_code_used_up = [24050, 29992, 23436]"

text \<open>web/src/components: code partly\<close>

definition msg_cm_code_partly :: jstr where
  "msg_cm_code_partly = [37096, 20998, 20351, 29992]"

text \<open>web/src/components: code free\<close>

definition msg_cm_code_free :: jstr where
  "msg_cm_code_free = [21487, 29992]"

text \<open>web/src/components: to light\<close>

definition msg_cm_to_light :: jstr where
  "msg_cm_to_light = [20999, 25442, 21040, 20142, 33394, 20027, 39064]"

text \<open>web/src/components: to dark\<close>

definition msg_cm_to_dark :: jstr where
  "msg_cm_to_dark = [20999, 25442, 21040, 26263, 33394, 20027, 39064]"

text \<open>web/src/components: theme\<close>

definition msg_cm_theme :: jstr where
  "msg_cm_theme = [20999, 25442, 20027, 39064]"

text \<open>web/src/pages/admin/credentials.tsx: all\<close>

definition msg_cr_all :: jstr where
  "msg_cr_all = [20840, 37096]"

text \<open>web/src/pages/admin/credentials.tsx: unused\<close>

definition msg_cr_unused :: jstr where
  "msg_cr_unused = [26410, 20351, 29992]"

text \<open>web/src/pages/admin/credentials.tsx: used\<close>

definition msg_cr_used :: jstr where
  "msg_cr_used = [24050, 20351, 29992]"

text \<open>web/src/pages/admin/credentials.tsx: dash\<close>

definition msg_cr_dash :: jstr where
  "msg_cr_dash = [8212]"

text \<open>web/src/pages/admin/credentials.tsx: plans failed\<close>

definition msg_cr_plans_failed :: jstr where
  "msg_cr_plans_failed = [22871, 39184, 21015, 34920, 21152, 36733, 22833, 36133]"

text \<open>web/src/pages/admin/credentials.tsx: need json\<close>

definition msg_cr_need_json :: jstr where
  "msg_cr_need_json = [35831, 19978, 20256, 32, 46, 106, 115, 111, 110, 32, 25991, 20214]"

text \<open>web/src/pages/admin/credentials.tsx: choose plan\<close>

definition msg_cr_choose_plan :: jstr where
  "msg_cr_choose_plan = [35831, 36873, 25321, 22871, 39184]"

text \<open>web/src/pages/admin/credentials.tsx: name plan\<close>

definition msg_cr_name_plan :: jstr where
  "msg_cr_name_plan = [35831, 36755, 20837, 26032, 22871, 39184, 21517, 31216]"

text \<open>web/src/pages/admin/credentials.tsx: bad plan\<close>

definition msg_cr_bad_plan :: jstr where
  "msg_cr_bad_plan = [22871, 39184, 21517, 31216, 24517, 39035, 20026, 32, 49, 32, 33267, 32, 49,
     48, 48, 32, 20010, 23383, 31526, 65292, 19988, 19981, 33021, 21253, 21547, 25511, 21046,
     23383, 31526]"

text \<open>web/src/pages/admin/credentials.tsx: upload failed\<close>

definition msg_cr_upload_failed :: jstr where
  "msg_cr_upload_failed = [19978, 20256, 22833, 36133]"

text \<open>web/src/pages/admin/credentials.tsx: detail failed\<close>

definition msg_cr_detail_failed :: jstr where
  "msg_cr_detail_failed = [33719, 21462, 20973, 35777, 35814, 24773, 22833, 36133]"

text \<open>web/src/pages/admin/credentials.tsx: download failed\<close>

definition msg_cr_download_failed :: jstr where
  "msg_cr_download_failed = [19979, 36733, 20973, 35777, 22833, 36133]"

text \<open>web/src/pages/admin/credentials.tsx: title\<close>

definition msg_cr_title :: jstr where
  "msg_cr_title = [20973, 35777, 31649, 29702]"

text \<open>web/src/pages/admin/credentials.tsx: description\<close>

definition msg_cr_description :: jstr where
  "msg_cr_description = [25209, 37327, 19978, 20256, 32, 74, 83, 79, 78, 32, 20973, 35777, 65292,
     20817, 25442, 25104, 21151, 21518, 20250, 33258, 21160, 20998, 37197, 26410, 20351, 29992,
     30340, 20973, 35777, 12290]"

text \<open>web/src/pages/admin/credentials.tsx: upload\<close>

definition msg_cr_upload :: jstr where
  "msg_cr_upload = [19978, 20256, 32, 74, 83, 79, 78]"

text \<open>web/src/pages/admin/credentials.tsx: batch delete\<close>

definition msg_cr_batch_delete :: jstr where
  "msg_cr_batch_delete = [25209, 37327, 21024, 38500, 32, 40]"

text \<open>web/src/pages/admin/credentials.tsx: batch delete title\<close>

definition msg_cr_batch_delete_title :: jstr where
  "msg_cr_batch_delete_title = [30830, 23450, 35201, 25209, 37327, 21024, 38500, 36873, 20013,
     30340, 20973, 35777, 21527, 65311]"

text \<open>web/src/pages/admin/credentials.tsx: will delete\<close>

definition msg_cr_will_delete :: jstr where
  "msg_cr_will_delete = [23558, 21024, 38500, 32]"

text \<open>web/src/pages/admin/credentials.tsx: irreversible\<close>

definition msg_cr_irreversible :: jstr where
  "msg_cr_irreversible = [32, 26465, 20973, 35777, 65292, 27492, 25805, 20316, 19981, 21487,
     24674, 22797, 12290]"

text \<open>web/src/pages/admin/credentials.tsx: delete\<close>

definition msg_cr_delete :: jstr where
  "msg_cr_delete = [21024, 38500]"

text \<open>web/src/pages/admin/credentials.tsx: total\<close>

definition msg_cr_total :: jstr where
  "msg_cr_total = [20973, 35777, 24635, 25968]"

text \<open>web/src/pages/admin/credentials.tsx: reload\<close>

definition msg_cr_reload :: jstr where
  "msg_cr_reload = [37325, 26032, 21152, 36733]"

text \<open>web/src/pages/admin/credentials.tsx: loading plans\<close>

definition msg_cr_loading_plans :: jstr where
  "msg_cr_loading_plans = [27491, 22312, 21152, 36733, 22871, 39184, 8230]"

text \<open>web/src/pages/admin/credentials.tsx: importing\<close>

definition msg_cr_importing :: jstr where
  "msg_cr_importing = [27491, 22312, 23548, 20837, 20973, 35777, 8230]"

text \<open>web/src/pages/admin/credentials.tsx: drop hint\<close>

definition msg_cr_drop_hint :: jstr where
  "msg_cr_drop_hint = [28857, 20987, 25110, 25302, 25341, 32, 74, 83, 79, 78, 32, 25991, 20214,
     21040, 27492, 22788, 19978, 20256]"

text \<open>web/src/pages/admin/credentials.tsx: plan hint\<close>

definition msg_cr_plan_hint :: jstr where
  "msg_cr_plan_hint = [19978, 20256, 21069, 38656, 36873, 25321, 24050, 26377, 22871, 39184,
     65292, 25110, 21019, 24314, 19968, 20010, 26032, 22871, 39184]"

text \<open>web/src/pages/admin/credentials.tsx: view\<close>

definition msg_cr_view :: jstr where
  "msg_cr_view = [26597, 30475, 20973, 35777, 32]"

text \<open>web/src/pages/admin/credentials.tsx: delete one\<close>

definition msg_cr_delete_one :: jstr where
  "msg_cr_delete_one = [21024, 38500, 20973, 35777, 32]"

text \<open>web/src/pages/admin/credentials.tsx: delete title\<close>

definition msg_cr_delete_title :: jstr where
  "msg_cr_delete_title = [30830, 23450, 35201, 21024, 38500, 35813, 20973, 35777, 21527, 65311]"

text \<open>web/src/pages/admin/credentials.tsx: mail\<close>

definition msg_cr_mail :: jstr where
  "msg_cr_mail = [37038, 31665, 65306]"

text \<open>web/src/pages/admin/credentials.tsx: final\<close>

definition msg_cr_final :: jstr where
  "msg_cr_final = [65292, 25805, 20316, 19981, 21487, 24674, 22797, 12290]"

text \<open>web/src/pages/admin/credentials.tsx: empty\<close>

definition msg_cr_empty :: jstr where
  "msg_cr_empty = [26242, 26080, 20973, 35777]"

text \<open>web/src/pages/admin/credentials.tsx: empty hint\<close>

definition msg_cr_empty_hint :: jstr where
  "msg_cr_empty_hint = [19978, 20256, 32, 74, 83, 79, 78, 32, 25991, 20214, 21518, 22312, 27492,
     22788, 31649, 29702, 12290]"

text \<open>web/src/pages/admin/credentials.tsx: col mail\<close>

definition msg_cr_col_mail :: jstr where
  "msg_cr_col_mail = [37038, 31665]"

text \<open>web/src/pages/admin/credentials.tsx: col plan\<close>

definition msg_cr_col_plan :: jstr where
  "msg_cr_col_plan = [22871, 39184]"

text \<open>web/src/pages/admin/credentials.tsx: col expires\<close>

definition msg_cr_col_expires :: jstr where
  "msg_cr_col_expires = [36807, 26399, 26102, 38388]"

text \<open>web/src/pages/admin/credentials.tsx: col state\<close>

definition msg_cr_col_state :: jstr where
  "msg_cr_col_state = [29366, 24577]"

text \<open>web/src/pages/admin/credentials.tsx: col actions\<close>

definition msg_cr_col_actions :: jstr where
  "msg_cr_col_actions = [25805, 20316]"

text \<open>web/src/pages/admin/credentials.tsx: showing\<close>

definition msg_cr_showing :: jstr where
  "msg_cr_showing = [26174, 31034, 32]"

text \<open>web/src/pages/admin/credentials.tsx: of\<close>

definition msg_cr_of :: jstr where
  "msg_cr_of = [32, 47, 32, 20849, 32]"

text \<open>web/src/pages/admin/credentials.tsx: entries\<close>

definition msg_cr_entries :: jstr where
  "msg_cr_entries = [32, 26465]"

text \<open>web/src/pages/admin/credentials.tsx: per page\<close>

definition msg_cr_per_page :: jstr where
  "msg_cr_per_page = [27599, 39029]"

text \<open>web/src/pages/admin/credentials.tsx: previous\<close>

definition msg_cr_previous :: jstr where
  "msg_cr_previous = [19978, 19968, 39029]"

text \<open>web/src/pages/admin/credentials.tsx: next\<close>

definition msg_cr_next :: jstr where
  "msg_cr_next = [19979, 19968, 39029]"

text \<open>web/src/pages/admin/credentials.tsx: existing plan\<close>

definition msg_cr_existing_plan :: jstr where
  "msg_cr_existing_plan = [24050, 26377, 22871, 39184]"

text \<open>web/src/pages/admin/credentials.tsx: new plan\<close>

definition msg_cr_new_plan :: jstr where
  "msg_cr_new_plan = [26032, 24314, 22871, 39184]"

text \<open>web/src/pages/admin/credentials.tsx: pick plan\<close>

definition msg_cr_pick_plan :: jstr where
  "msg_cr_pick_plan = [36873, 25321, 22871, 39184]"

text \<open>web/src/pages/admin/credentials.tsx: available\<close>

definition msg_cr_available :: jstr where
  "msg_cr_available = [32, 183, 32, 21487, 29992, 32]"

text \<open>web/src/pages/admin/credentials.tsx: new plan name\<close>

definition msg_cr_new_plan_name :: jstr where
  "msg_cr_new_plan_name = [26032, 22871, 39184, 21517, 31216]"

text \<open>web/src/pages/admin/credentials.tsx: new plan hint\<close>

definition msg_cr_new_plan_hint :: jstr where
  "msg_cr_new_plan_hint = [39318, 27425, 19978, 20256, 25110, 38656, 35201, 26032, 30340, 24211,
     23384, 20998, 32452, 26102, 20351, 29992, 12290]"

text \<open>web/src/pages/admin/credentials.tsx: upload title\<close>

definition msg_cr_upload_title :: jstr where
  "msg_cr_upload_title = [19978, 20256, 20973, 35777]"

text \<open>web/src/pages/admin/credentials.tsx: upload hint\<close>

definition msg_cr_upload_hint :: jstr where
  "msg_cr_upload_hint = [32, 183, 32, 19978, 20256, 20869, 23481, 23558, 32479, 19968, 24402,
     20837, 25152, 36873, 22871, 39184]"

text \<open>web/src/pages/admin/credentials.tsx: cancel\<close>

definition msg_cr_cancel :: jstr where
  "msg_cr_cancel = [21462, 28040]"

text \<open>web/src/pages/admin/credentials.tsx: uploading\<close>

definition msg_cr_uploading :: jstr where
  "msg_cr_uploading = [19978, 20256, 20013, 8230]"

text \<open>web/src/pages/admin/credentials.tsx: confirm upload\<close>

definition msg_cr_confirm_upload :: jstr where
  "msg_cr_confirm_upload = [30830, 35748, 19978, 20256]"

text \<open>web/src/pages/admin/credentials.tsx: detail title\<close>

definition msg_cr_detail_title :: jstr where
  "msg_cr_detail_title = [20973, 35777, 35814, 24773, 32, 35]"

text \<open>web/src/pages/admin/credentials.tsx: dot\<close>

definition msg_cr_dot :: jstr where
  "msg_cr_dot = [32, 183, 32]"

text \<open>web/src/pages/admin/credentials.tsx: redemption\<close>

definition msg_cr_redemption :: jstr where
  "msg_cr_redemption = [20817, 25442, 35760, 24405]"

text \<open>web/src/pages/admin/credentials.tsx: copy\<close>

definition msg_cr_copy :: jstr where
  "msg_cr_copy = [22797, 21046, 32, 74, 83, 79, 78]"

text \<open>web/src/pages/admin/credentials.tsx: download\<close>

definition msg_cr_download :: jstr where
  "msg_cr_download = [19979, 36733, 32, 74, 83, 79, 78]"

text \<open>web/src/pages/admin/credentials.tsx: list\<close>

definition msg_cr_list :: jstr where
  "msg_cr_list = [20973, 35777, 21015, 34920]"

text \<open>web/src/pages/admin/credentials.tsx: in all\<close>

definition msg_cr_in_all :: jstr where
  "msg_cr_in_all = [20849, 32]"

text \<open>web/src/pages/admin/credentials.tsx: copied\<close>

definition msg_cr_copied :: jstr where
  "msg_cr_copied = [20973, 35777, 32, 74, 83, 79, 78, 32, 24050, 22797, 21046]"

text \<open>web/src/pages/admin/credentials.tsx: delete failed\<close>

definition msg_cr_delete_failed :: jstr where
  "msg_cr_delete_failed = [21024, 38500, 22833, 36133]"

text \<open>web/src/pages/admin/credentials.tsx: batch failed\<close>

definition msg_cr_batch_failed :: jstr where
  "msg_cr_batch_failed = [25209, 37327, 21024, 38500, 22833, 36133]"

end
