(* ===== verification/View.thy ===== *)
theory View
  imports Types UiMessages
begin

text \<open>
  What a component renders. A view is a tree of elements with the attributes
  that decide what a user can do: the handler of a control and whether it is
  disabled, whether a dialog is open, and the texts. Class names, icons, keys
  and attributes of layout only are left out. \<open>offers v e\<close> says that the user can
  cause event \<open>e\<close> in view \<open>v\<close>: some control carries it, is not disabled, and is
  not inside a closed dialog or a disabled field set (\<open>Inert\<close>). \<open>OnText n\<close> is the
  change handler of an input with \<^verbatim>\<open>maxLength={n}\<close>. The step relations of the pages take their user
  events from the view, so that what a disabled control prevents is prevented.
\<close>

datatype 'e attr =
    Disabled bool
  | Open bool
  | Inert bool
  | On 'e
  | OnValue "jstr \<Rightarrow> 'e"
  | OnText nat "jstr \<Rightarrow> 'e"
  | OnFlag "bool \<Rightarrow> 'e"
  | OnFile "js_file option \<Rightarrow> 'e"
  | Attr string jstr

datatype 'e node = Txt jstr | El string "'e attr list" "'e node list"

fun fires :: "'e attr \<Rightarrow> 'e \<Rightarrow> bool" where
  "fires (On e') e \<longleftrightarrow> e = e'"
| "fires (OnValue f) e \<longleftrightarrow> (\<exists>v. e = f v)"
| "fires (OnText n f) e \<longleftrightarrow> (\<exists>v. length v \<le> n \<and> e = f v)"
| "fires (OnFlag f) e \<longleftrightarrow> (\<exists>b. e = f b)"
| "fires (OnFile f) e \<longleftrightarrow> (\<exists>x. e = f x)"
| "fires _ e \<longleftrightarrow> False"

definition blocked :: "'e attr list \<Rightarrow> bool" where
  "blocked ps = list_ex (\<lambda>p. case p of Disabled b \<Rightarrow> b | _ \<Rightarrow> False) ps"

definition closed :: "'e attr list \<Rightarrow> bool" where
  "closed ps = list_ex (\<lambda>p. case p of Open b \<Rightarrow> \<not> b | _ \<Rightarrow> False) ps"

definition inert :: "'e attr list \<Rightarrow> bool" where
  "inert ps = list_ex (\<lambda>p. case p of Inert b \<Rightarrow> b | _ \<Rightarrow> False) ps"

fun offers :: "'e node \<Rightarrow> 'e \<Rightarrow> bool" where
  "offers (Txt s) e \<longleftrightarrow> False"
| "offers (El tag ps cs) e \<longleftrightarrow>
     \<not> closed ps \<and> \<not> inert ps \<and> (\<not> blocked ps \<and> list_ex (\<lambda>p. fires p e) ps \<or> list_ex (\<lambda>c. offers c e) cs)"

text \<open>The texts a user reads, in document order; a closed dialog shows none.\<close>

fun texts :: "'e node \<Rightarrow> jstr list" where
  "texts (Txt s) = [s]"
| "texts (El tag ps cs) = (if closed ps then [] else concat (map texts cs))"

definition button :: "'e attr list \<Rightarrow> jstr \<Rightarrow> 'e node" where
  "button ps label = El ''button'' ps [Txt label]"

definition fragment :: "'e node list \<Rightarrow> 'e node" where
  "fragment cs = El '''' [] cs"

definition show_if :: "bool \<Rightarrow> 'e node \<Rightarrow> 'e node list" where
  "show_if b n = (if b then [n] else [])"

lemma list_ex_show_if [simp]: "list_ex p (show_if b n) \<longleftrightarrow> b \<and> p n"
  by (simp add: show_if_def)

lemma offers_button [simp]: "offers (button ps label) e \<longleftrightarrow> \<not> closed ps \<and> \<not> inert ps \<and> \<not> blocked ps \<and> list_ex (\<lambda>p. fires p e) ps"
  by (auto simp: button_def)

lemma offers_fragment [simp]: "offers (fragment cs) e \<longleftrightarrow> list_ex (\<lambda>c. offers c e) cs"
  by (simp add: fragment_def closed_def blocked_def inert_def)

lemma props_simps [simp]:
  "\<not> closed []" "\<not> blocked []" "\<not> inert []"
  "closed (Disabled b # ps) \<longleftrightarrow> closed ps"
  "closed (Open b # ps) \<longleftrightarrow> \<not> b \<or> closed ps"
  "closed (Inert b # ps) \<longleftrightarrow> closed ps"
  "closed (On e # ps) \<longleftrightarrow> closed ps"
  "closed (OnValue f # ps) \<longleftrightarrow> closed ps"
  "closed (OnText n f # ps) \<longleftrightarrow> closed ps"
  "closed (OnFlag g # ps) \<longleftrightarrow> closed ps"
  "closed (OnFile h # ps) \<longleftrightarrow> closed ps"
  "closed (Attr a v # ps) \<longleftrightarrow> closed ps"
  "blocked (Disabled b # ps) \<longleftrightarrow> b \<or> blocked ps"
  "blocked (Open b # ps) \<longleftrightarrow> blocked ps"
  "blocked (Inert b # ps) \<longleftrightarrow> blocked ps"
  "blocked (On e # ps) \<longleftrightarrow> blocked ps"
  "blocked (OnValue f # ps) \<longleftrightarrow> blocked ps"
  "blocked (OnText n f # ps) \<longleftrightarrow> blocked ps"
  "blocked (OnFlag g # ps) \<longleftrightarrow> blocked ps"
  "blocked (OnFile h # ps) \<longleftrightarrow> blocked ps"
  "blocked (Attr a v # ps) \<longleftrightarrow> blocked ps"
  "inert (Disabled b # ps) \<longleftrightarrow> inert ps"
  "inert (Open b # ps) \<longleftrightarrow> inert ps"
  "inert (Inert b # ps) \<longleftrightarrow> b \<or> inert ps"
  "inert (On e # ps) \<longleftrightarrow> inert ps"
  "inert (OnValue f # ps) \<longleftrightarrow> inert ps"
  "inert (OnText n f # ps) \<longleftrightarrow> inert ps"
  "inert (OnFlag g # ps) \<longleftrightarrow> inert ps"
  "inert (OnFile h # ps) \<longleftrightarrow> inert ps"
  "inert (Attr a v # ps) \<longleftrightarrow> inert ps"
  by (simp_all add: closed_def blocked_def inert_def)

lemma list_ex_map_iff: "list_ex p (map f xs) \<longleftrightarrow> (\<exists>x \<in> set xs. p (f x))"
  by (auto simp: list_ex_iff)

text \<open>\<^verbatim>\<open>a || b\<close> for a string that may be missing.\<close>

definition js_or :: "jstr option \<Rightarrow> jstr \<Rightarrow> jstr" where
  "js_or a b = (case a of Some s \<Rightarrow> if s \<noteq> [] then s else b | None \<Rightarrow> b)"

text \<open>Calls under way: removing the one that settled.\<close>

lemma in_remove1: "x \<in> set (remove1 c xs) \<Longrightarrow> x \<in> set xs"
  by (meson set_remove1_subset subsetD)

lemma remove1_single: "length (filter (\<lambda>c. c = a) xs) \<le> 1 \<Longrightarrow> a \<notin> set (remove1 a xs)"
  by (induction xs) (auto simp: filter_empty_conv)

lemma length_filter_remove1_le: "length (filter p (remove1 c xs)) \<le> length (filter p xs)"
  by (simp add: filter_remove1 length_remove1)

lemma length_filter_remove1:
  "c \<in> set xs \<Longrightarrow> length (filter p (remove1 c xs)) = length (filter p xs) - (if p c then 1 else 0)"
  by (auto simp: filter_remove1 length_remove1 remove1_idem)

lemma list_all_remove1: "list_all p xs \<Longrightarrow> list_all p (remove1 c xs)"
  by (auto simp: list_all_iff dest: in_remove1)

text \<open>Several effects at once.\<close>

definition emits :: "effect list \<Rightarrow> ('c, 'a) base_scheme \<Rightarrow> ('c, 'a) base_scheme" where
  "emits es s = s\<lparr>log := log s @ es\<rparr>"

lemmas emits_frame = emits_def

lemma emits_base [simp]: "pend (emits es s) = pend s" "log (emits es s) = log s @ es"
  by (simp_all add: emits_def)

end
