(* ===== verification/RedeemHistory.thy ===== *)
theory RedeemHistory
  imports CdkInput View
begin

text \<open>
  The redemption history of web/src/pages/redeem.tsx: validating, loading,
  storing and extending it. An entry is the JSON object the code keeps, so that
  what is stored is what is printed. Reading the session storage can throw; its
  outcome is an argument.
\<close>

definition REDEEM_HISTORY_LIMIT :: nat where
  "REDEEM_HISTORY_LIMIT = 20"

type_synonym RedeemHistoryEntry = json

definition isRecord :: "json option \<Rightarrow> bool" where
  "isRecord v = (case v of Some (JObj _) \<Rightarrow> True | _ \<Rightarrow> False)"

definition isRedeemSuccess :: "json option \<Rightarrow> bool" where
  "isRedeemSuccess v =
     (case v of
        Some (JObj kvs) \<Rightarrow>
          map_of kvs (js ''ok'') = Some (JBool True)
          \<and> map_of kvs (js ''result'') = Some (JStr (js ''success''))
          \<and> is_string (map_of kvs (js ''message''))
          \<and> is_string (map_of kvs (js ''batch''))
          \<and> is_string (map_of kvs (js ''code''))
          \<and> is_string (map_of kvs (js ''user_id''))
          \<and> is_string (map_of kvs (js ''redeemed_at''))
          \<and> js ''payload'' \<in> fst ` set kvs
          \<and> (map_of kvs (js ''credential'') = None \<or> isRecord (map_of kvs (js ''credential'')))
      | _ \<Rightarrow> False)"

text \<open>The type guard inside \<^verbatim>\<open>loadRedeemHistory\<close>.\<close>

definition valid_entry :: "json \<Rightarrow> bool" where
  "valid_entry entry \<longleftrightarrow>
     isRecord (Some entry) \<and> is_string (obj_get entry (js ''id''))
     \<and> is_string (obj_get entry (js ''saved_at''))
     \<and> isRedeemSuccess (obj_get entry (js ''result''))"

text \<open>\<open>raw\<close> is what \<^verbatim>\<open>sessionStorage.getItem\<close> returns (None for null) or throws.\<close>

definition loadRedeemHistory :: "jstr option res \<Rightarrow> RedeemHistoryEntry list" where
  "loadRedeemHistory raw =
     (case raw of
        Inl _ \<Rightarrow> []
      | Inr None \<Rightarrow> []
      | Inr (Some s) \<Rightarrow>
          if s = [] then []
          else case JSON_parse s of
                 Some (JArr parsed) \<Rightarrow> take REDEEM_HISTORY_LIMIT (filter valid_entry parsed)
               | _ \<Rightarrow> [])"

text \<open>\<^verbatim>\<open>persistRedeemHistory\<close>: the value written; \<open>ok\<close> says that \<^verbatim>\<open>setItem\<close> does not throw.\<close>

definition persistRedeemHistory :: "bool \<Rightarrow> RedeemHistoryEntry list \<Rightarrow> jstr option \<Rightarrow> jstr option \<times> bool" where
  "persistRedeemHistory ok entries stored =
     (if ok then (Some (stringify (JArr entries)), True) else (stored, False))"

text \<open>\<open>ident\<close> is the random identifier, \<open>now\<close> the current time in ISO format.\<close>

definition createHistoryEntry :: "jstr \<Rightarrow> jstr \<Rightarrow> json \<Rightarrow> RedeemHistoryEntry" where
  "createHistoryEntry ident now result =
     json_obj [(''id'', JStr ident), (''saved_at'', JStr now), (''result'', result)]"

definition push_entry :: "RedeemHistoryEntry \<Rightarrow> RedeemHistoryEntry list \<Rightarrow> RedeemHistoryEntry list" where
  "push_entry e hist = take REDEEM_HISTORY_LIMIT (e # hist)"

definition entry_id :: "RedeemHistoryEntry \<Rightarrow> jstr" where
  "entry_id e = (case obj_get e (js ''id'') of Some (JStr s) \<Rightarrow> s | _ \<Rightarrow> [])"

definition entry_result :: "RedeemHistoryEntry \<Rightarrow> json" where
  "entry_result e = nullish (obj_get e (js ''result'')) JNull"

section \<open>Stored and loaded\<close>

lemma load_persist:
  assumes "list_all wf_json hist"
  shows "loadRedeemHistory (Inr (fst (persistRedeemHistory True hist old)))
    = take REDEEM_HISTORY_LIMIT (filter valid_entry hist)"
proof -
  have "wf_json (JArr hist)" using assms by simp
  from compact.parse_print [OF this] have "JSON_parse (stringify (JArr hist)) = Some (JArr hist)" .
  moreover have "stringify (JArr hist) \<noteq> []"
    by (simp add: stringify_def)
  ultimately show ?thesis
    by (simp add: loadRedeemHistory_def persistRedeemHistory_def)
qed

lemma length_push_entry: "length (push_entry e hist) \<le> REDEEM_HISTORY_LIMIT"
  by (simp add: push_entry_def)

lemma length_loadRedeemHistory: "length (loadRedeemHistory raw) \<le> REDEEM_HISTORY_LIMIT"
  by (simp add: loadRedeemHistory_def split: sum.split option.split json.split)

lemma loadRedeemHistory_valid: "list_all valid_entry (loadRedeemHistory raw)"
  by (auto simp: loadRedeemHistory_def list_all_iff dest!: in_set_takeD split: sum.split option.split json.split)

lemma loadRedeemHistory_wf: "list_all wf_json (loadRedeemHistory raw)"
  by (auto simp: loadRedeemHistory_def list_all_iff dest!: in_set_takeD JSON_parse_wf [OF sym]
      split: sum.split option.split json.split)

lemma wf_entry_keys: "wf_keys (map js [''id'', ''saved_at'', ''result''])"
  by code_simp

lemma createHistoryEntry_wf: "wf_json r \<Longrightarrow> wf_json (createHistoryEntry i now r)"
  unfolding createHistoryEntry_def by (rule wf_json_obj [OF _ wf_entry_keys]) simp_all

lemma createHistoryEntry_get:
  "obj_get (createHistoryEntry i now r) (js ''id'') = Some (JStr i)"
  "obj_get (createHistoryEntry i now r) (js ''saved_at'') = Some (JStr now)"
  "obj_get (createHistoryEntry i now r) (js ''result'') = Some r"
  by (simp_all add: createHistoryEntry_def json_obj_def obj_get_def)

lemma createHistoryEntry_valid: "isRedeemSuccess (Some r) \<Longrightarrow> valid_entry (createHistoryEntry i now r)"
  unfolding valid_entry_def createHistoryEntry_get
  by (simp add: createHistoryEntry_def json_obj_def isRecord_def is_string_def)

lemma entry_id_create [simp]: "entry_id (createHistoryEntry i now r) = i"
  unfolding entry_id_def createHistoryEntry_get by simp

end
