(* ===== verification/RedeemPage.thy ===== *)
theory RedeemPage
  imports RedeemHistory
begin

text \<open>
  The public page web/src/pages/redeem.tsx without its converter tab: the page
  (FAQ, history, result dialog) and the redeem tab, one state record for both,
  since the tab's \<^verbatim>\<open>onSuccess\<close> changes the page. Handlers are functions on it;
  what follows an \<^verbatim>\<open>await\<close> is a function of the answer. \<open>rstep\<close> interleaves the
  events the view offers with the answers of calls under way.
\<close>

datatype redeem_call =
    CFaq
  | CPaste
  | CRedeem jstr jstr
  | CRedeemBatch jstr "jstr list"
  | CArchive "RedeemBatchItem list" bool

record redeem_page = "redeem_call base" +
  rp_faq :: "(jstr \<times> jstr) list option"
  rp_faqError :: "jstr option"
  rp_history :: "RedeemHistoryEntry list"
  rp_historyRef :: "RedeemHistoryEntry list"
  rp_historyOpen :: bool
  rp_selectedResult :: "json option"
  rp_session :: "jstr option"
  rp_legacy :: "jstr option"
  rp_userId :: jstr
  rp_codeInput :: jstr
  rp_loading :: bool
  rp_error :: "jstr option"
  rp_batchResults :: "RedeemBatchItem list"
  rp_archiveLoading :: bool

text \<open>
  What the environment supplies for one history entry: a random identifier, the
  time, and whether writing the session storage succeeds.
\<close>

type_synonym stamp = "jstr \<times> jstr \<times> bool"

section \<open>The page\<close>

text \<open>The first render (the state initialisers) and the effect that asks for the FAQ.\<close>

definition redeem_init :: "bool \<Rightarrow> jstr option res \<Rightarrow> jstr option \<Rightarrow> jstr option \<Rightarrow> redeem_page" where
  "redeem_init remove_ok raw stored legacy =
     \<lparr>pend = [CFaq], log = [], rp_faq = None, rp_faqError = None,
      rp_history = loadRedeemHistory raw, rp_historyRef = loadRedeemHistory raw,
      rp_historyOpen = False, rp_selectedResult = None, rp_session = stored,
      rp_legacy = (if remove_ok then None else legacy),
      rp_userId = [], rp_codeInput = [], rp_loading = False, rp_error = None,
      rp_batchResults = [], rp_archiveLoading = False\<rparr>"

definition faq_done :: "(js_error \<Rightarrow> jstr) \<Rightarrow> (jstr \<times> jstr) list res \<Rightarrow> redeem_page \<Rightarrow> redeem_page" where
  "faq_done em r s = (case r of
     Inr items \<Rightarrow> s\<lparr>rp_faq := Some items\<rparr>
   | Inl e \<Rightarrow> s\<lparr>rp_faqError := Some (message_if_error em msg_red_load_failed e)\<rparr>)"

definition commitHistory :: "bool \<Rightarrow> RedeemHistoryEntry list \<Rightarrow> redeem_page \<Rightarrow> redeem_page" where
  "commitHistory ok next s =
     (let s1 = s\<lparr>rp_historyRef := next, rp_history := next\<rparr>;
          (stored, done) = persistRedeemHistory ok next (rp_session s1);
          s2 = s1\<lparr>rp_session := stored\<rparr>
      in if done then s2 else emit (ToastWarning msg_red_history_unsaved) s2)"

definition handleRedeemSuccess :: "stamp \<Rightarrow> json \<Rightarrow> bool \<Rightarrow> redeem_page \<Rightarrow> redeem_page" where
  "handleRedeemSuccess stamp result reveal s =
     (case stamp of (ident, now, ok) \<Rightarrow>
        let next = push_entry (createHistoryEntry ident now result) (rp_historyRef s);
            s1 = commitHistory ok next s
        in if reveal then s1\<lparr>rp_selectedResult := Some result\<rparr> else s1)"

definition handleDeleteHistory :: "bool \<Rightarrow> jstr \<Rightarrow> redeem_page \<Rightarrow> redeem_page" where
  "handleDeleteHistory ok ident s =
     commitHistory ok (filter (\<lambda>entry. entry_id entry \<noteq> ident) (rp_historyRef s)) s"

definition handleClearHistory :: "bool \<Rightarrow> redeem_page \<Rightarrow> redeem_page" where
  "handleClearHistory ok s = commitHistory ok [] s"

section \<open>The redeem tab\<close>

text \<open>\<^verbatim>\<open>if (error) setError(null)\<close>\<close>

definition clear_error :: "jstr option \<Rightarrow> jstr option" where
  "clear_error e = (case e of Some m \<Rightarrow> if m \<noteq> [] then None else Some m | None \<Rightarrow> None)"

definition changeUserId :: "jstr \<Rightarrow> redeem_page \<Rightarrow> redeem_page" where
  "changeUserId v s = s\<lparr>rp_userId := v, rp_error := clear_error (rp_error s)\<rparr>"

definition changeCodeInput :: "jstr \<Rightarrow> redeem_page \<Rightarrow> redeem_page" where
  "changeCodeInput v s =
     s\<lparr>rp_codeInput := v, rp_error := clear_error (rp_error s), rp_batchResults := []\<rparr>"

definition archiveCount :: "redeem_page \<Rightarrow> nat" where
  "archiveCount s = length (successful_items (rp_batchResults s))"

text \<open>\<^verbatim>\<open>downloadArchive\<close> up to its \<^verbatim>\<open>await\<close>, and after it. \<open>packed\<close> is None when
  JSZip succeeds, otherwise the error it rejects with.\<close>

definition downloadArchive :: "RedeemBatchItem list \<Rightarrow> bool \<Rightarrow> redeem_page \<Rightarrow> redeem_page" where
  "downloadArchive results automatic s = call (CArchive results automatic) (s\<lparr>rp_archiveLoading := True\<rparr>)"

definition archive_outcome :: "ltime \<Rightarrow> js_error option \<Rightarrow> RedeemBatchItem list \<Rightarrow> (blob \<times> jstr \<times> nat) res" where
  "archive_outcome now packed results =
     bind_res (createRedeemArchive now results)
       (\<lambda>a. case packed of None \<Rightarrow> Inr a | Some e \<Rightarrow> Inl e)"

definition archive_done :: "(js_error \<Rightarrow> jstr) \<Rightarrow> ltime \<Rightarrow> js_error option \<Rightarrow> RedeemBatchItem list \<Rightarrow> bool
    \<Rightarrow> redeem_page \<Rightarrow> redeem_page" where
  "archive_done em now packed results automatic s =
     (let s1 = (case archive_outcome now packed results of
                  Inr (b, filename, count) \<Rightarrow>
                    emit (ToastSuccess (nat_str count @ (if automatic then msg_red_count_auto else msg_red_count_again)))
                      (emit (Download b filename) s)
                | Inl e \<Rightarrow> emit (ToastWarning (message_if_error em msg_red_pack_failed e)) s);
          s2 = s1\<lparr>rp_archiveLoading := False\<rparr>
      in if automatic then s2\<lparr>rp_loading := False\<rparr> else s2)"

definition handlePaste :: "redeem_page \<Rightarrow> redeem_page" where
  "handlePaste s = call CPaste s"

definition paste_done :: "jstr res \<Rightarrow> redeem_page \<Rightarrow> redeem_page" where
  "paste_done r s = (case r of
     Inr t \<Rightarrow> if t \<noteq> [] then s\<lparr>rp_codeInput := t\<rparr> else s
   | Inl _ \<Rightarrow> s\<lparr>rp_error := Some msg_red_no_clipboard\<rparr>)"

definition handleSubmit :: "redeem_page \<Rightarrow> redeem_page" where
  "handleSubmit s =
     (let uid = js_trim (rp_userId s); redeemCodes = parseCdkList (rp_codeInput s) in
      if uid = [] then s\<lparr>rp_error := Some msg_red_need_email\<rparr>
      else if \<not> isValidEmail uid then s\<lparr>rp_error := Some msg_red_bad_email\<rparr>
      else if length redeemCodes = 0 then s\<lparr>rp_error := Some msg_red_need_code\<rparr>
      else let s1 = s\<lparr>rp_loading := True, rp_error := None, rp_batchResults := []\<rparr>
           in if length redeemCodes = 1 then call (CRedeem uid (redeemCodes ! 0)) s1
              else call (CRedeemBatch uid redeemCodes) s1)"

text \<open>\<^verbatim>\<open>catch\<close> and \<^verbatim>\<open>finally\<close> of \<^verbatim>\<open>handleSubmit\<close>.\<close>

definition submit_failed :: "js_error \<Rightarrow> redeem_page \<Rightarrow> redeem_page" where
  "submit_failed e s = s\<lparr>rp_error := Some (message_if_api msg_red_network e), rp_loading := False\<rparr>"

definition redeem_done :: "stamp \<Rightarrow> json res \<Rightarrow> redeem_page \<Rightarrow> redeem_page" where
  "redeem_done stamp r s = (case r of
     Inr data \<Rightarrow> (handleRedeemSuccess stamp data True (s\<lparr>rp_codeInput := []\<rparr>))\<lparr>rp_loading := False\<rparr>
   | Inl e \<Rightarrow> submit_failed e s)"

text \<open>\<^verbatim>\<open>for (const item of data.results) if (item.redemption) onSuccess(item.redemption, false)\<close>\<close>

fun push_results :: "(nat \<Rightarrow> stamp) \<Rightarrow> nat \<Rightarrow> RedeemBatchItem list \<Rightarrow> redeem_page \<Rightarrow> redeem_page" where
  "push_results stamps k [] s = s"
| "push_results stamps k (item # items) s =
     push_results stamps (k + 1) items
       (if truthy (ri_redemption item) then handleRedeemSuccess (stamps k) (the (ri_redemption item)) False s
        else s)"

definition failed_codes :: "RedeemBatchItem list \<Rightarrow> jstr list" where
  "failed_codes results = map ri_code (filter (\<lambda>item. \<not> ri_ok item) results)"

definition redeem_batch_done :: "(nat \<Rightarrow> stamp) \<Rightarrow> RedeemBatchResponse res \<Rightarrow> redeem_page \<Rightarrow> redeem_page" where
  "redeem_batch_done stamps r s = (case r of
     Inr data \<Rightarrow>
       let s1 = push_results stamps 0 (rb_results data) (s\<lparr>rp_batchResults := rb_results data\<rparr>);
           s2 = (if rb_failed data = 0
                 then emit (ToastSuccess (int_str (rb_succeeded data) @ msg_red_all_ok)) (s1\<lparr>rp_codeInput := []\<rparr>)
                 else s1\<lparr>rp_codeInput := js_join [10] (failed_codes (rb_results data))\<rparr>)
       in if rb_succeeded data > 0 then downloadArchive (rb_results data) True s2
          else s2\<lparr>rp_loading := False\<rparr>
   | Inl e \<Rightarrow> submit_failed e s)"

section \<open>The result dialog\<close>

definition serializeJson :: "json \<Rightarrow> jstr" where
  "serializeJson data = stringify2 data"

definition downloadBlob :: "blob \<Rightarrow> jstr \<Rightarrow> ('c, 'a) base_scheme \<Rightarrow> ('c, 'a) base_scheme" where
  "downloadBlob b filename s = emit (Download b filename) s"

definition downloadJson :: "json \<Rightarrow> jstr \<Rightarrow> ('c, 'a) base_scheme \<Rightarrow> ('c, 'a) base_scheme" where
  "downloadJson data filename s = downloadBlob (BlobText (serializeJson data)) filename s"

text \<open>\<open>locale_str\<close> is \<^verbatim>\<open>toLocaleString("zh-CN")\<close> of a time value.\<close>

definition formatExpiry :: "(jstr \<Rightarrow> int option) \<Rightarrow> (int \<Rightarrow> jstr) \<Rightarrow> json option \<Rightarrow> jstr res" where
  "formatExpiry date_parse locale_str v =
     (if \<not> truthy v then Inr msg_rd_dash
      else bind_res (js_String (the v)) (\<lambda>t.
        Inr (case date_parse t of None \<Rightarrow> t | Some ms \<Rightarrow> locale_str ms)))"

end
