(* ===== verification/ConvertTab.thy ===== *)
theory ConvertTab
  imports RedeemPage
begin

text \<open>
  The converter tab of web/src/pages/redeem.tsx: detecting the pasted accounts,
  converting and downloading them in one of three formats, and reading files.
  Its invariant says that one conversion runs at a time and that everything it
  ever downloads is a conversion of accepted input.
\<close>

datatype convert_call =
    CZip jstr "json list"
  | CReadFile bool
  | CPasteText

record convert_preview =
  pv_format :: DetectedFormat
  pv_total :: nat
  pv_summary :: "ConvertSummary list"

record convert_tab = "convert_call base" +
  ct_text :: jstr
  ct_format :: jstr
  ct_preview :: "convert_preview option"
  ct_loading :: bool
  ct_error :: "jstr option"

definition FORMAT_OPTIONS :: "(jstr \<times> jstr) list" where
  "FORMAT_OPTIONS =
     [(js ''single_zip'', msg_cv_opt_single),
      (js ''merged_zip'', msg_cv_opt_merged_zip),
      (js ''merged_json'', msg_cv_opt_merged_json)]"

definition convert_init :: convert_tab where
  "convert_init = \<lparr>pend = [], log = [], ct_text = [], ct_format = js ''single_zip'', ct_preview = None,
     ct_loading = False, ct_error = None\<rparr>"

section \<open>Handlers\<close>

definition detect :: "(js_error \<Rightarrow> jstr) \<Rightarrow> convert_tab \<Rightarrow> convert_tab" where
  "detect em s =
     (let s1 = s\<lparr>ct_error := None, ct_preview := None\<rparr> in
      if js_trim (ct_text s) = [] then s1
      else case detectAndParse (ct_text s) of
             Inr p \<Rightarrow> s1\<lparr>ct_preview := Some \<lparr>pv_format = pi_format p, pv_total = length (pi_accounts p),
                        pv_summary = buildSummary (pi_accounts p)\<rparr>\<rparr>
           | Inl e \<Rightarrow> s1\<lparr>ct_error := Some (message_if_error em msg_red_detect_failed e)\<rparr>)"

text \<open>The \<^verbatim>\<open>switch\<close> over the format; \<open>packed\<close> is the error JSZip rejects with, if any.\<close>

definition convert_output :: "(jstr \<Rightarrow> int option) \<Rightarrow> clock \<Rightarrow> js_error option \<Rightarrow> jstr \<Rightarrow> json list \<Rightarrow> (blob \<times> jstr) res" where
  "convert_output dp c packed format accounts =
     (if format = js ''single_zip'' then
        bind_res (createSingleZip dp c accounts) (\<lambda>r. case packed of None \<Rightarrow> Inr r | Some e \<Rightarrow> Inl e)
      else if format = js ''merged_zip'' then
        bind_res (createMergedZip dp c accounts) (\<lambda>r. case packed of None \<Rightarrow> Inr r | Some e \<Rightarrow> Inl e)
      else if format = js ''merged_json'' then createMergedJson dp c accounts
      else Inl (ErrorMsg msg_cv_bad_format))"

text \<open>What follows the \<^verbatim>\<open>switch\<close>, with \<^verbatim>\<open>catch\<close> and \<^verbatim>\<open>finally\<close>.\<close>

definition convert_finish :: "(js_error \<Rightarrow> jstr) \<Rightarrow> (blob \<times> jstr) res \<Rightarrow> convert_tab \<Rightarrow> convert_tab" where
  "convert_finish em r s =
     (case r of
        Inr (b, filename) \<Rightarrow> (emit (Download b filename) s)\<lparr>ct_loading := False\<rparr>
      | Inl e \<Rightarrow> s\<lparr>ct_error := Some (message_if_error em msg_cv_download_failed e), ct_loading := False\<rparr>)"

definition is_zip_format :: "jstr \<Rightarrow> bool" where
  "is_zip_format f \<longleftrightarrow> f = js ''single_zip'' \<or> f = js ''merged_zip''"

definition handleDownload :: "(jstr \<Rightarrow> int option) \<Rightarrow> clock \<Rightarrow> (js_error \<Rightarrow> jstr) \<Rightarrow> convert_tab \<Rightarrow> convert_tab" where
  "handleDownload dp c em s =
     (if js_trim (ct_text s) = [] \<or> ct_preview s = None \<or> pv_total (the (ct_preview s)) = 0
      then s\<lparr>ct_error := Some msg_cv_detect_first\<rparr>
      else let s1 = s\<lparr>ct_loading := True, ct_error := None\<rparr> in
           case detectAndParse (ct_text s) of
             Inl e \<Rightarrow> convert_finish em (Inl e) s1
           | Inr p \<Rightarrow>
               if is_zip_format (ct_format s) then call (CZip (ct_format s) (pi_accounts p)) s1
               else convert_finish em (convert_output dp c None (ct_format s) (pi_accounts p)) s1)"

text \<open>Choosing a file reads it; a dropped file is read without an error handler.\<close>

definition handleFileChange :: "js_file option \<Rightarrow> convert_tab \<Rightarrow> convert_tab" where
  "handleFileChange f s = (case f of None \<Rightarrow> s | Some _ \<Rightarrow> call (CReadFile True) s)"

definition handleDrop :: "js_file option \<Rightarrow> convert_tab \<Rightarrow> convert_tab" where
  "handleDrop f s = (case f of None \<Rightarrow> s | Some _ \<Rightarrow> call (CReadFile False) s)"

definition file_read :: "bool \<Rightarrow> jstr res \<Rightarrow> convert_tab \<Rightarrow> convert_tab" where
  "file_read with_onerror r s = (case r of
     Inr t \<Rightarrow> s\<lparr>ct_text := t\<rparr>
   | Inl _ \<Rightarrow> if with_onerror then s\<lparr>ct_error := Some msg_cv_read_failed\<rparr> else s)"

definition paste_text_done :: "jstr res \<Rightarrow> convert_tab \<Rightarrow> convert_tab" where
  "paste_text_done r s = (case r of
     Inr t \<Rightarrow> if t \<noteq> [] then s\<lparr>ct_text := t\<rparr> else s
   | Inl _ \<Rightarrow> s\<lparr>ct_error := Some msg_cv_no_clipboard\<rparr>)"

section \<open>View\<close>

datatype convert_event =
    PickFile "js_file option"
  | DropFile "js_file option"
  | PasteText
  | EditText jstr
  | Detect
  | SelectFormat jstr
  | ConvertDownload

definition summary_label :: "ConvertSummary \<Rightarrow> jstr" where
  "summary_label m = js_or (cs_email m) (js_or (cs_account_id m) (35 # nat_str (cs_index m)))"

definition preview_view :: "convert_preview \<Rightarrow> convert_event node" where
  "preview_view p =
     El ''Alert'' []
       ([El ''AlertTitle'' [] [Txt msg_cv_detected],
         Txt (msg_cv_format @ format_name (pv_format p) @ msg_cv_and_total @ nat_str (pv_total p) @ msg_cv_accounts)]
        @ show_if (length (pv_summary p) > 0)
            (fragment [Txt (msg_cv_first @ nat_str (min (length (pv_summary p)) 10) @ msg_cv_entries),
                       Txt (js_join (js '', '') (map summary_label (take 10 (pv_summary p))))]))"

definition download_disabled :: "convert_tab \<Rightarrow> bool" where
  "download_disabled s \<longleftrightarrow>
     ct_loading s \<or> (case ct_preview s of None \<Rightarrow> True | Some p \<Rightarrow> pv_total p = 0)"

definition convert_view :: "convert_tab \<Rightarrow> convert_event node" where
  "convert_view s =
     El ''div'' []
       ([El ''div'' []
           [El ''label'' [] [Txt msg_cv_source],
            Txt msg_cv_upload,
            button [On PasteText] msg_cv_paste,
            El ''input'' [OnFile PickFile] [],
            El ''textarea'' [Attr ''value'' (ct_text s), OnValue EditText, OnFile DropFile] [],
            El ''p'' [] [Txt msg_cv_drop_hint]],
         El ''div'' []
           [button [On Detect] msg_cv_detect,
            El ''Select'' [Attr ''value'' (ct_format s)]
              (map (\<lambda>(v, label). El ''SelectItem'' [On (SelectFormat v)] [Txt label]) FORMAT_OPTIONS)]]
        @ (case ct_preview s of None \<Rightarrow> [] | Some p \<Rightarrow> [preview_view p])
        @ show_if (truthy (map_option JStr (ct_error s)))
            (El ''Alert'' [] [Txt msg_cv_convert_failed, Txt (the (ct_error s))])
        @ [button [Disabled (download_disabled s), On ConvertDownload]
             (if ct_loading s then msg_cv_converting else msg_cv_convert)])"

section \<open>Steps\<close>

record convert_env =
  cn_date :: "jstr \<Rightarrow> int option"
  cn_clock :: clock
  cn_text :: "js_error \<Rightarrow> jstr"

fun convert_handle :: "convert_env \<Rightarrow> convert_event \<Rightarrow> convert_tab \<Rightarrow> convert_tab" where
  "convert_handle env (PickFile f) s = handleFileChange f s"
| "convert_handle env (DropFile f) s = handleDrop f s"
| "convert_handle env PasteText s = call CPasteText s"
| "convert_handle env (EditText t) s = s\<lparr>ct_text := t\<rparr>"
| "convert_handle env Detect s = detect (cn_text env) s"
| "convert_handle env (SelectFormat v) s = (if v \<noteq> [] then s\<lparr>ct_format := v\<rparr> else s)"
| "convert_handle env ConvertDownload s = handleDownload (cn_date env) (cn_clock env) (cn_text env) s"

datatype convert_answer = AZip "js_error option" | AText "jstr res"

fun convert_settle :: "convert_env \<Rightarrow> convert_call \<Rightarrow> convert_answer \<Rightarrow> convert_tab \<Rightarrow> convert_tab option" where
  "convert_settle env (CZip f accounts) (AZip packed) s =
     Some (convert_finish (cn_text env) (convert_output (cn_date env) (cn_clock env) packed f accounts) s)"
| "convert_settle env (CReadFile b) (AText r) s = Some (file_read b r s)"
| "convert_settle env CPasteText (AText r) s = Some (paste_text_done r s)"
| "convert_settle env _ _ s = None"

inductive cstep :: "convert_tab \<Rightarrow> convert_tab \<Rightarrow> bool" where
  user: "offers (convert_view s) e \<Longrightarrow> cstep s (convert_handle env e s)"
| answer: "c \<in> set (pend s) \<Longrightarrow> convert_settle env c a (settled c s) = Some t \<Longrightarrow> cstep s t"

inductive_cases cstepE: "cstep s t"


lemma convert_tab_frame [simp]:
  "ct_text (emit e s) = ct_text s"
  "ct_format (emit e s) = ct_format s"
  "ct_preview (emit e s) = ct_preview s"
  "ct_loading (emit e s) = ct_loading s"
  "ct_error (emit e s) = ct_error s"
  "ct_text (call c s) = ct_text s"
  "ct_format (call c s) = ct_format s"
  "ct_preview (call c s) = ct_preview s"
  "ct_loading (call c s) = ct_loading s"
  "ct_error (call c s) = ct_error s"
  "ct_text (settled c s) = ct_text s"
  "ct_format (settled c s) = ct_format s"
  "ct_preview (settled c s) = ct_preview s"
  "ct_loading (settled c s) = ct_loading s"
  "ct_error (settled c s) = ct_error s"
  "ct_text (emits es s) = ct_text s"
  "ct_format (emits es s) = ct_format s"
  "ct_preview (emits es s) = ct_preview s"
  "ct_loading (emits es s) = ct_loading s"
  "ct_error (emits es s) = ct_error s"
  by (simp_all add: base_ops emits_frame)
section \<open>Invariant\<close>

definition accepted :: "json list \<Rightarrow> bool" where
  "accepted accounts \<longleftrightarrow> (\<exists>t p. detectAndParse t = Inr p \<and> pi_accounts p = accounts)"

definition is_format :: "jstr \<Rightarrow> bool" where
  "is_format f \<longleftrightarrow> f \<in> set (map fst FORMAT_OPTIONS)"

definition zip_call :: "convert_call \<Rightarrow> bool" where
  "zip_call c = (case c of CZip _ _ \<Rightarrow> True | _ \<Rightarrow> False)"

definition conversion_effect :: "effect \<Rightarrow> bool" where
  "conversion_effect e = (case e of
     Download b name \<Rightarrow> (\<exists>dp c f accounts. is_format f \<and> accepted accounts
        \<and> convert_output dp c None f accounts = Inr (b, name))
   | _ \<Rightarrow> True)"

definition convert_inv :: "convert_tab \<Rightarrow> bool" where
  "convert_inv s \<longleftrightarrow>
     length (filter zip_call (pend s)) = (if ct_loading s then 1 else 0)
     \<and> (\<forall>f accounts. CZip f accounts \<in> set (pend s) \<longrightarrow> is_zip_format f \<and> accepted accounts)
     \<and> is_format (ct_format s)
     \<and> list_all conversion_effect (log s)"

lemma offers_convert:
  "offers (convert_view s) e \<Longrightarrow>
     (e = ConvertDownload \<longrightarrow> \<not> ct_loading s \<and> ct_preview s \<noteq> None)
     \<and> (\<forall>v. e = SelectFormat v \<longrightarrow> is_format v)"
  by (force simp: convert_view_def preview_view_def download_disabled_def list_ex_map_iff is_format_def
      split: option.splits if_splits)

lemma convert_output_packed: "convert_output dp c packed f accounts = Inr r \<Longrightarrow> convert_output dp c None f accounts = Inr r"
  by (auto simp: convert_output_def split: if_splits option.splits)

lemma is_zip_format_option: "is_zip_format f \<Longrightarrow> is_format f"
  by (auto simp: is_zip_format_def is_format_def FORMAT_OPTIONS_def simp del: js_Cons)

lemma convert_finish_effect:
  assumes "list_all conversion_effect (log s)" "is_format f" "accepted accounts"
  shows "list_all conversion_effect (log (convert_finish em (convert_output dp c packed f accounts) s))"
proof (cases "convert_output dp c packed f accounts")
  case (Inr r)
  then have "convert_output dp c None f accounts = Inr (fst r, snd r)"
    using convert_output_packed by simp
  then have "conversion_effect (Download (fst r) (snd r))"
    using assms(2,3) unfolding conversion_effect_def by auto
  with Inr assms(1) show ?thesis
    by (cases r) (simp add: convert_finish_def)
qed (use assms(1) in \<open>simp add: convert_finish_def\<close>)

lemma convert_finish_fields [simp]:
  "pend (convert_finish em r s) = pend s" "\<not> ct_loading (convert_finish em r s)"
  "ct_format (convert_finish em r s) = ct_format s"
  by (simp_all add: convert_finish_def split: sum.split prod.split)

lemma convert_inv_download:
  assumes "convert_inv s" "\<not> ct_loading s"
  shows "convert_inv (handleDownload dp c em s)"
proof -
  let ?s1 = "s\<lparr>ct_loading := True, ct_error := None\<rparr>"
  have inv1: "length (filter zip_call (pend s)) = 0" "is_format (ct_format s)"
    "list_all conversion_effect (log s)"
    "\<And>f accounts. CZip f accounts \<in> set (pend s) \<Longrightarrow> is_zip_format f \<and> accepted accounts"
    using assms by (auto simp: convert_inv_def)
  show ?thesis
  proof (cases "detectAndParse (ct_text s)")
    case (Inl e)
    then show ?thesis using inv1 assms(2)
      by (auto simp: handleDownload_def Let_def convert_inv_def convert_finish_def)
  next
    case (Inr p)
    then have "accepted (pi_accounts p)" by (auto simp: accepted_def)
    moreover from this have "list_all conversion_effect
        (log (convert_finish em (convert_output dp c None (ct_format s) (pi_accounts p)) ?s1))"
      using inv1 by (intro convert_finish_effect) auto
    ultimately show ?thesis using inv1 Inr assms(2)
      by (auto simp: handleDownload_def Let_def convert_inv_def zip_call_def)
  qed
qed

lemma convert_inv_handle:
  assumes "convert_inv s" "offers (convert_view s) e"
  shows "convert_inv (convert_handle env e s)"
proof (cases e)
  case ConvertDownload
  then show ?thesis using assms offers_convert convert_inv_download by simp
next
  case (SelectFormat v)
  then show ?thesis using assms offers_convert [of s e] by (auto simp: convert_inv_def)
qed (use assms(1) in \<open>auto simp: convert_inv_def handleFileChange_def handleDrop_def detect_def Let_def
      zip_call_def split: option.splits sum.splits\<close>)

fun_cases convert_settleE: "convert_settle env c a s = Some t"

lemma convert_inv_settle:
  assumes "convert_inv s" "c \<in> set (pend s)" "convert_settle env c a (settled c s) = Some t"
  shows "convert_inv t"
proof (cases "zip_call c")
  case True
  then obtain f accounts packed where c: "c = CZip f accounts" "a = AZip packed"
    using assms(3) by (cases c; cases a) (auto simp: zip_call_def)
  have "length (filter zip_call (remove1 c (pend s))) = 0"
    using assms(1,2) True length_filter_remove1 [OF assms(2), of zip_call]
    by (auto simp: convert_inv_def split: if_splits)
  moreover have "is_zip_format f" "accepted accounts"
    using assms(1,2) c by (auto simp: convert_inv_def)
  moreover from this have "list_all conversion_effect
      (log (convert_finish (cn_text env) (convert_output (cn_date env) (cn_clock env) packed f accounts) (settled c s)))"
    using assms(1) is_zip_format_option by (intro convert_finish_effect) (auto simp: convert_inv_def)
  ultimately show ?thesis
    using assms c by (auto simp: convert_inv_def dest!: in_remove1)
next
  case False
  have "length (filter zip_call (remove1 c (pend s))) = length (filter zip_call (pend s))"
    using False length_filter_remove1 [OF assms(2), of zip_call] by simp
  then show ?thesis
    using assms(3,1,2) False
    by (elim convert_settleE)
       (auto simp: convert_inv_def zip_call_def file_read_def paste_text_done_def dest!: in_remove1
         split: sum.splits if_splits)
qed

lemma convert_inv_step: "convert_inv s \<Longrightarrow> cstep s t \<Longrightarrow> convert_inv t"
  by (erule cstepE) (blast intro: convert_inv_handle convert_inv_settle)+

interpretation convert: invariant_system "\<lambda>s. s = convert_init" cstep convert_inv
proof unfold_locales
  show "s = convert_init \<Longrightarrow> convert_inv s" for s
    by (simp add: convert_init_def convert_inv_def is_format_def FORMAT_OPTIONS_def del: js_Cons)
qed (rule convert_inv_step)

section \<open>Properties\<close>



end
