(* ===== verification/Components.thy ===== *)
theory Components
  imports View ConverterProps
begin

text \<open>
  The shared components of web/src/components as view functions over the event
  type of the page that uses them: confirmation dialog, pagination bar, empty
  state, page header, statistics card, status badges, JSON viewer and theme
  switch. Tones and badge variants are attributes, since they carry meaning.
\<close>

section \<open>Dialogs, headers, cards\<close>

text \<open>The trigger is a button; the dialog can be opened only while it is enabled.\<close>

definition ConfirmDialog :: "'e attr list \<Rightarrow> jstr \<Rightarrow> jstr \<Rightarrow> jstr \<Rightarrow> jstr option \<Rightarrow> 'e \<Rightarrow> 'e node" where
  "ConfirmDialog trigger label title description confirmText onConfirm =
     El ''AlertDialog'' []
       [button trigger label,
        El ''AlertDialogContent'' [Open (\<not> blocked trigger)]
          ([El ''AlertDialogTitle'' [] [Txt title]]
           @ show_if (description \<noteq> []) (El ''AlertDialogDescription'' [] [Txt description])
           @ [button [] msg_cm_cancel,
              button [On onConfirm] (case confirmText of None \<Rightarrow> msg_cm_confirm | Some t \<Rightarrow> t)])]"

definition DataPagination :: "int \<Rightarrow> int \<Rightarrow> int \<Rightarrow> (int \<Rightarrow> 'e) \<Rightarrow> 'e node" where
  "DataPagination page pages totl onPage =
     (if totl = 0 then fragment []
      else El ''div'' []
        [El ''span'' [] [Txt (msg_cm_total @ int_str totl @ msg_cm_entries)],
         El ''div'' []
           [button [Disabled (page \<le> 1), On (onPage (page - 1))] msg_cm_previous,
            El ''span'' [] [Txt (int_str page @ js '' / '' @ int_str pages)],
            button [Disabled (page \<ge> pages), On (onPage (page + 1))] msg_cm_next]])"

definition EmptyState :: "jstr \<Rightarrow> jstr \<Rightarrow> 'e node" where
  "EmptyState title description =
     El ''div'' []
       (El ''p'' [] [Txt title] # show_if (description \<noteq> []) (El ''p'' [] [Txt description]))"

definition PageHeader :: "jstr \<Rightarrow> jstr \<Rightarrow> 'e node list \<Rightarrow> 'e node" where
  "PageHeader title description actions =
     El ''div'' []
       (El ''div'' [] (El ''h1'' [] [Txt title] # show_if (description \<noteq> []) (El ''p'' [] [Txt description]))
        # show_if (actions \<noteq> []) (El ''div'' [] actions))"

definition StatCard :: "jstr \<Rightarrow> jstr \<Rightarrow> jstr \<Rightarrow> string \<Rightarrow> 'e node" where
  "StatCard title v hint tone =
     El ''Card'' [Attr ''tone'' (js tone)]
       ([El ''div'' [] [Txt title], El ''div'' [] [Txt v]]
        @ show_if (hint \<noteq> []) (El ''div'' [] [Txt hint]))"

section \<open>Badges\<close>

definition Badge :: "string \<Rightarrow> jstr \<Rightarrow> 'e node" where
  "Badge variant label = El ''Badge'' [Attr ''variant'' (js variant)] [Txt label]"

definition ResultBadge :: "jstr \<Rightarrow> jstr \<Rightarrow> 'e node" where
  "ResultBadge result message =
     Badge (if result = js ''success'' then ''default'' else ''destructive'')
       (if message \<noteq> [] then message else result)"

definition WEBHOOK_META :: "(jstr \<times> jstr \<times> string) list" where
  "WEBHOOK_META =
     [(js ''pending'', msg_cm_pending, ''secondary''),
      (js ''success'', msg_cm_delivered, ''default''),
      (js ''failed'', msg_cm_failed, ''destructive''),
      (js ''dead_letter'', msg_cm_dead_letter, ''destructive'')]"

definition WebhookBadge :: "jstr \<Rightarrow> 'e node" where
  "WebhookBadge status =
     (if status = js ''none'' then El ''span'' [] [Txt msg_cm_dash]
      else case map_of WEBHOOK_META status of
             Some (label, variant) \<Rightarrow> Badge variant label
           | None \<Rightarrow> Badge ''outline'' status)"

definition BatchStatusBadge :: "batch_status \<Rightarrow> 'e node" where
  "BatchStatusBadge status =
     (if status = BatchActive then Badge ''active'' msg_cm_active else Badge ''destructive'' msg_cm_disabled)"

datatype code_state = CodeOff | CodeUsedUp | CodePartly | CodeFree

definition code_badge_state :: "code_status \<Rightarrow> int \<Rightarrow> int \<Rightarrow> code_state" where
  "code_badge_state status useCount maxUses =
     (if status = CodeDisabled then CodeOff
      else if useCount \<ge> maxUses then CodeUsedUp
      else if useCount > 0 then CodePartly
      else CodeFree)"

definition CodeStatusBadge :: "code_status \<Rightarrow> int \<Rightarrow> int \<Rightarrow> 'e node" where
  "CodeStatusBadge status useCount maxUses =
     (case code_badge_state status useCount maxUses of
        CodeOff \<Rightarrow> Badge ''destructive'' msg_cm_code_off
      | CodeUsedUp \<Rightarrow> Badge ''secondary'' msg_cm_code_used_up
      | CodePartly \<Rightarrow> Badge ''partly'' msg_cm_code_partly
      | CodeFree \<Rightarrow> Badge ''free'' msg_cm_code_free)"

section \<open>The JSON viewer\<close>

text \<open>
  \<^verbatim>\<open>TOKEN_RE\<close>: a string with an optional colon, a boolean, null, a number.
\<close>

definition hex_re :: regex where
  "hex_re = RSet False [CRange 97 102, CRange 65 70, CRange 48 57]"

definition digits_re :: regex where
  "digits_re = RPlus (RSet False [CDigit])"

definition token_string_re :: regex where
  "token_string_re =
     RSeq (RChr 34)
       (RSeq (RStar (RAlt (RSeq (RLit [92, 117]) (RSeq hex_re (RSeq hex_re (RSeq hex_re hex_re))))
                    (RAlt (RSeq (RChr 92) (RSet True [CRange 117 117]))
                          (RSet True [CRange 92 92, CRange 34 34]))))
         (RSeq (RChr 34) (ROpt (RSeq (RStar (RSet False [CSpace])) (RChr 58)))))"

definition token_number_re :: regex where
  "token_number_re =
     RSeq (ROpt (RChr 45)) (RSeq digits_re (RSeq (ROpt (RSeq (RChr 46) digits_re))
       (ROpt (RSeq (RSet False [CRange 101 101, CRange 69 69])
         (RSeq (ROpt (RSet False [CRange 43 43, CRange 45 45])) digits_re)))))"

definition TOKEN_RE :: regex where
  "TOKEN_RE =
     RAlt token_string_re
       (RAlt (RSeq RWordB (RSeq (RAlt (RLit (js ''true'')) (RLit (js ''false''))) RWordB))
         (RAlt (RSeq RWordB (RSeq (RLit (js ''null'')) RWordB)) token_number_re))"

datatype token_class = KeyToken | StringToken | BoolToken | NullToken | NumberToken

definition tokenClass :: "jstr \<Rightarrow> token_class option" where
  "tokenClass token =
     (if token = [] then None
      else if js_startsWith token [34]
      then Some (if regex_test (RSeq (RChr 58) (RSeq (RStar (RSet False [CSpace])) REnd)) token
                 then KeyToken else StringToken)
      else if token = js ''true'' \<or> token = js ''false'' then Some BoolToken
      else if token = js ''null'' then Some NullToken
      else if regex_test (RSeq RBegin (RSeq (ROpt (RChr 45)) (RSet False [CDigit]))) token
      then Some NumberToken
      else None)"

definition class_name :: "token_class option \<Rightarrow> string" where
  "class_name k = (case k of
     None \<Rightarrow> '''' | Some KeyToken \<Rightarrow> ''sky'' | Some StringToken \<Rightarrow> ''emerald'' | Some BoolToken \<Rightarrow> ''amber''
   | Some NullToken \<Rightarrow> ''purple'' | Some NumberToken \<Rightarrow> ''rose'')"

definition JsonViewer :: "json \<Rightarrow> 'e node" where
  "JsonViewer data =
     El ''pre'' [] [El ''code'' []
       (map (\<lambda>part. El ''span'' [Attr ''class'' (js (class_name (tokenClass part)))] [Txt part])
         (regex_split True TOKEN_RE (stringify2 data)))]"

section \<open>The theme switch\<close>

definition ThemeToggle :: "jstr \<Rightarrow> (jstr \<Rightarrow> 'e) \<Rightarrow> 'e node" where
  "ThemeToggle theme setTheme =
     (let isDark = (theme \<noteq> js ''light'') in
      El ''button''
        [On (setTheme (if isDark then js ''light'' else js ''dark'')),
         Attr ''title'' (if isDark then msg_cm_to_light else msg_cm_to_dark)]
        [Txt msg_cm_theme])"

section \<open>What they offer\<close>

lemma offers_ConfirmDialog [simp]:
  "offers (ConfirmDialog tr label title d ct c) e \<longleftrightarrow>
     offers (button tr label) e \<or> \<not> blocked tr \<and> e = c"
  by (auto simp: ConfirmDialog_def)

lemma offers_DataPagination [simp]:
  "offers (DataPagination page pages totl onPage) e \<longleftrightarrow>
     totl \<noteq> 0 \<and> (1 < page \<and> e = onPage (page - 1) \<or> page < pages \<and> e = onPage (page + 1))"
  by (auto simp: DataPagination_def)

lemma offers_static [simp]:
  "\<not> offers (EmptyState title d) e" "\<not> offers (StatCard title v hint tone) e" "\<not> offers (Badge va label) e"
  "\<not> offers (ResultBadge r m) e" "\<not> offers (WebhookBadge w) e" "\<not> offers (BatchStatusBadge b) e"
  "\<not> offers (CodeStatusBadge c u mx) e"
  by (auto simp: EmptyState_def StatCard_def Badge_def ResultBadge_def WebhookBadge_def BatchStatusBadge_def
      CodeStatusBadge_def split: option.split code_state.split)

lemma offers_PageHeader [simp]: "offers (PageHeader title d actions) e \<longleftrightarrow> list_ex (\<lambda>c. offers c e) actions"
  by (auto simp: PageHeader_def)

lemma offers_JsonViewer [simp]: "\<not> offers (JsonViewer data) e"
  by (auto simp: JsonViewer_def list_ex_map_iff)

lemma concat_split_loop: "concat (split_loop True r acc p s) = rev acc @ s"
proof (induction "True" r acc p s rule: split_loop.induct)
  case (2 r acc p c s)
  show ?case
  proof (cases "rmatch r p (c # s)")
    case Nil
    then show ?thesis using 2(1) by simp
  next
    case (Cons qt rest)
    obtain q t where qt: "qt = (q, t)" by force
    have "suffix t (c # s)"
      using rmatch_suffix [of q t r p "c # s"] Cons qt by simp
    then obtain zs where zs: "c # s = zs @ t"
      by (auto simp: suffix_def)
    have "take (length (zs @ t) - length t) (zs @ t) @ t = zs @ t"
      by simp
    then have "take (length (c # s) - length t) (c # s) @ t = c # s"
      unfolding zs .
    then show ?thesis
      using 2(2-4) Cons qt by (auto simp del: take_Suc_Cons)
  qed
qed simp

lemma JsonViewer_texts: "concat (texts (JsonViewer data)) = stringify2 data"
proof -
  have "concat (map (\<lambda>part. [part]) xs) = xs" for xs :: "jstr list"
    by (induction xs) auto
  then have "concat (texts (JsonViewer data)) = concat (regex_split True TOKEN_RE (stringify2 data))"
    by (simp add: JsonViewer_def comp_def)
  also have "\<dots> = stringify2 data"
    by (simp add: regex_split_def concat_split_loop)
  finally show ?thesis .
qed

section \<open>Properties\<close>

text \<open>C27: The syntax highlighter loses and invents nothing: the texts of the spans it
  renders, one after the other, are the indented JSON of the value, and reading
  them back gives the value.\<close>

theorem JsonViewer_faithful:
  assumes "wf_json data"
  shows "concat (texts (JsonViewer data)) = stringify2 data
    \<and> JSON_parse (concat (texts (JsonViewer data))) = Some data"
  using indented.parse_print [OF assms] by (simp add: JsonViewer_texts)

text \<open>C27 for an object with a key, a number and null.\<close>

theorem JsonViewer_faithful_witness:
  "JSON_parse (concat (texts (JsonViewer (JObj [(js ''a'', JNum 12 0), (js ''b'', JNull)]))))
     = Some (JObj [(js ''a'', JNum 12 0), (js ''b'', JNull)])"
proof -
  have "wf_json (JObj [(js ''a'', JNum 12 0), (js ''b'', JNull)])"
    by code_simp
  from JsonViewer_faithful [OF this] show ?thesis by blast
qed

text \<open>The pagination bar only ever asks for a neighbouring page that exists: from a
  page between 1 and the number of pages, every page it requests lies in that
  range too.\<close>

lemma DataPagination_in_range:
  assumes "1 \<le> page" "page \<le> pages" "offers (DataPagination page pages totl (\<lambda>q. q)) q"
  shows "1 \<le> q \<and> q \<le> pages \<and> (q = page - 1 \<or> q = page + 1)"
  using assms by auto

end
