(* ===== verification/RedeemView.thy ===== *)
theory RedeemView
  imports RedeemPage Components
begin

text \<open>
  The views of web/src/pages/redeem.tsx (page, redeem tab, history and result
  dialogs), the handler of each event a control carries, and the step relation
  of the page: user events the current view offers, and answers of the calls
  under way in any order.
\<close>

datatype redeem_event =
    SetHistoryOpen bool
  | SelectHistory json
  | DeleteHistory jstr
  | ClearHistory
  | SetResultOpen bool
  | EditUserId jstr
  | EditCodes jstr
  | Paste
  | Submit
  | DownloadAgain
  | ShowItem json
  | CopyJson json jstr
  | SaveJson json jstr

section \<open>Views\<close>

definition batch_item_view :: "RedeemBatchItem \<Rightarrow> redeem_event node" where
  "batch_item_view item =
     El ''div'' []
       ([El (if ri_ok item then ''CircleCheck'' else ''CircleMinus'') [] [],
         El ''div'' [] [El ''div'' [] [Txt (ri_code item)], El ''div'' [] [Txt (ri_message item)]]]
        @ show_if (truthy (ri_redemption item))
            (button [On (ShowItem (the (ri_redemption item)))] msg_rd_show))"

definition count_ok :: "RedeemBatchItem list \<Rightarrow> nat" where
  "count_ok results = length (filter ri_ok results)"

definition count_failed :: "RedeemBatchItem list \<Rightarrow> nat" where
  "count_failed results = length (filter (\<lambda>item. \<not> ri_ok item) results)"

definition batch_results_view :: "redeem_page \<Rightarrow> redeem_event node" where
  "batch_results_view s =
     (let results = rp_batchResults s in
      El ''div'' []
        [El ''div'' []
           [El ''span'' [] [Txt msg_rd_batch_results],
            El ''div'' []
              (El ''span'' [] [Txt (msg_rd_succeeded @ nat_str (count_ok results)
                 @ msg_rd_failed @ nat_str (count_failed results))]
               # show_if (archiveCount s > 0)
                   (button [Disabled (rp_archiveLoading s), On DownloadAgain] msg_rd_download_zip))],
         El ''div'' [] (map batch_item_view results)])"

definition submit_label :: "redeem_page \<Rightarrow> jstr" where
  "submit_label s =
     (let n = length (parseCdkList (rp_codeInput s)) in
      if rp_loading s then msg_rd_redeeming
      else if n > 1 then msg_rd_redeem_batch @ nat_str n @ msg_rd_pieces else msg_rd_redeem_now)"

definition textarea_rows :: "nat \<Rightarrow> nat" where
  "textarea_rows n = (if n > 1 then min 8 (max 4 n) else 3)"

text \<open>
  The form. Submitting it (also with the Enter key) goes through its submit
  button, which a browser does not activate while it is disabled.
\<close>

definition redeem_tab_view :: "redeem_page \<Rightarrow> redeem_event node" where
  "redeem_tab_view s =
     (let n = length (parseCdkList (rp_codeInput s)) in
      El ''form'' []
        ([El ''div'' []
            [El ''label'' [] [Txt msg_rd_email_label],
             El ''input'' [Attr ''value'' (rp_userId s), OnValue EditUserId] [],
             El ''p'' [] [Txt msg_rd_email_hint]],
          El ''div'' []
            [El ''div'' [] [El ''label'' [] [Txt msg_rd_codes_label], button [On Paste] msg_rd_paste],
             El ''textarea'' [Attr ''value'' (rp_codeInput s), Attr ''rows'' (nat_str (textarea_rows n)),
               OnValue EditCodes] [],
             El ''div'' []
               [El ''span'' [] [Txt msg_rd_codes_hint],
                El ''span'' [] [Txt (msg_rd_total @ nat_str n @ msg_rd_pieces)]]]]
         @ show_if (truthy (map_option JStr (rp_error s)))
             (El ''Alert'' [] [Txt msg_rd_redeem_failed, Txt (the (rp_error s))])
         @ show_if (length (rp_batchResults s) > 0) (batch_results_view s)
         @ [button [Disabled (rp_loading s), On Submit] (submit_label s)]))"

text \<open>\<^verbatim>\<open>entry.result.redeemed_at || entry.saved_at\<close> and the other texts of a row.\<close>

definition json_text :: "json option \<Rightarrow> jstr" where
  "json_text v = (case v of Some (JStr t) \<Rightarrow> t | _ \<Rightarrow> [])"

definition entry_time :: "RedeemHistoryEntry \<Rightarrow> jstr" where
  "entry_time e =
     (if truthy (obj_get (entry_result e) (js ''redeemed_at''))
      then json_text (obj_get (entry_result e) (js ''redeemed_at''))
      else json_text (obj_get e (js ''saved_at'')))"

definition history_row_view :: "RedeemHistoryEntry \<Rightarrow> redeem_event node" where
  "history_row_view e =
     El ''div'' []
       [El ''button'' [On (SelectHistory (entry_result e))]
          [El ''div'' [] [Txt (json_text (obj_get (entry_result e) (js ''code''))), Txt (entry_time e)],
           El ''p'' [] [Txt (json_text (obj_get (entry_result e) (js ''batch'')))],
           El ''p'' [] [Txt (json_text (obj_get (entry_result e) (js ''user_id'')))]],
        button [On (DeleteHistory (entry_id e))] msg_rd_delete_entry]"

definition history_dialog_view :: "redeem_page \<Rightarrow> redeem_event node" where
  "history_dialog_view s =
     El ''Dialog'' [Open (rp_historyOpen s), OnFlag SetHistoryOpen]
       [El ''DialogHeader'' []
          [Txt msg_rd_history,
           Txt msg_rd_history_hint],
        (if length (rp_history s) = 0
         then El ''div'' [] [Txt msg_rd_no_history, Txt msg_rd_no_history_hint]
         else El ''div'' [] (map history_row_view (rp_history s))),
        El ''DialogFooter'' []
          [(if length (rp_history s) > 0
            then ConfirmDialog [] msg_rd_clear_history msg_rd_clear_title
                   msg_rd_clear_hint (Some msg_rd_clear_confirm) ClearHistory
            else El ''span'' [] []),
           button [On (SetHistoryOpen False)] msg_rd_close]]"

text \<open>\<^verbatim>\<open>String(v ?? "-")\<close> with the dash of the source (values whose conversion throws are
  outside the view).\<close>

definition text_or_dash :: "json option \<Rightarrow> jstr" where
  "text_or_dash v = (case js_String (nullish v (JStr msg_dash)) of Inr t \<Rightarrow> t | Inl _ \<Rightarrow> [])"

definition payload_view :: "json \<Rightarrow> json \<Rightarrow> redeem_event node" where
  "payload_view result payload =
     El ''div'' []
       [El ''div'' [] [Txt msg_rd_payload],
        JsonViewer payload,
        El ''div'' []
          [button [On (CopyJson payload msg_rd_payload_copied)] msg_rd_copy_payload,
           button [On (SaveJson payload (js ''redemption-'' @ json_text (obj_get result (js ''code'')) @ js ''.json''))]
             msg_rd_download_payload]]"

definition credential_view :: "(json option \<Rightarrow> jstr) \<Rightarrow> json \<Rightarrow> json \<Rightarrow> redeem_event node" where
  "credential_view expiry result credential =
     El ''div'' []
       [El ''div'' [] [Txt msg_rd_credential],
        El ''div'' []
          [Txt msg_rd_email, Txt (text_or_dash (obj_get credential (js ''email''))),
           Txt msg_rd_plan, Txt (text_or_dash (obj_get credential (js ''plan_type''))),
           Txt msg_rd_expires, Txt (expiry (obj_get credential (js ''expired'')))],
        El ''div'' []
          [button [On (CopyJson credential msg_rd_credential_copied)] msg_rd_copy_credential,
           button [On (SaveJson credential (js ''credential-'' @ json_text (obj_get result (js ''code'')) @ js ''.json''))]
             msg_rd_download_credential]]"

definition result_dialog_view :: "(json option \<Rightarrow> jstr) \<Rightarrow> redeem_page \<Rightarrow> redeem_event node" where
  "result_dialog_view expiry s =
     El ''Dialog'' [Open (truthy (rp_selectedResult s)), OnFlag SetResultOpen]
       (if \<not> truthy (rp_selectedResult s) then []
        else let result = the (rp_selectedResult s) in
            [El ''DialogHeader'' []
               [Txt msg_rd_redeemed,
                Txt (json_text (obj_get result (js ''batch'')) @ msg_rd_dot @ json_text (obj_get result (js ''redeemed_at'')))],
             El ''div'' []
               ([El ''div'' []
                   [Txt msg_rd_code, Txt (json_text (obj_get result (js ''code''))),
                    Txt msg_rd_email, Txt (json_text (obj_get result (js ''user_id'')))]]
                @ show_if (obj_get result (js ''payload'') \<noteq> None)
                    (payload_view result (the (obj_get result (js ''payload''))))
                @ show_if (truthy (obj_get result (js ''credential'')))
                    (credential_view expiry result (the (obj_get result (js ''credential''))))),
             El ''DialogFooter'' [] [button [On (SetResultOpen False)] msg_rd_finish]])"

definition faq_view :: "redeem_page \<Rightarrow> redeem_event node" where
  "faq_view s =
     (case rp_faq s of
        None \<Rightarrow> El ''div'' [] [El ''Skeleton'' [] [], El ''Skeleton'' [] [], El ''Skeleton'' [] []]
      | Some items \<Rightarrow>
          if truthy (map_option JStr (rp_faqError s)) then El ''p'' [] [Txt (the (rp_faqError s))]
          else El ''Accordion'' []
                 (map (\<lambda>(title, content). El ''AccordionItem'' [] [Txt title, Txt content]) items))"

definition redeem_page_view :: "(json option \<Rightarrow> jstr) \<Rightarrow> jstr \<Rightarrow> redeem_page \<Rightarrow> redeem_event node" where
  "redeem_page_view expiry site_title s =
     El ''ThemeBackground'' []
       [El ''div'' []
          [El ''Card'' []
             [El ''CardHeader'' []
                [button [On (SetHistoryOpen True)] msg_rd_open_history,
                 El ''CardTitle'' [] [Txt site_title],
                 El ''CardDescription'' [] [Txt msg_rd_page_hint]],
              El ''TabsContent'' [] [redeem_tab_view s]],
           El ''Card'' [] [El ''CardTitle'' [] [Txt msg_rd_faq_title], faq_view s],
           El ''p'' [] [Txt (site_title @ msg_rd_page_footer)]],
        history_dialog_view s,
        result_dialog_view expiry s]"

section \<open>Events and steps\<close>

text \<open>
  What the environment supplies while an event is handled or an answer is
  processed: entry stamps, whether the clipboard works, engine texts, the time.
\<close>

record redeem_env =
  en_stamps :: "nat \<Rightarrow> stamp"
  en_clip :: "bool \<times> bool"
  en_text :: "js_error \<Rightarrow> jstr"
  en_now :: ltime

definition en_stamp :: "redeem_env \<Rightarrow> stamp" where
  "en_stamp env = en_stamps env 0"

fun redeem_handle :: "redeem_env \<Rightarrow> redeem_event \<Rightarrow> redeem_page \<Rightarrow> redeem_page" where
  "redeem_handle env (SetHistoryOpen b) s = s\<lparr>rp_historyOpen := b\<rparr>"
| "redeem_handle env (SelectHistory r) s = s\<lparr>rp_historyOpen := False, rp_selectedResult := Some r\<rparr>"
| "redeem_handle env (DeleteHistory i) s = handleDeleteHistory (snd (snd (en_stamp env))) i s"
| "redeem_handle env ClearHistory s = handleClearHistory (snd (snd (en_stamp env))) s"
| "redeem_handle env (SetResultOpen b) s = (if \<not> b then s\<lparr>rp_selectedResult := None\<rparr> else s)"
| "redeem_handle env (EditUserId v) s = changeUserId v s"
| "redeem_handle env (EditCodes v) s = changeCodeInput v s"
| "redeem_handle env Paste s = handlePaste s"
| "redeem_handle env Submit s = handleSubmit s"
| "redeem_handle env DownloadAgain s = downloadArchive (rp_batchResults s) False s"
| "redeem_handle env (ShowItem r) s = handleRedeemSuccess (en_stamp env) r True s"
| "redeem_handle env (CopyJson v tip) s =
     emits (copyText (fst (en_clip env)) (snd (en_clip env)) (serializeJson v) (Some tip)) s"
| "redeem_handle env (SaveJson v name) s = downloadJson v name s"

text \<open>An answer to a call: its value or the error it was rejected with.\<close>

datatype redeem_answer =
    AFaq "(jstr \<times> jstr) list res"
  | APaste "jstr res"
  | ARedeem "json res"
  | ARedeemBatch "RedeemBatchResponse res"
  | AArchive "js_error option"

fun redeem_settle :: "redeem_env \<Rightarrow> redeem_call \<Rightarrow> redeem_answer \<Rightarrow> redeem_page \<Rightarrow> redeem_page option" where
  "redeem_settle env CFaq (AFaq r) s = Some (faq_done (en_text env) r s)"
| "redeem_settle env CPaste (APaste r) s = Some (paste_done r s)"
| "redeem_settle env (CRedeem u c) (ARedeem r) s = Some (redeem_done (en_stamp env) r s)"
| "redeem_settle env (CRedeemBatch u cs) (ARedeemBatch r) s = Some (redeem_batch_done (en_stamps env) r s)"
| "redeem_settle env (CArchive items auto) (AArchive p) s =
     Some (archive_done (en_text env) (en_now env) p items auto s)"
| "redeem_settle env _ _ s = None"

text \<open>
  Answers have the shape the types declare: redemptions are values of JSON.parse
  that satisfy \<open>isRedeemSuccess\<close>.
\<close>

definition good_redemption :: "json \<Rightarrow> bool" where
  "good_redemption v \<longleftrightarrow> wf_json v \<and> isRedeemSuccess (Some v)"

definition good_item :: "RedeemBatchItem \<Rightarrow> bool" where
  "good_item item \<longleftrightarrow> (case ri_redemption item of None \<Rightarrow> True | Some v \<Rightarrow> good_redemption v)"

definition good_answer :: "redeem_answer \<Rightarrow> bool" where
  "good_answer a = (case a of
     ARedeem (Inr v) \<Rightarrow> good_redemption v
   | ARedeemBatch (Inr d) \<Rightarrow> list_all good_item (rb_results d)
   | _ \<Rightarrow> True)"

inductive rstep :: "redeem_page \<Rightarrow> redeem_page \<Rightarrow> bool" where
  user: "offers (redeem_page_view expiry title s) e \<Longrightarrow> rstep s (redeem_handle env e s)"
| answer: "c \<in> set (pend s) \<Longrightarrow> good_answer a \<Longrightarrow> redeem_settle env c a (settled c s) = Some t \<Longrightarrow> rstep s t"

inductive_cases rstepE: "rstep s t"

end
