(* ===== verification/RedeemProofs.thy ===== *)
theory RedeemProofs
  imports RedeemView
begin

text \<open>
  The redeem page: its invariant over all interleavings of user events and
  answers, and the properties of its operations.
\<close>

lemma redeem_page_frame [simp]:
  "rp_faq (emit e s) = rp_faq s"
  "rp_faqError (emit e s) = rp_faqError s"
  "rp_history (emit e s) = rp_history s"
  "rp_historyRef (emit e s) = rp_historyRef s"
  "rp_historyOpen (emit e s) = rp_historyOpen s"
  "rp_selectedResult (emit e s) = rp_selectedResult s"
  "rp_session (emit e s) = rp_session s"
  "rp_legacy (emit e s) = rp_legacy s"
  "rp_userId (emit e s) = rp_userId s"
  "rp_codeInput (emit e s) = rp_codeInput s"
  "rp_loading (emit e s) = rp_loading s"
  "rp_error (emit e s) = rp_error s"
  "rp_batchResults (emit e s) = rp_batchResults s"
  "rp_archiveLoading (emit e s) = rp_archiveLoading s"
  "rp_faq (call c s) = rp_faq s"
  "rp_faqError (call c s) = rp_faqError s"
  "rp_history (call c s) = rp_history s"
  "rp_historyRef (call c s) = rp_historyRef s"
  "rp_historyOpen (call c s) = rp_historyOpen s"
  "rp_selectedResult (call c s) = rp_selectedResult s"
  "rp_session (call c s) = rp_session s"
  "rp_legacy (call c s) = rp_legacy s"
  "rp_userId (call c s) = rp_userId s"
  "rp_codeInput (call c s) = rp_codeInput s"
  "rp_loading (call c s) = rp_loading s"
  "rp_error (call c s) = rp_error s"
  "rp_batchResults (call c s) = rp_batchResults s"
  "rp_archiveLoading (call c s) = rp_archiveLoading s"
  "rp_faq (settled c s) = rp_faq s"
  "rp_faqError (settled c s) = rp_faqError s"
  "rp_history (settled c s) = rp_history s"
  "rp_historyRef (settled c s) = rp_historyRef s"
  "rp_historyOpen (settled c s) = rp_historyOpen s"
  "rp_selectedResult (settled c s) = rp_selectedResult s"
  "rp_session (settled c s) = rp_session s"
  "rp_legacy (settled c s) = rp_legacy s"
  "rp_userId (settled c s) = rp_userId s"
  "rp_codeInput (settled c s) = rp_codeInput s"
  "rp_loading (settled c s) = rp_loading s"
  "rp_error (settled c s) = rp_error s"
  "rp_batchResults (settled c s) = rp_batchResults s"
  "rp_archiveLoading (settled c s) = rp_archiveLoading s"
  "rp_faq (emits es s) = rp_faq s"
  "rp_faqError (emits es s) = rp_faqError s"
  "rp_history (emits es s) = rp_history s"
  "rp_historyRef (emits es s) = rp_historyRef s"
  "rp_historyOpen (emits es s) = rp_historyOpen s"
  "rp_selectedResult (emits es s) = rp_selectedResult s"
  "rp_session (emits es s) = rp_session s"
  "rp_legacy (emits es s) = rp_legacy s"
  "rp_userId (emits es s) = rp_userId s"
  "rp_codeInput (emits es s) = rp_codeInput s"
  "rp_loading (emits es s) = rp_loading s"
  "rp_error (emits es s) = rp_error s"
  "rp_batchResults (emits es s) = rp_batchResults s"
  "rp_archiveLoading (emits es s) = rp_archiveLoading s"
  by (simp_all add: base_ops emits_frame)

section \<open>What the view offers\<close>

lemma offers_batch_item:
  "offers (batch_item_view item) e \<longleftrightarrow>
     truthy (ri_redemption item) \<and> e = ShowItem (the (ri_redemption item))"
  by (auto simp: batch_item_view_def)

lemma offers_batch_results:
  "offers (batch_results_view s) e \<longleftrightarrow>
     archiveCount s > 0 \<and> \<not> rp_archiveLoading s \<and> e = DownloadAgain
     \<or> (\<exists>item \<in> set (rp_batchResults s). truthy (ri_redemption item) \<and> e = ShowItem (the (ri_redemption item)))"
  by (auto simp: batch_results_view_def Let_def list_ex_map_iff offers_batch_item)

lemma offers_redeem_tab:
  "offers (redeem_tab_view s) e \<longleftrightarrow>
     (\<exists>v. e = EditUserId v) \<or> (\<exists>v. e = EditCodes v) \<or> e = Paste
     \<or> rp_batchResults s \<noteq> [] \<and> offers (batch_results_view s) e
     \<or> \<not> rp_loading s \<and> e = Submit"
  by (auto simp: redeem_tab_view_def Let_def)

lemma offers_history_dialog:
  "offers (history_dialog_view s) e \<longleftrightarrow>
     rp_historyOpen s \<and> ((\<exists>b. e = SetHistoryOpen b)
       \<or> (\<exists>h \<in> set (rp_history s). e = SelectHistory (entry_result h) \<or> e = DeleteHistory (entry_id h))
       \<or> rp_history s \<noteq> [] \<and> e = ClearHistory)"
  by (auto simp: history_dialog_view_def history_row_view_def list_ex_map_iff)

lemma offers_result_dialog:
  "offers (result_dialog_view expiry s) e \<Longrightarrow>
     (\<exists>b. e = SetResultOpen b) \<or> (\<exists>v tip. e = CopyJson v tip) \<or> (\<exists>v n. e = SaveJson v n)"
  by (auto simp: result_dialog_view_def payload_view_def credential_view_def Let_def split: if_splits)

lemma offers_faq: "\<not> offers (faq_view s) e"
  by (auto simp: faq_view_def list_ex_map_iff split: option.split)

lemma offers_page:
  "offers (redeem_page_view expiry title s) e \<longleftrightarrow>
     e = SetHistoryOpen True \<or> offers (redeem_tab_view s) e
     \<or> offers (history_dialog_view s) e \<or> offers (result_dialog_view expiry s) e"
  by (auto simp: redeem_page_view_def offers_faq)

lemma offers_submit: "offers (redeem_page_view expiry title s) Submit \<longleftrightarrow> \<not> rp_loading s"
  using offers_result_dialog [of expiry s Submit]
  by (auto simp: offers_page offers_redeem_tab offers_batch_results offers_history_dialog)

lemma offers_show_item:
  "offers (redeem_page_view expiry title s) (ShowItem v) \<Longrightarrow>
     \<exists>item \<in> set (rp_batchResults s). ri_redemption item = Some v"
  using offers_result_dialog [of expiry s "ShowItem v"]
  by (auto simp: offers_page offers_redeem_tab offers_batch_results offers_history_dialog truthy_def
      split: option.splits)

section \<open>The invariant\<close>

definition submit_call :: "redeem_call \<Rightarrow> bool" where
  "submit_call c = (case c of
     CRedeem _ _ \<Rightarrow> True | CRedeemBatch _ _ \<Rightarrow> True | CArchive _ auto \<Rightarrow> auto | _ \<Rightarrow> False)"

definition proper_call :: "redeem_call \<Rightarrow> bool" where
  "proper_call c = (case c of
     CRedeem u code \<Rightarrow> isValidEmail u \<and> js_trim u = u \<and> clean_code code
   | CRedeemBatch u codes \<Rightarrow>
       isValidEmail u \<and> js_trim u = u \<and> 2 \<le> length codes \<and> distinct codes \<and> list_all clean_code codes
   | _ \<Rightarrow> True)"

definition calls_inv :: "redeem_page \<Rightarrow> bool" where
  "calls_inv s \<longleftrightarrow>
     length (filter submit_call (pend s)) = (if rp_loading s then 1 else 0)
     \<and> list_all proper_call (pend s)"

definition history_inv :: "redeem_page \<Rightarrow> bool" where
  "history_inv s \<longleftrightarrow>
     rp_historyRef s = rp_history s \<and> length (rp_history s) \<le> REDEEM_HISTORY_LIMIT
     \<and> list_all wf_json (rp_history s) \<and> list_all valid_entry (rp_history s)
     \<and> list_all good_item (rp_batchResults s)
     \<and> (loadRedeemHistory (Inr (rp_session s)) = rp_history s
        \<or> ToastWarning msg_red_history_unsaved \<in> set (log s))"

definition faq_inv :: "redeem_page \<Rightarrow> bool" where
  "faq_inv s \<longleftrightarrow>
     length (filter (\<lambda>c. c = CFaq) (pend s)) \<le> 1
     \<and> (CFaq \<in> set (pend s) \<longrightarrow> rp_faq s = None \<and> rp_faqError s = None)
     \<and> (rp_faq s = None \<or> rp_faqError s = None)"

section \<open>Handlers keep it\<close>

lemma commitHistory_fields [simp]:
  "pend (commitHistory ok next s) = pend s"
  "rp_history (commitHistory ok next s) = next" "rp_historyRef (commitHistory ok next s) = next"
  "rp_loading (commitHistory ok next s) = rp_loading s"
  "rp_faq (commitHistory ok next s) = rp_faq s" "rp_faqError (commitHistory ok next s) = rp_faqError s"
  "rp_batchResults (commitHistory ok next s) = rp_batchResults s"
  "rp_codeInput (commitHistory ok next s) = rp_codeInput s"
  "rp_selectedResult (commitHistory ok next s) = rp_selectedResult s"
  "rp_session (commitHistory ok next s) = (if ok then Some (stringify (JArr next)) else rp_session s)"
  "log (commitHistory ok next s) = log s @ (if ok then [] else [ToastWarning msg_red_history_unsaved])"
  by (simp_all add: commitHistory_def persistRedeemHistory_def Let_def)

lemma load_session:
  assumes "list_all wf_json next" "list_all valid_entry next" "length next \<le> REDEEM_HISTORY_LIMIT"
  shows "loadRedeemHistory (Inr (Some (stringify (JArr next)))) = next"
proof -
  have "filter valid_entry next = next"
    using assms(2) by (auto simp: list_all_iff intro: filter_True)
  then show ?thesis
    using load_persist [OF assms(1), of None] assms(3) by (simp add: persistRedeemHistory_def)
qed

lemma history_inv_commit:
  assumes "history_inv s" "list_all wf_json next" "list_all valid_entry next"
    "length next \<le> REDEEM_HISTORY_LIMIT"
  shows "history_inv (commitHistory ok next s)"
  using assms load_session by (auto simp: history_inv_def)

lemma handleRedeemSuccess_fields [simp]:
  "pend (handleRedeemSuccess st r b s) = pend s"
  "rp_loading (handleRedeemSuccess st r b s) = rp_loading s"
  "rp_faq (handleRedeemSuccess st r b s) = rp_faq s" "rp_faqError (handleRedeemSuccess st r b s) = rp_faqError s"
  "rp_batchResults (handleRedeemSuccess st r b s) = rp_batchResults s"
  "rp_codeInput (handleRedeemSuccess st r b s) = rp_codeInput s"
  by (simp_all add: handleRedeemSuccess_def Let_def split: prod.split)

lemma history_inv_selected [simp]: "history_inv (s\<lparr>rp_selectedResult := v\<rparr>) \<longleftrightarrow> history_inv s"
  by (simp add: history_inv_def)

lemma history_inv_push:
  assumes "history_inv s" "good_redemption r"
  shows "history_inv (handleRedeemSuccess st r b s)"
proof -
  obtain i now ok where st: "st = (i, now, ok)" by (metis prod_cases3)
  let ?next = "push_entry (createHistoryEntry i now r) (rp_historyRef s)"
  have "set ?next \<subseteq> insert (createHistoryEntry i now r) (set (rp_history s))"
    using assms(1) by (auto simp: push_entry_def history_inv_def dest: in_set_takeD)
  then have "list_all wf_json ?next" "list_all valid_entry ?next"
    using assms createHistoryEntry_wf createHistoryEntry_valid
    by (auto simp: list_all_iff history_inv_def good_redemption_def)
  then have "history_inv (commitHistory ok ?next s)"
    using assms(1) length_push_entry by (intro history_inv_commit)
  then show ?thesis
    by (simp add: handleRedeemSuccess_def st Let_def)
qed

lemma push_results_fields [simp]:
  "pend (push_results sts k items s) = pend s" "rp_loading (push_results sts k items s) = rp_loading s"
  "rp_faq (push_results sts k items s) = rp_faq s" "rp_faqError (push_results sts k items s) = rp_faqError s"
  "rp_batchResults (push_results sts k items s) = rp_batchResults s"
  by (induction items arbitrary: k s) simp_all

lemma history_inv_push_results:
  "history_inv s \<Longrightarrow> list_all good_item items \<Longrightarrow> history_inv (push_results sts k items s)"
proof (induction items arbitrary: k s)
  case (Cons item items)
  have "history_inv (handleRedeemSuccess (sts k) (the (ri_redemption item)) False s)"
    if "truthy (ri_redemption item)"
    using Cons.prems that
    by (intro history_inv_push) (auto simp: good_item_def truthy_def split: option.splits)
  then show ?case using Cons by simp
qed simp

text \<open>Submitting starts at most one call, with checked arguments.\<close>

lemma handleSubmit_call:
  "(\<exists>m. handleSubmit s = s\<lparr>rp_error := Some m\<rparr>) \<or>
   (\<exists>c. proper_call c \<and> submit_call c \<and> pend (handleSubmit s) = pend s @ [c] \<and> rp_loading (handleSubmit s))"
proof -
  let ?codes = "parseCdkList (rp_codeInput s)"
  consider "js_trim (rp_userId s) = [] \<or> \<not> isValidEmail (js_trim (rp_userId s)) \<or> length ?codes = 0"
    | "isValidEmail (js_trim (rp_userId s))" "js_trim (rp_userId s) \<noteq> []" "length ?codes = 1"
    | "isValidEmail (js_trim (rp_userId s))" "js_trim (rp_userId s) \<noteq> []" "2 \<le> length ?codes"
    by linarith
  then show ?thesis
  proof cases
    case 1
    then show ?thesis by (auto simp: handleSubmit_def Let_def)
  next
    case 2
    then have "clean_code (?codes ! 0)"
      by (intro parseCdkList_clean [of _ "rp_codeInput s"]) simp
    with 2 show ?thesis
      by (auto simp: handleSubmit_def Let_def proper_call_def submit_call_def)
  next
    case 3
    then have "?codes \<noteq> []" "length ?codes \<noteq> 1" by auto
    with 3 show ?thesis
      using parseCdkList_clean [of _ "rp_codeInput s"] parseCdkList_distinct [of "rp_codeInput s"]
      by (auto simp: handleSubmit_def Let_def proper_call_def submit_call_def list_all_iff)
  qed
qed

lemma handleSubmit_keeps [simp]:
  "rp_faq (handleSubmit s) = rp_faq s" "rp_faqError (handleSubmit s) = rp_faqError s"
  "rp_history (handleSubmit s) = rp_history s" "rp_historyRef (handleSubmit s) = rp_historyRef s"
  "rp_session (handleSubmit s) = rp_session s" "log (handleSubmit s) = log s"
  "set (rp_batchResults (handleSubmit s)) \<subseteq> set (rp_batchResults s)"
  by (auto simp: handleSubmit_def Let_def)

lemma handleSubmit_no_faq: "filter (\<lambda>c. c = CFaq) (pend (handleSubmit s)) = filter (\<lambda>c. c = CFaq) (pend s)"
  by (simp add: handleSubmit_def Let_def)

lemma calls_inv_handle:
  assumes "calls_inv s" "offers (redeem_page_view expiry title s) e"
  shows "calls_inv (redeem_handle env e s)"
proof (cases e)
  case Submit
  then have "\<not> rp_loading s" using assms(2) offers_submit by simp
  with handleSubmit_call [of s] assms(1) Submit show ?thesis
    by (auto simp: calls_inv_def)
qed (use assms(1) in \<open>auto simp: calls_inv_def handleDeleteHistory_def handleClearHistory_def changeUserId_def
      changeCodeInput_def handlePaste_def downloadArchive_def downloadJson_def downloadBlob_def
      proper_call_def submit_call_def\<close>)

fun_cases redeem_settleE: "redeem_settle env c a s = Some t"

lemma calls_inv_settle:
  assumes "calls_inv s" "c \<in> set (pend s)" "redeem_settle env c a (settled c s) = Some t"
  shows "calls_inv t"
proof -
  have n: "length (filter submit_call (remove1 c (pend s)))
      = length (filter submit_call (pend s)) - (if submit_call c then 1 else 0)"
    by (rule length_filter_remove1 [OF assms(2)])
  have "list_all proper_call (remove1 c (pend s))"
    using assms(1) by (simp add: calls_inv_def list_all_remove1)
  moreover have "rp_loading s" if "submit_call c"
  proof -
    have "filter submit_call (pend s) \<noteq> []"
      using that assms(2) by (auto simp: filter_empty_conv)
    then show ?thesis using assms(1) by (auto simp: calls_inv_def split: if_splits)
  qed
  ultimately show ?thesis
    using assms(3,1) n
    by (elim redeem_settleE)
       (auto simp: calls_inv_def submit_call_def proper_call_def faq_done_def paste_done_def redeem_done_def
         submit_failed_def redeem_batch_done_def downloadArchive_def archive_done_def Let_def
         split: sum.splits option.splits if_splits prod.splits)
qed

lemma faq_inv_handle: "faq_inv s \<Longrightarrow> faq_inv (redeem_handle env e s)"
proof (cases e)
  case Submit
  assume "faq_inv s"
  moreover have "CFaq \<in> set (pend (handleSubmit s)) \<longleftrightarrow> CFaq \<in> set (pend s)"
    by (simp add: handleSubmit_def Let_def)
  ultimately show ?thesis using Submit handleSubmit_no_faq by (simp add: faq_inv_def)
qed (auto simp: faq_inv_def handleDeleteHistory_def handleClearHistory_def changeUserId_def
      changeCodeInput_def handlePaste_def downloadArchive_def downloadJson_def downloadBlob_def)

lemma settle_keeps_faq:
  assumes "redeem_settle env c a s = Some t" "c \<noteq> CFaq"
  shows "rp_faq t = rp_faq s \<and> rp_faqError t = rp_faqError s
    \<and> filter (\<lambda>c. c = CFaq) (pend t) = filter (\<lambda>c. c = CFaq) (pend s)"
proof -
  have code: "rp_faq (archive_done em now p items auto s) = rp_faq s"
    "rp_faqError (archive_done em now p items auto s) = rp_faqError s"
    "pend (archive_done em now p items auto s) = pend s" for em now p items auto
    by (simp_all add: archive_done_def Let_def split: sum.split prod.split)
  show ?thesis
    using assms
    by (elim redeem_settleE)
       (auto simp: code paste_done_def redeem_done_def submit_failed_def redeem_batch_done_def
         downloadArchive_def Let_def split: sum.split)
qed

lemma faq_inv_settle:
  assumes "faq_inv s" "c \<in> set (pend s)" "redeem_settle env c a (settled c s) = Some t"
  shows "faq_inv t"
proof (cases "c = CFaq")
  case True
  have "CFaq \<notin> set (remove1 CFaq (pend s))"
    using assms(1) by (intro remove1_single) (simp add: faq_inv_def)
  moreover from this have "filter (\<lambda>c. c = CFaq) (remove1 CFaq (pend s)) = []"
    by (auto simp: filter_empty_conv)
  moreover have "rp_faq s = None" "rp_faqError s = None"
    using assms(1,2) True by (auto simp: faq_inv_def)
  moreover from True obtain r where "t = faq_done (en_text env) r (settled c s)"
    using assms(3) by (cases a) auto
  ultimately show ?thesis
    using True by (cases r) (auto simp: faq_inv_def faq_done_def filter_empty_conv)
next
  case False
  note k = settle_keeps_faq [OF assms(3) False]
  then have "CFaq \<in> set (pend t) \<longleftrightarrow> CFaq \<in> set (pend s)"
    using False by (metis (mono_tags) filter_set in_set_remove1 mem_Collect_eq base_frame(5) set_filter)
  moreover have "length (filter (\<lambda>c. c = CFaq) (pend t)) \<le> length (filter (\<lambda>c. c = CFaq) (pend s))"
    using k length_filter_remove1_le by simp
  ultimately show ?thesis
    using assms(1) k by (auto simp: faq_inv_def)
qed

lemma history_inv_log: "history_inv (s\<lparr>log := log s @ es\<rparr>)" if "history_inv s"
  using that by (auto simp: history_inv_def)

lemma history_inv_filter:
  "history_inv s \<Longrightarrow> history_inv (commitHistory ok (filter p (rp_historyRef s)) s)"
  by (rule history_inv_commit)
     (auto simp: history_inv_def list_all_iff intro: order.trans [OF length_filter_le])

lemma history_inv_handle:
  assumes "history_inv s" "offers (redeem_page_view expiry title s) e"
  shows "history_inv (redeem_handle env e s)"
proof (cases e)
  case (ShowItem v)
  then obtain item where "item \<in> set (rp_batchResults s)" "ri_redemption item = Some v"
    using assms(2) offers_show_item by blast
  then have "good_redemption v"
    using assms(1) by (auto simp: history_inv_def list_all_iff good_item_def)
  then show ?thesis using ShowItem assms(1) history_inv_push by simp
next
  case Submit
  have "list_all good_item (rp_batchResults (handleSubmit s))"
    using assms(1) by (auto simp: history_inv_def list_all_iff dest: subsetD [OF handleSubmit_keeps(7)])
  then show ?thesis using Submit assms(1) by (simp add: history_inv_def)
next
  case (DeleteHistory i)
  then show ?thesis using assms(1) by (simp add: handleDeleteHistory_def history_inv_filter)
next
  case ClearHistory
  then show ?thesis using assms(1) history_inv_commit [of s "[]"] by (simp add: handleClearHistory_def)
qed (use assms(1) in \<open>auto simp: history_inv_def changeUserId_def changeCodeInput_def handlePaste_def
      downloadArchive_def downloadJson_def downloadBlob_def\<close>)

lemma history_inv_batch:
  assumes "history_inv s" "list_all good_item items"
  shows "history_inv (push_results sts 0 items (s\<lparr>rp_batchResults := items\<rparr>))"
  by (rule history_inv_push_results) (use assms in \<open>auto simp: history_inv_def\<close>)

lemma history_inv_answer:
  assumes "history_inv s" "good_answer a" "redeem_settle env c a (settled c s) = Some t"
  shows "history_inv t"
proof -
  have s: "history_inv (settled c s)"
    using assms(1) by (simp add: history_inv_def)
  have code: "history_inv (s'\<lparr>rp_codeInput := x\<rparr>)" "history_inv (s'\<lparr>rp_loading := b\<rparr>)"
    "history_inv (emit e s')" "history_inv (downloadArchive items auto s')"
    if "history_inv s'" for s' x b e items auto
    using that by (auto simp: history_inv_def downloadArchive_def)
  show ?thesis
    using assms(2,3) s
  proof (cases "(env, c, a, settled c s)" rule: redeem_settle.cases)
    case (3 env u co r s')
    then show ?thesis
      using assms(2,3) s
      by (cases r) (auto simp: redeem_done_def good_answer_def code history_inv_push submit_failed_def
          history_inv_def [of "_\<lparr>rp_error := _, rp_loading := _\<rparr>"] history_inv_def [of "settled _ _"])
  next
    case (4 env u cs r s')
    show ?thesis
    proof (cases r)
      case (Inl e)
      then show ?thesis using 4 assms(3) s
        by (auto simp: redeem_batch_done_def submit_failed_def history_inv_def)
    next
      case (Inr d)
      then have "history_inv (push_results (en_stamps env) 0 (rb_results d) (s'\<lparr>rp_batchResults := rb_results d\<rparr>))"
        using 4 s assms(2) by (intro history_inv_batch) (auto simp: good_answer_def)
      then show ?thesis using 4 Inr assms(3)
        by (auto simp: redeem_batch_done_def Let_def code split: if_splits)
    qed
  qed (use assms(3) s in \<open>auto simp: history_inv_def faq_done_def paste_done_def archive_done_def Let_def
        split: sum.splits if_splits prod.splits\<close>)
qed

section \<open>Reachable states\<close>

definition redeem_start :: "redeem_page \<Rightarrow> bool" where
  "redeem_start s \<longleftrightarrow> (\<exists>ok stored legacy. s = redeem_init ok (Inr stored) stored legacy)"

definition redeem_inv :: "redeem_page \<Rightarrow> bool" where
  "redeem_inv s \<longleftrightarrow> calls_inv s \<and> history_inv s \<and> faq_inv s"

lemma redeem_inv_start: "redeem_start s \<Longrightarrow> redeem_inv s"
  by (auto simp: redeem_start_def redeem_inv_def redeem_init_def calls_inv_def history_inv_def faq_inv_def
      submit_call_def proper_call_def length_loadRedeemHistory loadRedeemHistory_wf loadRedeemHistory_valid)

lemma redeem_inv_step: "redeem_inv s \<Longrightarrow> rstep s t \<Longrightarrow> redeem_inv t"
  unfolding redeem_inv_def
  by (erule rstepE)
     (blast intro: calls_inv_handle faq_inv_handle history_inv_handle calls_inv_settle faq_inv_settle
       history_inv_answer)+

interpretation redeem: invariant_system redeem_start rstep redeem_inv
  by unfold_locales (simp_all add: redeem_inv_start redeem_inv_step)

lemma log_handleRedeemSuccess: "\<exists>es. log (handleRedeemSuccess st r b s) = log s @ es"
  by (cases st) (simp add: handleRedeemSuccess_def Let_def)

lemma log_push_results: "\<exists>es. log (push_results sts k items s) = log s @ es"
proof (induction items arbitrary: k s)
  case (Cons item items)
  let ?s = "if truthy (ri_redemption item) then handleRedeemSuccess (sts k) (the (ri_redemption item)) False s else s"
  have "\<exists>es. log ?s = log s @ es"
    using log_handleRedeemSuccess by auto
  with Cons [of "k + 1" ?s] show ?case
    by (simp del: append_eq_append_conv) (metis append.assoc)
qed simp

lemma log_batch_done: "\<exists>es. log (redeem_batch_done sts r s) = log s @ es"
proof (cases r)
  case (Inl e)
  then show ?thesis by (simp add: redeem_batch_done_def submit_failed_def)
next
  case (Inr d)
  obtain es where "log (push_results sts 0 (rb_results d) (s\<lparr>rp_batchResults := rb_results d\<rparr>)) = log s @ es"
    using log_push_results [of sts 0 "rb_results d" "s\<lparr>rp_batchResults := rb_results d\<rparr>"] by auto
  then show ?thesis using Inr by (simp add: redeem_batch_done_def Let_def downloadArchive_def)
qed

lemma log_redeem_handle: "\<exists>es. log (redeem_handle env e s) = log s @ es"
  using log_handleRedeemSuccess
  by (cases e) (auto simp: handleDeleteHistory_def handleClearHistory_def changeUserId_def
      changeCodeInput_def handlePaste_def downloadArchive_def downloadJson_def downloadBlob_def)

lemma log_redeem_settle:
  assumes "redeem_settle env c a s = Some t"
  shows "\<exists>es. log t = log s @ es"
proof (cases "(env, c, a, s)" rule: redeem_settle.cases)
  case (3 env' u co r s')
  then show ?thesis
    using assms log_handleRedeemSuccess [of "en_stamp env" _ True "s'\<lparr>rp_codeInput := []\<rparr>"]
    by (cases r) (auto simp: redeem_done_def submit_failed_def)
next
  case (4 env' u cs r s')
  then show ?thesis using assms log_batch_done by auto
qed (use assms in \<open>auto simp: faq_done_def paste_done_def archive_done_def Let_def split: sum.splits prod.splits\<close>)

interpretation redeem_log: logged_system rstep
proof unfold_locales
  fix s t assume "rstep s t"
  then show "\<exists>es. log t = log s @ es"
    by (rule rstepE) (use log_redeem_handle log_redeem_settle in \<open>force+\<close>)
qed

section \<open>A run of the page\<close>

definition redeem_sample :: redeem_page where
  "redeem_sample = redeem_init True (Inr None) None None"

definition redeem_sample_env :: redeem_env where
  "redeem_sample_env = \<lparr>en_stamps = (\<lambda>_. ([], [], False)), en_clip = (True, True), en_text = (\<lambda>_. []),
     en_now = sample_time\<rparr>"

lemma redeem_sample_start: "redeem_start redeem_sample"
  by (auto simp: redeem_start_def redeem_sample_def)

lemma rstep_edit:
  "rstep s (changeUserId v s)" "rstep s (changeCodeInput v s)" "\<not> rp_loading s \<Longrightarrow> rstep s (handleSubmit s)"
proof -
  have o: "offers (redeem_page_view expiry title s) (EditUserId v)"
    "offers (redeem_page_view expiry title s) (EditCodes v)" for expiry title
    by (simp_all add: offers_page offers_redeem_tab)
  from rstep.user [OF o(1), of redeem_sample_env] show "rstep s (changeUserId v s)" by simp
  from rstep.user [OF o(2), of redeem_sample_env] show "rstep s (changeCodeInput v s)" by simp
  assume "\<not> rp_loading s"
  then have "offers (redeem_page_view expiry title s) Submit" for expiry title
    by (simp add: offers_submit)
  from rstep.user [OF this, of redeem_sample_env] show "rstep s (handleSubmit s)" by simp
qed

text \<open>An address and two codes are typed and submitted.\<close>

definition redeem_typed :: redeem_page where
  "redeem_typed = changeCodeInput (js ''aa bb'') (changeUserId (js '' a@b.c '') redeem_sample)"

definition redeem_sent :: redeem_page where
  "redeem_sent = handleSubmit redeem_typed"

lemma redeem_sent_reachable: "rstep\<^sup>*\<^sup>* redeem_sample redeem_sent"
proof -
  have "\<not> rp_loading redeem_typed"
    by (simp add: redeem_typed_def redeem_sample_def changeCodeInput_def changeUserId_def redeem_init_def)
  then have "rstep redeem_typed redeem_sent"
    unfolding redeem_sent_def by (rule rstep_edit(3))
  moreover have "rstep\<^sup>*\<^sup>* redeem_sample redeem_typed"
    unfolding redeem_typed_def by (blast intro: rstep_edit rtranclp.rtrancl_into_rtrancl rtranclp.rtrancl_refl)
  ultimately show ?thesis by (rule rtranclp.rtrancl_into_rtrancl [rotated])
qed

lemma redeem_sent_pend: "pend redeem_sent = [CFaq, CRedeemBatch (js ''a@b.c'') [js ''AA'', js ''BB'']]"
  "rp_loading redeem_sent"
  by code_simp+

section \<open>Properties\<close>





text \<open>When loading the FAQ fails, the page records the message but never shows
  it: in every reachable state with an FAQ error the section still renders the
  loading skeleton, which has no text.\<close>

lemma redeem_faq_error_hidden:
  assumes "redeem_start s" "rstep\<^sup>*\<^sup>* s t" "rp_faqError t = Some m"
  shows "faq_view t = El ''div'' [] [El ''Skeleton'' [] [], El ''Skeleton'' [] [], El ''Skeleton'' [] []]
    \<and> texts (faq_view t) = []"
  using redeem.reachable_inv [OF assms(1,2)] assms(3)
  by (auto simp: redeem_inv_def faq_inv_def faq_view_def)

text \<open>After a batch answer with failures, the text area holds the failed codes,
  and reading it gives exactly them: the next submission retries what failed and
  nothing else, given that the answer lists the codes that were sent.\<close>

lemma redeem_batch_retry:
  assumes "proper_call (CRedeemBatch u cs)" "map ri_code (rb_results d) = cs" "rb_failed d \<noteq> 0"
  shows "parseCdkList (rp_codeInput (redeem_batch_done sts (Inr d) s)) = failed_codes (rb_results d)"
proof -
  have inp: "rp_codeInput (redeem_batch_done sts (Inr d) s) = js_join [10] (failed_codes (rb_results d))"
    using assms(3) by (simp add: redeem_batch_done_def Let_def downloadArchive_def)
  have "distinct cs" "list_all clean_code cs"
    using assms(1) by (simp_all add: proper_call_def)
  then have "distinct (failed_codes (rb_results d))" "list_all clean_code (failed_codes (rb_results d))"
    unfolding failed_codes_def assms(2) [symmetric]
    by (auto simp: distinct_map_filter list_all_iff)
  then show ?thesis
    unfolding inp by (rule parseCdkList_join)
qed

text \<open>Looking at a result of the batch list is not only looking: the button adds
  the redemption to the history once more, and with a full history the oldest
  entry is dropped for it.\<close>

lemma redeem_show_item_duplicates:
  assumes "rp_historyRef s = rp_history s" "en_stamp env = (i, now, ok)"
  shows "rp_history (redeem_handle env (ShowItem r) s)
      = take 20 (createHistoryEntry i now r # rp_history s)
    \<and> rp_selectedResult (redeem_handle env (ShowItem r) s) = Some r"
  using assms by (simp add: handleRedeemSuccess_def push_entry_def REDEEM_HISTORY_LIMIT_def Let_def)

end
