(* ===== verification/Credentials.thy ===== *)
theory Credentials
  imports Components CdkInput
begin

text \<open>
  The credentials page web/src/pages/admin/credentials.tsx: the paged list with
  its state tabs, selection and deletion, the upload dialog, and the detail
  dialog. A call under way carries what its continuation captured: the query
  (state, page, page size) of the render that started it, since the callbacks
  reload with the query they closed over.
\<close>

datatype CredentialState = StateAll | StateUnused | StateUsed

definition state_name :: "CredentialState \<Rightarrow> string" where
  "state_name st = (case st of StateAll \<Rightarrow> ''all'' | StateUnused \<Rightarrow> ''unused'' | StateUsed \<Rightarrow> ''used'')"

definition STATE_TABS :: "(CredentialState \<times> jstr) list" where
  "STATE_TABS = [(StateAll, msg_cr_all), (StateUnused, msg_cr_unused), (StateUsed, msg_cr_used)]"

definition PAGE_SIZE_OPTIONS :: "int list" where
  "PAGE_SIZE_OPTIONS = [20, 50, 100, 200, 500]"

datatype PageItem = PageNumber int | StartEllipsis | EndEllipsis

definition containsControlCharacter :: "jstr \<Rightarrow> bool" where
  "containsControlCharacter v = list_ex (\<lambda>codePoint. codePoint \<le> 31 \<or> codePoint = 127) (code_points v)"

definition compactPageItems :: "int \<Rightarrow> int \<Rightarrow> PageItem list" where
  "compactPageItems page pages =
     (if pages \<le> 0 then []
      else if pages \<le> 5 then map (\<lambda>index. PageNumber (int index + 1)) [0..<nat pages]
      else if page \<le> 3 then [PageNumber 1, PageNumber 2, PageNumber 3, EndEllipsis, PageNumber pages]
      else if page \<ge> pages - 2
      then [PageNumber 1, StartEllipsis, PageNumber (pages - 2), PageNumber (pages - 1), PageNumber pages]
      else [PageNumber 1, StartEllipsis, PageNumber page, EndEllipsis, PageNumber pages])"

text \<open>
  \<^verbatim>\<open>toLocaleString\<close> does not throw on an invalid date but answers \<^verbatim>\<open>Invalid Date\<close>,
  so the \<^verbatim>\<open>catch\<close> of the source is never taken.
\<close>

definition formatExpired :: "(jstr \<Rightarrow> int option) \<Rightarrow> (int \<Rightarrow> jstr) \<Rightarrow> jstr option \<Rightarrow> jstr" where
  "formatExpired date_parse locale_str v =
     (case v of
        None \<Rightarrow> msg_cr_dash
      | Some t \<Rightarrow> if t = [] then msg_dash
                  else case date_parse t of None \<Rightarrow> js ''Invalid Date'' | Some ms \<Rightarrow> locale_str ms)"

section \<open>State\<close>

type_synonym cred_query = "CredentialState \<times> int \<times> int"

datatype cred_call =
    CStats
  | CPlans
  | CList cred_query
  | CUpload js_file jstr cred_query
  | CDelete int cred_query
  | CBatchDelete "int list" cred_query
  | CDetail int
  | CDownload int

record cred_page = "cred_call base" +
  cr_state :: CredentialState
  cr_page :: int
  cr_pageSize :: int
  cr_items :: "Credential list option"
  cr_paged :: Paged
  cr_stats :: "int \<times> int \<times> int"
  cr_selected :: "int list"
  cr_uploading :: bool
  cr_plans :: "CredentialPlan list"
  cr_plansLoading :: bool
  cr_plansError :: "jstr option"
  cr_pendingUpload :: "js_file option"
  cr_modeExisting :: bool
  cr_selectedPlan :: jstr
  cr_newPlan :: jstr
  cr_uploadError :: "jstr option"
  cr_detail :: "(Credential \<times> json) option"
  cr_loadingDetailId :: "int option"
  cr_downloading :: bool
  cr_dragOver :: bool

definition cred_query_of :: "cred_page \<Rightarrow> cred_query" where
  "cred_query_of s = (cr_state s, cr_page s, cr_pageSize s)"

section \<open>Loading\<close>

definition loadStats :: "cred_page \<Rightarrow> cred_page" where
  "loadStats s = call CStats s"

definition stats_done :: "(js_error \<Rightarrow> jstr) \<Rightarrow> (int \<times> int \<times> int) res \<Rightarrow> cred_page \<Rightarrow> cred_page" where
  "stats_done em r s = (case r of
     Inr d \<Rightarrow> s\<lparr>cr_stats := d\<rparr>
   | Inl e \<Rightarrow> emit (ToastError (err_message em e)) s)"

definition loadPlans :: "cred_page \<Rightarrow> cred_page" where
  "loadPlans s = call CPlans (s\<lparr>cr_plansLoading := True, cr_plansError := None\<rparr>)"

definition plans_done :: "(js_error \<Rightarrow> jstr) \<Rightarrow> CredentialPlan list option res \<Rightarrow> cred_page \<Rightarrow> cred_page" where
  "plans_done em r s = (case r of
     Inr ps \<Rightarrow> s\<lparr>cr_plans := (case ps of None \<Rightarrow> [] | Some xs \<Rightarrow> xs), cr_plansLoading := False\<rparr>
   | Inl e \<Rightarrow> s\<lparr>cr_plans := [], cr_plansError := Some (message_if_error em msg_cr_plans_failed e),
               cr_plansLoading := False\<rparr>)"

text \<open>\<^verbatim>\<open>load\<close> of the render with query \<open>q\<close>.\<close>

definition load_with :: "cred_query \<Rightarrow> cred_page \<Rightarrow> cred_page" where
  "load_with q s = call (CList q) (s\<lparr>cr_items := None\<rparr>)"

text \<open>The effect on \<^verbatim>\<open>[load]\<close>: it runs again after a render that changed the query.\<close>

definition after_render :: "cred_page \<Rightarrow> cred_page \<Rightarrow> cred_page" where
  "after_render before s =
     (if cred_query_of s \<noteq> cred_query_of before then load_with (cred_query_of s) s else s)"

definition setPage :: "int \<Rightarrow> cred_page \<Rightarrow> cred_page" where
  "setPage p s = after_render s (s\<lparr>cr_page := p\<rparr>)"

definition list_done :: "(js_error \<Rightarrow> jstr) \<Rightarrow> cred_query \<Rightarrow> (Credential list \<times> Paged) res \<Rightarrow> cred_page \<Rightarrow> cred_page" where
  "list_done em q r s = (case r of
     Inr (its, d) \<Rightarrow>
       if pg_total d > 0 \<and> fst (snd q) > pg_pages d then setPage (pg_pages d) s
       else s\<lparr>cr_items := Some its,
              cr_paged := \<lparr>pg_total = pg_total d, pg_page = pg_page d, pg_pages = pg_pages d\<rparr>,
              cr_selected := []\<rparr>
   | Inl e \<Rightarrow> emit (ToastError (err_message em e)) s)"

definition cred_init :: cred_page where
  "cred_init = load_with (StateAll, 1, 50) (loadPlans (loadStats
     \<lparr>pend = [], log = [], cr_state = StateAll, cr_page = 1, cr_pageSize = 50, cr_items = None,
      cr_paged = \<lparr>pg_total = 0, pg_page = 1, pg_pages = 1\<rparr>, cr_stats = (0, 0, 0), cr_selected = [],
      cr_uploading = False, cr_plans = [], cr_plansLoading = True, cr_plansError = None,
      cr_pendingUpload = None, cr_modeExisting = True, cr_selectedPlan = [], cr_newPlan = [],
      cr_uploadError = None, cr_detail = None, cr_loadingDetailId = None, cr_downloading = False,
      cr_dragOver = False\<rparr>))"

section \<open>Uploading\<close>

definition plans_error_set :: "cred_page \<Rightarrow> bool" where
  "plans_error_set s = truthy (map_option JStr (cr_plansError s))"

text \<open>The suffix test is on the name in lower case; only ASCII letters matter for it.\<close>

definition stageUpload :: "js_file \<Rightarrow> cred_page \<Rightarrow> cred_page" where
  "stageUpload f s =
     (if cr_plansLoading s \<or> plans_error_set s \<or> cr_uploading s then s
      else if \<not> js_endsWith (js_toLowerCase (file_name f)) (js ''.json'')
      then emit (ToastError msg_cr_need_json) s
      else s\<lparr>cr_pendingUpload := Some f, cr_modeExisting := (length (cr_plans s) > 0),
             cr_selectedPlan := [], cr_newPlan := [], cr_uploadError := None\<rparr>)"

definition closeUploadDialog :: "cred_page \<Rightarrow> cred_page" where
  "closeUploadDialog s =
     (if cr_uploading s then s else s\<lparr>cr_pendingUpload := None, cr_uploadError := None\<rparr>)"

definition handleUpload :: "cred_page \<Rightarrow> cred_page" where
  "handleUpload s = (case cr_pendingUpload s of
     None \<Rightarrow> s
   | Some f \<Rightarrow>
       (let planType = js_trim (if cr_modeExisting s then cr_selectedPlan s else cr_newPlan s) in
        if planType = []
        then s\<lparr>cr_uploadError := Some (if cr_modeExisting s then msg_cr_choose_plan else msg_cr_name_plan)\<rparr>
        else if length (code_points planType) > 100 \<or> containsControlCharacter planType
        then s\<lparr>cr_uploadError := Some msg_cr_bad_plan\<rparr>
        else call (CUpload f planType (cred_query_of s)) (s\<lparr>cr_uploading := True, cr_uploadError := None\<rparr>)))"

text \<open>Reloading everything after a change, with the captured query.\<close>

definition reload_all :: "cred_query \<Rightarrow> cred_page \<Rightarrow> cred_page" where
  "reload_all q s = loadPlans (load_with q (loadStats s))"

definition upload_done :: "(js_error \<Rightarrow> jstr) \<Rightarrow> cred_query \<Rightarrow> jstr res \<Rightarrow> cred_page \<Rightarrow> cred_page" where
  "upload_done em q r s = (case r of
     Inr message \<Rightarrow>
       (reload_all q (emit (ToastSuccess message) (s\<lparr>cr_pendingUpload := None\<rparr>)))\<lparr>cr_uploading := False\<rparr>
   | Inl e \<Rightarrow> s\<lparr>cr_uploadError := Some (message_if_error em msg_cr_upload_failed e), cr_uploading := False\<rparr>)"

definition pickUpload :: "js_file option \<Rightarrow> cred_page \<Rightarrow> cred_page" where
  "pickUpload f s = (case f of None \<Rightarrow> s | Some x \<Rightarrow> stageUpload x s)"

definition dropUpload :: "js_file option \<Rightarrow> cred_page \<Rightarrow> cred_page" where
  "dropUpload f s = pickUpload f (s\<lparr>cr_dragOver := False\<rparr>)"

section \<open>Deleting, details, selection\<close>

definition handleDelete :: "int \<Rightarrow> cred_page \<Rightarrow> cred_page" where
  "handleDelete ident s = call (CDelete ident (cred_query_of s)) s"

definition delete_done :: "(js_error \<Rightarrow> jstr) \<Rightarrow> jstr \<Rightarrow> cred_query \<Rightarrow> jstr res \<Rightarrow> cred_page \<Rightarrow> cred_page" where
  "delete_done em fallback q r s = (case r of
     Inr message \<Rightarrow> reload_all q (emit (ToastSuccess message) s)
   | Inl e \<Rightarrow> emit (ToastError (message_if_error em fallback e)) s)"

definition handleViewDetail :: "int \<Rightarrow> cred_page \<Rightarrow> cred_page" where
  "handleViewDetail ident s = call (CDetail ident) (s\<lparr>cr_loadingDetailId := Some ident\<rparr>)"

definition detail_done :: "(js_error \<Rightarrow> jstr) \<Rightarrow> (Credential \<times> json) res \<Rightarrow> cred_page \<Rightarrow> cred_page" where
  "detail_done em r s =
     (case r of
        Inr d \<Rightarrow> s\<lparr>cr_detail := Some d\<rparr>
      | Inl e \<Rightarrow> emit (ToastError (message_if_error em msg_cr_detail_failed e)) s)\<lparr>cr_loadingDetailId := None\<rparr>"

definition handleDownloadCredential :: "int \<Rightarrow> cred_page \<Rightarrow> cred_page" where
  "handleDownloadCredential ident s = call (CDownload ident) (s\<lparr>cr_downloading := True\<rparr>)"

definition download_done :: "(js_error \<Rightarrow> jstr) \<Rightarrow> int \<Rightarrow> blob res \<Rightarrow> cred_page \<Rightarrow> cred_page" where
  "download_done em ident r s =
     (case r of
        Inr b \<Rightarrow> emit (Download b (js ''credential-'' @ int_str ident @ js ''.json'')) s
      | Inl e \<Rightarrow> emit (ToastError (message_if_error em msg_cr_download_failed e)) s)\<lparr>cr_downloading := False\<rparr>"

definition handleBatchDelete :: "cred_page \<Rightarrow> cred_page" where
  "handleBatchDelete s =
     (if length (cr_selected s) = 0 then s
      else call (CBatchDelete (cr_selected s) (cred_query_of s)) s)"

definition toggleSelect :: "int \<Rightarrow> cred_page \<Rightarrow> cred_page" where
  "toggleSelect ident s =
     s\<lparr>cr_selected := (if ident \<in> set (cr_selected s) then removeAll ident (cr_selected s)
                      else cr_selected s @ [ident])\<rparr>"

definition toggleSelectAll :: "cred_page \<Rightarrow> cred_page" where
  "toggleSelectAll s = (case cr_items s of
     None \<Rightarrow> s
   | Some its \<Rightarrow>
       if length (cr_selected s) = length its \<and> length its > 0 then s\<lparr>cr_selected := []\<rparr>
       else s\<lparr>cr_selected := first_occurrences (map cr_id its)\<rparr>)"

definition allSelected :: "cred_page \<Rightarrow> bool" where
  "allSelected s = (case cr_items s of
     None \<Rightarrow> False
   | Some its \<Rightarrow> length its > 0 \<and> length (cr_selected s) = length its)"

definition rangeStart :: "cred_page \<Rightarrow> int" where
  "rangeStart s =
     (if pg_total (cr_paged s) = 0 then 0 else (pg_page (cr_paged s) - 1) * cr_pageSize s + 1)"

definition rangeEnd :: "cred_page \<Rightarrow> int" where
  "rangeEnd s = min (pg_page (cr_paged s) * cr_pageSize s) (pg_total (cr_paged s))"

definition changeState :: "CredentialState \<Rightarrow> cred_page \<Rightarrow> cred_page" where
  "changeState st s = after_render s (s\<lparr>cr_state := st, cr_page := 1\<rparr>)"

definition changePageSize :: "int \<Rightarrow> cred_page \<Rightarrow> cred_page" where
  "changePageSize n s =
     (if n \<notin> set PAGE_SIZE_OPTIONS then s else after_render s (s\<lparr>cr_pageSize := n, cr_page := 1\<rparr>))"

end
