(* ===== verification/CredentialsView.thy ===== *)
theory CredentialsView
  imports Credentials
begin

text \<open>
  The view of the credentials page, the handlers behind its controls, and its
  step relation.
\<close>

datatype cred_event =
    PickUpload "js_file option"
  | DropUpload "js_file option"
  | DragOver bool
  | BatchDelete
  | ReloadPlans
  | SetTab CredentialState
  | ToggleAll
  | Toggle int
  | ViewDetail int
  | DeleteOne int
  | SetPageSize int
  | PrevPage
  | NextPage
  | GotoPage int
  | SetUploadOpen bool
  | SetUploadMode bool
  | SelectPlan jstr
  | EditNewPlan jstr
  | ConfirmUpload
  | SetDetailOpen bool
  | CopyDetail
  | DownloadDetail int

section \<open>View\<close>

definition cred_header_view :: "cred_page \<Rightarrow> cred_event node" where
  "cred_header_view s =
     PageHeader msg_cr_title msg_cr_description
       ([El ''input'' [OnFile PickUpload] [],
         button [Disabled (cr_uploading s \<or> cr_plansLoading s \<or> plans_error_set s)] msg_cr_upload]
        @ show_if (length (cr_selected s) > 0)
            (ConfirmDialog [] (msg_cr_batch_delete @ nat_str (length (cr_selected s)) @ js '')'')
               msg_cr_batch_delete_title
               (msg_cr_will_delete @ nat_str (length (cr_selected s)) @ msg_cr_irreversible)
               (Some msg_cr_delete) BatchDelete))"

definition cred_stats_view :: "cred_page \<Rightarrow> cred_event node" where
  "cred_stats_view s = (case cr_stats s of (total_n, used_n, unused_n) \<Rightarrow>
     El ''div'' []
       [StatCard msg_cr_total (int_str total_n) [] ''default'',
        StatCard msg_cr_unused (int_str unused_n) [] ''primary'',
        StatCard msg_cr_used (int_str used_n) [] ''destructive''])"

definition plans_error_view :: "cred_page \<Rightarrow> cred_event node list" where
  "plans_error_view s =
     show_if (plans_error_set s)
       (El ''Alert'' [] [Txt msg_cr_plans_failed, Txt (the (cr_plansError s)), button [On ReloadPlans] msg_cr_reload])"

definition drop_zone_view :: "cred_page \<Rightarrow> cred_event node" where
  "drop_zone_view s =
     El ''Card'' [OnFlag DragOver, OnFile DropUpload]
       [El ''p'' [] [Txt (if cr_plansLoading s then msg_cr_loading_plans
                          else if cr_uploading s then msg_cr_importing
                          else msg_cr_drop_hint)],
        El ''p'' [] [Txt msg_cr_plan_hint]]"

definition cred_row_view :: "(jstr option \<Rightarrow> jstr) \<Rightarrow> cred_page \<Rightarrow> Credential \<Rightarrow> cred_event node" where
  "cred_row_view expiry s c =
     El ''TableRow'' []
       [El ''input'' [Attr ''checked'' (if cr_id c \<in> set (cr_selected s) then js ''true'' else js ''false''),
          On (Toggle (cr_id c))] [],
        Txt (int_str (cr_id c)), Txt (cr_email c),
        Badge ''outline'' (cr_plan_type c), Txt (expiry (cr_expired c)),
        (if cr_used c then Badge ''secondary'' msg_cr_used else Badge ''default'' msg_cr_unused),
        button [Disabled (cr_loadingDetailId s = Some (cr_id c)), On (ViewDetail (cr_id c))]
          (msg_cr_view @ int_str (cr_id c)),
        ConfirmDialog [] (msg_cr_delete_one @ int_str (cr_id c)) msg_cr_delete_title
          (msg_cr_mail @ cr_email c @ msg_cr_final) (Some msg_cr_delete) (DeleteOne (cr_id c))]"

definition cred_table_view :: "(jstr option \<Rightarrow> jstr) \<Rightarrow> cred_page \<Rightarrow> cred_event node" where
  "cred_table_view expiry s = (case cr_items s of
     None \<Rightarrow> El ''Skeleton'' [] []
   | Some its \<Rightarrow>
       if length its = 0 then EmptyState msg_cr_empty msg_cr_empty_hint
       else El ''Table'' []
         (El ''TableHeader'' []
            [El ''input'' [Attr ''checked'' (if allSelected s then js ''true'' else js ''false''), On ToggleAll] [],
             Txt (js ''ID''), Txt msg_cr_col_mail, Txt msg_cr_col_plan, Txt msg_cr_col_expires, Txt msg_cr_col_state,
             Txt msg_cr_col_actions]
          # map (cred_row_view expiry s) its))"

definition page_item_view :: "bool \<Rightarrow> int \<Rightarrow> PageItem \<Rightarrow> cred_event node" where
  "page_item_view disabled page item = (case item of
     PageNumber n \<Rightarrow>
       El ''button'' [Disabled disabled, On (GotoPage n),
         Attr ''aria-current'' (if n = page then js ''page'' else [])] [Txt (int_str n)]
   | _ \<Rightarrow> El ''span'' [] [])"

definition cred_pager_view :: "cred_page \<Rightarrow> cred_event node" where
  "cred_pager_view s =
     (let off = (cr_items s = None); d = cr_paged s in
      El ''div'' []
        ([El ''span'' [] [Txt (msg_cr_showing @ int_str (rangeStart s) @ js ''-'' @ int_str (rangeEnd s)
              @ msg_cr_of @ int_str (pg_total d) @ msg_cr_entries)],
          El ''span'' [] [Txt msg_cr_per_page],
          El ''Select'' [Attr ''value'' (int_str (cr_pageSize s))]
            (if off then []
             else map (\<lambda>n. El ''SelectItem'' [On (SetPageSize n)] [Txt (int_str n @ msg_cr_entries)]) PAGE_SIZE_OPTIONS)]
         @ show_if (pg_total d > 0)
             (El ''nav'' []
                [button [Disabled (off \<or> pg_page d \<le> 1), On PrevPage] msg_cr_previous,
                 El ''div'' [] (map (page_item_view off (pg_page d)) (compactPageItems (pg_page d) (pg_pages d))),
                 button [Disabled (off \<or> pg_page d \<ge> pg_pages d), On NextPage] msg_cr_next])))"

definition upload_tabs_view :: "cred_page \<Rightarrow> cred_event node" where
  "upload_tabs_view s =
     El ''Tabs'' []
       [button [Disabled (length (cr_plans s) = 0), On (SetUploadMode True)] msg_cr_existing_plan,
        button [On (SetUploadMode False)] msg_cr_new_plan,
        (if cr_modeExisting s
         then El ''TabsContent'' []
           (El ''label'' [] [Txt msg_cr_pick_plan]
            # map (\<lambda>p. El ''SelectItem'' [On (SelectPlan (cp_plan_type p))]
                [Txt (cp_plan_type p @ msg_cr_available @ int_str (cp_available p) @ js ''/'' @ int_str (cp_total p))])
                (cr_plans s))
         else El ''TabsContent'' []
           [El ''label'' [] [Txt msg_cr_new_plan_name],
            El ''input'' [Attr ''value'' (cr_newPlan s), OnValue EditNewPlan] [],
            El ''p'' [] [Txt msg_cr_new_plan_hint]])]"

definition upload_dialog_view :: "cred_page \<Rightarrow> cred_event node" where
  "upload_dialog_view s =
     El ''Dialog'' [Open (cr_pendingUpload s \<noteq> None), OnFlag SetUploadOpen]
       ([El ''DialogTitle'' [] [Txt msg_cr_upload_title],
         El ''DialogDescription'' []
           [Txt ((case cr_pendingUpload s of None \<Rightarrow> [] | Some f \<Rightarrow> file_name f) @ msg_cr_upload_hint)],
         upload_tabs_view s]
        @ show_if (truthy (map_option JStr (cr_uploadError s)))
            (El ''Alert'' [] [Txt msg_cr_upload_failed, Txt (the (cr_uploadError s))])
        @ [button [Disabled (cr_uploading s), On (SetUploadOpen False)] msg_cr_cancel,
           button [Disabled (cr_uploading s), On ConfirmUpload]
             (if cr_uploading s then msg_cr_uploading else msg_cr_confirm_upload)])"

definition detail_dialog_view :: "(jstr option \<Rightarrow> jstr) \<Rightarrow> cred_page \<Rightarrow> cred_event node" where
  "detail_dialog_view expiry s =
     El ''Dialog'' [Open (cr_detail s \<noteq> None), OnFlag SetDetailOpen]
       (case cr_detail s of
          None \<Rightarrow> []
        | Some (d, raw) \<Rightarrow>
            [El ''DialogTitle'' [] [Txt (msg_cr_detail_title @ int_str (cr_id d))],
             El ''DialogDescription'' []
               [Txt (cr_email d @ msg_cr_dot @ cr_plan_type d @ msg_cr_dot @ (if cr_used d then msg_cr_used else msg_cr_unused))],
             El ''div'' []
               [Txt msg_cr_col_expires, Txt (expiry (cr_expired d)), Txt msg_cr_redemption,
                Txt (case cr_redemption_id d of None \<Rightarrow> msg_dash | Some i \<Rightarrow> int_str i)],
             button [On CopyDetail] msg_cr_copy,
             button [Disabled (cr_downloading s), On (DownloadDetail (cr_id d))] msg_cr_download,
             JsonViewer raw])"

definition cred_view :: "(jstr option \<Rightarrow> jstr) \<Rightarrow> cred_page \<Rightarrow> cred_event node" where
  "cred_view expiry s =
     El ''div'' []
       ([cred_header_view s, cred_stats_view s]
        @ plans_error_view s
        @ [drop_zone_view s,
           El ''Card'' []
             [El ''CardTitle'' [] [Txt msg_cr_list],
              El ''CardDescription'' [] [Txt (msg_cr_in_all @ int_str (pg_total (cr_paged s)) @ msg_cr_entries)],
              El ''Tabs'' [Attr ''value'' (js (state_name (cr_state s)))]
                (map (\<lambda>(st, label). button [On (SetTab st)] label) STATE_TABS),
              cred_table_view expiry s,
              cred_pager_view s],
           upload_dialog_view s,
           detail_dialog_view expiry s])"

section \<open>Steps\<close>

record cred_env =
  ce_text :: "js_error \<Rightarrow> jstr"
  ce_clip :: "bool \<times> bool"

fun cred_handle :: "cred_env \<Rightarrow> cred_event \<Rightarrow> cred_page \<Rightarrow> cred_page" where
  "cred_handle env (PickUpload f) s = pickUpload f s"
| "cred_handle env (DropUpload f) s = dropUpload f s"
| "cred_handle env (DragOver b) s = s\<lparr>cr_dragOver := b\<rparr>"
| "cred_handle env BatchDelete s = handleBatchDelete s"
| "cred_handle env ReloadPlans s = loadPlans s"
| "cred_handle env (SetTab st) s = changeState st s"
| "cred_handle env ToggleAll s = toggleSelectAll s"
| "cred_handle env (Toggle i) s = toggleSelect i s"
| "cred_handle env (ViewDetail i) s = handleViewDetail i s"
| "cred_handle env (DeleteOne i) s = handleDelete i s"
| "cred_handle env (SetPageSize n) s = changePageSize n s"
| "cred_handle env PrevPage s = setPage (cr_page s - 1) s"
| "cred_handle env NextPage s = setPage (cr_page s + 1) s"
| "cred_handle env (GotoPage p) s = setPage p s"
| "cred_handle env (SetUploadOpen b) s = (if \<not> b then closeUploadDialog s else s)"
| "cred_handle env (SetUploadMode m) s = s\<lparr>cr_modeExisting := m, cr_uploadError := None\<rparr>"
| "cred_handle env (SelectPlan p) s = s\<lparr>cr_selectedPlan := p\<rparr>"
| "cred_handle env (EditNewPlan v) s = s\<lparr>cr_newPlan := v\<rparr>"
| "cred_handle env ConfirmUpload s = handleUpload s"
| "cred_handle env (SetDetailOpen b) s = (if \<not> b then s\<lparr>cr_detail := None\<rparr> else s)"
| "cred_handle env CopyDetail s = (case cr_detail s of
     None \<Rightarrow> s
   | Some (d, raw) \<Rightarrow> emits (copyText (fst (ce_clip env)) (snd (ce_clip env)) (stringify2 raw) (Some msg_cr_copied)) s)"
| "cred_handle env (DownloadDetail i) s = handleDownloadCredential i s"

datatype cred_answer =
    AStats "(int \<times> int \<times> int) res"
  | APlans "CredentialPlan list option res"
  | AList "(Credential list \<times> Paged) res"
  | AMessage "jstr res"
  | ADetail "(Credential \<times> json) res"
  | ABlob "blob res"

fun cred_settle :: "cred_env \<Rightarrow> cred_call \<Rightarrow> cred_answer \<Rightarrow> cred_page \<Rightarrow> cred_page option" where
  "cred_settle env CStats (AStats r) s = Some (stats_done (ce_text env) r s)"
| "cred_settle env CPlans (APlans r) s = Some (plans_done (ce_text env) r s)"
| "cred_settle env (CList q) (AList r) s = Some (list_done (ce_text env) q r s)"
| "cred_settle env (CUpload f p q) (AMessage r) s = Some (upload_done (ce_text env) q r s)"
| "cred_settle env (CDelete i q) (AMessage r) s = Some (delete_done (ce_text env) msg_cr_delete_failed q r s)"
| "cred_settle env (CBatchDelete ids q) (AMessage r) s =
     Some (delete_done (ce_text env) msg_cr_batch_failed q r s)"
| "cred_settle env (CDetail i) (ADetail r) s = Some (detail_done (ce_text env) r s)"
| "cred_settle env (CDownload i) (ABlob r) s = Some (download_done (ce_text env) i r s)"
| "cred_settle env _ _ s = None"

text \<open>The ids of a listed page are those of different rows.\<close>

definition good_cred_answer :: "cred_answer \<Rightarrow> bool" where
  "good_cred_answer a = (case a of AList (Inr (its, d)) \<Rightarrow> distinct (map cr_id its) | _ \<Rightarrow> True)"

inductive kstep :: "cred_page \<Rightarrow> cred_page \<Rightarrow> bool" where
  user: "offers (cred_view expiry s) e \<Longrightarrow> kstep s (cred_handle env e s)"
| answer: "c \<in> set (pend s) \<Longrightarrow> good_cred_answer a \<Longrightarrow> cred_settle env c a (settled c s) = Some t \<Longrightarrow> kstep s t"

inductive_cases kstepE: "kstep s t"

end
