(* ===== verification/CredentialsProofs.thy ===== *)
theory CredentialsProofs
  imports CredentialsView
begin

text \<open>
  The credentials page: its invariant over all interleavings, the page numbers
  of its pager, and the two situations in which an answer that arrives late
  leaves the page showing the wrong list or none.
\<close>

lemma cred_page_frame [simp]:
  "cr_state (emit e s) = cr_state s"
  "cr_page (emit e s) = cr_page s"
  "cr_pageSize (emit e s) = cr_pageSize s"
  "cr_items (emit e s) = cr_items s"
  "cr_paged (emit e s) = cr_paged s"
  "cr_stats (emit e s) = cr_stats s"
  "cr_selected (emit e s) = cr_selected s"
  "cr_uploading (emit e s) = cr_uploading s"
  "cr_plans (emit e s) = cr_plans s"
  "cr_plansLoading (emit e s) = cr_plansLoading s"
  "cr_plansError (emit e s) = cr_plansError s"
  "cr_pendingUpload (emit e s) = cr_pendingUpload s"
  "cr_modeExisting (emit e s) = cr_modeExisting s"
  "cr_selectedPlan (emit e s) = cr_selectedPlan s"
  "cr_newPlan (emit e s) = cr_newPlan s"
  "cr_uploadError (emit e s) = cr_uploadError s"
  "cr_detail (emit e s) = cr_detail s"
  "cr_loadingDetailId (emit e s) = cr_loadingDetailId s"
  "cr_downloading (emit e s) = cr_downloading s"
  "cr_dragOver (emit e s) = cr_dragOver s"
  "cr_state (call c s) = cr_state s"
  "cr_page (call c s) = cr_page s"
  "cr_pageSize (call c s) = cr_pageSize s"
  "cr_items (call c s) = cr_items s"
  "cr_paged (call c s) = cr_paged s"
  "cr_stats (call c s) = cr_stats s"
  "cr_selected (call c s) = cr_selected s"
  "cr_uploading (call c s) = cr_uploading s"
  "cr_plans (call c s) = cr_plans s"
  "cr_plansLoading (call c s) = cr_plansLoading s"
  "cr_plansError (call c s) = cr_plansError s"
  "cr_pendingUpload (call c s) = cr_pendingUpload s"
  "cr_modeExisting (call c s) = cr_modeExisting s"
  "cr_selectedPlan (call c s) = cr_selectedPlan s"
  "cr_newPlan (call c s) = cr_newPlan s"
  "cr_uploadError (call c s) = cr_uploadError s"
  "cr_detail (call c s) = cr_detail s"
  "cr_loadingDetailId (call c s) = cr_loadingDetailId s"
  "cr_downloading (call c s) = cr_downloading s"
  "cr_dragOver (call c s) = cr_dragOver s"
  "cr_state (settled c s) = cr_state s"
  "cr_page (settled c s) = cr_page s"
  "cr_pageSize (settled c s) = cr_pageSize s"
  "cr_items (settled c s) = cr_items s"
  "cr_paged (settled c s) = cr_paged s"
  "cr_stats (settled c s) = cr_stats s"
  "cr_selected (settled c s) = cr_selected s"
  "cr_uploading (settled c s) = cr_uploading s"
  "cr_plans (settled c s) = cr_plans s"
  "cr_plansLoading (settled c s) = cr_plansLoading s"
  "cr_plansError (settled c s) = cr_plansError s"
  "cr_pendingUpload (settled c s) = cr_pendingUpload s"
  "cr_modeExisting (settled c s) = cr_modeExisting s"
  "cr_selectedPlan (settled c s) = cr_selectedPlan s"
  "cr_newPlan (settled c s) = cr_newPlan s"
  "cr_uploadError (settled c s) = cr_uploadError s"
  "cr_detail (settled c s) = cr_detail s"
  "cr_loadingDetailId (settled c s) = cr_loadingDetailId s"
  "cr_downloading (settled c s) = cr_downloading s"
  "cr_dragOver (settled c s) = cr_dragOver s"
  "cr_state (emits es s) = cr_state s"
  "cr_page (emits es s) = cr_page s"
  "cr_pageSize (emits es s) = cr_pageSize s"
  "cr_items (emits es s) = cr_items s"
  "cr_paged (emits es s) = cr_paged s"
  "cr_stats (emits es s) = cr_stats s"
  "cr_selected (emits es s) = cr_selected s"
  "cr_uploading (emits es s) = cr_uploading s"
  "cr_plans (emits es s) = cr_plans s"
  "cr_plansLoading (emits es s) = cr_plansLoading s"
  "cr_plansError (emits es s) = cr_plansError s"
  "cr_pendingUpload (emits es s) = cr_pendingUpload s"
  "cr_modeExisting (emits es s) = cr_modeExisting s"
  "cr_selectedPlan (emits es s) = cr_selectedPlan s"
  "cr_newPlan (emits es s) = cr_newPlan s"
  "cr_uploadError (emits es s) = cr_uploadError s"
  "cr_detail (emits es s) = cr_detail s"
  "cr_loadingDetailId (emits es s) = cr_loadingDetailId s"
  "cr_downloading (emits es s) = cr_downloading s"
  "cr_dragOver (emits es s) = cr_dragOver s"
  by (simp_all add: base_ops emits_frame)

section \<open>What the view offers\<close>

lemma offers_cred_row:
  "offers (cred_row_view expiry s c) e \<longleftrightarrow>
     e = Toggle (cr_id c) \<or> cr_loadingDetailId s \<noteq> Some (cr_id c) \<and> e = ViewDetail (cr_id c) \<or> e = DeleteOne (cr_id c)"
  by (auto simp: cred_row_view_def)

lemma offers_cred_table:
  "offers (cred_table_view expiry s) e \<longleftrightarrow>
     (\<exists>its. cr_items s = Some its \<and> its \<noteq> [] \<and>
        (e = ToggleAll \<or> (\<exists>c \<in> set its. offers (cred_row_view expiry s c) e)))"
  by (auto simp: cred_table_view_def list_ex_map_iff split: option.split)

lemma offers_page_item:
  "offers (page_item_view off page item) e \<longleftrightarrow> \<not> off \<and> (\<exists>n. item = PageNumber n \<and> e = GotoPage n)"
  by (auto simp: page_item_view_def split: PageItem.split)

lemma offers_cred_pager:
  "offers (cred_pager_view s) e \<longleftrightarrow> cr_items s \<noteq> None \<and>
     ((\<exists>n \<in> set PAGE_SIZE_OPTIONS. e = SetPageSize n)
      \<or> pg_total (cr_paged s) > 0 \<and>
        (1 < pg_page (cr_paged s) \<and> e = PrevPage
         \<or> (\<exists>n. PageNumber n \<in> set (compactPageItems (pg_page (cr_paged s)) (pg_pages (cr_paged s))) \<and> e = GotoPage n)
         \<or> pg_page (cr_paged s) < pg_pages (cr_paged s) \<and> e = NextPage))"
  by (auto simp: cred_pager_view_def Let_def list_ex_map_iff offers_page_item)

lemma offers_upload_dialog:
  "offers (upload_dialog_view s) e \<Longrightarrow>
     (\<exists>b. e = SetUploadOpen b) \<or> (\<exists>b. e = SetUploadMode b) \<or> (\<exists>p. e = SelectPlan p) \<or> (\<exists>v. e = EditNewPlan v)
     \<or> e = ConfirmUpload \<and> \<not> cr_uploading s"
  by (auto simp: upload_dialog_view_def upload_tabs_view_def list_ex_map_iff split: if_splits)

lemma offers_detail_dialog:
  "offers (detail_dialog_view expiry s) e \<Longrightarrow> (\<exists>b. e = SetDetailOpen b) \<or> e = CopyDetail \<or> (\<exists>i. e = DownloadDetail i)"
  by (auto simp: detail_dialog_view_def split: option.splits)

lemma offers_cred_header:
  "offers (cred_header_view s) e \<longleftrightarrow> (\<exists>f. e = PickUpload f) \<or> cr_selected s \<noteq> [] \<and> e = BatchDelete"
  by (auto simp: cred_header_view_def)

lemma offers_cred_rest:
  "\<not> offers (cred_stats_view s) e"
  "list_ex (\<lambda>c. offers c e) (plans_error_view s) \<longleftrightarrow> plans_error_set s \<and> e = ReloadPlans"
  "offers (drop_zone_view s) e \<longleftrightarrow> (\<exists>b. e = DragOver b) \<or> (\<exists>f. e = DropUpload f)"
  by (auto simp: cred_stats_view_def plans_error_view_def drop_zone_view_def split: prod.split)

lemma offers_cred_view:
  "offers (cred_view expiry s) e \<longleftrightarrow>
     offers (cred_header_view s) e \<or> plans_error_set s \<and> e = ReloadPlans \<or> offers (drop_zone_view s) e
     \<or> (\<exists>st. st \<in> fst ` set STATE_TABS \<and> e = SetTab st) \<or> offers (cred_table_view expiry s) e
     \<or> offers (cred_pager_view s) e \<or> offers (upload_dialog_view s) e \<or> offers (detail_dialog_view expiry s) e"
  by (auto simp: cred_view_def offers_cred_rest list_ex_map_iff image_iff split: prod.splits)

lemma offers_confirm_upload: "offers (cred_view expiry s) ConfirmUpload \<Longrightarrow> \<not> cr_uploading s"
  using offers_upload_dialog [of s ConfirmUpload] offers_detail_dialog [of expiry s ConfirmUpload]
  by (auto simp: offers_cred_view offers_cred_header offers_cred_rest offers_cred_table offers_cred_row offers_cred_pager)

lemma offers_toggle:
  "offers (cred_view expiry s) (Toggle i) \<Longrightarrow> \<exists>its. cr_items s = Some its \<and> i \<in> cr_id ` set its"
  using offers_upload_dialog [of s "Toggle i"] offers_detail_dialog [of expiry s "Toggle i"]
  by (auto simp: offers_cred_view offers_cred_header offers_cred_rest offers_cred_table offers_cred_row offers_cred_pager)

section \<open>Invariant\<close>

definition valid_plan :: "jstr \<Rightarrow> bool" where
  "valid_plan p \<longleftrightarrow> p \<noteq> [] \<and> js_trim p = p \<and> length (code_points p) \<le> 100 \<and> \<not> containsControlCharacter p"

definition json_named :: "js_file \<Rightarrow> bool" where
  "json_named f \<longleftrightarrow> js_endsWith (js_toLowerCase (file_name f)) (js ''.json'')"

definition upload_call :: "cred_call \<Rightarrow> bool" where
  "upload_call c = (case c of CUpload _ _ _ \<Rightarrow> True | _ \<Rightarrow> False)"

definition proper_cred_call :: "cred_call \<Rightarrow> bool" where
  "proper_cred_call c = (case c of
     CUpload f p q \<Rightarrow> json_named f \<and> valid_plan p
   | CBatchDelete ids q \<Rightarrow> ids \<noteq> [] \<and> distinct ids
   | _ \<Rightarrow> True)"

fun sel_ok :: "Credential list option \<Rightarrow> int list \<Rightarrow> bool" where
  "sel_ok None sel \<longleftrightarrow> distinct sel"
| "sel_ok (Some its) sel \<longleftrightarrow> distinct sel \<and> distinct (map cr_id its) \<and> set sel \<subseteq> cr_id ` set its"

definition selection_ok :: "cred_page \<Rightarrow> bool" where
  "selection_ok s \<longleftrightarrow> sel_ok (cr_items s) (cr_selected s)"

lemma sel_ok_distinct: "sel_ok its sel \<Longrightarrow> distinct sel"
  by (cases its) auto

fun staged_ok :: "js_file option \<Rightarrow> bool" where
  "staged_ok None \<longleftrightarrow> True"
| "staged_ok (Some f) \<longleftrightarrow> json_named f"

definition uploads_ok :: "cred_page \<Rightarrow> bool" where
  "uploads_ok s \<longleftrightarrow>
     length (filter upload_call (pend s)) = (if cr_uploading s then 1 else 0)
     \<and> list_all proper_cred_call (pend s)
     \<and> staged_ok (cr_pendingUpload s)"

definition cred_inv :: "cred_page \<Rightarrow> bool" where
  "cred_inv s \<longleftrightarrow> uploads_ok s \<and> selection_ok s \<and> cr_pageSize s \<in> set PAGE_SIZE_OPTIONS"

lemmas cred_ops = pickUpload_def dropUpload_def stageUpload_def loadPlans_def loadStats_def load_with_def
  after_render_def setPage_def changeState_def changePageSize_def closeUploadDialog_def handleDelete_def
  handleBatchDelete_def handleViewDetail_def handleDownloadCredential_def toggleSelect_def toggleSelectAll_def
  reload_all_def

lemmas cred_conts = stats_done_def plans_done_def list_done_def upload_done_def delete_done_def detail_done_def
  download_done_def

lemma handleUpload_cases:
  assumes "uploads_ok s" "\<not> cr_uploading s"
  shows "uploads_ok (handleUpload s)"
proof (cases "cr_pendingUpload s")
  case None
  then show ?thesis using assms by (simp add: handleUpload_def)
next
  case (Some f)
  let ?p = "js_trim (if cr_modeExisting s then cr_selectedPlan s else cr_newPlan s)"
  show ?thesis
  proof (cases "valid_plan ?p")
    case True
    then show ?thesis using assms Some
      by (auto simp: handleUpload_def Let_def uploads_ok_def valid_plan_def upload_call_def proper_cred_call_def)
  next
    case False
    then have "?p = [] \<or> length (code_points ?p) > 100 \<or> containsControlCharacter ?p"
      by (auto simp: valid_plan_def)
    then show ?thesis using assms Some
      by (auto simp: handleUpload_def Let_def uploads_ok_def)
  qed
qed

lemma uploads_ok_handle:
  assumes "uploads_ok s" "selection_ok s" "e = ConfirmUpload \<Longrightarrow> \<not> cr_uploading s"
  shows "uploads_ok (cred_handle env e s)"
proof (cases e)
  case ConfirmUpload
  then show ?thesis using assms handleUpload_cases by simp
next
  case (PickUpload f)
  then show ?thesis using assms(1)
    by (cases f) (auto simp: uploads_ok_def cred_ops json_named_def simp del: js_Cons)
next
  case (DropUpload f)
  then show ?thesis using assms(1)
    by (cases f) (auto simp: uploads_ok_def cred_ops json_named_def plans_error_set_def simp del: js_Cons)
next
  case ToggleAll
  then show ?thesis using assms(1)
    by (auto simp: uploads_ok_def cred_ops split: option.splits)
next
  case CopyDetail
  then show ?thesis using assms(1) by (auto simp: uploads_ok_def split: option.splits)
qed (use assms(1) sel_ok_distinct [OF assms(2) [unfolded selection_ok_def]] in
      \<open>auto simp: uploads_ok_def cred_ops upload_call_def proper_cred_call_def\<close>)

fun_cases cred_settleE: "cred_settle env c a s = Some t"

lemma uploads_ok_settle:
  assumes "uploads_ok s" "c \<in> set (pend s)" "cred_settle env c a (settled c s) = Some t"
  shows "uploads_ok t"
proof -
  have n: "length (filter upload_call (remove1 c (pend s)))
      = (if cr_uploading s then 1 else 0) - (if upload_call c then 1 else 0)"
    using length_filter_remove1 [OF assms(2), of upload_call] assms(1) by (simp add: uploads_ok_def)
  have all: "list_all proper_cred_call (remove1 c (pend s))"
    using assms(1) by (simp add: uploads_ok_def list_all_remove1)
  have pe: "staged_ok (cr_pendingUpload s)"
    using assms(1) by (simp add: uploads_ok_def)
  show ?thesis
    using assms(3) n all pe
    by (elim cred_settleE)
       (auto simp: uploads_ok_def cred_conts cred_ops upload_call_def proper_cred_call_def
         split: sum.splits prod.splits if_splits)
qed

lemma selection_ok_handle:
  assumes "selection_ok s" "\<And>i. e = Toggle i \<Longrightarrow> \<exists>its. cr_items s = Some its \<and> i \<in> cr_id ` set its"
  shows "selection_ok (cred_handle env e s)"
proof (cases e)
  case (Toggle i)
  then obtain its where "cr_items s = Some its" "i \<in> cr_id ` set its"
    using assms(2) by blast
  with Toggle assms(1) show ?thesis by (auto simp: selection_ok_def cred_ops distinct_removeAll)
next
  case ToggleAll
  then show ?thesis using assms(1) by (auto simp: selection_ok_def cred_ops split: option.splits)
next
  case CopyDetail
  then show ?thesis using assms(1) by (auto simp: selection_ok_def split: option.splits)
next
  case (PickUpload f)
  then show ?thesis using assms(1) by (cases f) (auto simp: selection_ok_def cred_ops)
next
  case (DropUpload f)
  then show ?thesis using assms(1) by (cases f) (auto simp: selection_ok_def cred_ops)
next
  case ConfirmUpload
  then show ?thesis using assms(1)
    by (auto simp: selection_ok_def handleUpload_def Let_def split: option.splits)
qed (use assms(1) sel_ok_distinct [OF assms(1) [unfolded selection_ok_def]] in
      \<open>auto simp: selection_ok_def cred_ops\<close>)

lemma selection_ok_settle:
  assumes "selection_ok s" "good_cred_answer a" "cred_settle env c a (settled c s) = Some t"
  shows "selection_ok t"
  using assms(3,1,2) sel_ok_distinct [OF assms(1) [unfolded selection_ok_def]]
  by (elim cred_settleE)
     (auto simp: selection_ok_def good_cred_answer_def cred_conts cred_ops split: sum.splits prod.splits if_splits)

lemma pageSize_handle:
  "cr_pageSize s \<in> set PAGE_SIZE_OPTIONS \<Longrightarrow> cr_pageSize (cred_handle env e s) \<in> set PAGE_SIZE_OPTIONS"
  by (cases e) (auto simp: cred_ops handleUpload_def Let_def split: option.split)

lemma pageSize_settle: "cred_settle env c a s = Some t \<Longrightarrow> cr_pageSize t = cr_pageSize s"
  by (elim cred_settleE)
     (auto simp: cred_conts cred_ops split: sum.splits prod.splits)

lemma cred_inv_step: "cred_inv s \<Longrightarrow> kstep s t \<Longrightarrow> cred_inv t"
  unfolding cred_inv_def
proof (erule kstepE, goal_cases)
  case (1 expiry e env)
  then show ?case
    using uploads_ok_handle selection_ok_handle pageSize_handle offers_confirm_upload offers_toggle by metis
next
  case (2 c a env)
  then show ?case
    using uploads_ok_settle selection_ok_settle pageSize_settle [of env c a "settled c s" t] by auto
qed

interpretation cred: invariant_system "\<lambda>s. s = cred_init" kstep cred_inv
proof unfold_locales
  show "s = cred_init \<Longrightarrow> cred_inv s" for s
    by (auto simp: cred_init_def cred_inv_def uploads_ok_def selection_ok_def cred_ops upload_call_def
        proper_cred_call_def PAGE_SIZE_OPTIONS_def)
qed (rule cred_inv_step)

section \<open>The selection as a set\<close>

text \<open>
  A selection is a list without repetitions that stands for a set; the interface
  says what toggling one element does to the set.
\<close>

locale selection =
  fixes toggle :: "'a \<Rightarrow> 's \<Rightarrow> 's" and elems :: "'s \<Rightarrow> 'a set" and ok :: "'s \<Rightarrow> bool"
  assumes elems_toggle: "ok s \<Longrightarrow> elems (toggle x s) = (if x \<in> elems s then elems s - {x} else insert x (elems s))"
    and ok_toggle: "ok s \<Longrightarrow> ok (toggle x s)"
begin

lemma toggle_twice: "ok s \<Longrightarrow> elems (toggle x (toggle x s)) = elems s"
  by (auto simp: elems_toggle ok_toggle)

lemma toggle_commute: "ok s \<Longrightarrow> elems (toggle x (toggle y s)) = elems (toggle y (toggle x s))"
  by (auto simp: elems_toggle ok_toggle)

lemma toggle_other: "ok s \<Longrightarrow> y \<noteq> x \<Longrightarrow> y \<in> elems (toggle x s) \<longleftrightarrow> y \<in> elems s"
  by (auto simp: elems_toggle)

end

interpretation picked: selection toggleSelect "\<lambda>s. set (cr_selected s)" "\<lambda>s. distinct (cr_selected s)"
  by unfold_locales (auto simp: toggleSelect_def distinct_removeAll)

lemma select_all_set:
  assumes "selection_ok s" "cr_items s = Some its"
  shows "allSelected s \<longleftrightarrow> its \<noteq> [] \<and> set (cr_selected s) = cr_id ` set its"
proof -
  have d: "distinct (cr_selected s)" "distinct (map cr_id its)" "set (cr_selected s) \<subseteq> cr_id ` set its"
    using assms by (auto simp: selection_ok_def)
  have "length (cr_selected s) = length its \<longleftrightarrow> set (cr_selected s) = cr_id ` set its"
  proof -
    have "card (set (cr_selected s)) = length (cr_selected s)" "card (cr_id ` set its) = length its"
      using d(1,2) distinct_card [of "map cr_id its"] by (simp_all add: distinct_card)
    then show ?thesis
      using d(3) card_subset_eq [of "cr_id ` set its" "set (cr_selected s)"] by auto
  qed
  then show ?thesis using assms(2) by (auto simp: allSelected_def)
qed

lemma toggleSelectAll_set:
  assumes "selection_ok s" "cr_items s = Some its" "its \<noteq> []"
  shows "set (cr_selected (toggleSelectAll s))
    = (if set (cr_selected s) = cr_id ` set its then {} else cr_id ` set its)"
  using select_all_set [OF assms(1,2)] assms(2,3) by (auto simp: toggleSelectAll_def allSelected_def)

section \<open>The pager\<close>

fun page_numbers :: "PageItem list \<Rightarrow> int list" where
  "page_numbers [] = []"
| "page_numbers (PageNumber n # r) = n # page_numbers r"
| "page_numbers (_ # r) = page_numbers r"

lemma page_numbers_map: "page_numbers (map (\<lambda>i. PageNumber (f i)) xs) = map f xs"
  by (induction xs) auto

lemma page_numbers_few:
  "0 < pages \<Longrightarrow> pages \<le> 5 \<Longrightarrow> page_numbers (compactPageItems page pages) = map (\<lambda>i. int i + 1) [0..<nat pages]"
  by (simp add: compactPageItems_def page_numbers_map)

lemma upto_map_facts:
  assumes "0 < pages"
  shows "set (map (\<lambda>i. int i + 1) [0..<nat pages]) = {1..pages}"
    and "sorted_wrt (<) (map (\<lambda>i. int i + 1) [0..<nat pages])"
    and "hd (map (\<lambda>i. int i + 1) [0..<nat pages]) = 1"
    and "last (map (\<lambda>i. int i + 1) [0..<nat pages]) = pages"
proof -
  show "set (map (\<lambda>i. int i + 1) [0..<nat pages]) = {1..pages}"
  proof
    show "{1..pages} \<subseteq> set (map (\<lambda>i. int i + 1) [0..<nat pages])"
    proof
      fix x assume "x \<in> {1..pages}"
      then have "x = int (nat (x - 1)) + 1" "nat (x - 1) < nat pages" by auto
      then show "x \<in> set (map (\<lambda>i. int i + 1) [0..<nat pages])"
        by (metis (no_types, lifting) atLeastLessThan_iff image_eqI list.set_map set_upt zero_le)
    qed
  qed auto
  show "sorted_wrt (<) (map (\<lambda>i. int i + 1) [0..<nat pages])"
    unfolding sorted_wrt_map by (rule sorted_wrt_mono_rel [OF _ sorted_wrt_upt]) simp
  show "hd (map (\<lambda>i. int i + 1) [0..<nat pages]) = 1"
    using assms by (simp add: hd_map)
  show "last (map (\<lambda>i. int i + 1) [0..<nat pages]) = pages"
    using assms by (simp add: last_map)
qed

section \<open>Properties\<close>

text \<open>C24: In every reachable state of the credentials page at most one upload is under
  way, exactly while the page says so; every upload sent is of a file whose name
  ends in .json and for a plan name that is trimmed, of 1 to 100 characters and
  without control characters; and a batch deletion is never empty.\<close>

theorem cred_uploads_valid:
  assumes "kstep\<^sup>*\<^sup>* cred_init t"
  shows "length (filter upload_call (pend t)) = (if cr_uploading t then 1 else 0)
    \<and> (\<forall>f p q. CUpload f p q \<in> set (pend t) \<longrightarrow> json_named f \<and> p \<noteq> [] \<and> js_trim p = p
         \<and> length (code_points p) \<le> 100 \<and> \<not> containsControlCharacter p)
    \<and> (\<forall>ids q. CBatchDelete ids q \<in> set (pend t) \<longrightarrow> ids \<noteq> [] \<and> distinct ids)
    \<and> cr_pageSize t \<in> set PAGE_SIZE_OPTIONS"
proof -
  have inv: "cred_inv t" using cred.reachable_inv [OF refl assms] .
  then have "proper_cred_call c" if "c \<in> set (pend t)" for c
    using that by (auto simp: cred_inv_def uploads_ok_def list_all_iff)
  then show ?thesis
    using inv by (force simp: cred_inv_def uploads_ok_def proper_cred_call_def valid_plan_def)
qed

text \<open>C24 after switching to the tab of unused credentials.\<close>

theorem cred_uploads_valid_witness:
  "\<exists>t. kstep\<^sup>*\<^sup>* cred_init t \<and> cr_state t = StateUnused
     \<and> length (filter upload_call (pend t)) = (if cr_uploading t then 1 else 0)"
proof -
  let ?env = "\<lparr>ce_text = (\<lambda>_. []), ce_clip = (True, True)\<rparr>"
  let ?t = "cred_handle ?env (SetTab StateUnused) cred_init"
  have "offers (cred_view (\<lambda>_. []) cred_init) (SetTab StateUnused)"
    by (simp add: offers_cred_view STATE_TABS_def)
  then have r: "kstep\<^sup>*\<^sup>* cred_init ?t" by (blast intro: kstep.user)
  from cred_uploads_valid [OF r] r show ?thesis
    by (intro exI [of _ ?t]) (simp add: cred_init_def cred_ops cred_query_of_def)
qed

text \<open>C25: While a list is shown, only rows of that list are selected, the box in the
  header is ticked exactly when all of them are, the box of a row changes that
  row and no other, and the box in the header selects all or, when all are
  selected, none.\<close>

theorem cred_selection_refines_set:
  assumes "kstep\<^sup>*\<^sup>* cred_init t" "cr_items t = Some its" "its \<noteq> []"
  shows "set (cr_selected t) \<subseteq> cr_id ` set its
    \<and> (allSelected t \<longleftrightarrow> set (cr_selected t) = cr_id ` set its)
    \<and> set (cr_selected (toggleSelect i t))
        = (if i \<in> set (cr_selected t) then set (cr_selected t) - {i} else insert i (set (cr_selected t)))
    \<and> set (cr_selected (toggleSelect i (toggleSelect i t))) = set (cr_selected t)
    \<and> set (cr_selected (toggleSelectAll t))
        = (if set (cr_selected t) = cr_id ` set its then {} else cr_id ` set its)"
proof -
  have ok: "selection_ok t"
    using cred.reachable_inv [OF refl assms(1)] by (simp add: cred_inv_def)
  then have d: "distinct (cr_selected t)" "set (cr_selected t) \<subseteq> cr_id ` set its"
    using assms(2) by (auto simp: selection_ok_def)
  show ?thesis
    using d(2) picked.elems_toggle [OF d(1)] picked.toggle_twice [OF d(1)] select_all_set [OF ok assms(2)]
      toggleSelectAll_set [OF ok assms(2,3)] assms(3) by simp
qed

definition sample_credential :: Credential where
  "sample_credential = \<lparr>cr_id = 7, cr_email = js ''a@b.c'', cr_plan_type = js ''p'', cr_expired = None,
     cr_used = False, cr_redemption_id = None, cr_created_at = [], cr_updated_at = []\<rparr>"

definition cred_loaded :: cred_page where
  "cred_loaded = list_done (\<lambda>_. []) (StateAll, 1, 50)
     (Inr ([sample_credential], \<lparr>pg_total = 1, pg_page = 1, pg_pages = 1\<rparr>)) (settled (CList (StateAll, 1, 50)) cred_init)"

lemma cred_loaded_reachable: "kstep\<^sup>*\<^sup>* cred_init cred_loaded"
proof -
  let ?env = "\<lparr>ce_text = (\<lambda>_. []), ce_clip = (True, True)\<rparr>"
  have "kstep cred_init cred_loaded"
    unfolding cred_loaded_def
    by (rule kstep.answer [of "CList (StateAll, 1, 50)" _
          "AList (Inr ([sample_credential], \<lparr>pg_total = 1, pg_page = 1, pg_pages = 1\<rparr>))" ?env])
       (simp_all add: cred_init_def cred_ops good_cred_answer_def)
  then show ?thesis by blast
qed

text \<open>C25 with one row loaded and its box clicked.\<close>

theorem cred_selection_refines_set_witness:
  "set (cr_selected (toggleSelect 7 cred_loaded)) = {7} \<and> set (cr_selected (toggleSelectAll cred_loaded)) = {7}"
proof -
  have i: "cr_items cred_loaded = Some [sample_credential]" and e: "cr_selected cred_loaded = []"
    by (simp_all add: cred_loaded_def list_done_def)
  have "[sample_credential] \<noteq> []" by simp
  from cred_selection_refines_set [OF cred_loaded_reachable i this, of 7] e show ?thesis
    by (simp add: sample_credential_def)
qed

text \<open>C26: The pager shows at most five items, no page twice and in ascending order;
  every page it shows exists; the first, the last and the current page are
  always among them; with no pages it shows nothing.\<close>

theorem compactPageItems_pages:
  assumes "1 \<le> page" "page \<le> pages"
  shows "length (compactPageItems page pages) \<le> 5
    \<and> sorted_wrt (<) (page_numbers (compactPageItems page pages))
    \<and> set (page_numbers (compactPageItems page pages)) \<subseteq> {1..pages}
    \<and> hd (page_numbers (compactPageItems page pages)) = 1
    \<and> last (page_numbers (compactPageItems page pages)) = pages
    \<and> page \<in> set (page_numbers (compactPageItems page pages))
    \<and> compactPageItems page 0 = []"
proof (cases "pages \<le> 5")
  case True
  have p: "0 < pages" using assms by simp
  show ?thesis
    unfolding page_numbers_few [OF p True] upto_map_facts(1,3,4) [OF p]
    using assms True upto_map_facts(2) [OF p] by (simp add: compactPageItems_def)
next
  case False
  then show ?thesis using assms by (auto simp: compactPageItems_def)
qed

text \<open>C26 on page 6 of 12.\<close>

theorem compactPageItems_pages_witness:
  "compactPageItems 6 12 = [PageNumber 1, StartEllipsis, PageNumber 6, EndEllipsis, PageNumber 12]
   \<and> 6 \<in> set (page_numbers (compactPageItems 6 12))"
  using compactPageItems_pages [of 6 12] by (simp add: compactPageItems_def)

lemma range_arith:
  fixes n t a b c d :: int
  assumes "0 < n" "0 < t" "d \<le> t + n - 1" "a \<le> b" "0 \<le> a" "c = a + n" "d = b + n"
  shows "1 \<le> a + 1 \<and> a + 1 \<le> min c t \<and> min c t \<le> t \<and> min c t - (a + 1) < n"
  using assms by (auto simp: min_def)

text \<open>The range shown under the list is right: on a page that exists it starts
  after the earlier pages, is not empty, never passes the total, holds at most
  one page size, and the last page ends at the total.\<close>

lemma cred_range_bounds:
  assumes "0 < cr_pageSize s" "0 < pg_total (cr_paged s)"
    "pg_pages (cr_paged s) = (pg_total (cr_paged s) + cr_pageSize s - 1) div cr_pageSize s"
    "1 \<le> pg_page (cr_paged s)" "pg_page (cr_paged s) \<le> pg_pages (cr_paged s)"
  shows "1 \<le> rangeStart s \<and> rangeStart s \<le> rangeEnd s \<and> rangeEnd s \<le> pg_total (cr_paged s)
    \<and> rangeEnd s - rangeStart s < cr_pageSize s
    \<and> (pg_page (cr_paged s) = pg_pages (cr_paged s) \<longrightarrow> rangeEnd s = pg_total (cr_paged s))"
proof -
  define n where "n = cr_pageSize s"
  define total_n where "total_n = pg_total (cr_paged s)"
  define page where "page = pg_page (cr_paged s)"
  define pages where "pages = pg_pages (cr_paged s)"
  have h: "0 < n" "0 < total_n" "1 \<le> page" "page \<le> pages" "pages = (total_n + n - 1) div n"
    using assms by (simp_all add: n_def total_n_def page_def pages_def)
  define r where "r = (total_n + n - 1) mod n"
  have "pages * n = total_n + n - 1 - r"
    unfolding h(5) r_def by (rule minus_mod_eq_div_mult [symmetric])
  moreover have "0 \<le> r" "r < n"
    unfolding r_def using h(1) by simp_all
  ultimately have up: "pages * n \<le> total_n + n - 1" and low: "total_n \<le> pages * n"
    by linarith+
  have prev: "(page - 1) * n \<le> (pages - 1) * n" and ge0: "0 \<le> (page - 1) * n"
    using h(1-4) by (simp_all add: mult_right_mono)
  have step: "page * n = (page - 1) * n + n" "pages * n = (pages - 1) * n + n"
    by (simp_all add: left_diff_distrib)
  have rng: "rangeStart s = (page - 1) * n + 1" "rangeEnd s = min (page * n) total_n"
    using h(2) by (simp_all add: rangeStart_def rangeEnd_def n_def total_n_def page_def)
  have "1 \<le> rangeStart s \<and> rangeStart s \<le> rangeEnd s \<and> rangeEnd s \<le> total_n \<and> rangeEnd s - rangeStart s < n"
    unfolding rng by (rule range_arith [OF h(1,2) up prev ge0 step])
  moreover have "page = pages \<longrightarrow> rangeEnd s = total_n"
    unfolding rng using low by auto
  ultimately show ?thesis
    unfolding n_def total_n_def page_def pages_def by blast
qed

text \<open>Answers are not matched with the list they were asked for: when the tab is
  changed while the first list is still loading and its answer comes last, the
  page ends up showing the rows of the old tab under the new one, with nothing
  left to correct it.\<close>

lemma cred_late_answer_wins:
  assumes "pg_total d1 = 0 \<or> 1 \<le> pg_pages d1" "pg_total d2 = 0 \<or> 1 \<le> pg_pages d2"
  shows "let s1 = changeState StateUnused cred_init;
             q1 = (StateAll, 1, 50); q2 = (StateUnused, 1, 50);
             s2 = list_done em q2 (Inr (unused_rows, d2)) (settled (CList q2) s1);
             s3 = list_done em q1 (Inr (all_rows, d1)) (settled (CList q1) s2)
         in {CList q1, CList q2} \<subseteq> set (pend s1)
            \<and> cr_state s3 = StateUnused \<and> cr_items s3 = Some all_rows
            \<and> (\<forall>q. CList q \<notin> set (pend s3))"
proof -
  have g: "\<not> (0 < pg_total d1 \<and> pg_pages d1 < 1)" "\<not> (0 < pg_total d2 \<and> pg_pages d2 < 1)"
    using assms by auto
  show ?thesis
    using g by (simp add: list_done_def cred_init_def cred_ops cred_query_of_def Let_def)
qed



end
