(* ===== verification/AdminMessages.thy ===== *)
theory AdminMessages
  imports JsPrelude
begin

text \<open>
  The texts of the admin pages, the layouts and the server that are not ASCII, as UTF-16
  code units. Each constant names the source file of its literal and glosses it.
\<close>

text \<open>web/src/pages/admin: for ever\<close>

definition msg_ad_for_ever :: jstr where
  "msg_ad_for_ever = [27704, 20037]"

text \<open>web/src/pages/admin/batch-new.tsx: plans failed\<close>

definition msg_bn_plans_failed :: jstr where
  "msg_bn_plans_failed = [22871, 39184, 21015, 34920, 21152, 36733, 22833, 36133]"

text \<open>web/src/pages/admin/batch-new.tsx: plans pending\<close>

definition msg_bn_plans_pending :: jstr where
  "msg_bn_plans_pending = [22871, 39184, 21015, 34920, 20173, 22312, 21152, 36733, 65292, 35831,
     31245, 21518, 20877, 35797]"

text \<open>web/src/pages/admin/batch-new.tsx: plans reload\<close>

definition msg_bn_plans_reload :: jstr where
  "msg_bn_plans_reload = [22871, 39184, 21015, 34920, 21152, 36733, 22833, 36133, 65292, 35831,
     37325, 26032, 21152, 36733]"

text \<open>web/src/pages/admin/batch-new.tsx: choose plan\<close>

definition msg_bn_choose_plan :: jstr where
  "msg_bn_choose_plan = [21551, 29992, 20973, 35777, 20998, 37197, 26102, 24517, 39035, 36873,
     25321, 22871, 39184]"

text \<open>web/src/pages/admin/batch-new.tsx: out of stock\<close>

definition msg_bn_out_of_stock :: jstr where
  "msg_bn_out_of_stock = [25152, 36873, 22871, 39184, 27809, 26377, 21487, 29992, 20973, 35777,
     65292, 35831, 21047, 26032, 24211, 23384, 21518, 37325, 35797]"

text \<open>web/src/pages/admin/batch-new.tsx: need name\<close>

definition msg_bn_need_name :: jstr where
  "msg_bn_need_name = [25209, 27425, 21517, 31216, 19981, 33021, 20026, 31354]"

text \<open>web/src/pages/admin/batch-new.tsx: bad json\<close>

definition msg_bn_bad_json :: jstr where
  "msg_bn_bad_json = [74, 83, 79, 78, 32, 20869, 23481, 26684, 24335, 38169, 35823, 65306]"

text \<open>web/src/pages/admin/batch-new.tsx: bad url\<close>

definition msg_bn_bad_url :: jstr where
  "msg_bn_bad_url = [87, 101, 98, 104, 111, 111, 107, 32, 22320, 22336, 24517, 39035, 20197, 32,
     104, 116, 116, 112, 115, 58, 47, 47, 32, 24320, 22836]"

text \<open>web/src/pages/admin/batch-new.tsx: network\<close>

definition msg_bn_network :: jstr where
  "msg_bn_network = [32593, 32476, 24322, 24120, 65292, 35831, 31245, 21518, 20877, 35797]"

text \<open>web/src/pages/admin/batch-new.tsx: basic\<close>

definition msg_bn_basic :: jstr where
  "msg_bn_basic = [22522, 26412, 20449, 24687]"

text \<open>web/src/pages/admin/batch-new.tsx: basic hint\<close>

definition msg_bn_basic_hint :: jstr where
  "msg_bn_basic_hint = [25209, 27425, 21517, 31216, 19982, 35201, 20998, 21457, 30340, 32, 74,
     83, 79, 78, 32, 20869, 23481]"

text \<open>web/src/pages/admin/batch-new.tsx: name\<close>

definition msg_bn_name :: jstr where
  "msg_bn_name = [25209, 27425, 21517, 31216, 32, 42]"

text \<open>web/src/pages/admin/batch-new.tsx: description\<close>

definition msg_bn_description :: jstr where
  "msg_bn_description = [22791, 27880, 35828, 26126]"

text \<open>web/src/pages/admin/batch-new.tsx: payload\<close>

definition msg_bn_payload :: jstr where
  "msg_bn_payload = [20998, 21457, 20869, 23481, 65288, 74, 83, 79, 78, 65289, 42]"

text \<open>web/src/pages/admin/batch-new.tsx: payload hint\<close>

definition msg_bn_payload_hint :: jstr where
  "msg_bn_payload_hint = [29992, 25143, 20817, 25442, 25104, 21151, 21518, 30475, 21040, 36825,
     27573, 32, 74, 83, 79, 78, 65292, 24182, 38543, 32, 87, 101, 98, 104, 111, 111, 107, 32,
     25512, 36865, 32473, 24744, 30340, 26381, 21153, 22120]"

text \<open>web/src/pages/admin/batch-new.tsx: rules\<close>

definition msg_bn_rules :: jstr where
  "msg_bn_rules = [29983, 25104, 19982, 20351, 29992, 35268, 21017]"

text \<open>web/src/pages/admin/batch-new.tsx: rules hint\<close>

definition msg_bn_rules_hint :: jstr where
  "msg_bn_rules_hint = [25968, 37327, 12289, 26684, 24335, 12289, 26377, 25928, 26399, 19982,
     38480, 20817, 35268, 21017]"

text \<open>web/src/pages/admin/batch-new.tsx: count\<close>

definition msg_bn_count :: jstr where
  "msg_bn_count = [29983, 25104, 25968, 37327]"

text \<open>web/src/pages/admin/batch-new.tsx: prefix\<close>

definition msg_bn_prefix :: jstr where
  "msg_bn_prefix = [30721, 21069, 32512]"

text \<open>web/src/pages/admin/batch-new.tsx: code length\<close>

definition msg_bn_code_length :: jstr where
  "msg_bn_code_length = [38543, 26426, 37096, 20998, 38271, 24230]"

text \<open>web/src/pages/admin/batch-new.tsx: expires\<close>

definition msg_bn_expires :: jstr where
  "msg_bn_expires = [36807, 26399, 26102, 38388]"

text \<open>web/src/pages/admin/batch-new.tsx: expires hint\<close>

definition msg_bn_expires_hint :: jstr where
  "msg_bn_expires_hint = [30041, 31354, 34920, 31034, 27704, 20037, 26377, 25928]"

text \<open>web/src/pages/admin/batch-new.tsx: max uses\<close>

definition msg_bn_max_uses :: jstr where
  "msg_bn_max_uses = [21333, 30721, 21487, 20817, 25442, 27425, 25968]"

text \<open>web/src/pages/admin/batch-new.tsx: max uses hint\<close>

definition msg_bn_max_uses_hint :: jstr where
  "msg_bn_max_uses_hint = [36890, 24120, 20026, 32, 49, 65288, 19968, 30721, 19968, 20817, 65289]"

text \<open>web/src/pages/admin/batch-new.tsx: reload\<close>

definition msg_bn_reload :: jstr where
  "msg_bn_reload = [37325, 26032, 21152, 36733]"

text \<open>web/src/pages/admin/batch-new.tsx: no plan\<close>

definition msg_bn_no_plan :: jstr where
  "msg_bn_no_plan = [36824, 27809, 26377, 20973, 35777, 22871, 39184]"

text \<open>web/src/pages/admin/batch-new.tsx: no plan hint\<close>

definition msg_bn_no_plan_hint :: jstr where
  "msg_bn_no_plan_hint = [35831, 20808, 19978, 20256, 20973, 35777, 24182, 21019, 24314, 22871,
     39184, 65292, 20877, 37197, 32622, 33258, 21160, 20998, 37197, 12290]"

text \<open>web/src/pages/admin/batch-new.tsx: to credentials\<close>

definition msg_bn_to_credentials :: jstr where
  "msg_bn_to_credentials = [21069, 24448, 20973, 35777, 31649, 29702]"

text \<open>web/src/pages/admin/batch-new.tsx: stock\<close>

definition msg_bn_stock :: jstr where
  "msg_bn_stock = [32, 183, 32, 21487, 29992, 32]"

text \<open>web/src/pages/admin/batch-new.tsx: no stock\<close>

definition msg_bn_no_stock :: jstr where
  "msg_bn_no_stock = [24403, 21069, 27809, 26377, 21487, 29992, 24211, 23384, 65292, 35831,
     20808, 21069, 24448, 20973, 35777, 31649, 29702, 19978, 20256, 20973, 35777, 12290]"

text \<open>web/src/pages/admin/batch-new.tsx: assign\<close>

definition msg_bn_assign :: jstr where
  "msg_bn_assign = [20973, 35777, 20998, 37197]"

text \<open>web/src/pages/admin/batch-new.tsx: assign hint\<close>

definition msg_bn_assign_hint :: jstr where
  "msg_bn_assign_hint = [20817, 25442, 26102, 20174, 23545, 24212, 22871, 39184, 30340, 21487,
     29992, 24211, 23384, 20013, 20998, 37197, 19968, 26465, 20973, 35777]"

text \<open>web/src/pages/admin/batch-new.tsx: auto assign\<close>

definition msg_bn_auto_assign :: jstr where
  "msg_bn_auto_assign = [33258, 21160, 20998, 37197, 20973, 35777]"

text \<open>web/src/pages/admin/batch-new.tsx: plan type\<close>

definition msg_bn_plan_type :: jstr where
  "msg_bn_plan_type = [22871, 39184, 31867, 22411, 32, 42]"

text \<open>web/src/pages/admin/batch-new.tsx: webhook\<close>

definition msg_bn_webhook :: jstr where
  "msg_bn_webhook = [87, 101, 98, 104, 111, 111, 107, 32, 36890, 30693]"

text \<open>web/src/pages/admin/batch-new.tsx: webhook hint\<close>

definition msg_bn_webhook_hint :: jstr where
  "msg_bn_webhook_hint = [20817, 25442, 25104, 21151, 21518, 25512, 36865, 32473, 24744, 26381,
     21153, 22120, 65288, 21487, 30041, 31354, 65289]"

text \<open>web/src/pages/admin/batch-new.tsx: webhook url\<close>

definition msg_bn_webhook_url :: jstr where
  "msg_bn_webhook_url = [87, 101, 98, 104, 111, 111, 107, 32, 22320, 22336]"

text \<open>web/src/pages/admin/batch-new.tsx: secret\<close>

definition msg_bn_secret :: jstr where
  "msg_bn_secret = [31614, 21517, 23494, 38053]"

text \<open>web/src/pages/admin/batch-new.tsx: secret hint\<close>

definition msg_bn_secret_hint :: jstr where
  "msg_bn_secret_hint = [29992, 20110, 35745, 31639, 32, 88, 45, 67, 68, 75, 45, 83, 105, 103,
     110, 97, 116, 117, 114, 101, 32, 31614, 21517, 65292, 35831, 22312, 25509, 25910, 31471,
     39564, 31614]"

text \<open>web/src/pages/admin/batch-new.tsx: new secret\<close>

definition msg_bn_new_secret :: jstr where
  "msg_bn_new_secret = [37325, 26032, 29983, 25104, 23494, 38053]"

text \<open>web/src/pages/admin/batch-new.tsx: title\<close>

definition msg_bn_title :: jstr where
  "msg_bn_title = [26032, 24314, 25209, 27425]"

text \<open>web/src/pages/admin/batch-new.tsx: subtitle\<close>

definition msg_bn_subtitle :: jstr where
  "msg_bn_subtitle = [37197, 32622, 35268, 21017, 24182, 25209, 37327, 29983, 25104, 20817,
     25442, 30721]"

text \<open>web/src/pages/admin/batch-new.tsx: back\<close>

definition msg_bn_back :: jstr where
  "msg_bn_back = [36820, 22238, 21015, 34920]"

text \<open>web/src/pages/admin/batch-new.tsx: fix\<close>

definition msg_bn_fix :: jstr where
  "msg_bn_fix = [35831, 20462, 27491, 20197, 19979, 38382, 39064]"

text \<open>web/src/pages/admin/batch-new.tsx: create\<close>

definition msg_bn_create :: jstr where
  "msg_bn_create = [21019, 24314, 25209, 27425, 24182, 29983, 25104, 20817, 25442, 30721]"

text \<open>web/src/pages/admin/batch-new.tsx: cancel\<close>

definition msg_bn_cancel :: jstr where
  "msg_bn_cancel = [21462, 28040]"

text \<open>web/src/pages/admin/logs.tsx: r success\<close>

definition msg_lg_r_success :: jstr where
  "msg_lg_r_success = [25104, 21151]"

text \<open>web/src/pages/admin/logs.tsx: r invalid code\<close>

definition msg_lg_r_invalid_code :: jstr where
  "msg_lg_r_invalid_code = [30721, 26080, 25928]"

text \<open>web/src/pages/admin/logs.tsx: r code used up\<close>

definition msg_lg_r_code_used_up :: jstr where
  "msg_lg_r_code_used_up = [24050, 29992, 23436]"

text \<open>web/src/pages/admin/logs.tsx: r code disabled\<close>

definition msg_lg_r_code_disabled :: jstr where
  "msg_lg_r_code_disabled = [30721, 34987, 31105, 29992]"

text \<open>web/src/pages/admin/logs.tsx: r batch disabled\<close>

definition msg_lg_r_batch_disabled :: jstr where
  "msg_lg_r_batch_disabled = [25209, 27425, 20572, 29992]"

text \<open>web/src/pages/admin/logs.tsx: r expired\<close>

definition msg_lg_r_expired :: jstr where
  "msg_lg_r_expired = [24050, 36807, 26399]"

text \<open>web/src/pages/admin/logs.tsx: r user limit\<close>

definition msg_lg_r_user_limit :: jstr where
  "msg_lg_r_user_limit = [37038, 31665, 36229, 38480]"

text \<open>web/src/pages/admin/logs.tsx: r invalid input\<close>

definition msg_lg_r_invalid_input :: jstr where
  "msg_lg_r_invalid_input = [36755, 20837, 26080, 25928]"

text \<open>web/src/pages/admin/logs.tsx: w pending\<close>

definition msg_lg_w_pending :: jstr where
  "msg_lg_w_pending = [25512, 36865, 20013]"

text \<open>web/src/pages/admin/logs.tsx: w success\<close>

definition msg_lg_w_success :: jstr where
  "msg_lg_w_success = [24050, 36865, 36798]"

text \<open>web/src/pages/admin/logs.tsx: w failed\<close>

definition msg_lg_w_failed :: jstr where
  "msg_lg_w_failed = [22833, 36133]"

text \<open>web/src/pages/admin/logs.tsx: w dead letter\<close>

definition msg_lg_w_dead_letter :: jstr where
  "msg_lg_w_dead_letter = [37325, 35797, 32791, 23613]"

text \<open>web/src/pages/admin/logs.tsx: failed\<close>

definition msg_lg_failed :: jstr where
  "msg_lg_failed = [25805, 20316, 22833, 36133]"

text \<open>web/src/pages/admin/logs.tsx: filter\<close>

definition msg_lg_filter :: jstr where
  "msg_lg_filter = [31579, 36873]"

text \<open>web/src/pages/admin/logs.tsx: filter hint\<close>

definition msg_lg_filter_hint :: jstr where
  "msg_lg_filter_hint = [25353, 25209, 27425, 12289, 32467, 26524, 12289, 87, 101, 98, 104, 111,
     111, 107, 32, 29366, 24577, 25110, 37038, 31665, 25628, 32034]"

text \<open>web/src/pages/admin/logs.tsx: all batches\<close>

definition msg_lg_all_batches :: jstr where
  "msg_lg_all_batches = [20840, 37096, 25209, 27425]"

text \<open>web/src/pages/admin/logs.tsx: all results\<close>

definition msg_lg_all_results :: jstr where
  "msg_lg_all_results = [20840, 37096, 32467, 26524]"

text \<open>web/src/pages/admin/logs.tsx: all webhooks\<close>

definition msg_lg_all_webhooks :: jstr where
  "msg_lg_all_webhooks = [87, 101, 98, 104, 111, 111, 107, 32, 20840, 37096]"

text \<open>web/src/pages/admin/logs.tsx: reset\<close>

definition msg_lg_reset :: jstr where
  "msg_lg_reset = [37325, 32622]"

text \<open>web/src/pages/admin/logs.tsx: dash\<close>

definition msg_lg_dash :: jstr where
  "msg_lg_dash = [8212]"

text \<open>web/src/pages/admin/logs.tsx: resend\<close>

definition msg_lg_resend :: jstr where
  "msg_lg_resend = [37325, 25512]"

text \<open>web/src/pages/admin/logs.tsx: resend title\<close>

definition msg_lg_resend_title :: jstr where
  "msg_lg_resend_title = [30830, 23450, 37325, 26032, 25512, 36865, 35813, 35760, 24405, 30340,
     32, 87, 101, 98, 104, 111, 111, 107, 32, 21527, 65311]"

text \<open>web/src/pages/admin/logs.tsx: resend hint\<close>

definition msg_lg_resend_hint :: jstr where
  "msg_lg_resend_hint = [25509, 25910, 31471, 24212, 26681, 25454, 32, 114, 101, 100, 101, 109,
     112, 116, 105, 111, 110, 95, 105, 100, 32, 20570, 24130, 31561, 21435, 37325, 12290]"

text \<open>web/src/pages/admin/logs.tsx: none\<close>

definition msg_lg_none :: jstr where
  "msg_lg_none = [27809, 26377, 31526, 21512, 26465, 20214, 30340, 35760, 24405]"

text \<open>web/src/pages/admin/logs.tsx: none hint\<close>

definition msg_lg_none_hint :: jstr where
  "msg_lg_none_hint = [35843, 25972, 31579, 36873, 26465, 20214, 35797, 35797]"

text \<open>web/src/pages/admin/logs.tsx: col time\<close>

definition msg_lg_col_time :: jstr where
  "msg_lg_col_time = [26102, 38388]"

text \<open>web/src/pages/admin/logs.tsx: col batch\<close>

definition msg_lg_col_batch :: jstr where
  "msg_lg_col_batch = [25209, 27425]"

text \<open>web/src/pages/admin/logs.tsx: col code\<close>

definition msg_lg_col_code :: jstr where
  "msg_lg_col_code = [20817, 25442, 30721]"

text \<open>web/src/pages/admin/logs.tsx: col mail\<close>

definition msg_lg_col_mail :: jstr where
  "msg_lg_col_mail = [37038, 31665]"

text \<open>web/src/pages/admin/logs.tsx: col result\<close>

definition msg_lg_col_result :: jstr where
  "msg_lg_col_result = [32467, 26524]"

text \<open>web/src/pages/admin/logs.tsx: col answer\<close>

definition msg_lg_col_answer :: jstr where
  "msg_lg_col_answer = [22238, 25191]"

text \<open>web/src/pages/admin/logs.tsx: col actions\<close>

definition msg_lg_col_actions :: jstr where
  "msg_lg_col_actions = [25805, 20316]"

text \<open>web/src/pages/admin/logs.tsx: title\<close>

definition msg_lg_title :: jstr where
  "msg_lg_title = [20817, 25442, 35760, 24405]"

text \<open>web/src/pages/admin/logs.tsx: subtitle\<close>

definition msg_lg_subtitle :: jstr where
  "msg_lg_subtitle = [27599, 19968, 27425, 20817, 25442, 23581, 35797, 65288, 25104, 21151,
     19982, 22833, 36133, 65289, 37117, 30041, 26377, 35760, 24405]"

text \<open>web/src/pages/admin/logs.tsx: list\<close>

definition msg_lg_list :: jstr where
  "msg_lg_list = [35760, 24405, 21015, 34920]"

text \<open>web/src/pages/admin/logs.tsx: total\<close>

definition msg_lg_total :: jstr where
  "msg_lg_total = [20849, 32]"

text \<open>web/src/pages/admin/logs.tsx: entries\<close>

definition msg_lg_entries :: jstr where
  "msg_lg_entries = [32, 26465]"

text \<open>web/src/pages/admin/batch-detail.tsx: all\<close>

definition msg_bd_all :: jstr where
  "msg_bd_all = [20840, 37096]"

text \<open>web/src/pages/admin/batch-detail.tsx: active\<close>

definition msg_bd_active :: jstr where
  "msg_bd_active = [21487, 29992]"

text \<open>web/src/pages/admin/batch-detail.tsx: partused\<close>

definition msg_bd_partused :: jstr where
  "msg_bd_partused = [37096, 20998, 20351, 29992]"

text \<open>web/src/pages/admin/batch-detail.tsx: used\<close>

definition msg_bd_used :: jstr where
  "msg_bd_used = [24050, 29992, 23436]"

text \<open>web/src/pages/admin/batch-detail.tsx: disabled\<close>

definition msg_bd_disabled :: jstr where
  "msg_bd_disabled = [24050, 31105, 29992]"

text \<open>web/src/pages/admin/batch-detail.tsx: failed\<close>

definition msg_bd_failed :: jstr where
  "msg_bd_failed = [25805, 20316, 22833, 36133]"

text \<open>web/src/pages/admin/batch-detail.tsx: turn off\<close>

definition msg_bd_turn_off :: jstr where
  "msg_bd_turn_off = [20572, 29992]"

text \<open>web/src/pages/admin/batch-detail.tsx: turn on\<close>

definition msg_bd_turn_on :: jstr where
  "msg_bd_turn_on = [21551, 29992]"

text \<open>web/src/pages/admin/batch-detail.tsx: off hint\<close>

definition msg_bd_off_hint :: jstr where
  "msg_bd_off_hint = [20572, 29992, 21518, 35813, 25209, 27425, 25152, 26377, 20817, 25442,
     30721, 23558, 26080, 27861, 20817, 25442, 12290]"

text \<open>web/src/pages/admin/batch-detail.tsx: on hint\<close>

definition msg_bd_on_hint :: jstr where
  "msg_bd_on_hint = [21551, 29992, 21518, 35813, 25209, 27425, 20817, 25442, 30721, 24674, 22797,
     27491, 24120, 20817, 25442, 12290]"

text \<open>web/src/pages/admin/batch-detail.tsx: batch no\<close>

definition msg_bd_batch_no :: jstr where
  "msg_bd_batch_no = [25209, 27425, 32, 35]"

text \<open>web/src/pages/admin/batch-detail.tsx: back\<close>

definition msg_bd_back :: jstr where
  "msg_bd_back = [36820, 22238, 21015, 34920]"

text \<open>web/src/pages/admin/batch-detail.tsx: export txt\<close>

definition msg_bd_export_txt :: jstr where
  "msg_bd_export_txt = [23548, 20986, 32, 84, 88, 84]"

text \<open>web/src/pages/admin/batch-detail.tsx: export csv\<close>

definition msg_bd_export_csv :: jstr where
  "msg_bd_export_csv = [23548, 20986, 32, 67, 83, 86]"

text \<open>web/src/pages/admin/batch-detail.tsx: off batch\<close>

definition msg_bd_off_batch :: jstr where
  "msg_bd_off_batch = [20572, 29992, 25209, 27425]"

text \<open>web/src/pages/admin/batch-detail.tsx: on batch\<close>

definition msg_bd_on_batch :: jstr where
  "msg_bd_on_batch = [21551, 29992, 25209, 27425]"

text \<open>web/src/pages/admin/batch-detail.tsx: sure\<close>

definition msg_bd_sure :: jstr where
  "msg_bd_sure = [30830, 23450, 35201]"

text \<open>web/src/pages/admin/batch-detail.tsx: this batch\<close>

definition msg_bd_this_batch :: jstr where
  "msg_bd_this_batch = [35813, 25209, 27425, 21527, 65311]"

text \<open>web/src/pages/admin/batch-detail.tsx: info\<close>

definition msg_bd_info :: jstr where
  "msg_bd_info = [25209, 27425, 20449, 24687]"

text \<open>web/src/pages/admin/batch-detail.tsx: info hint\<close>

definition msg_bd_info_hint :: jstr where
  "msg_bd_info_hint = [35268, 21017, 12289, 29992, 37327, 19982, 32, 87, 101, 98, 104, 111, 111,
     107, 32, 37197, 32622]"

text \<open>web/src/pages/admin/batch-detail.tsx: status\<close>

definition msg_bd_status :: jstr where
  "msg_bd_status = [29366, 24577]"

text \<open>web/src/pages/admin/batch-detail.tsx: codes total\<close>

definition msg_bd_codes_total :: jstr where
  "msg_bd_codes_total = [30721, 24635, 25968]"

text \<open>web/src/pages/admin/batch-detail.tsx: uses\<close>

definition msg_bd_uses :: jstr where
  "msg_bd_uses = [32047, 35745, 20817, 25442, 27425, 25968]"

text \<open>web/src/pages/admin/batch-detail.tsx: prefix\<close>

definition msg_bd_prefix :: jstr where
  "msg_bd_prefix = [21069, 32512]"

text \<open>web/src/pages/admin/batch-detail.tsx: dash\<close>

definition msg_bd_dash :: jstr where
  "msg_bd_dash = [8212]"

text \<open>web/src/pages/admin/batch-detail.tsx: expires\<close>

definition msg_bd_expires :: jstr where
  "msg_bd_expires = [36807, 26399, 26102, 38388]"

text \<open>web/src/pages/admin/batch-detail.tsx: max uses\<close>

definition msg_bd_max_uses :: jstr where
  "msg_bd_max_uses = [21333, 30721, 27425, 25968]"

text \<open>web/src/pages/admin/batch-detail.tsx: assign\<close>

definition msg_bd_assign :: jstr where
  "msg_bd_assign = [20973, 35777, 20998, 37197]"

text \<open>web/src/pages/admin/batch-detail.tsx: no assign\<close>

definition msg_bd_no_assign :: jstr where
  "msg_bd_no_assign = [26410, 21551, 29992]"

text \<open>web/src/pages/admin/batch-detail.tsx: created\<close>

definition msg_bd_created :: jstr where
  "msg_bd_created = [21019, 24314, 26102, 38388]"

text \<open>web/src/pages/admin/batch-detail.tsx: secret\<close>

definition msg_bd_secret :: jstr where
  "msg_bd_secret = [31614, 21517, 23494, 38053, 65306]"

text \<open>web/src/pages/admin/batch-detail.tsx: copy secret\<close>

definition msg_bd_copy_secret :: jstr where
  "msg_bd_copy_secret = [22797, 21046, 23494, 38053]"

text \<open>web/src/pages/admin/batch-detail.tsx: payload\<close>

definition msg_bd_payload :: jstr where
  "msg_bd_payload = [20998, 21457, 20869, 23481, 65288, 74, 83, 79, 78, 65289]"

text \<open>web/src/pages/admin/batch-detail.tsx: copy\<close>

definition msg_bd_copy :: jstr where
  "msg_bd_copy = [22797, 21046]"

text \<open>web/src/pages/admin/batch-detail.tsx: disable\<close>

definition msg_bd_disable :: jstr where
  "msg_bd_disable = [31105, 29992]"

text \<open>web/src/pages/admin/batch-detail.tsx: restore\<close>

definition msg_bd_restore :: jstr where
  "msg_bd_restore = [24674, 22797]"

text \<open>web/src/pages/admin/batch-detail.tsx: the code\<close>

definition msg_bd_the_code :: jstr where
  "msg_bd_the_code = [20817, 25442, 30721, 32]"

text \<open>web/src/pages/admin/batch-detail.tsx: question\<close>

definition msg_bd_question :: jstr where
  "msg_bd_question = [32, 21527, 65311]"

text \<open>web/src/pages/admin/batch-detail.tsx: codes\<close>

definition msg_bd_codes :: jstr where
  "msg_bd_codes = [20817, 25442, 30721]"

text \<open>web/src/pages/admin/batch-detail.tsx: total\<close>

definition msg_bd_total :: jstr where
  "msg_bd_total = [20849, 32]"

text \<open>web/src/pages/admin/batch-detail.tsx: pieces\<close>

definition msg_bd_pieces :: jstr where
  "msg_bd_pieces = [32, 20010]"

text \<open>web/src/pages/admin/batch-detail.tsx: no codes\<close>

definition msg_bd_no_codes :: jstr where
  "msg_bd_no_codes = [35813, 31579, 36873, 26465, 20214, 19979, 27809, 26377, 20817, 25442, 30721]"

text \<open>web/src/pages/admin/batch-detail.tsx: use count\<close>

definition msg_bd_use_count :: jstr where
  "msg_bd_use_count = [20351, 29992, 27425, 25968]"

text \<open>web/src/pages/admin/batch-detail.tsx: actions\<close>

definition msg_bd_actions :: jstr where
  "msg_bd_actions = [25805, 20316]"

text \<open>web/src/pages/admin/batch-detail.tsx: missing\<close>

definition msg_bd_missing :: jstr where
  "msg_bd_missing = [25209, 27425, 19981, 23384, 22312]"

text \<open>web/src/pages/admin/batch-detail.tsx: missing hint\<close>

definition msg_bd_missing_hint :: jstr where
  "msg_bd_missing_hint = [23427, 21487, 33021, 24050, 34987, 21024, 38500, 65292, 36820, 22238,
     25209, 27425, 21015, 34920, 26597, 30475]"

text \<open>web/src/pages/admin/batch-detail.tsx: secret copied\<close>

definition msg_bd_secret_copied :: jstr where
  "msg_bd_secret_copied = [23494, 38053, 24050, 22797, 21046]"

text \<open>web/src/pages/admin/batch-detail.tsx: json copied\<close>

definition msg_bd_json_copied :: jstr where
  "msg_bd_json_copied = [74, 83, 79, 78, 32, 24050, 22797, 21046]"

text \<open>web/src/pages/admin/batch-detail.tsx: copied\<close>

definition msg_bd_copied :: jstr where
  "msg_bd_copied = [24050, 22797, 21046, 65306]"

text \<open>web/src/pages/admin/faq.tsx: need both\<close>

definition msg_fq_need_both :: jstr where
  "msg_fq_need_both = [26631, 39064, 21644, 20869, 23481, 19981, 33021, 20026, 31354]"

text \<open>web/src/pages/admin/faq.tsx: failed\<close>

definition msg_fq_failed :: jstr where
  "msg_fq_failed = [25805, 20316, 22833, 36133]"

text \<open>web/src/pages/admin/faq.tsx: deleted\<close>

definition msg_fq_deleted :: jstr where
  "msg_fq_deleted = [26465, 30446, 24050, 21024, 38500]"

text \<open>web/src/pages/admin/faq.tsx: reordered\<close>

definition msg_fq_reordered :: jstr where
  "msg_fq_reordered = [25490, 24207, 24050, 26356, 26032]"

text \<open>web/src/pages/admin/faq.tsx: reorder failed\<close>

definition msg_fq_reorder_failed :: jstr where
  "msg_fq_reorder_failed = [25490, 24207, 22833, 36133]"

text \<open>web/src/pages/admin/faq.tsx: up\<close>

definition msg_fq_up :: jstr where
  "msg_fq_up = [19978, 31227]"

text \<open>web/src/pages/admin/faq.tsx: down\<close>

definition msg_fq_down :: jstr where
  "msg_fq_down = [19979, 31227]"

text \<open>web/src/pages/admin/faq.tsx: edit\<close>

definition msg_fq_edit :: jstr where
  "msg_fq_edit = [32534, 36753]"

text \<open>web/src/pages/admin/faq.tsx: delete\<close>

definition msg_fq_delete :: jstr where
  "msg_fq_delete = [21024, 38500]"

text \<open>web/src/pages/admin/faq.tsx: sure delete\<close>

definition msg_fq_sure_delete :: jstr where
  "msg_fq_sure_delete = [30830, 23450, 21024, 38500, 12300]"

text \<open>web/src/pages/admin/faq.tsx: question\<close>

definition msg_fq_question :: jstr where
  "msg_fq_question = [12301, 21527, 65311]"

text \<open>web/src/pages/admin/faq.tsx: delete hint\<close>

definition msg_fq_delete_hint :: jstr where
  "msg_fq_delete_hint = [21024, 38500, 21518, 23558, 19981, 20877, 22312, 20817, 25442, 39029,
     26174, 31034, 12290]"

text \<open>web/src/pages/admin/faq.tsx: empty\<close>

definition msg_fq_empty :: jstr where
  "msg_fq_empty = [36824, 27809, 26377, 20817, 25442, 39035, 30693, 26465, 30446]"

text \<open>web/src/pages/admin/faq.tsx: empty hint\<close>

definition msg_fq_empty_hint :: jstr where
  "msg_fq_empty_hint = [28857, 20987, 21491, 19978, 35282, 12300, 26032, 22686, 26465, 30446,
     12301, 21019, 24314, 31532, 19968, 26465]"

text \<open>web/src/pages/admin/faq.tsx: new\<close>

definition msg_fq_new :: jstr where
  "msg_fq_new = [26032, 22686, 26465, 30446]"

text \<open>web/src/pages/admin/faq.tsx: edit entry\<close>

definition msg_fq_edit_entry :: jstr where
  "msg_fq_edit_entry = [32534, 36753, 26465, 30446]"

text \<open>web/src/pages/admin/faq.tsx: dialog hint\<close>

definition msg_fq_dialog_hint :: jstr where
  "msg_fq_dialog_hint = [32534, 36753, 20817, 25442, 39035, 30693, 30340, 26631, 39064, 21644,
     27491, 25991, 20869, 23481]"

text \<open>web/src/pages/admin/faq.tsx: title label\<close>

definition msg_fq_title_label :: jstr where
  "msg_fq_title_label = [26631, 39064]"

text \<open>web/src/pages/admin/faq.tsx: content label\<close>

definition msg_fq_content_label :: jstr where
  "msg_fq_content_label = [20869, 23481]"

text \<open>web/src/pages/admin/faq.tsx: cancel\<close>

definition msg_fq_cancel :: jstr where
  "msg_fq_cancel = [21462, 28040]"

text \<open>web/src/pages/admin/faq.tsx: save\<close>

definition msg_fq_save :: jstr where
  "msg_fq_save = [20445, 23384]"

text \<open>web/src/pages/admin/faq.tsx: title\<close>

definition msg_fq_title :: jstr where
  "msg_fq_title = [20817, 25442, 39035, 30693]"

text \<open>web/src/pages/admin/faq.tsx: subtitle\<close>

definition msg_fq_subtitle :: jstr where
  "msg_fq_subtitle = [31649, 29702, 20817, 25442, 39029, 19979, 26041, 23637, 31034, 30340,
     24120, 35265, 38382, 39064]"

text \<open>web/src/pages/admin/faq.tsx: list\<close>

definition msg_fq_list :: jstr where
  "msg_fq_list = [26465, 30446, 21015, 34920]"

text \<open>web/src/pages/admin/faq.tsx: total\<close>

definition msg_fq_total :: jstr where
  "msg_fq_total = [20849, 32]"

text \<open>web/src/pages/admin/faq.tsx: dots\<close>

definition msg_fq_dots :: jstr where
  "msg_fq_dots = [8230]"

text \<open>web/src/pages/admin/faq.tsx: list hint\<close>

definition msg_fq_list_hint :: jstr where
  "msg_fq_list_hint = [32, 26465, 65292, 25903, 25345, 19978, 19979, 31227, 21160, 35843, 25972,
     39034, 24207]"

text \<open>web/src/pages/admin/faq.tsx: updated\<close>

definition msg_fq_updated :: jstr where
  "msg_fq_updated = [26465, 30446, 24050, 26356, 26032]"

text \<open>web/src/pages/admin/faq.tsx: added\<close>

definition msg_fq_added :: jstr where
  "msg_fq_added = [26465, 30446, 24050, 28155, 21152]"

text \<open>web/src/components/site-settings-provider.tsx: default title\<close>

definition msg_sp_default_title :: jstr where
  "msg_sp_default_title = [67, 68, 75, 32, 20817, 25442, 20013, 24515]"

text \<open>web/src/components/site-settings-provider.tsx: outside\<close>

definition msg_sp_outside :: jstr where
  "msg_sp_outside = [117, 115, 101, 83, 105, 116, 101, 83, 101, 116, 116, 105, 110, 103, 115, 32,
     24517, 39035, 22312, 32, 83, 105, 116, 101, 83, 101, 116, 116, 105, 110, 103, 115, 80, 114,
     111, 118, 105, 100, 101, 114, 32, 20869, 20351, 29992]"

text \<open>web/src/components/site-settings-provider.tsx: load failed\<close>

definition msg_sp_load_failed :: jstr where
  "msg_sp_load_failed = [31449, 28857, 35774, 32622, 21152, 36733, 22833, 36133]"

text \<open>web/src/components/site-settings-provider.tsx: admin suffix\<close>

definition msg_sp_admin_suffix :: jstr where
  "msg_sp_admin_suffix = [32, 45, 32, 31649, 29702, 21518, 21488]"

text \<open>web/src/pages/admin/site-settings.tsx: bad type\<close>

definition msg_st_bad_type :: jstr where
  "msg_st_bad_type = [35831, 36873, 25321, 32, 80, 78, 71, 32, 25110, 32, 74, 80, 69, 71, 32,
     22270, 29255]"

text \<open>web/src/pages/admin/site-settings.tsx: too large\<close>

definition msg_st_too_large :: jstr where
  "msg_st_too_large = [22270, 29255, 19981, 33021, 36229, 36807, 32, 50, 32, 77, 105, 66]"

text \<open>web/src/pages/admin/site-settings.tsx: too wide\<close>

definition msg_st_too_wide :: jstr where
  "msg_st_too_wide = [22270, 29255, 23485, 39640, 19981, 33021, 36229, 36807, 32, 50, 48, 52, 56,
     32, 215, 32, 50, 48, 52, 56, 32, 20687, 32032]"

text \<open>web/src/pages/admin/site-settings.tsx: unreadable\<close>

definition msg_st_unreadable :: jstr where
  "msg_st_unreadable = [22270, 29255, 26080, 27861, 35835, 21462, 65292, 35831, 37325, 26032,
     36873, 25321, 26377, 25928, 30340, 32, 80, 78, 71, 32, 25110, 32, 74, 80, 69, 71, 32, 25991,
     20214]"

text \<open>web/src/pages/admin/site-settings.tsx: need title\<close>

definition msg_st_need_title :: jstr where
  "msg_st_need_title = [32593, 31449, 26631, 39064, 19981, 33021, 20026, 31354]"

text \<open>web/src/pages/admin/site-settings.tsx: long title\<close>

definition msg_st_long_title :: jstr where
  "msg_st_long_title = [32593, 31449, 26631, 39064, 19981, 33021, 36229, 36807, 32, 49, 48, 48,
     32, 20010, 23383, 31526]"

text \<open>web/src/pages/admin/site-settings.tsx: saved\<close>

definition msg_st_saved :: jstr where
  "msg_st_saved = [31449, 28857, 35774, 32622, 24050, 20445, 23384]"

text \<open>web/src/pages/admin/site-settings.tsx: save failed\<close>

definition msg_st_save_failed :: jstr where
  "msg_st_save_failed = [20445, 23384, 22833, 36133, 65292, 35831, 31245, 21518, 37325, 35797]"

text \<open>web/src/pages/admin/site-settings.tsx: change\<close>

definition msg_st_change :: jstr where
  "msg_st_change = [26356, 25442, 22270, 29255]"

text \<open>web/src/pages/admin/site-settings.tsx: choose\<close>

definition msg_st_choose :: jstr where
  "msg_st_choose = [36873, 25321, 22270, 29255]"

text \<open>web/src/pages/admin/site-settings.tsx: unpick\<close>

definition msg_st_unpick :: jstr where
  "msg_st_unpick = [21462, 28040, 36873, 25321]"

text \<open>web/src/pages/admin/site-settings.tsx: remove\<close>

definition msg_st_remove :: jstr where
  "msg_st_remove = [31227, 38500, 32, 76, 111, 103, 111]"

text \<open>web/src/pages/admin/site-settings.tsx: undo\<close>

definition msg_st_undo :: jstr where
  "msg_st_undo = [25764, 38144, 31227, 38500]"

text \<open>web/src/pages/admin/site-settings.tsx: title\<close>

definition msg_st_title :: jstr where
  "msg_st_title = [31449, 28857, 35774, 32622]"

text \<open>web/src/pages/admin/site-settings.tsx: subtitle\<close>

definition msg_st_subtitle :: jstr where
  "msg_st_subtitle = [31649, 29702, 32593, 31449, 26631, 39064, 19982, 32, 76, 111, 103, 111]"

text \<open>web/src/pages/admin/site-settings.tsx: identity\<close>

definition msg_st_identity :: jstr where
  "msg_st_identity = [32593, 31449, 26631, 35782]"

text \<open>web/src/pages/admin/site-settings.tsx: identity hint\<close>

definition msg_st_identity_hint :: jstr where
  "msg_st_identity_hint = [20445, 23384, 21518, 23558, 21516, 27493, 26174, 31034, 22312, 20817,
     25442, 39029, 12289, 31649, 29702, 30331, 24405, 39029, 21644, 21518, 21488, 23548, 33322,
     12290]"

text \<open>web/src/pages/admin/site-settings.tsx: logo\<close>

definition msg_st_logo :: jstr where
  "msg_st_logo = [32593, 31449, 32, 76, 111, 103, 111]"

text \<open>web/src/pages/admin/site-settings.tsx: preview alt\<close>

definition msg_st_preview_alt :: jstr where
  "msg_st_preview_alt = [24453, 19978, 20256, 30340, 32593, 31449, 32, 76, 111, 103, 111]"

text \<open>web/src/pages/admin/site-settings.tsx: logo alt\<close>

definition msg_st_logo_alt :: jstr where
  "msg_st_logo_alt = [24403, 21069, 32593, 31449, 32, 76, 111, 103, 111]"

text \<open>web/src/pages/admin/site-settings.tsx: logo hint\<close>

definition msg_st_logo_hint :: jstr where
  "msg_st_logo_hint = [25903, 25345, 32, 80, 78, 71, 12289, 74, 80, 69, 71, 65292, 26368, 22823,
     32, 50, 32, 77, 105, 66, 65292, 23485, 39640, 19981, 36229, 36807, 32, 50, 48, 52, 56, 32,
     20687, 32032, 12290]"

text \<open>web/src/pages/admin/site-settings.tsx: remove hint\<close>

definition msg_st_remove_hint :: jstr where
  "msg_st_remove_hint = [20445, 23384, 21518, 23558, 24674, 22797, 20026, 40664, 35748, 22270,
     26631, 12290]"

text \<open>web/src/pages/admin/site-settings.tsx: site title\<close>

definition msg_st_site_title :: jstr where
  "msg_st_site_title = [32593, 31449, 26631, 39064]"

text \<open>web/src/pages/admin/site-settings.tsx: not saved\<close>

definition msg_st_not_saved :: jstr where
  "msg_st_not_saved = [26080, 27861, 20445, 23384, 35774, 32622]"

text \<open>web/src/pages/admin/site-settings.tsx: saving\<close>

definition msg_st_saving :: jstr where
  "msg_st_saving = [20445, 23384, 20013, 8230]"

text \<open>web/src/pages/admin/site-settings.tsx: save\<close>

definition msg_st_save :: jstr where
  "msg_st_save = [20445, 23384, 35774, 32622]"

text \<open>web/src/pages/admin/site-settings.tsx: load failed\<close>

definition msg_st_load_failed :: jstr where
  "msg_st_load_failed = [31449, 28857, 35774, 32622, 21152, 36733, 22833, 36133]"

text \<open>web/src/pages/admin/site-settings.tsx: retry later\<close>

definition msg_st_retry_later :: jstr where
  "msg_st_retry_later = [35831, 31245, 21518, 37325, 35797]"

text \<open>web/src/pages/admin/site-settings.tsx: reload\<close>

definition msg_st_reload :: jstr where
  "msg_st_reload = [37325, 26032, 21152, 36733]"

text \<open>web/src/pages/admin: codes total\<close>

definition msg_da_codes_total :: jstr where
  "msg_da_codes_total = [20817, 25442, 30721, 24635, 25968]"

text \<open>web/src/pages/admin: redeemed\<close>

definition msg_da_redeemed :: jstr where
  "msg_da_redeemed = [25104, 21151, 20817, 25442]"

text \<open>web/src/pages/admin: today\<close>

definition msg_da_today :: jstr where
  "msg_da_today = [20170, 26085, 20817, 25442]"

text \<open>web/src/pages/admin: batches\<close>

definition msg_da_batches :: jstr where
  "msg_da_batches = [25209, 27425, 25968]"

text \<open>web/src/pages/admin: webhook failed\<close>

definition msg_da_webhook_failed :: jstr where
  "msg_da_webhook_failed = [87, 101, 98, 104, 111, 111, 107, 32, 22833, 36133]"

text \<open>web/src/pages/admin: resend hint\<close>

definition msg_da_resend_hint :: jstr where
  "msg_da_resend_hint = [21487, 22312, 20817, 25442, 35760, 24405, 20013, 37325, 25512]"

text \<open>web/src/pages/admin: trend\<close>

definition msg_da_trend :: jstr where
  "msg_da_trend = [36817, 32, 49, 52, 32, 22825, 20817, 25442, 36235, 21183]"

text \<open>web/src/pages/admin: trend hint\<close>

definition msg_da_trend_hint :: jstr where
  "msg_da_trend_hint = [27599, 26085, 25104, 21151, 20817, 25442, 27425, 25968]"

text \<open>web/src/pages/admin: dash\<close>

definition msg_da_dash :: jstr where
  "msg_da_dash = [8212]"

text \<open>web/src/pages/admin: recent\<close>

definition msg_da_recent :: jstr where
  "msg_da_recent = [26368, 36817, 20817, 25442, 35760, 24405]"

text \<open>web/src/pages/admin: recent hint\<close>

definition msg_da_recent_hint :: jstr where
  "msg_da_recent_hint = [26368, 26032, 32, 56, 32, 26465, 20817, 25442, 23581, 35797]"

text \<open>web/src/pages/admin: no recent\<close>

definition msg_da_no_recent :: jstr where
  "msg_da_no_recent = [36824, 27809, 26377, 20817, 25442, 35760, 24405]"

text \<open>web/src/pages/admin: no recent hint\<close>

definition msg_da_no_recent_hint :: jstr where
  "msg_da_no_recent_hint = [21019, 24314, 25209, 27425, 24182, 25226, 20817, 25442, 30721, 20998,
     21457, 32473, 29992, 25143, 21518, 65292, 35760, 24405, 20250, 20986, 29616, 22312, 36825,
     37324]"

text \<open>web/src/pages/admin: col time\<close>

definition msg_da_col_time :: jstr where
  "msg_da_col_time = [26102, 38388]"

text \<open>web/src/pages/admin: col batch\<close>

definition msg_da_col_batch :: jstr where
  "msg_da_col_batch = [25209, 27425]"

text \<open>web/src/pages/admin: col code\<close>

definition msg_da_col_code :: jstr where
  "msg_da_col_code = [20817, 25442, 30721]"

text \<open>web/src/pages/admin: col mail\<close>

definition msg_da_col_mail :: jstr where
  "msg_da_col_mail = [37038, 31665]"

text \<open>web/src/pages/admin: col result\<close>

definition msg_da_col_result :: jstr where
  "msg_da_col_result = [32467, 26524]"

text \<open>web/src/pages/admin: title\<close>

definition msg_da_title :: jstr where
  "msg_da_title = [20202, 34920, 30424]"

text \<open>web/src/pages/admin: subtitle\<close>

definition msg_da_subtitle :: jstr where
  "msg_da_subtitle = [31995, 32479, 25972, 20307, 20817, 25442, 24773, 20917, 19968, 35272]"

text \<open>web/src/pages/admin: new batch\<close>

definition msg_da_new_batch :: jstr where
  "msg_da_new_batch = [26032, 24314, 25209, 27425]"

text \<open>web/src/pages/admin: failed\<close>

definition msg_da_failed :: jstr where
  "msg_da_failed = [25805, 20316, 22833, 36133]"

text \<open>web/src/pages/admin: turn off\<close>

definition msg_da_turn_off :: jstr where
  "msg_da_turn_off = [20572, 29992]"

text \<open>web/src/pages/admin: turn on\<close>

definition msg_da_turn_on :: jstr where
  "msg_da_turn_on = [21551, 29992]"

text \<open>web/src/pages/admin: configured\<close>

definition msg_da_configured :: jstr where
  "msg_da_configured = [24050, 37197, 32622]"

text \<open>web/src/pages/admin: details\<close>

definition msg_da_details :: jstr where
  "msg_da_details = [35814, 24773]"

text \<open>web/src/pages/admin: sure\<close>

definition msg_da_sure :: jstr where
  "msg_da_sure = [30830, 23450, 35201]"

text \<open>web/src/pages/admin: the batch\<close>

definition msg_da_the_batch :: jstr where
  "msg_da_the_batch = [25209, 27425, 12300]"

text \<open>web/src/pages/admin: question\<close>

definition msg_da_question :: jstr where
  "msg_da_question = [12301, 21527, 65311]"

text \<open>web/src/pages/admin: off hint\<close>

definition msg_da_off_hint :: jstr where
  "msg_da_off_hint = [20572, 29992, 21518, 35813, 25209, 27425, 25152, 26377, 20817, 25442,
     30721, 23558, 26080, 27861, 20817, 25442, 12290]"

text \<open>web/src/pages/admin: on hint\<close>

definition msg_da_on_hint :: jstr where
  "msg_da_on_hint = [21551, 29992, 21518, 35813, 25209, 27425, 20817, 25442, 30721, 24674, 22797,
     27491, 24120, 20817, 25442, 12290]"

text \<open>web/src/pages/admin: batches title\<close>

definition msg_da_batches_title :: jstr where
  "msg_da_batches_title = [25209, 27425, 31649, 29702]"

text \<open>web/src/pages/admin: batches subtitle\<close>

definition msg_da_batches_subtitle :: jstr where
  "msg_da_batches_subtitle = [25353, 25209, 27425, 29983, 25104, 19982, 31649, 29702, 20817,
     25442, 30721]"

text \<open>web/src/pages/admin: all batches\<close>

definition msg_da_all_batches :: jstr where
  "msg_da_all_batches = [20840, 37096, 25209, 27425]"

text \<open>web/src/pages/admin: total\<close>

definition msg_da_total :: jstr where
  "msg_da_total = [20849, 32]"

text \<open>web/src/pages/admin: dots\<close>

definition msg_da_dots :: jstr where
  "msg_da_dots = [8230]"

text \<open>web/src/pages/admin: batches unit\<close>

definition msg_da_batches_unit :: jstr where
  "msg_da_batches_unit = [32, 20010, 25209, 27425]"

text \<open>web/src/pages/admin: no batches\<close>

definition msg_da_no_batches :: jstr where
  "msg_da_no_batches = [36824, 27809, 26377, 25209, 27425]"

text \<open>web/src/pages/admin: no batches hint\<close>

definition msg_da_no_batches_hint :: jstr where
  "msg_da_no_batches_hint = [28857, 20987, 21491, 19978, 35282, 12300, 26032, 24314, 25209,
     27425, 12301, 24320, 22987, 29983, 25104, 20817, 25442, 30721]"

text \<open>web/src/pages/admin: col name\<close>

definition msg_da_col_name :: jstr where
  "msg_da_col_name = [21517, 31216]"

text \<open>web/src/pages/admin: col prefix\<close>

definition msg_da_col_prefix :: jstr where
  "msg_da_col_prefix = [21069, 32512]"

text \<open>web/src/pages/admin: col codes\<close>

definition msg_da_col_codes :: jstr where
  "msg_da_col_codes = [30721, 25968, 37327]"

text \<open>web/src/pages/admin: col used\<close>

definition msg_da_col_used :: jstr where
  "msg_da_col_used = [24050, 20351, 29992]"

text \<open>web/src/pages/admin: col expires\<close>

definition msg_da_col_expires :: jstr where
  "msg_da_col_expires = [36807, 26399, 26102, 38388]"

text \<open>web/src/pages/admin: col status\<close>

definition msg_da_col_status :: jstr where
  "msg_da_col_status = [29366, 24577]"

text \<open>web/src/pages/admin: col actions\<close>

definition msg_da_col_actions :: jstr where
  "msg_da_col_actions = [25805, 20316]"

text \<open>web/src/layouts/admin-layout.tsx: page loading\<close>

definition msg_al_page_loading :: jstr where
  "msg_al_page_loading = [39029, 38754, 21152, 36733, 20013]"

text \<open>web/src/layouts/admin-layout.tsx: need both\<close>

definition msg_al_need_both :: jstr where
  "msg_al_need_both = [35831, 36755, 20837, 29992, 25143, 21517, 21644, 23494, 30721]"

text \<open>web/src/layouts/admin-layout.tsx: network\<close>

definition msg_al_network :: jstr where
  "msg_al_network = [32593, 32476, 24322, 24120, 65292, 35831, 31245, 21518, 20877, 35797]"

text \<open>web/src/layouts/admin-layout.tsx: login hint\<close>

definition msg_al_login_hint :: jstr where
  "msg_al_login_hint = [31649, 29702, 21518, 21488, 32, 183, 32, 35831, 20351, 29992, 31649,
     29702, 21592, 36134, 21495, 30331, 24405]"

text \<open>web/src/layouts/admin-layout.tsx: username\<close>

definition msg_al_username :: jstr where
  "msg_al_username = [29992, 25143, 21517]"

text \<open>web/src/layouts/admin-layout.tsx: password\<close>

definition msg_al_password :: jstr where
  "msg_al_password = [23494, 30721]"

text \<open>web/src/layouts/admin-layout.tsx: login failed\<close>

definition msg_al_login_failed :: jstr where
  "msg_al_login_failed = [30331, 24405, 22833, 36133]"

text \<open>web/src/layouts/admin-layout.tsx: sign in\<close>

definition msg_al_sign_in :: jstr where
  "msg_al_sign_in = [30331, 32, 24405]"

text \<open>web/src/layouts/admin-layout.tsx: dashboard\<close>

definition msg_al_dashboard :: jstr where
  "msg_al_dashboard = [20202, 34920, 30424]"

text \<open>web/src/layouts/admin-layout.tsx: batches\<close>

definition msg_al_batches :: jstr where
  "msg_al_batches = [25209, 27425, 31649, 29702]"

text \<open>web/src/layouts/admin-layout.tsx: credentials\<close>

definition msg_al_credentials :: jstr where
  "msg_al_credentials = [20973, 35777, 31649, 29702]"

text \<open>web/src/layouts/admin-layout.tsx: logs\<close>

definition msg_al_logs :: jstr where
  "msg_al_logs = [20817, 25442, 35760, 24405]"

text \<open>web/src/layouts/admin-layout.tsx: faq\<close>

definition msg_al_faq :: jstr where
  "msg_al_faq = [20817, 25442, 39035, 30693]"

text \<open>web/src/layouts/admin-layout.tsx: settings\<close>

definition msg_al_settings :: jstr where
  "msg_al_settings = [31449, 28857, 35774, 32622]"

text \<open>web/src/layouts/admin-layout.tsx: new batch\<close>

definition msg_al_new_batch :: jstr where
  "msg_al_new_batch = [26032, 24314, 25209, 27425]"

text \<open>web/src/layouts/admin-layout.tsx: batch\<close>

definition msg_al_batch :: jstr where
  "msg_al_batch = [25209, 27425, 35814, 24773]"

text \<open>web/src/layouts/admin-layout.tsx: admin\<close>

definition msg_al_admin :: jstr where
  "msg_al_admin = [31649, 29702, 21518, 21488]"

text \<open>web/src/layouts/admin-layout.tsx: menu\<close>

definition msg_al_menu :: jstr where
  "msg_al_menu = [31649, 29702, 33756, 21333]"

text \<open>web/src/layouts/admin-layout.tsx: redeem page\<close>

definition msg_al_redeem_page :: jstr where
  "msg_al_redeem_page = [29992, 25143, 20817, 25442, 39029]"

text \<open>web/src/layouts/admin-layout.tsx: logout\<close>

definition msg_al_logout :: jstr where
  "msg_al_logout = [36864, 20986, 30331, 24405]"

text \<open>web/src/layouts/admin-layout.tsx: open redeem page\<close>

definition msg_al_open_redeem_page :: jstr where
  "msg_al_open_redeem_page = [25171, 24320, 29992, 25143, 20817, 25442, 39029]"

text \<open>web/src/layouts/admin-layout.tsx: user menu\<close>

definition msg_al_user_menu :: jstr where
  "msg_al_user_menu = [29992, 25143, 33756, 21333]"

text \<open>web/src/layouts/admin-layout.tsx: administrator\<close>

definition msg_al_administrator :: jstr where
  "msg_al_administrator = [31649, 29702, 21592]"

text \<open>web/src/pages/admin: redeem count\<close>

definition msg_da_redeem_count :: jstr where
  "msg_da_redeem_count = [20817, 25442, 25968]"

text \<open>internal/batch: export header\<close>

definition msg_cd_export_header :: jstr where
  "msg_cd_export_header = [20817, 25442, 30721]"

text \<open>internal/redeem/service.go: code disabled\<close>

definition msg_rs_code_disabled :: jstr where
  "msg_rs_code_disabled = [35813, 20817, 25442, 30721, 24050, 34987, 31105, 29992]"

text \<open>internal/redeem/service.go: batch disabled\<close>

definition msg_rs_batch_disabled :: jstr where
  "msg_rs_batch_disabled = [35813, 20817, 25442, 30721, 25152, 23646, 25209, 27425, 24050, 20572,
     29992]"

text \<open>internal/redeem/service.go: expired\<close>

definition msg_rs_expired :: jstr where
  "msg_rs_expired = [35813, 20817, 25442, 30721, 24050, 36807, 26399]"

text \<open>internal/redeem/service.go: used up\<close>

definition msg_rs_used_up :: jstr where
  "msg_rs_used_up = [35813, 20817, 25442, 30721, 24050, 34987, 20351, 29992, 23436]"

text \<open>internal/redeem/service.go: success\<close>

definition msg_rs_success :: jstr where
  "msg_rs_success = [20817, 25442, 25104, 21151, 32, 55356, 57225]"

text \<open>internal/redeem/service.go: invalid code\<close>

definition msg_rs_invalid_code :: jstr where
  "msg_rs_invalid_code = [20817, 25442, 30721, 26080, 25928, 65292, 35831, 26680, 23545, 21518,
     37325, 35797]"

text \<open>internal/redeem/service.go: no credential\<close>

definition msg_rs_no_credential :: jstr where
  "msg_rs_no_credential = [24403, 21069, 22871, 39184, 20973, 35777, 24211, 23384, 19981, 36275,
     65292, 35831, 31245, 21518, 37325, 35797]"

text \<open>internal/redeem/service.go: need input\<close>

definition msg_rs_need_input :: jstr where
  "msg_rs_need_input = [35831, 36755, 20837, 37038, 31665, 21644, 20817, 25442, 30721]"

text \<open>internal/redeem/service.go: long user\<close>

definition msg_rs_long_user :: jstr where
  "msg_rs_long_user = [37038, 31665, 36807, 38271]"

text \<open>internal/redeem/service.go: long code\<close>

definition msg_rs_long_code :: jstr where
  "msg_rs_long_code = [20817, 25442, 30721, 36807, 38271]"

text \<open>internal/redeem/service.go: bad key\<close>

definition msg_rs_bad_key :: jstr where
  "msg_rs_bad_key = [24130, 31561, 32, 107, 101, 121, 32, 26080, 25928, 25110, 36807, 38271]"

text \<open>internal/redeem/service.go: empty code\<close>

definition msg_rs_empty_code :: jstr where
  "msg_rs_empty_code = [20817, 25442, 30721, 19981, 33021, 20026, 31354]"

text \<open>internal/redeem/service.go: duplicate\<close>

definition msg_rs_duplicate :: jstr where
  "msg_rs_duplicate = [20817, 25442, 30721, 37325, 22797, 65292, 24050, 36339, 36807]"

text \<open>internal/redeem/service.go: batch done\<close>

definition msg_rs_batch_done :: jstr where
  "msg_rs_batch_done = [25209, 37327, 20817, 25442, 22788, 29702, 23436, 25104]"

text \<open>internal/redeem/service.go: need user\<close>

definition msg_rs_need_user :: jstr where
  "msg_rs_need_user = [35831, 36755, 20837, 37038, 31665]"

text \<open>internal/redeem/service.go: need code\<close>

definition msg_rs_need_code :: jstr where
  "msg_rs_need_code = [35831, 33267, 23569, 36755, 20837, 19968, 20010, 20817, 25442, 30721]"

text \<open>internal/httpapi/redeem.go: bad request\<close>

definition msg_rh_bad_request :: jstr where
  "msg_rh_bad_request = [35831, 27714, 26684, 24335, 38169, 35823]"

text \<open>internal/httpapi/redeem.go: too many\<close>

definition msg_rh_too_many :: jstr where
  "msg_rh_too_many = [35831, 27714, 36807, 20110, 39057, 32321, 65292, 35831, 31245, 21518,
     20877, 35797]"

text \<open>internal/httpapi/redeem.go: key conflict\<close>

definition msg_rh_key_conflict :: jstr where
  "msg_rh_key_conflict = [24130, 31561, 32, 107, 101, 121, 32, 19982, 35831, 27714, 19981, 21305,
     37197]"

text \<open>internal/httpapi/redeem.go: redeem failed\<close>

definition msg_rh_redeem_failed :: jstr where
  "msg_rh_redeem_failed = [20817, 25442, 22788, 29702, 22833, 36133]"

text \<open>internal/httpapi/redeem.go: need code\<close>

definition msg_rh_need_code :: jstr where
  "msg_rh_need_code = [35831, 33267, 23569, 36755, 20837, 19968, 20010, 20817, 25442, 30721]"

text \<open>internal/httpapi/redeem.go: batch failed\<close>

definition msg_rh_batch_failed :: jstr where
  "msg_rh_batch_failed = [25209, 37327, 20817, 25442, 22788, 29702, 22833, 36133]"

text \<open>internal/httpapi/admin.go: plan length\<close>

definition msg_as_plan_length :: jstr where
  "msg_as_plan_length = [22871, 39184, 31867, 22411, 38271, 24230, 24517, 39035, 20026, 32, 49,
     45, 49, 48, 48, 32, 20010, 23383, 31526]"

text \<open>internal/httpapi/admin.go: plan control\<close>

definition msg_as_plan_control :: jstr where
  "msg_as_plan_control = [22871, 39184, 31867, 22411, 19981, 33021, 21253, 21547, 25511, 21046,
     23383, 31526]"

text \<open>internal/httpapi/admin.go: need name\<close>

definition msg_as_need_name :: jstr where
  "msg_as_need_name = [25209, 27425, 21517, 31216, 19981, 33021, 20026, 31354]"

text \<open>internal/httpapi/admin.go: long name\<close>

definition msg_as_long_name :: jstr where
  "msg_as_long_name = [25209, 27425, 21517, 31216, 19981, 33021, 36229, 36807, 32, 50, 48, 48,
     32, 20010, 23383, 31526]"

text \<open>internal/httpapi/admin.go: long description\<close>

definition msg_as_long_description :: jstr where
  "msg_as_long_description = [22791, 27880, 35828, 26126, 19981, 33021, 36229, 36807, 32, 49, 48,
     48, 48, 32, 20010, 23383, 31526]"

text \<open>internal/httpapi/admin.go: code length\<close>

definition msg_as_code_length :: jstr where
  "msg_as_code_length = [30721, 38271, 24230, 24517, 39035, 22312, 32, 56, 45, 50, 48, 32, 20043,
     38388]"

text \<open>internal/httpapi/admin.go: count\<close>

definition msg_as_count :: jstr where
  "msg_as_count = [29983, 25104, 25968, 37327, 24517, 39035, 22312, 32, 49, 45, 49, 48, 48, 48,
     48, 32, 20043, 38388]"

text \<open>internal/httpapi/admin.go: max uses\<close>

definition msg_as_max_uses :: jstr where
  "msg_as_max_uses = [21333, 30721, 21487, 29992, 27425, 25968, 24517, 39035, 22312, 32, 49, 45,
     49, 48, 48, 48, 48, 48, 32, 20043, 38388]"

text \<open>internal/httpapi/admin.go: max redeems\<close>

definition msg_as_max_redeems :: jstr where
  "msg_as_max_redeems = [29992, 25143, 38480, 20817, 27425, 25968, 24517, 39035, 22312, 32, 49,
     45, 49, 48, 48, 48, 48, 48, 32, 20043, 38388]"

text \<open>internal/httpapi/admin.go: long prefix\<close>

definition msg_as_long_prefix :: jstr where
  "msg_as_long_prefix = [21069, 32512, 38271, 24230, 19981, 33021, 36229, 36807, 32, 56]"

text \<open>internal/httpapi/admin.go: prefix chars\<close>

definition msg_as_prefix_chars :: jstr where
  "msg_as_prefix_chars = [21069, 32512, 21482, 33021, 21253, 21547, 33521, 25991, 23383, 27597,
     21644, 25968, 23383]"

text \<open>internal/httpapi/admin.go: long url\<close>

definition msg_as_long_url :: jstr where
  "msg_as_long_url = [87, 101, 98, 104, 111, 111, 107, 32, 85, 82, 76, 32, 36807, 38271]"

text \<open>internal/httpapi/admin.go: bad url\<close>

definition msg_as_bad_url :: jstr where
  "msg_as_bad_url = [87, 101, 98, 104, 111, 111, 107, 32, 22320, 22336, 24517, 39035, 26159,
     21487, 35775, 38382, 30340, 20844, 32593, 32, 72, 84, 84, 80, 83, 32, 22320, 22336]"

text \<open>internal/httpapi/admin.go: long secret\<close>

definition msg_as_long_secret :: jstr where
  "msg_as_long_secret = [87, 101, 98, 104, 111, 111, 107, 32, 23494, 38053, 19981, 33021, 36229,
     36807, 32, 53, 49, 50, 32, 20010, 23383, 31526]"

text \<open>internal/httpapi/admin.go: long plan\<close>

definition msg_as_long_plan :: jstr where
  "msg_as_long_plan = [20973, 35777, 22871, 39184, 31867, 22411, 36807, 38271]"

text \<open>internal/httpapi/admin.go: bad payload\<close>

definition msg_as_bad_payload :: jstr where
  "msg_as_bad_payload = [22870, 21169, 20869, 23481, 24517, 39035, 26159, 21512, 27861, 32, 74,
     83, 79, 78]"

text \<open>internal/httpapi/admin.go: bad request\<close>

definition msg_as_bad_request :: jstr where
  "msg_as_bad_request = [35831, 27714, 26684, 24335, 38169, 35823]"

text \<open>internal/httpapi/admin.go: bad input\<close>

definition msg_as_bad_input :: jstr where
  "msg_as_bad_input = [36755, 20837, 26657, 39564, 22833, 36133]"

text \<open>internal/httpapi/admin.go: bad expiry\<close>

definition msg_as_bad_expiry :: jstr where
  "msg_as_bad_expiry = [36807, 26399, 26102, 38388, 26684, 24335, 38169, 35823]"

text \<open>internal/httpapi/admin.go: no stock\<close>

definition msg_as_no_stock :: jstr where
  "msg_as_no_stock = [25152, 36873, 22871, 39184, 27809, 26377, 21487, 29992, 20973, 35777]"

text \<open>internal/httpapi/admin.go: create failed\<close>

definition msg_as_create_failed :: jstr where
  "msg_as_create_failed = [21019, 24314, 25209, 27425, 22833, 36133]"

text \<open>internal/httpapi/admin.go: created\<close>

definition msg_as_created :: jstr where
  "msg_as_created = [25209, 27425, 21019, 24314, 25104, 21151]"

text \<open>internal/httpapi/admin.go: stock failed\<close>

definition msg_as_stock_failed :: jstr where
  "msg_as_stock_failed = [26816, 26597, 20973, 35777, 24211, 23384, 22833, 36133]"

end
