(* ===== verification/AdminFrame.thy ===== *)
theory AdminFrame
  imports Components CdkInput AdminMessages
begin

text \<open>
  What the admin pages share beyond \<open>Page\<close> and \<open>View\<close>: one step relation for
  all of them, over what the page offers, its handlers and the continuations of
  its calls; the locale \<open>page_system\<close>, in which a page's invariant follows from
  its handlers and continuations one by one; the counting of calls of one kind;
  leaving a page by navigation.
\<close>

inductive page_step ::
  "(('c, 'x) base_scheme \<Rightarrow> 'e \<Rightarrow> bool)
   \<Rightarrow> ('v \<Rightarrow> 'e \<Rightarrow> ('c, 'x) base_scheme \<Rightarrow> ('c, 'x) base_scheme)
   \<Rightarrow> ('v \<Rightarrow> 'c \<Rightarrow> 'a \<Rightarrow> ('c, 'x) base_scheme \<Rightarrow> ('c, 'x) base_scheme option)
   \<Rightarrow> ('c, 'x) base_scheme \<Rightarrow> ('c, 'x) base_scheme \<Rightarrow> bool"
  for off handle settle where
  user: "off s e \<Longrightarrow> page_step off handle settle s (handle env e s)"
| answer: "c \<in> set (pend s) \<Longrightarrow> settle env c a (settled c s) = Some t \<Longrightarrow> page_step off handle settle s t"

inductive_cases page_stepE: "page_step off handle settle s t"

locale page_system =
  fixes init :: "('c, 'x) base_scheme \<Rightarrow> bool"
    and off :: "('c, 'x) base_scheme \<Rightarrow> 'e \<Rightarrow> bool"
    and handle :: "'v \<Rightarrow> 'e \<Rightarrow> ('c, 'x) base_scheme \<Rightarrow> ('c, 'x) base_scheme"
    and settle :: "'v \<Rightarrow> 'c \<Rightarrow> 'a \<Rightarrow> ('c, 'x) base_scheme \<Rightarrow> ('c, 'x) base_scheme option"
    and inv :: "('c, 'x) base_scheme \<Rightarrow> bool"
  assumes init_ok: "init s \<Longrightarrow> inv s"
    and user_ok: "inv s \<Longrightarrow> off s e \<Longrightarrow> inv (handle env e s)"
    and answer_ok: "inv s \<Longrightarrow> c \<in> set (pend s) \<Longrightarrow> settle env c a (settled c s) = Some t \<Longrightarrow> inv t"

sublocale page_system \<subseteq> invariant_system init "page_step off handle settle" inv
proof unfold_locales
  show "inv s \<Longrightarrow> page_step off handle settle s t \<Longrightarrow> inv t" for s t
    by (erule page_stepE) (auto intro: user_ok answer_ok)
qed (rule init_ok)

text \<open>Exactly one call of a kind under way, or none.\<close>

definition one_call :: "('c \<Rightarrow> bool) \<Rightarrow> bool \<Rightarrow> 'c list \<Rightarrow> bool" where
  "one_call p b cs \<longleftrightarrow> length (filter p cs) = (if b then 1 else 0)"

lemma one_call_other [simp]: "\<not> p c \<Longrightarrow> one_call p b (cs @ [c]) \<longleftrightarrow> one_call p b cs"
  by (simp add: one_call_def)

lemma one_call_start: "one_call p False cs \<Longrightarrow> p c \<Longrightarrow> one_call p True (cs @ [c])"
  by (simp add: one_call_def)

lemma one_call_remove_other: "one_call p b cs \<Longrightarrow> \<not> p c \<Longrightarrow> one_call p b (remove1 c cs)"
  by (simp add: one_call_def filter_remove1 remove1_idem)

lemma one_call_end:
  assumes "one_call p b cs" "c \<in> set cs" "p c"
  shows "b \<and> one_call p False (remove1 c cs)"
proof -
  have "c \<in> set (filter p cs)"
    using assms by simp
  then have "length (filter p cs) \<noteq> 0"
    by (cases "filter p cs") auto
  then show ?thesis
    using assms length_filter_remove1 [OF assms(2), of p] by (auto simp: one_call_def split: if_splits)
qed

lemma one_call_none: "one_call p False cs \<Longrightarrow> c \<in> set cs \<Longrightarrow> \<not> p c"
  by (auto simp: one_call_def filter_empty_conv)

text \<open>A page that has navigated away is unmounted and takes no more user events.\<close>

fun is_navigate :: "effect \<Rightarrow> bool" where
  "is_navigate (Navigate p r) = True"
| "is_navigate _ = False"

definition left_page :: "('c, 'a) base_scheme \<Rightarrow> bool" where
  "left_page s \<longleftrightarrow> list_ex is_navigate (log s)"

definition navigations :: "('c, 'a) base_scheme \<Rightarrow> nat" where
  "navigations s = length (filter is_navigate (log s))"

lemma left_page_iff: "left_page s \<longleftrightarrow> navigations s \<noteq> 0"
  by (auto simp: left_page_def navigations_def list_ex_iff filter_empty_conv)

lemma left_emit [simp]:
  "left_page (emit e s) \<longleftrightarrow> is_navigate e \<or> left_page s"
  "navigations (emit e s) = (if is_navigate e then Suc (navigations s) else navigations s)"
  by (auto simp: left_page_def navigations_def)

lemma left_cong: "log t = log s \<Longrightarrow> left_page t = left_page s \<and> navigations t = navigations s"
  by (simp add: left_page_def navigations_def)

lemma left_call [simp]:
  "left_page (call c s) = left_page s" "navigations (call c s) = navigations s"
  "left_page (settled c s) = left_page s" "navigations (settled c s) = navigations s"
  using left_cong [of "call c s" s] left_cong [of "settled c s" s] by simp_all

text \<open>
  Answers without user events. Each call has a weight, the number of answers it
  and the calls its continuations make can still take; in a page whose
  continuations pay for their calls, every run of answers ends.
\<close>

inductive page_answer ::
  "('v \<Rightarrow> 'c \<Rightarrow> 'a \<Rightarrow> ('c, 'x) base_scheme \<Rightarrow> ('c, 'x) base_scheme option)
   \<Rightarrow> ('c, 'x) base_scheme \<Rightarrow> ('c, 'x) base_scheme \<Rightarrow> bool"
  for settle where
  answer: "c \<in> set (pend s) \<Longrightarrow> settle env c a (settled c s) = Some t \<Longrightarrow> page_answer settle s t"

inductive_cases page_answerE: "page_answer settle s t"

definition work :: "('c \<Rightarrow> nat) \<Rightarrow> ('c, 'x) base_scheme \<Rightarrow> nat" where
  "work weight s = sum_list (map weight (pend s))"

lemma work_ops [simp]:
  "work w (emit e s) = work w s" "work w (call c s) = work w s + w c"
  by (simp_all add: work_def)

lemma work_settled: "c \<in> set (pend s) \<Longrightarrow> work w s = work w (settled c s) + w c"
  by (simp add: work_def sum_list_map_remove1)

locale draining =
  fixes settle :: "'v \<Rightarrow> 'c \<Rightarrow> 'a \<Rightarrow> ('c, 'x) base_scheme \<Rightarrow> ('c, 'x) base_scheme option"
    and weight :: "'c \<Rightarrow> nat"
  assumes pays: "settle env c a s = Some t \<Longrightarrow> work weight t < work weight s + weight c"
begin

lemma answer_decreases: "page_answer settle s t \<Longrightarrow> work weight t < work weight s"
  by (erule page_answerE) (auto dest!: pays simp: work_settled [of _ _ weight])

lemma answers_bounded: "(page_answer settle ^^ n) s t \<Longrightarrow> n + work weight t \<le> work weight s"
proof (induction n arbitrary: t)
  case (Suc n)
  then obtain u where "(page_answer settle ^^ n) s u" "page_answer settle u t"
    by auto
  with Suc.IH [of u] answer_decreases [of u t] show ?case by simp
qed simp

end

text \<open>
  \<^verbatim>\<open>err.errors ?? [err.message]\<close>: the server's list of problems or the message. A
  server that breaks its own contract (\<^verbatim>\<open>errors\<close> is no array of texts) is outside
  the model.
\<close>

fun text_items :: "json list \<Rightarrow> jstr list option" where
  "text_items [] = Some []"
| "text_items (JStr t # xs) = map_option (\<lambda>ts. t # ts) (text_items xs)"
| "text_items (_ # xs) = None"

fun error_lines :: "jstr \<Rightarrow> json option \<Rightarrow> jstr list option" where
  "error_lines m None = Some [m]"
| "error_lines m (Some JNull) = Some [m]"
| "error_lines m (Some (JArr xs)) = text_items xs"
| "error_lines m (Some _) = None"

text \<open>A link of the router.\<close>

definition Link :: "jstr \<Rightarrow> jstr \<Rightarrow> 'e node" where
  "Link to label = El ''a'' [Attr ''href'' to] [Txt label]"

lemma offers_Link [simp]: "\<not> offers (Link to label) e"
  by (simp add: Link_def)

text \<open>
  \<^verbatim>\<open>Number(e.target.value)\<close> of an input of type number. The browser replaces a
  text that is no floating-point number by the empty text, whose number is 0.
\<close>

definition number_input :: "jstr \<Rightarrow> json" where
  "number_input v =
     (let neg = (v \<noteq> [] \<and> hd v = 45);
          u = (if neg then tl v else v);
          is = takeWhile is_digit u
      in case parse_frac (dropWhile is_digit u) of
           None \<Rightarrow> JNum 0 0
         | Some (fs, w) \<Rightarrow>
             (case parse_exp w of
                None \<Rightarrow> JNum 0 0
              | Some (x, rest) \<Rightarrow>
                  if is @ fs = [] \<or> rest \<noteq> [] then JNum 0 0
                  else mk_num neg (digits_val (is @ fs)) (x - int (length fs))))"

lemma number_input_wf: "wf_json (number_input v)"
proof -
  have "wf_json (mk_num neg m e)" for neg m e
    using norm_num_wf [of m e] by (auto simp: mk_num_def split: prod.split)
  then show ?thesis
    by (auto simp: number_input_def Let_def wf_num_def split: option.split)
qed

text \<open>\<^verbatim>\<open>expires_at ? expires_at.replace("T", " ") : ...\<close>\<close>

definition expiry_text :: "jstr option \<Rightarrow> jstr" where
  "expiry_text v = (case v of
     None \<Rightarrow> msg_ad_for_ever
   | Some t \<Rightarrow> if t = [] then msg_ad_for_ever else js_replaceFirst 84 [32] t)"

end
