(* ===== verification/SiteProvider.thy ===== *)
theory SiteProvider
  imports AdminFrame
begin

text \<open>
  The site settings every page shares: web/src/lib/site-settings-context.ts and
  web/src/components/site-settings-provider.tsx. The provider's state is a record
  the pages that change it extend; the document title, the favicon and the logo
  are functions of it.
\<close>

section \<open>Context\<close>

definition DEFAULT_SITE_SETTINGS :: SiteSettings where
  "DEFAULT_SITE_SETTINGS =
     \<lparr>ss_site_title = msg_sp_default_title, ss_has_logo = False, ss_logo_url = [], ss_updated_at = []\<rparr>"

datatype SiteSettingsStatus = StatusLoading | StatusReady | StatusError

record provider =
  pv_settings :: SiteSettings
  pv_status :: SiteSettingsStatus
  pv_error :: "jstr option"

text \<open>\<^verbatim>\<open>useSiteSettings\<close> throws outside a provider.\<close>

definition useSiteSettings :: "provider option \<Rightarrow> provider res" where
  "useSiteSettings context = (case context of
     None \<Rightarrow> Inl (ErrorMsg msg_sp_outside) | Some p \<Rightarrow> Inr p)"

section \<open>Provider\<close>

text \<open>\<^verbatim>\<open>refresh\<close> up to its \<^verbatim>\<open>await\<close>, and after it.\<close>

definition refresh_start :: "provider \<Rightarrow> provider" where
  "refresh_start p = p\<lparr>pv_status := StatusLoading, pv_error := None\<rparr>"

definition refresh_done :: "(js_error \<Rightarrow> jstr) \<Rightarrow> SiteSettings res \<Rightarrow> provider \<Rightarrow> provider" where
  "refresh_done em r p = (case r of
     Inr settings \<Rightarrow> p\<lparr>pv_settings := settings, pv_status := StatusReady\<rparr>
   | Inl e \<Rightarrow> p\<lparr>pv_error := Some (message_if_error em msg_sp_load_failed e), pv_status := StatusError\<rparr>)"

definition replaceSettings :: "SiteSettings \<Rightarrow> provider \<Rightarrow> provider" where
  "replaceSettings nextSettings p = p\<lparr>pv_settings := nextSettings, pv_status := StatusReady, pv_error := None\<rparr>"

definition provider_init :: provider where
  "provider_init = refresh_start \<lparr>pv_settings = DEFAULT_SITE_SETTINGS, pv_status = StatusLoading, pv_error = None\<rparr>"

section \<open>Document title and favicon\<close>

definition documentTitle :: "SiteSettings \<Rightarrow> jstr \<Rightarrow> jstr" where
  "documentTitle settings pathname =
     (let title = (if js_trim (ss_site_title settings) \<noteq> [] then js_trim (ss_site_title settings)
                   else ss_site_title DEFAULT_SITE_SETTINGS) in
      if js_startsWith pathname (js ''/admin'') then title @ msg_sp_admin_suffix else title)"

text \<open>The icon link of the document: its href and the default remembered in \<^verbatim>\<open>dataset\<close>.\<close>

record favicon =
  fi_href :: "jstr option"
  fi_default :: "jstr option"

definition update_favicon :: "SiteSettings \<Rightarrow> favicon option \<Rightarrow> favicon" where
  "update_favicon settings link =
     (let l = (case link of None \<Rightarrow> \<lparr>fi_href = None, fi_default = None\<rparr> | Some l \<Rightarrow> l);
          d = (if js_or (fi_default l) [] = [] then js_or (fi_href l) (js ''data:,'') else the (fi_default l))
      in \<lparr>fi_href = Some (if ss_has_logo settings \<and> ss_logo_url settings \<noteq> [] then ss_logo_url settings else d),
          fi_default = Some d\<rparr>)"

section \<open>Logo\<close>

definition show_image :: "SiteSettings \<Rightarrow> jstr option \<Rightarrow> bool" where
  "show_image settings failedUrl \<longleftrightarrow>
     ss_has_logo settings \<and> ss_logo_url settings \<noteq> [] \<and> failedUrl \<noteq> Some (ss_logo_url settings)"

definition SiteLogo :: "SiteSettings \<Rightarrow> jstr option \<Rightarrow> jstr \<Rightarrow> (jstr \<Rightarrow> 'e) \<Rightarrow> 'e node" where
  "SiteLogo settings failedUrl alt onError =
     (if show_image settings failedUrl
      then El ''img'' [Attr ''src'' (ss_logo_url settings), Attr ''alt'' alt, On (onError (ss_logo_url settings))] []
      else El ''Zap'' [] [])"

text \<open>A picture that failed is replaced by the default icon until its address changes.\<close>

lemma failed_logo: "show_image settings (Some (ss_logo_url settings)) = False"
  by (simp add: show_image_def)

section \<open>The favicon follows the settings\<close>

definition default_icon :: "favicon option \<Rightarrow> jstr" where
  "default_icon link = (case link of None \<Rightarrow> js ''data:,'' | Some l \<Rightarrow> js_or (fi_default l) (js_or (fi_href l) (js ''data:,'')))"

lemma js_or_simps [simp]: "js_or None d = d" "js_or (Some t) d = (if t \<noteq> [] then t else d)"
  by (simp_all add: js_or_def)

lemma update_favicon_default:
  "fi_default (update_favicon settings link) = Some (default_icon link)"
  by (cases link; cases "fi_default (the link)")
     (simp_all add: update_favicon_def default_icon_def Let_def js_or_def del: js_Cons)

lemma default_icon_nonempty: "default_icon link \<noteq> []"
  by (auto simp: default_icon_def js_or_def split: option.split)

lemma default_icon_update: "default_icon (Some (update_favicon settings link)) = default_icon link"
  using default_icon_nonempty [of link] by (simp add: default_icon_def [of "Some _"] update_favicon_default)

lemma update_favicon_href:
  "fi_href (update_favicon settings link) =
     Some (if ss_has_logo settings \<and> ss_logo_url settings \<noteq> [] then ss_logo_url settings else default_icon link)"
  using update_favicon_default [of settings link] by (simp add: update_favicon_def Let_def)

text \<open>The icon after a whole session of settings, one after the other.\<close>

fun favicon_session :: "SiteSettings list \<Rightarrow> favicon option \<Rightarrow> favicon option" where
  "favicon_session [] link = link"
| "favicon_session (settings # later) link = favicon_session later (Some (update_favicon settings link))"

lemma favicon_session_default: "default_icon (favicon_session ss link) = default_icon link"
  by (induction ss arbitrary: link) (simp_all add: default_icon_update)

lemma favicon_session_append: "favicon_session (ss @ ts) link = favicon_session ts (favicon_session ss link)"
  by (induction ss arbitrary: link) simp_all

text \<open>However often the settings change, the tab's icon is the current logo when
  there is one, and otherwise exactly the icon the document came with: a logo
  that is removed leaves no trace.\<close>

lemma favicon_follows_settings:
  "fi_href (the (favicon_session (history @ [settings]) link)) =
     Some (if ss_has_logo settings \<and> ss_logo_url settings \<noteq> [] then ss_logo_url settings else default_icon link)"
  by (simp add: favicon_session_append update_favicon_href favicon_session_default)

end
