(* ===== verification/Sidebar.thy ===== *)
theory Sidebar
  imports AdminFrame
begin

text \<open>
  The collapsible sidebar, web/src/components/ui/sidebar.tsx, and the hook
  web/src/hooks/use-mobile.ts it asks for the width of the window. The provider's
  state is a record, what it does to the outside (the cookie, the parent's
  \<^verbatim>\<open>onOpenChange\<close>) a log; the parts are views over the value of its context. What
  the headless library renders (\<^verbatim>\<open>Sheet\<close>, \<^verbatim>\<open>Tooltip\<close>, \<^verbatim>\<open>useRender\<close>) is named by
  elements with the props the source gives them.
\<close>

section \<open>The mobile hook\<close>

definition MOBILE_BREAKPOINT :: int where
  "MOBILE_BREAKPOINT = 768"

text \<open>The hook's state after the effect or a change event read the window's width.\<close>

definition mobile_change :: "int \<Rightarrow> bool option" where
  "mobile_change innerWidth = Some (innerWidth < MOBILE_BREAKPOINT)"

definition useIsMobile :: "bool option \<Rightarrow> bool" where
  "useIsMobile isMobile = (case isMobile of None \<Rightarrow> False | Some b \<Rightarrow> b)"

section \<open>Provider\<close>

definition SIDEBAR_COOKIE_NAME :: jstr where
  "SIDEBAR_COOKIE_NAME = js ''sidebar_state''"

definition SIDEBAR_COOKIE_MAX_AGE :: int where
  "SIDEBAR_COOKIE_MAX_AGE = 60 * 60 * 24 * 7"

definition SIDEBAR_WIDTH :: jstr where
  "SIDEBAR_WIDTH = js ''16rem''"

definition SIDEBAR_WIDTH_MOBILE :: jstr where
  "SIDEBAR_WIDTH_MOBILE = js ''18rem''"

definition SIDEBAR_WIDTH_ICON :: jstr where
  "SIDEBAR_WIDTH_ICON = js ''3rem''"

definition SIDEBAR_KEYBOARD_SHORTCUT :: jstr where
  "SIDEBAR_KEYBOARD_SHORTCUT = js ''b''"

text \<open>The props of the provider: \<open>sp_onOpenChange\<close> says whether a handler is given.\<close>

record sidebar_props =
  sp_defaultOpen :: bool
  sp_open :: "bool option"
  sp_onOpenChange :: bool

datatype sidebar_effect = WriteCookie jstr | OpenChange bool

record sidebar =
  sb_open :: bool
  sb_openMobile :: bool
  sb_isMobile :: "bool option"
  sb_log :: "sidebar_effect list"

definition sidebar_mount :: "sidebar_props \<Rightarrow> sidebar" where
  "sidebar_mount props =
     \<lparr>sb_open = sp_defaultOpen props, sb_openMobile = False, sb_isMobile = None, sb_log = []\<rparr>"

text \<open>\<^verbatim>\<open>openProp ?? _open\<close>\<close>

definition is_open :: "sidebar_props \<Rightarrow> sidebar \<Rightarrow> bool" where
  "is_open props s = (case sp_open props of Some b \<Rightarrow> b | None \<Rightarrow> sb_open s)"

definition bool_str :: "bool \<Rightarrow> jstr" where
  "bool_str b = (if b then js ''true'' else js ''false'')"

definition sidebar_cookie :: "bool \<Rightarrow> jstr" where
  "sidebar_cookie openState =
     SIDEBAR_COOKIE_NAME @ js ''='' @ bool_str openState @ js ''; path=/; max-age='' @ int_str SIDEBAR_COOKIE_MAX_AGE"

text \<open>The argument of \<^verbatim>\<open>setOpen\<close>: a value, or a function of the state of the last render.\<close>

datatype open_value = OpenTo bool | OpenBy "bool \<Rightarrow> bool"

definition sb_emit :: "sidebar_effect \<Rightarrow> sidebar \<Rightarrow> sidebar" where
  "sb_emit e s = s\<lparr>sb_log := sb_log s @ [e]\<rparr>"

definition setOpen :: "sidebar_props \<Rightarrow> open_value \<Rightarrow> sidebar \<Rightarrow> sidebar" where
  "setOpen props v s =
     (let openState = (case v of OpenBy f \<Rightarrow> f (is_open props s) | OpenTo b \<Rightarrow> b) in
      sb_emit (WriteCookie (sidebar_cookie openState))
        (if sp_onOpenChange props then sb_emit (OpenChange openState) s else s\<lparr>sb_open := openState\<rparr>))"

definition toggleSidebar :: "sidebar_props \<Rightarrow> sidebar \<Rightarrow> sidebar" where
  "toggleSidebar props s =
     (if useIsMobile (sb_isMobile s) then s\<lparr>sb_openMobile := \<not> sb_openMobile s\<rparr>
      else setOpen props (OpenBy Not) s)"

record key_event =
  ke_key :: jstr
  ke_metaKey :: bool
  ke_ctrlKey :: bool

definition is_shortcut :: "key_event \<Rightarrow> bool" where
  "is_shortcut event \<longleftrightarrow> ke_key event = SIDEBAR_KEYBOARD_SHORTCUT \<and> (ke_metaKey event \<or> ke_ctrlKey event)"

text \<open>The key handler of the window; the flag is \<^verbatim>\<open>preventDefault\<close>.\<close>

definition handleKeyDown :: "sidebar_props \<Rightarrow> key_event \<Rightarrow> sidebar \<Rightarrow> bool \<times> sidebar" where
  "handleKeyDown props event s =
     (if is_shortcut event then (True, toggleSidebar props s) else (False, s))"

datatype sidebar_event = ToggleClick | SheetChange bool | KeyDown key_event | Resize int

fun sidebar_handle :: "sidebar_props \<Rightarrow> sidebar_event \<Rightarrow> sidebar \<Rightarrow> sidebar" where
  "sidebar_handle props ToggleClick s = toggleSidebar props s"
| "sidebar_handle props (SheetChange b) s = s\<lparr>sb_openMobile := b\<rparr>"
| "sidebar_handle props (KeyDown k) s = snd (handleKeyDown props k s)"
| "sidebar_handle props (Resize w) s = s\<lparr>sb_isMobile := mobile_change w\<rparr>"

section \<open>Context\<close>

datatype sidebar_state = Expanded | Collapsed

fun sidebar_state_str :: "sidebar_state \<Rightarrow> jstr" where
  "sidebar_state_str Expanded = js ''expanded''"
| "sidebar_state_str Collapsed = js ''collapsed''"

record SidebarContext =
  sc_state :: sidebar_state
  sc_open :: bool
  sc_isMobile :: bool
  sc_openMobile :: bool

definition contextValue :: "sidebar_props \<Rightarrow> sidebar \<Rightarrow> SidebarContext" where
  "contextValue props s =
     \<lparr>sc_state = (if is_open props s then Expanded else Collapsed), sc_open = is_open props s,
      sc_isMobile = useIsMobile (sb_isMobile s), sc_openMobile = sb_openMobile s\<rparr>"

definition useSidebar :: "SidebarContext option \<Rightarrow> SidebarContext res" where
  "useSidebar context = (case context of
     None \<Rightarrow> Inl (ErrorMsg (js ''useSidebar must be used within a SidebarProvider.''))
   | Some c \<Rightarrow> Inr c)"

section \<open>Parts\<close>

text \<open>A part that is one element with its slot.\<close>

definition slot :: "string \<Rightarrow> string \<Rightarrow> 'e node list \<Rightarrow> 'e node" where
  "slot tag name cs = El tag [Attr ''data-slot'' (js name)] cs"

definition SidebarProvider :: "'e node list \<Rightarrow> 'e node" where
  "SidebarProvider cs =
     El ''div''
       [Attr ''data-slot'' (js ''sidebar-wrapper''), Attr ''--sidebar-width'' SIDEBAR_WIDTH,
        Attr ''--sidebar-width-icon'' SIDEBAR_WIDTH_ICON] cs"

datatype side = SideLeft | SideRight
datatype variant = VariantSidebar | VariantFloating | VariantInset
datatype collapsible = CollapseOffcanvas | CollapseIcon | CollapseNone

fun side_str :: "side \<Rightarrow> jstr" where
  "side_str SideLeft = js ''left''"
| "side_str SideRight = js ''right''"

fun variant_str :: "variant \<Rightarrow> jstr" where
  "variant_str VariantSidebar = js ''sidebar''"
| "variant_str VariantFloating = js ''floating''"
| "variant_str VariantInset = js ''inset''"

fun collapsible_str :: "collapsible \<Rightarrow> jstr" where
  "collapsible_str CollapseOffcanvas = js ''offcanvas''"
| "collapsible_str CollapseIcon = js ''icon''"
| "collapsible_str CollapseNone = js ''none''"

definition Sidebar ::
  "SidebarContext \<Rightarrow> side \<Rightarrow> variant \<Rightarrow> collapsible \<Rightarrow> (bool \<Rightarrow> 'e) \<Rightarrow> 'e node list \<Rightarrow> 'e node" where
  "Sidebar ctx sd va co setOpenMobile cs =
     (if co = CollapseNone then slot ''div'' ''sidebar'' cs
      else if sc_isMobile ctx
      then El ''Sheet'' [Open (sc_openMobile ctx), OnFlag setOpenMobile]
             [El ''SheetContent''
                [Attr ''data-slot'' (js ''sidebar''), Attr ''data-mobile'' (js ''true''),
                 Attr ''--sidebar-width'' SIDEBAR_WIDTH_MOBILE, Attr ''side'' (side_str sd)]
                [El ''SheetHeader'' []
                   [El ''SheetTitle'' [] [Txt (js ''Sidebar'')],
                    El ''SheetDescription'' [] [Txt (js ''Displays the mobile sidebar.'')]],
                 El ''div'' [] cs]]
      else El ''div''
             [Attr ''data-state'' (sidebar_state_str (sc_state ctx)),
              Attr ''data-collapsible'' (if sc_state ctx = Collapsed then collapsible_str co else []),
              Attr ''data-variant'' (variant_str va), Attr ''data-side'' (side_str sd),
              Attr ''data-slot'' (js ''sidebar'')]
             [slot ''div'' ''sidebar-gap'' [],
              El ''div'' [Attr ''data-slot'' (js ''sidebar-container''), Attr ''data-side'' (side_str sd)]
                [slot ''div'' ''sidebar-inner'' cs]])"

definition SidebarTrigger :: "'e \<Rightarrow> 'e node" where
  "SidebarTrigger toggle =
     El ''button'' [Attr ''data-slot'' (js ''sidebar-trigger''), On toggle] [Txt (js ''Toggle Sidebar'')]"

definition SidebarRail :: "'e \<Rightarrow> 'e node" where
  "SidebarRail toggle =
     El ''button''
       [Attr ''data-slot'' (js ''sidebar-rail''), Attr ''aria-label'' (js ''Toggle Sidebar''),
        Attr ''tabIndex'' (js ''-1''), On toggle, Attr ''title'' (js ''Toggle Sidebar'')] []"

definition SidebarInset :: "'e node list \<Rightarrow> 'e node" where
  "SidebarInset cs = slot ''main'' ''sidebar-inset'' cs"

definition SidebarHeader :: "'e node list \<Rightarrow> 'e node" where
  "SidebarHeader cs = slot ''div'' ''sidebar-header'' cs"

definition SidebarFooter :: "'e node list \<Rightarrow> 'e node" where
  "SidebarFooter cs = slot ''div'' ''sidebar-footer'' cs"

definition SidebarContent :: "'e node list \<Rightarrow> 'e node" where
  "SidebarContent cs = slot ''div'' ''sidebar-content'' cs"

definition SidebarGroup :: "'e node list \<Rightarrow> 'e node" where
  "SidebarGroup cs = slot ''div'' ''sidebar-group'' cs"

definition SidebarGroupLabel :: "'e node list \<Rightarrow> 'e node" where
  "SidebarGroupLabel cs =
     El ''useRender''
       [Attr ''defaultTagName'' (js ''div''), Attr ''slot'' (js ''sidebar-group-label''),
        Attr ''sidebar'' (js ''group-label'')] cs"

definition SidebarGroupContent :: "'e node list \<Rightarrow> 'e node" where
  "SidebarGroupContent cs = slot ''div'' ''sidebar-group-content'' cs"

definition SidebarMenu :: "'e node list \<Rightarrow> 'e node" where
  "SidebarMenu cs = slot ''ul'' ''sidebar-menu'' cs"

definition SidebarMenuItem :: "'e node list \<Rightarrow> 'e node" where
  "SidebarMenuItem cs = slot ''li'' ''sidebar-menu-item'' cs"

text \<open>
  A menu button: \<open>rendering\<close> is the element of its \<^verbatim>\<open>render\<close> prop. With a tooltip it
  is the tooltip's trigger, and the tooltip is hidden unless the sidebar is
  collapsed on a desktop.
\<close>

definition SidebarMenuButton :: "SidebarContext \<Rightarrow> bool \<Rightarrow> jstr \<Rightarrow> jstr option \<Rightarrow> 'e node \<Rightarrow> 'e node" where
  "SidebarMenuButton ctx isActive sz tooltip rendering =
     (let comp = (\<lambda>r. El ''useRender''
            [Attr ''defaultTagName'' (js ''button''), Attr ''slot'' (js ''sidebar-menu-button''),
             Attr ''sidebar'' (js ''menu-button''), Attr ''size'' sz, Attr ''active'' (bool_str isActive)] [r])
      in case tooltip of
           None \<Rightarrow> comp rendering
         | Some t \<Rightarrow>
             if t = [] then comp rendering
             else El ''Tooltip'' []
                    [comp (El ''TooltipTrigger'' [] [rendering]),
                     El ''TooltipContent''
                       [Attr ''hidden'' (bool_str (sc_state ctx \<noteq> Collapsed \<or> sc_isMobile ctx))] [Txt t]])"

section \<open>Parts the layout does not use\<close>

definition SidebarInput :: "'e node" where
  "SidebarInput = slot ''input'' ''sidebar-input'' []"

definition SidebarSeparator :: "'e node" where
  "SidebarSeparator = slot ''Separator'' ''sidebar-separator'' []"

definition SidebarGroupAction :: "'e attr list \<Rightarrow> 'e node list \<Rightarrow> 'e node" where
  "SidebarGroupAction props cs =
     El ''useRender''
       ([Attr ''defaultTagName'' (js ''button''), Attr ''slot'' (js ''sidebar-group-action''),
         Attr ''sidebar'' (js ''group-action'')] @ props) cs"

definition SidebarMenuAction :: "'e attr list \<Rightarrow> 'e node list \<Rightarrow> 'e node" where
  "SidebarMenuAction props cs =
     El ''useRender''
       ([Attr ''defaultTagName'' (js ''button''), Attr ''slot'' (js ''sidebar-menu-action''),
         Attr ''sidebar'' (js ''menu-action'')] @ props) cs"

definition SidebarMenuBadge :: "'e node list \<Rightarrow> 'e node" where
  "SidebarMenuBadge cs = slot ''div'' ''sidebar-menu-badge'' cs"

text \<open>
  \<open>drawn\<close> is \<^verbatim>\<open>Math.floor(Math.random() * 40)\<close>, drawn once per mount.
\<close>

definition skeleton_width :: "nat \<Rightarrow> jstr" where
  "skeleton_width drawn = nat_str (drawn + 50) @ js ''%''"

definition SidebarMenuSkeleton :: "nat \<Rightarrow> bool \<Rightarrow> 'e node" where
  "SidebarMenuSkeleton drawn showIcon =
     slot ''div'' ''sidebar-menu-skeleton''
       (show_if showIcon (El ''Skeleton'' [Attr ''data-sidebar'' (js ''menu-skeleton-icon'')] [])
        @ [El ''Skeleton''
             [Attr ''data-sidebar'' (js ''menu-skeleton-text''), Attr ''--skeleton-width'' (skeleton_width drawn)] []])"

definition SidebarMenuSub :: "'e node list \<Rightarrow> 'e node" where
  "SidebarMenuSub cs = slot ''ul'' ''sidebar-menu-sub'' cs"

definition SidebarMenuSubItem :: "'e node list \<Rightarrow> 'e node" where
  "SidebarMenuSubItem cs = slot ''li'' ''sidebar-menu-sub-item'' cs"

definition SidebarMenuSubButton :: "jstr \<Rightarrow> bool \<Rightarrow> 'e attr list \<Rightarrow> 'e node list \<Rightarrow> 'e node" where
  "SidebarMenuSubButton sz isActive props cs =
     El ''useRender''
       ([Attr ''defaultTagName'' (js ''a''), Attr ''slot'' (js ''sidebar-menu-sub-button''),
         Attr ''sidebar'' (js ''menu-sub-button''), Attr ''size'' sz, Attr ''active'' (bool_str isActive)] @ props) cs"

section \<open>What the parts offer\<close>

lemma offers_slot [simp]: "offers (slot tag name cs) e \<longleftrightarrow> list_ex (\<lambda>c. offers c e) cs"
  by (simp add: slot_def)

lemma offers_sidebar_parts [simp]:
  "offers (SidebarProvider cs) e \<longleftrightarrow> list_ex (\<lambda>c. offers c e) cs"
  "offers (SidebarTrigger t) e \<longleftrightarrow> e = t"
  "offers (SidebarRail t) e \<longleftrightarrow> e = t"
  "offers (SidebarInset cs) e \<longleftrightarrow> list_ex (\<lambda>c. offers c e) cs"
  "offers (SidebarHeader cs) e \<longleftrightarrow> list_ex (\<lambda>c. offers c e) cs"
  "offers (SidebarFooter cs) e \<longleftrightarrow> list_ex (\<lambda>c. offers c e) cs"
  "offers (SidebarContent cs) e \<longleftrightarrow> list_ex (\<lambda>c. offers c e) cs"
  "offers (SidebarGroup cs) e \<longleftrightarrow> list_ex (\<lambda>c. offers c e) cs"
  "offers (SidebarGroupLabel cs) e \<longleftrightarrow> list_ex (\<lambda>c. offers c e) cs"
  "offers (SidebarGroupContent cs) e \<longleftrightarrow> list_ex (\<lambda>c. offers c e) cs"
  "offers (SidebarMenu cs) e \<longleftrightarrow> list_ex (\<lambda>c. offers c e) cs"
  "offers (SidebarMenuItem cs) e \<longleftrightarrow> list_ex (\<lambda>c. offers c e) cs"
  "offers (SidebarMenuButton ctx act sz tip r) e \<longleftrightarrow> offers r e"
  by (auto simp: SidebarProvider_def SidebarTrigger_def SidebarRail_def SidebarInset_def SidebarHeader_def
      SidebarFooter_def SidebarContent_def SidebarGroup_def SidebarGroupLabel_def SidebarGroupContent_def
      SidebarMenu_def SidebarMenuItem_def SidebarMenuButton_def Let_def split: option.split)

text \<open>On a phone the whole sidebar is behind its sheet.\<close>

lemma offers_Sidebar:
  "offers (Sidebar ctx sd va co f cs) e \<longleftrightarrow>
     (if co \<noteq> CollapseNone \<and> sc_isMobile ctx
      then sc_openMobile ctx \<and> ((\<exists>b. e = f b) \<or> list_ex (\<lambda>c. offers c e) cs)
      else list_ex (\<lambda>c. offers c e) cs)"
  by (auto simp: Sidebar_def)

end
