(* ===== verification/AdminShell.thy ===== *)
theory AdminShell
  imports SiteProvider Sidebar
begin

text \<open>
  The shell around the admin pages: the route table of web/src/App.tsx, the
  login page web/src/pages/admin/login.tsx and the layout
  web/src/layouts/admin-layout.tsx with its session check, menu and titles around
  the sidebar. Which route matches a location is decided by the router library;
  the table is what the source gives it.
\<close>

section \<open>Routes\<close>

datatype page =
    PRedeem | PLogin | PDashboard | PBatches | PBatchNew | PBatchDetail | PLogs | PFaq | PCredentials | PSettings

definition admin_routes :: "(string \<times> page) list" where
  "admin_routes =
     [('''', PDashboard), (''batches'', PBatches), (''batches/new'', PBatchNew), (''batches/:id'', PBatchDetail),
      (''logs'', PLogs), (''faq'', PFaq), (''credentials'', PCredentials), (''settings'', PSettings)]"

definition top_routes :: "(string \<times> page) list" where
  "top_routes = [(''/'', PRedeem), (''/admin/login'', PLogin)]"

definition fallback_route :: string where
  "fallback_route = ''/''"

definition RouteFallback :: "'e node" where
  "RouteFallback = El ''div'' [Attr ''aria-label'' msg_al_page_loading] []"

section \<open>The login page\<close>

datatype login_call = LoginCall jstr jstr

record login_page = "login_call base" +
  lo_username :: jstr
  lo_password :: jstr
  lo_loading :: bool
  lo_error :: "jstr option"

definition lo_init :: login_page where
  "lo_init = \<lparr>pend = [], log = [], lo_username = [], lo_password = [], lo_loading = False, lo_error = None\<rparr>"

text \<open>\<^verbatim>\<open>location.state?.from || "/admin"\<close>\<close>

definition login_target :: "jstr option \<Rightarrow> jstr" where
  "login_target from_state = js_or from_state (js ''/admin'')"

definition lo_handleSubmit :: "login_page \<Rightarrow> login_page" where
  "lo_handleSubmit s =
     (if lo_username s = [] \<or> lo_password s = [] then s\<lparr>lo_error := Some msg_al_need_both\<rparr>
      else call (LoginCall (lo_username s) (lo_password s)) (s\<lparr>lo_loading := True, lo_error := None\<rparr>))"

definition lo_done :: "jstr option \<Rightarrow> unit res \<Rightarrow> login_page \<Rightarrow> login_page" where
  "lo_done from_state r s =
     (case r of
        Inr _ \<Rightarrow> emit (Navigate (login_target from_state) True) s
      | Inl e \<Rightarrow> s\<lparr>lo_error := Some (message_if_api msg_al_network e)\<rparr>)\<lparr>lo_loading := False\<rparr>"

datatype login_event = EditUsername jstr | EditPassword jstr | SubmitLogin | LoginLogoFailed jstr

definition lo_view :: "SiteSettings \<Rightarrow> login_page \<Rightarrow> login_event node" where
  "lo_view settings s =
     El ''Card'' []
       ([SiteLogo settings None [] LoginLogoFailed,
         El ''CardTitle'' [] [Txt (ss_site_title settings)],
         El ''CardDescription'' [] [Txt msg_al_login_hint],
         El ''label'' [] [Txt msg_al_username],
         El ''input'' [Attr ''value'' (lo_username s), OnValue EditUsername] [],
         El ''label'' [] [Txt msg_al_password],
         El ''input'' [Attr ''value'' (lo_password s), OnValue EditPassword] []]
        @ show_if (truthy (map_option JStr (lo_error s)))
            (El ''Alert'' [] [Txt msg_al_login_failed, Txt (the (lo_error s))])
        @ [button [Disabled (lo_loading s), On SubmitLogin] msg_al_sign_in])"

fun lo_handle :: "unit \<Rightarrow> login_event \<Rightarrow> login_page \<Rightarrow> login_page" where
  "lo_handle env (EditUsername v) s = s\<lparr>lo_username := v\<rparr>"
| "lo_handle env (EditPassword v) s = s\<lparr>lo_password := v\<rparr>"
| "lo_handle env SubmitLogin s = lo_handleSubmit s"
| "lo_handle env (LoginLogoFailed u) s = s"

fun lo_settle :: "jstr option \<Rightarrow> unit \<Rightarrow> login_call \<Rightarrow> unit res \<Rightarrow> login_page \<Rightarrow> login_page option" where
  "lo_settle from_state env (LoginCall u p) r s = Some (lo_done from_state r s)"

definition lo_offered :: "SiteSettings \<Rightarrow> login_page \<Rightarrow> login_event \<Rightarrow> bool" where
  "lo_offered settings s e \<longleftrightarrow> \<not> left_page s \<and> offers (lo_view settings s) e"

abbreviation lo_step :: "SiteSettings \<Rightarrow> jstr option \<Rightarrow> login_page \<Rightarrow> login_page \<Rightarrow> bool" where
  "lo_step settings from_state \<equiv> page_step (lo_offered settings) lo_handle (lo_settle from_state)"

section \<open>The layout\<close>

record nav_item =
  ni_title :: jstr
  ni_url :: jstr
  ni_end :: bool

definition NAV_ITEMS :: "nav_item list" where
  "NAV_ITEMS =
     [\<lparr>ni_title = msg_al_dashboard, ni_url = js ''/admin'', ni_end = True\<rparr>,
      \<lparr>ni_title = msg_al_batches, ni_url = js ''/admin/batches'', ni_end = False\<rparr>,
      \<lparr>ni_title = msg_al_credentials, ni_url = js ''/admin/credentials'', ni_end = False\<rparr>,
      \<lparr>ni_title = msg_al_logs, ni_url = js ''/admin/logs'', ni_end = False\<rparr>,
      \<lparr>ni_title = msg_al_faq, ni_url = js ''/admin/faq'', ni_end = False\<rparr>,
      \<lparr>ni_title = msg_al_settings, ni_url = js ''/admin/settings'', ni_end = False\<rparr>]"

text \<open>\<^verbatim>\<open>/^prefix/\<close>, and the two patterns that say more.\<close>

definition starts_re :: "string \<Rightarrow> regex" where
  "starts_re p = RSeq RBegin (RLit (js p))"

definition PAGE_TITLES :: "(regex \<times> jstr) list" where
  "PAGE_TITLES =
     [(RSeq RBegin (RSeq (RLit (js ''/admin'')) (RSeq (ROpt (RChr 47)) REnd)), msg_al_dashboard),
      (starts_re ''/admin/batches/new'', msg_al_new_batch),
      (RSeq RBegin (RSeq (RLit (js ''/admin/batches/'')) (RPlus (RSet False [CDigit]))), msg_al_batch),
      (starts_re ''/admin/batches'', msg_al_batches),
      (starts_re ''/admin/credentials'', msg_al_credentials),
      (starts_re ''/admin/logs'', msg_al_logs),
      (starts_re ''/admin/faq'', msg_al_faq),
      (starts_re ''/admin/settings'', msg_al_settings)]"

fun first_title :: "(regex \<times> jstr) list \<Rightarrow> jstr \<Rightarrow> jstr" where
  "first_title [] pathname = msg_al_admin"
| "first_title ((re, title) # later) pathname = (if regex_test re pathname then title else first_title later pathname)"

definition currentTitle :: "jstr \<Rightarrow> jstr" where
  "currentTitle pathname = first_title PAGE_TITLES pathname"

definition nav_active :: "jstr \<Rightarrow> nav_item \<Rightarrow> bool" where
  "nav_active pathname item =
     (if ni_end item then pathname = ni_url item \<or> pathname = ni_url item @ js ''/''
      else js_startsWith pathname (ni_url item))"

datatype auth = AuthLoading | AuthOk | AuthNo

datatype layout_call = LMe | LLogout

record layout = "layout_call base" +
  la_auth :: auth

definition la_init :: layout where
  "la_init = call LMe \<lparr>pend = [], log = [], la_auth = AuthLoading\<rparr>"

definition me_done :: "(js_error \<Rightarrow> jstr) \<Rightarrow> unit res \<Rightarrow> layout \<Rightarrow> layout" where
  "me_done em r s = (case r of
     Inr _ \<Rightarrow> s\<lparr>la_auth := AuthOk\<rparr>
   | Inl e \<Rightarrow>
       (case e of
          ApiErr m st errs \<Rightarrow>
            if st = 401 then s\<lparr>la_auth := AuthNo\<rparr> else (emit (ToastError (err_message em e)) s)\<lparr>la_auth := AuthNo\<rparr>
        | _ \<Rightarrow> (emit (ToastError (err_message em e)) s)\<lparr>la_auth := AuthNo\<rparr>))"

definition handleLogout :: "layout \<Rightarrow> layout" where
  "handleLogout s = call LLogout s"

text \<open>The \<^verbatim>\<open>finally\<close> navigates whatever the request answered.\<close>

definition logout_done :: "unit res \<Rightarrow> layout \<Rightarrow> layout" where
  "logout_done r s = emit (Navigate (js ''/admin/login'') True) s"

datatype 'e shell_event = Logout | SetTheme jstr | LayoutLogoFailed jstr | Side sidebar_event | InPage 'e

fun lift_node :: "'e node \<Rightarrow> 'e shell_event node" where
  "lift_node (Txt t) = Txt t"
| "lift_node (El tag ps cs) =
     El tag
       (map (\<lambda>p. case p of
          Disabled b \<Rightarrow> Disabled b | Open b \<Rightarrow> Open b | Inert b \<Rightarrow> Inert b | On e \<Rightarrow> On (InPage e)
        | OnValue f \<Rightarrow> OnValue (InPage \<circ> f) | OnText n f \<Rightarrow> OnText n (InPage \<circ> f)
        | OnFlag f \<Rightarrow> OnFlag (InPage \<circ> f) | OnFile f \<Rightarrow> OnFile (InPage \<circ> f) | Attr a v \<Rightarrow> Attr a v) ps)
       (map lift_node cs)"

definition nav_view :: "SidebarContext \<Rightarrow> jstr \<Rightarrow> 'e shell_event node" where
  "nav_view ctx pathname =
     SidebarMenu
       (map (\<lambda>item. SidebarMenuItem
          [SidebarMenuButton ctx (nav_active pathname item) (js ''default'') (Some (ni_title item))
             (Link (ni_url item) (ni_title item))]) NAV_ITEMS)"

text \<open>
  What the view reads beside the layout's own state: the site settings, the theme,
  the location, the address of the logo that failed to load, and the sidebar.
\<close>

record layout_ctx =
  lv_settings :: SiteSettings
  lv_theme :: jstr
  lv_pathname :: jstr
  lv_failedUrl :: "jstr option"
  lv_sidebar :: sidebar

text \<open>\<^verbatim>\<open><SidebarProvider>\<close> without props.\<close>

definition layout_sidebar :: sidebar_props where
  "layout_sidebar = \<lparr>sp_defaultOpen = True, sp_open = None, sp_onOpenChange = False\<rparr>"

definition sidebar_view :: "layout_ctx \<Rightarrow> 'e shell_event node" where
  "sidebar_view v =
     (let ctx = contextValue layout_sidebar (lv_sidebar v) in
      Sidebar ctx SideLeft VariantSidebar CollapseIcon (\<lambda>b. Side (SheetChange b))
        [SidebarHeader
           [SidebarMenu
              [SidebarMenuItem
                 [SidebarMenuButton ctx False (js ''lg'') None
                    (El ''a'' [Attr ''href'' (js ''/admin'')]
                       [SiteLogo (lv_settings v) (lv_failedUrl v) [] LayoutLogoFailed,
                        Txt (ss_site_title (lv_settings v)), Txt msg_al_admin])]]],
         SidebarContent
           [SidebarGroup
              [SidebarGroupLabel [Txt msg_al_menu],
               SidebarGroupContent [nav_view ctx (lv_pathname v)]]],
         SidebarFooter
           [SidebarMenu
              [SidebarMenuItem
                 [SidebarMenuButton ctx False (js ''default'') (Some msg_al_open_redeem_page)
                    (Link (js ''/'') msg_al_redeem_page)]]],
         SidebarRail (Side ToggleClick)])"

definition header_view :: "layout_ctx \<Rightarrow> 'e shell_event node" where
  "header_view v =
     El ''header'' []
       [SidebarTrigger (Side ToggleClick),
        El ''span'' [] [Txt (currentTitle (lv_pathname v))],
        ThemeToggle (lv_theme v) SetTheme,
        El ''DropdownMenu'' []
          [El ''DropdownMenuTrigger'' [] [Txt msg_al_user_menu],
           El ''DropdownMenuLabel'' [] [Txt msg_al_administrator],
           El ''DropdownMenuItem'' [On Logout] [Txt msg_al_logout]]]"

text \<open>
  \<open>outlet\<close> is the page of the matched route; \<open>Navigate\<close> to the login page carries
  the location as \<^verbatim>\<open>state.from\<close>.
\<close>

definition la_view :: "layout_ctx \<Rightarrow> 'e node \<Rightarrow> layout \<Rightarrow> 'e shell_event node" where
  "la_view v outlet s = (case la_auth s of
     AuthNo \<Rightarrow> El ''Navigate'' [Attr ''to'' (js ''/admin/login''), Attr ''from'' (lv_pathname v)] []
   | AuthLoading \<Rightarrow> El ''div'' [] [El ''Skeleton'' [] [], El ''Skeleton'' [] []]
   | AuthOk \<Rightarrow>
       SidebarProvider
         [sidebar_view v,
          SidebarInset [header_view v, El ''main'' [] [lift_node outlet]]])"

text \<open>What the layout itself does with an event; the events of the page are the page's.\<close>

record la_env = lae_text :: "js_error \<Rightarrow> jstr"

fun la_handle :: "la_env \<Rightarrow> 'e shell_event \<Rightarrow> layout \<Rightarrow> layout" where
  "la_handle env Logout s = handleLogout s"
| "la_handle env (SetTheme t) s = s"
| "la_handle env (LayoutLogoFailed u) s = s"
| "la_handle env (Side e) s = s"
| "la_handle env (InPage e) s = s"

fun la_settle :: "la_env \<Rightarrow> layout_call \<Rightarrow> unit res \<Rightarrow> layout \<Rightarrow> layout option" where
  "la_settle env LMe r s = Some (me_done (lae_text env) r s)"
| "la_settle env LLogout r s = Some (logout_done r s)"

end
