(* ===== verification/AdminShellProofs.thy ===== *)
theory AdminShellProofs
  imports AdminShell
begin

text \<open>
  The layout guards the admin pages and knows their titles; the login page sends
  one request at a time and leads back to where the visitor wanted to go.
\<close>

lemma login_page_frame [simp]:
  "lo_username (emit e s) = lo_username s"
  "lo_password (emit e s) = lo_password s"
  "lo_loading (emit e s) = lo_loading s"
  "lo_error (emit e s) = lo_error s"
  "lo_username (call c s) = lo_username s"
  "lo_password (call c s) = lo_password s"
  "lo_loading (call c s) = lo_loading s"
  "lo_error (call c s) = lo_error s"
  "lo_username (settled c s) = lo_username s"
  "lo_password (settled c s) = lo_password s"
  "lo_loading (settled c s) = lo_loading s"
  "lo_error (settled c s) = lo_error s"
  "lo_username (emits es s) = lo_username s"
  "lo_password (emits es s) = lo_password s"
  "lo_loading (emits es s) = lo_loading s"
  "lo_error (emits es s) = lo_error s"
  by (simp_all add: base_ops emits_frame)

lemma layout_frame [simp]:
  "la_auth (emit e s) = la_auth s"
  "la_auth (call c s) = la_auth s"
  "la_auth (settled c s) = la_auth s"
  "la_auth (emits es s) = la_auth s"
  by (simp_all add: base_ops emits_frame)

section \<open>Menu and titles\<close>

lemma starts_prefix: "js_startsWith s p \<longleftrightarrow> prefix p s"
  unfolding js_startsWith_def by (metis append_eq_conv_conj prefix_def append_take_drop_id)

lemma currentTitle_starts: "regex_test (starts_re p) s \<longleftrightarrow> prefix (js p) s"
  by (simp add: starts_re_def regex_test_begin_lit starts_prefix)

definition nav_urls :: "jstr list" where
  "nav_urls = map ni_url (tl NAV_ITEMS)"

lemma nav_urls_apart: "\<forall>u \<in> set nav_urls. \<forall>v \<in> set nav_urls. prefix u v \<longrightarrow> u = v"
  by code_simp

lemma nav_home_apart: "\<forall>u \<in> set nav_urls. \<not> prefix u (js ''/admin'') \<and> \<not> prefix u (js ''/admin'' @ js ''/'')"
  by code_simp

lemma nav_items: "set NAV_ITEMS = insert (hd NAV_ITEMS) (set (tl NAV_ITEMS))" "ni_end (hd NAV_ITEMS)"
  "ni_url (hd NAV_ITEMS) = js ''/admin''" "\<forall>i \<in> set (tl NAV_ITEMS). \<not> ni_end i" "distinct (map ni_url NAV_ITEMS)"
  by (simp_all add: NAV_ITEMS_def del: js_Cons) code_simp

lemma nav_unique:
  assumes "i \<in> set NAV_ITEMS" "j \<in> set NAV_ITEMS" "nav_active p i" "nav_active p j"
  shows "i = j"
proof -
  have key: "ni_url x = ni_url y \<Longrightarrow> x \<in> set NAV_ITEMS \<Longrightarrow> y \<in> set NAV_ITEMS \<Longrightarrow> x = y" for x y
    using nav_items(5) unfolding distinct_map by (blast dest: inj_onD)
  have tail: "prefix (ni_url x) p \<and> ni_url x \<in> set nav_urls" if "x \<in> set (tl NAV_ITEMS)" "nav_active p x" for x
    using that nav_items(4) by (auto simp: nav_active_def starts_prefix nav_urls_def)
  have home: "p = js ''/admin'' \<or> p = js ''/admin'' @ js ''/''" if "nav_active p (hd NAV_ITEMS)"
    using that nav_items(2,3) by (simp add: nav_active_def del: js_Cons)
  have no: False if "x \<in> set (tl NAV_ITEMS)" "nav_active p x" "nav_active p (hd NAV_ITEMS)" for x
    using tail [OF that(1,2)] home [OF that(3)] nav_home_apart by blast
  have two: "x = y" if "x \<in> set (tl NAV_ITEMS)" "y \<in> set (tl NAV_ITEMS)" "nav_active p x" "nav_active p y" for x y
  proof -
    note x = tail [OF that(1,3)] and y = tail [OF that(2,4)]
    have "prefix (ni_url x) (ni_url y) \<or> prefix (ni_url y) (ni_url x)"
      using prefix_same_cases x y by blast
    then have e: "ni_url x = ni_url y"
      using x y nav_urls_apart by metis
    have "x \<in> set NAV_ITEMS" "y \<in> set NAV_ITEMS"
      unfolding nav_items(1) using that(1,2) by simp_all
    then show ?thesis by (rule key [OF e])
  qed
  have m: "x = hd NAV_ITEMS \<or> x \<in> set (tl NAV_ITEMS)" if "x \<in> set NAV_ITEMS" for x
    using that unfolding nav_items(1) by simp
  from m [OF assms(1)] m [OF assms(2)] show ?thesis
  proof (elim disjE)
    assume "i = hd NAV_ITEMS" "j = hd NAV_ITEMS"
    then show ?thesis by simp
  next
    assume "i = hd NAV_ITEMS" "j \<in> set (tl NAV_ITEMS)"
    then show ?thesis using no [of j] assms(3,4) by simp
  next
    assume "i \<in> set (tl NAV_ITEMS)" "j = hd NAV_ITEMS"
    then show ?thesis using no [of i] assms(3,4) by simp
  next
    assume "i \<in> set (tl NAV_ITEMS)" "j \<in> set (tl NAV_ITEMS)"
    then show ?thesis by (rule two [OF _ _ assms(3,4)])
  qed
qed

lemma nav_titles: "\<forall>i \<in> set NAV_ITEMS. nav_active (ni_url i) i \<and> currentTitle (ni_url i) = ni_title i"
  by code_simp

section \<open>The guard\<close>

lemma offers_lift: "offers (lift_node n) (InPage e) \<longleftrightarrow> offers n e"
proof (induction n)
  case (El tag ps cs)
  let ?l = "\<lambda>p. case p of
          Disabled b \<Rightarrow> Disabled b | Open b \<Rightarrow> Open b | Inert b \<Rightarrow> Inert b | On e \<Rightarrow> On (InPage e)
        | OnValue f \<Rightarrow> OnValue (InPage \<circ> f) | OnText n f \<Rightarrow> OnText n (InPage \<circ> f)
        | OnFlag f \<Rightarrow> OnFlag (InPage \<circ> f) | OnFile f \<Rightarrow> OnFile (InPage \<circ> f) | Attr a v \<Rightarrow> Attr a v"
  have "closed (map ?l ps) = closed ps" "inert (map ?l ps) = inert ps" "blocked (map ?l ps) = blocked ps"
    "list_ex (\<lambda>p. fires p (InPage e)) (map ?l ps) = list_ex (\<lambda>p. fires p e) ps"
    by (induction ps) (auto split: attr.split)
  moreover have "list_ex (\<lambda>c. offers c (InPage e)) (map lift_node cs) = list_ex (\<lambda>c. offers c e) cs"
    using El by (auto simp: list_ex_iff)
  ultimately show ?case by simp
qed simp

lemma offers_nav_view [simp]: "\<not> offers (nav_view ctx p) e"
  by (auto simp: nav_view_def list_ex_map_iff)

lemma offers_sidebar_view:
  "offers (sidebar_view v) e \<Longrightarrow> e \<in> range Side \<union> range LayoutLogoFailed"
  by (auto simp: sidebar_view_def Let_def offers_Sidebar SiteLogo_def split: if_splits)

lemma offers_header_view:
  "offers (header_view v) e \<longleftrightarrow>
     e = Side ToggleClick \<or> e = Logout
     \<or> e = SetTheme (if lv_theme v \<noteq> js ''light'' then js ''light'' else js ''dark'')"
  by (auto simp: header_view_def ThemeToggle_def Let_def)

lemma offers_la_view:
  "offers (la_view v outlet s) (InPage e) \<longleftrightarrow> la_auth s = AuthOk \<and> offers outlet e"
  using offers_sidebar_view [of v "InPage e"]
  by (auto simp: la_view_def offers_header_view offers_lift split: auth.split)

lemma la_view_closed: "la_auth s \<noteq> AuthOk \<Longrightarrow> \<not> offers (la_view v outlet s) e"
  by (cases "la_auth s") (auto simp: la_view_def)

definition la_offered :: "layout_ctx \<Rightarrow> 'e node \<Rightarrow> layout \<Rightarrow> 'e shell_event \<Rightarrow> bool" where
  "la_offered v outlet s e \<longleftrightarrow> \<not> left_page s \<and> offers (la_view v outlet s) e"

definition la_inv :: "layout \<Rightarrow> bool" where
  "la_inv s \<longleftrightarrow> (la_auth s = AuthLoading \<longleftrightarrow> LMe \<in> set (pend s)) \<and> length (filter (\<lambda>c. c = LMe) (pend s)) \<le> 1"

lemma la_inv_settle:
  assumes "la_inv s" "c \<in> set (pend s)" "la_settle env c r (settled c s) = Some t"
  shows "la_inv t"
proof (cases c)
  case LMe
  have "LMe \<notin> set (remove1 LMe (pend s))"
    using assms(1) remove1_single [of LMe "pend s"] by (simp add: la_inv_def)
  moreover from this have "filter (\<lambda>c. c = LMe) (remove1 LMe (pend s)) = []"
    by (auto simp: filter_empty_conv)
  ultimately show ?thesis
    using assms(3) LMe
    by (auto simp: la_inv_def me_done_def split: sum.splits js_error.splits if_splits)
next
  case LLogout
  then have "t = emit (Navigate (js ''/admin/login'') True) (settled LLogout s)"
    using assms(3) by (simp add: logout_done_def del: js_Cons)
  then show ?thesis
    using assms(1) length_filter_remove1_le [of "\<lambda>c. c = LMe" LLogout "pend s"]
    by (auto simp: la_inv_def dest: in_remove1)
qed

interpretation la: page_system "\<lambda>s. s = la_init" "la_offered v outlet" la_handle la_settle la_inv
  for v and outlet :: "'e node"
proof unfold_locales
  show "s = la_init \<Longrightarrow> la_inv s" for s
    by (simp add: la_init_def la_inv_def)
  show "la_inv s \<Longrightarrow> la_offered v outlet s e \<Longrightarrow> la_inv (la_handle env e s)" for s and e :: "'e shell_event" and env
    by (cases e) (auto simp: la_inv_def handleLogout_def)
qed (rule la_inv_settle)

abbreviation la_step :: "layout_ctx \<Rightarrow> 'e node \<Rightarrow> layout \<Rightarrow> layout \<Rightarrow> bool" where
  "la_step v outlet \<equiv> page_step (la_offered v outlet) la_handle la_settle"

text \<open>What the layout shows before anything is known.\<close>

definition opening_ctx :: "jstr \<Rightarrow> layout_ctx" where
  "opening_ctx pathname =
     \<lparr>lv_settings = DEFAULT_SITE_SETTINGS, lv_theme = js ''dark'', lv_pathname = pathname,
      lv_failedUrl = None, lv_sidebar = sidebar_mount layout_sidebar\<rparr>"

text \<open>C30: No admin page can be used before the server has confirmed the session: in
  every reachable state of the layout the controls of the page inside it are
  offered exactly when the check succeeded, and all of them; until then nothing
  at all is offered. The check is never stuck: while the layout is loading its
  request is under way, and every answer decides, success alone opening the
  page. The menu marks at most one entry, and the page an entry leads to is
  marked and has the entry's title.\<close>

theorem admin_pages_guarded:
  assumes "(la_step v outlet)\<^sup>*\<^sup>* la_init s"
  shows "(\<forall>e. offers (la_view v outlet s) (InPage e) \<longleftrightarrow> la_auth s = AuthOk \<and> offers outlet e)
    \<and> (\<forall>e. offers (la_view v outlet s) e \<longrightarrow> la_auth s = AuthOk)
    \<and> (la_auth s = AuthLoading \<longleftrightarrow> LMe \<in> set (pend s))
    \<and> (\<forall>env r t. la_settle env LMe r (settled LMe s) = Some t \<longrightarrow> la_auth t = (if \<exists>u. r = Inr u then AuthOk else AuthNo))
    \<and> (\<forall>i \<in> set NAV_ITEMS. \<forall>j \<in> set NAV_ITEMS. nav_active (lv_pathname v) i \<and> nav_active (lv_pathname v) j \<longrightarrow> i = j)
    \<and> (\<forall>i \<in> set NAV_ITEMS. nav_active (ni_url i) i \<and> currentTitle (ni_url i) = ni_title i)"
proof -
  have "la_inv s"
    using la.reachable_inv [OF refl assms] .
  then have "la_auth s = AuthLoading \<longleftrightarrow> LMe \<in> set (pend s)"
    by (simp add: la_inv_def)
  moreover have "la_auth t = (if \<exists>u. r = Inr u then AuthOk else AuthNo)"
    if "la_settle env LMe r (settled LMe s) = Some t" for env r t
    using that by (auto simp: me_done_def split: sum.splits js_error.splits if_splits)
  moreover have "\<forall>e. offers (la_view v outlet s) e \<longrightarrow> la_auth s = AuthOk"
    using la_view_closed by metis
  moreover have "\<forall>i \<in> set NAV_ITEMS. \<forall>j \<in> set NAV_ITEMS. nav_active (lv_pathname v) i \<and> nav_active (lv_pathname v) j \<longrightarrow> i = j"
    by (intro ballI impI, elim conjE) (rule nav_unique)
  moreover have "\<forall>e. offers (la_view v outlet s) (InPage e) \<longleftrightarrow> la_auth s = AuthOk \<and> offers outlet e"
    by (simp add: offers_la_view)
  ultimately show ?thesis
    using nav_titles by (intro conjI allI impI) (assumption | blast)+
qed

text \<open>C30 on the layout as it opens, around a page with one button.\<close>

theorem admin_pages_guarded_witness:
  "LMe \<in> set (pend la_init)
   \<and> \<not> offers (la_view (opening_ctx (js ''/admin'')) (El ''button'' [On True] []) la_init) (InPage True)
   \<and> offers (El ''button'' [On True] []) True"
proof -
  have a: "la_auth la_init = AuthLoading"
    by (simp add: la_init_def)
  note g = admin_pages_guarded [OF rtranclp.rtrancl_refl, of "opening_ctx (js ''/admin'')" "El ''button'' [On True] []"]
  have "LMe \<in> set (pend la_init)"
    using g a by blast
  moreover have "\<not> offers (la_view (opening_ctx (js ''/admin'')) (El ''button'' [On True] []) la_init) (InPage True)"
    using g a by (metis auth.distinct(1))
  ultimately show ?thesis by simp
qed

section \<open>Login\<close>

definition lo_inv :: "jstr option \<Rightarrow> login_page \<Rightarrow> bool" where
  "lo_inv from_state s \<longleftrightarrow>
     one_call (\<lambda>_. True) (lo_loading s) (pend s)
     \<and> (\<forall>u p. LoginCall u p \<in> set (pend s) \<longrightarrow> u \<noteq> [] \<and> p \<noteq> [])
     \<and> log s \<in> {[], [Navigate (login_target from_state) True]} \<and> (log s \<noteq> [] \<longrightarrow> \<not> lo_loading s)"

lemma lo_one: "one_call (\<lambda>_. True) b cs \<longleftrightarrow> length cs = (if b then 1 else 0)"
  by (simp add: one_call_def)

lemma lo_inv_settle:
  assumes "lo_inv fs s" "c \<in> set (pend s)" "lo_settle fs env c r (settled c s) = Some t"
  shows "lo_inv fs t"
proof -
  have p: "pend s = [c]" "lo_loading s" "log s = []"
    using assms(1,2) by (auto simp: lo_inv_def lo_one length_Suc_conv split: if_splits)
  then show ?thesis
    using assms(3) by (cases c) (auto simp: lo_inv_def lo_one lo_done_def split: sum.splits)
qed

lemma offers_login: "offers (lo_view settings s) SubmitLogin \<Longrightarrow> \<not> lo_loading s"
  by (auto simp: lo_view_def SiteLogo_def split: if_splits)

lemma lo_inv_handle:
  assumes "lo_inv fs s" "lo_offered settings s e"
  shows "lo_inv fs (lo_handle env e s)"
proof (cases e)
  case SubmitLogin
  then have "\<not> lo_loading s" "log s = []"
    using assms offers_login [of settings s] by (auto simp: lo_inv_def lo_offered_def left_page_def)
  then show ?thesis
    using assms(1) SubmitLogin by (auto simp: lo_inv_def lo_one lo_handleSubmit_def)
qed (use assms in \<open>simp_all add: lo_inv_def\<close>)

interpretation lo: page_system "\<lambda>s. s = lo_init" "lo_offered settings" lo_handle "lo_settle fs" "lo_inv fs"
  for settings fs
proof unfold_locales
  show "s = lo_init \<Longrightarrow> lo_inv fs s" for s
    by (simp add: lo_init_def lo_inv_def lo_one)
qed (auto intro: lo_inv_handle lo_inv_settle)

text \<open>C34: The login page sends at most one login at a time, exactly while it is loading
  and never with an empty name or password; whatever it does, it leaves only by
  a success, once, and to the page the visitor came from (the dashboard without
  one). And a login under way always ends: success leads there, any failure
  gives the form back.\<close>

theorem login_returns:
  assumes "(lo_step settings from_state)\<^sup>*\<^sup>* lo_init s"
  shows "length (pend s) = (if lo_loading s then 1 else 0)
    \<and> (\<forall>u p. LoginCall u p \<in> set (pend s) \<longrightarrow> u \<noteq> [] \<and> p \<noteq> [])
    \<and> log s \<in> {[], [Navigate (login_target from_state) True]}
    \<and> (\<forall>c r t. c \<in> set (pend s) \<and> lo_settle from_state () c r (settled c s) = Some t \<longrightarrow>
         \<not> lo_loading t \<and> pend t = []
         \<and> log t = (if \<exists>u. r = Inr u then [Navigate (login_target from_state) True] else []))"
proof -
  have i: "lo_inv from_state s"
    using lo.reachable_inv [OF refl assms] .
  have "\<not> lo_loading t \<and> pend t = []
         \<and> log t = (if \<exists>u. r = Inr u then [Navigate (login_target from_state) True] else [])"
    if "c \<in> set (pend s)" "lo_settle from_state () c r (settled c s) = Some t" for c r t
  proof -
    have "pend s = [c]" "log s = []"
      using i that(1) by (auto simp: lo_inv_def lo_one length_Suc_conv split: if_splits)
    then show ?thesis
      using that(2) by (cases c) (auto simp: lo_done_def split: sum.splits)
  qed
  then show ?thesis
    using i unfolding lo_inv_def lo_one by blast
qed

lemma lo_userI:
  "(lo_step settings fs)\<^sup>*\<^sup>* a s \<Longrightarrow> lo_offered settings s e \<Longrightarrow> (lo_step settings fs)\<^sup>*\<^sup>* a (lo_handle () e s)"
  by (erule rtranclp.rtrancl_into_rtrancl) (rule page_step.user)

text \<open>C34 after typing a name and a password and submitting, sent here from the log page.\<close>

theorem login_returns_witness:
  "\<exists>s t :: login_page. (lo_step DEFAULT_SITE_SETTINGS (Some (js ''/admin/logs'')))\<^sup>*\<^sup>* lo_init s \<and> lo_loading s
     \<and> lo_settle (Some (js ''/admin/logs'')) () (LoginCall (js ''u'') (js ''p'')) (Inr ())
         (settled (LoginCall (js ''u'') (js ''p'')) s) = Some t
     \<and> log t = [Navigate (js ''/admin/logs'') True]"
proof -
  let ?fs = "Some (js ''/admin/logs'')"
  let ?a = "lo_handle () (EditUsername (js ''u'')) lo_init"
  let ?b = "lo_handle () (EditPassword (js ''p'')) ?a"
  let ?c = "lo_handle () SubmitLogin ?b"
  have u: "js ''u'' \<noteq> []" "js ''p'' \<noteq> []" by simp_all
  have "(lo_step DEFAULT_SITE_SETTINGS ?fs)\<^sup>*\<^sup>* lo_init ?a"
    by (rule lo_userI [OF rtranclp.rtrancl_refl]) (simp add: lo_offered_def left_page_def lo_init_def lo_view_def)
  then have "(lo_step DEFAULT_SITE_SETTINGS ?fs)\<^sup>*\<^sup>* lo_init ?b"
    by (rule lo_userI) (simp add: lo_offered_def left_page_def lo_init_def lo_view_def)
  then have r: "(lo_step DEFAULT_SITE_SETTINGS ?fs)\<^sup>*\<^sup>* lo_init ?c"
    by (rule lo_userI) (simp add: lo_offered_def left_page_def lo_init_def lo_view_def)
  have c: "pend ?c = [LoginCall (js ''u'') (js ''p'')]" "lo_loading ?c"
    using u by (simp_all add: lo_handleSubmit_def lo_init_def del: js_Cons)
  have t: "login_target ?fs = js ''/admin/logs''"
    by (simp add: login_target_def)
  let ?t = "lo_done ?fs (Inr ()) (settled (LoginCall (js ''u'') (js ''p'')) ?c)"
  have s: "lo_settle ?fs () (LoginCall (js ''u'') (js ''p'')) (Inr ()) (settled (LoginCall (js ''u'') (js ''p'')) ?c) = Some ?t"
    by simp
  have "log ?t = [Navigate (login_target ?fs) True]"
    using login_returns [OF r, THEN conjunct2, THEN conjunct2, THEN conjunct2, rule_format, OF conjI, OF _ s] c
    by (simp del: js_Cons lo_handle.simps lo_settle.simps)
  then show ?thesis
    unfolding t using r c(2) s by blast
qed

end
