(* ===== verification/SidebarProofs.thy ===== *)
theory SidebarProofs
  imports Sidebar
begin

text \<open>
  What a session of user events does to the sidebar: its state is the parity of
  the toggles on a wide window, its cookie always the state shown, and the
  cookie leaves the requests of the client alone.
\<close>

section \<open>A session\<close>

definition uncontrolled :: "bool \<Rightarrow> sidebar_props" where
  "uncontrolled d = \<lparr>sp_defaultOpen = d, sp_open = None, sp_onOpenChange = False\<rparr>"

definition controlled :: "bool \<Rightarrow> bool \<Rightarrow> sidebar_props" where
  "controlled d b = \<lparr>sp_defaultOpen = d, sp_open = Some b, sp_onOpenChange = True\<rparr>"

fun toggles :: "sidebar_event \<Rightarrow> bool" where
  "toggles ToggleClick = True"
| "toggles (KeyDown k) = is_shortcut k"
| "toggles _ = False"

fun mobile_after :: "bool \<Rightarrow> sidebar_event \<Rightarrow> bool" where
  "mobile_after m (Resize w) = (w < MOBILE_BREAKPOINT)"
| "mobile_after m _ = m"

fun sheet_after :: "bool \<Rightarrow> bool \<Rightarrow> sidebar_event \<Rightarrow> bool" where
  "sheet_after m b (SheetChange c) = c"
| "sheet_after m b e = (if toggles e \<and> m then \<not> b else b)"

text \<open>The toggles made on a wide window, and the sheet of the phone, over a session.\<close>

fun desktop_toggles :: "bool \<Rightarrow> sidebar_event list \<Rightarrow> nat" where
  "desktop_toggles m [] = 0"
| "desktop_toggles m (e # es) = (if toggles e \<and> \<not> m then 1 else 0) + desktop_toggles (mobile_after m e) es"

fun sheet_session :: "bool \<Rightarrow> bool \<Rightarrow> sidebar_event list \<Rightarrow> bool" where
  "sheet_session m b [] = b"
| "sheet_session m b (e # es) = sheet_session (mobile_after m e) (sheet_after m b e) es"

definition sidebar_session :: "sidebar_props \<Rightarrow> sidebar_event list \<Rightarrow> sidebar \<Rightarrow> sidebar" where
  "sidebar_session props es s = fold (sidebar_handle props) es s"

lemma sidebar_session_simps [simp]:
  "sidebar_session props [] s = s"
  "sidebar_session props (e # es) s = sidebar_session props es (sidebar_handle props e s)"
  by (simp_all add: sidebar_session_def)

lemmas sidebar_ops = toggleSidebar_def handleKeyDown_def setOpen_def is_open_def sb_emit_def mobile_change_def

lemma handle_mobile: "useIsMobile (sb_isMobile (sidebar_handle props e s)) = mobile_after (useIsMobile (sb_isMobile s)) e"
  by (cases e) (auto simp: sidebar_ops useIsMobile_def Let_def)

lemma handle_sheet:
  "sb_openMobile (sidebar_handle props e s) = sheet_after (useIsMobile (sb_isMobile s)) (sb_openMobile s) e"
  by (cases e) (auto simp: sidebar_ops Let_def)

lemma session_sheet:
  "sb_openMobile (sidebar_session props es s) = sheet_session (useIsMobile (sb_isMobile s)) (sb_openMobile s) es"
  by (induction es arbitrary: s) (simp_all add: handle_mobile handle_sheet)

text \<open>What one event does to the state and the log.\<close>

lemma handle_uncontrolled:
  "let go = toggles e \<and> \<not> useIsMobile (sb_isMobile s); t = sidebar_handle (uncontrolled d) e s in
   sb_open t = (sb_open s \<noteq> go)
   \<and> sb_log t = sb_log s @ (if go then [WriteCookie (sidebar_cookie (\<not> sb_open s))] else [])"
  by (cases e) (auto simp: sidebar_ops uncontrolled_def Let_def)

lemma handle_controlled:
  "let go = toggles e \<and> \<not> useIsMobile (sb_isMobile s); t = sidebar_handle (controlled d b) e s in
   sb_open t = sb_open s
   \<and> sb_log t = sb_log s @ (if go then [OpenChange (\<not> b), WriteCookie (sidebar_cookie (\<not> b))] else [])"
  by (cases e) (auto simp: sidebar_ops controlled_def Let_def)

text \<open>The cookies of \<open>n\<close> toggles from state \<open>b\<close>, in order.\<close>

fun alternating :: "nat \<Rightarrow> bool \<Rightarrow> sidebar_effect list" where
  "alternating 0 b = []"
| "alternating (Suc n) b = WriteCookie (sidebar_cookie (\<not> b)) # alternating n (\<not> b)"

lemma alternating_snoc: "alternating (Suc n) b = alternating n b @ [WriteCookie (sidebar_cookie (b \<noteq> odd (Suc n)))]"
proof (induction n arbitrary: b)
  case (Suc n)
  from Suc.IH [of "\<not> b"] show ?case by (cases b) auto
qed simp

lemma alternating_last: "n \<noteq> 0 \<Longrightarrow> last (alternating n b) = WriteCookie (sidebar_cookie (b \<noteq> odd n))"
proof -
  assume "n \<noteq> 0"
  then obtain k where n: "n = Suc k"
    by (cases n) auto
  show ?thesis
    unfolding n alternating_snoc by simp
qed

lemma session_uncontrolled:
  "let n = desktop_toggles (useIsMobile (sb_isMobile s)) es; t = sidebar_session (uncontrolled d) es s in
   sb_open t = (sb_open s \<noteq> odd n) \<and> sb_log t = sb_log s @ alternating n (sb_open s)"
proof (induction es arbitrary: s)
  case (Cons e es)
  show ?case
    using Cons.IH [of "sidebar_handle (uncontrolled d) e s"] handle_uncontrolled [of e s d]
    by (auto simp: Let_def handle_mobile)
qed simp

lemma session_controlled:
  "let n = desktop_toggles (useIsMobile (sb_isMobile s)) es; t = sidebar_session (controlled d b) es s in
   sb_open t = sb_open s
   \<and> sb_log t = sb_log s @ concat (replicate n [OpenChange (\<not> b), WriteCookie (sidebar_cookie (\<not> b))])"
proof (induction es arbitrary: s)
  case (Cons e es)
  show ?case
    using Cons.IH [of "sidebar_handle (controlled d b) e s"] handle_controlled [of e s d b]
    by (auto simp: Let_def handle_mobile)
qed simp

lemma mount_mobile: "useIsMobile (sb_isMobile (sidebar_mount props)) = False"
  by (simp add: sidebar_mount_def useIsMobile_def)

section \<open>Cookies\<close>

text \<open>
  What the browser makes of an assignment to \<^verbatim>\<open>document.cookie\<close>: the text up to the
  first semicolon is a name and a value; a cookie of that name is replaced, else
  one is added.
\<close>

definition jar_put :: "(jstr \<times> jstr) list \<Rightarrow> jstr \<Rightarrow> jstr \<Rightarrow> (jstr \<times> jstr) list" where
  "jar_put ps n v =
     (if n \<in> fst ` set ps then map (\<lambda>(k, w). if k = n then (n, v) else (k, w)) ps else ps @ [(n, v)])"

definition jar_write :: "jstr \<Rightarrow> (jstr \<times> jstr) list \<Rightarrow> (jstr \<times> jstr) list" where
  "jar_write text ps =
     (let nv = takeWhile (\<lambda>c. c \<noteq> 59) text in
      jar_put ps (takeWhile (\<lambda>c. c \<noteq> 61) nv) (drop 1 (dropWhile (\<lambda>c. c \<noteq> 61) nv)))"

fun jar_effect :: "sidebar_effect \<Rightarrow> (jstr \<times> jstr) list \<Rightarrow> (jstr \<times> jstr) list" where
  "jar_effect (WriteCookie w) ps = jar_write w ps"
| "jar_effect (OpenChange b) ps = ps"

lemma sidebar_cookie_clean:
  "59 \<notin> set SIDEBAR_COOKIE_NAME" "61 \<notin> set SIDEBAR_COOKIE_NAME" "59 \<notin> set (bool_str b)"
  "SIDEBAR_COOKIE_NAME \<noteq> js ''csrf_token''"
  by (simp_all add: SIDEBAR_COOKIE_NAME_def bool_str_def js_def)

lemma span_at:
  "c \<notin> set xs \<Longrightarrow> takeWhile (\<lambda>d. d \<noteq> c) (xs @ c # ys) = xs"
  "c \<notin> set xs \<Longrightarrow> dropWhile (\<lambda>d. d \<noteq> c) (xs @ c # ys) = c # ys"
  by (induction xs) auto

lemma jar_write_pair:
  assumes "59 \<notin> set n" "61 \<notin> set n" "59 \<notin> set v"
  shows "jar_write (n @ 61 # v @ 59 # rest) ps = jar_put ps n v"
proof -
  have "takeWhile (\<lambda>c. c \<noteq> 59) ((n @ 61 # v) @ 59 # rest) = n @ 61 # v"
    by (rule span_at(1)) (use assms in simp)
  then show ?thesis
    using span_at [OF assms(2), of v] by (simp add: jar_write_def Let_def)
qed

lemma jar_write_sidebar: "jar_write (sidebar_cookie b) ps = jar_put ps SIDEBAR_COOKIE_NAME (bool_str b)"
proof -
  have "sidebar_cookie b = SIDEBAR_COOKIE_NAME @ 61 # bool_str b @ 59 # js '' path=/; max-age='' @ int_str SIDEBAR_COOKIE_MAX_AGE"
    by (simp add: sidebar_cookie_def)
  then show ?thesis
    using jar_write_pair [OF sidebar_cookie_clean(1,2,3)] by simp
qed

lemma set_jar_put: "x \<in> set (jar_put ps n v) \<Longrightarrow> x \<in> set ps \<or> x = (n, v)"
  by (auto simp: jar_put_def split: if_splits)

lemma jar_put_ok: "cookie_ok ps \<Longrightarrow> cookie_ok (jar_put ps SIDEBAR_COOKIE_NAME (bool_str b))"
  using sidebar_cookie_clean set_jar_put [of _ ps SIDEBAR_COOKIE_NAME "bool_str b"]
  by (fastforce simp: cookie_ok_def list_all_iff)

lemma map_of_filter_replace:
  "k \<noteq> n \<Longrightarrow> map_of (filter P (map (\<lambda>(k, w). if k = n then (n, v) else (k, w)) ps)) k = map_of (filter P ps) k"
  by (induction ps) auto

lemma cookie_get_put: "nm \<noteq> n \<Longrightarrow> cookie_get nm (jar_put ps n v) = cookie_get nm ps"
  by (auto simp: cookie_get_def jar_put_def map_of_filter_replace map_add_def split: option.split)

lemma build_request_jar:
  assumes "cookie_ok ps" "cookie_ok qs" "cookie_get (js ''csrf_token'') ps = cookie_get (js ''csrf_token'') qs"
  shows "build_request (cookie_str ps) url init = build_request (cookie_str qs) url init"
  using csrf_match_cookie [OF assms(1)] csrf_match_cookie [OF assms(2)] assms(3)
  by (simp add: build_request_def getCSRFToken_def)

text \<open>The jar after all cookies of a log.\<close>

definition browser_jar :: "sidebar_effect list \<Rightarrow> (jstr \<times> jstr) list \<Rightarrow> (jstr \<times> jstr) list" where
  "browser_jar es ps = fold jar_effect es ps"

fun own_cookie :: "sidebar_effect \<Rightarrow> bool" where
  "own_cookie (WriteCookie w) \<longleftrightarrow> w = sidebar_cookie True \<or> w = sidebar_cookie False"
| "own_cookie (OpenChange b) \<longleftrightarrow> True"

lemma own_sidebar_cookie [simp]: "own_cookie (WriteCookie (sidebar_cookie b))"
  by (cases b) simp_all

lemma browser_jar_keeps:
  "list_all own_cookie es \<Longrightarrow> cookie_ok ps \<Longrightarrow>
     cookie_ok (browser_jar es ps)
     \<and> cookie_get (js ''csrf_token'') (browser_jar es ps) = cookie_get (js ''csrf_token'') ps"
proof (induction es arbitrary: ps)
  case (Cons e es)
  have "cookie_ok (jar_effect e ps) \<and> cookie_get (js ''csrf_token'') (jar_effect e ps) = cookie_get (js ''csrf_token'') ps"
  proof (cases e)
    case (WriteCookie w)
    then obtain b where "w = sidebar_cookie b"
      using Cons.prems(1) by auto
    then show ?thesis
      using WriteCookie Cons.prems(2) sidebar_cookie_clean(4)
      by (simp add: jar_write_sidebar jar_put_ok cookie_get_put del: js_Cons)
  qed (use Cons.prems in simp)
  then show ?case
    using Cons.IH [of "jar_effect e ps"] Cons.prems by (simp add: browser_jar_def del: js_Cons)
qed (simp add: browser_jar_def)

section \<open>Property\<close>

text \<open>C40: What a whole session of events does to the sidebar. On its own it is open
  according to the parity of the toggles made on a wide window (clicks on the
  trigger or the rail, or the shortcut with Ctrl or Meta; any other key does
  nothing), every such toggle writes one cookie, and the last cookie is the state
  shown; toggles on a phone only move the sheet and write no cookie. Controlled by
  its parent it never changes by itself: every toggle proposes the opposite.\<close>

theorem sidebar_follows_toggles:
  "let n = desktop_toggles False es;
       s = sidebar_session (uncontrolled d) es (sidebar_mount (uncontrolled d));
       t = sidebar_session (controlled d b) es (sidebar_mount (controlled d b))
   in is_open (uncontrolled d) s = (d \<noteq> odd n)
      \<and> length (sb_log s) = n
      \<and> last (WriteCookie (sidebar_cookie d) # sb_log s) = WriteCookie (sidebar_cookie (is_open (uncontrolled d) s))
      \<and> sb_openMobile s = sheet_session False False es
      \<and> is_open (controlled d b) t = b
      \<and> sb_log t = concat (replicate n [OpenChange (\<not> b), WriteCookie (sidebar_cookie (\<not> b))])"
proof -
  have l: "length (alternating n b) = n" for n b
    by (induction n arbitrary: b) simp_all
  define n where "n = desktop_toggles False es"
  have c: "last (WriteCookie (sidebar_cookie d) # alternating n d) = WriteCookie (sidebar_cookie (d \<noteq> odd n))"
    using alternating_last [of n d] l [of n d] by (cases n) auto
  have o: "is_open (uncontrolled d) x = sb_open x" "is_open (controlled d b) x = b" for x
    by (simp_all add: is_open_def uncontrolled_def controlled_def)
  have m: "sb_open (sidebar_mount (uncontrolled d)) = d" "sb_log (sidebar_mount props) = []"
    "sb_openMobile (sidebar_mount props) = False" for props
    by (simp_all add: sidebar_mount_def uncontrolled_def)
  show ?thesis
    using session_uncontrolled [of "sidebar_mount (uncontrolled d)" es d]
      session_controlled [of "sidebar_mount (controlled d b)" es d b]
      session_sheet [of "uncontrolled d" es "sidebar_mount (uncontrolled d)"] l c
    by (simp add: Let_def m mount_mobile o n_def [symmetric] del: last.simps)
qed

end
