(* ===== verification/SiteSettingsPage.thy ===== *)
theory SiteSettingsPage
  imports SiteProvider
begin

text \<open>
  The site settings page, web/src/pages/admin/site-settings.tsx, together with the
  provider whose settings it edits. The form is mounted anew whenever its key
  (the time of the last change, or the title) changes; calls carry the number of
  the mount they belong to, and what an unmounted form does has no effect.
  Decoding a picture is the environment: it gives its size or fails.
\<close>

definition MAX_LOGO_BYTES :: nat where
  "MAX_LOGO_BYTES = 2 * 1024 * 1024"

definition MAX_LOGO_DIMENSION :: int where
  "MAX_LOGO_DIMENSION = 2048"

definition ALLOWED_LOGO_TYPES :: "jstr list" where
  "ALLOWED_LOGO_TYPES = [js ''image/png'', js ''image/jpeg'']"

text \<open>\<open>bitmap\<close> is what \<^verbatim>\<open>createImageBitmap(file)\<close> resolves to: width and height.\<close>

definition validateLogo :: "js_file \<Rightarrow> (int \<times> int) option \<Rightarrow> jstr option" where
  "validateLogo file1 bitmap =
     (if file_type file1 \<notin> set ALLOWED_LOGO_TYPES then Some msg_st_bad_type
      else if file_size file1 > MAX_LOGO_BYTES then Some msg_st_too_large
      else case bitmap of
             Some (width, height) \<Rightarrow>
               (if width > MAX_LOGO_DIMENSION \<or> height > MAX_LOGO_DIMENSION
                then Some msg_st_too_wide else None)
           | None \<Rightarrow> Some msg_st_unreadable)"

section \<open>State\<close>

text \<open>The preview is the object URL of a file, modelled by the file.\<close>

record settings_form =
  sf_siteTitle :: jstr
  sf_logoFile :: "js_file option"
  sf_preview :: "js_file option"
  sf_removeLogo :: bool
  sf_saving :: bool
  sf_formError :: "jstr option"
  sf_token :: nat

datatype st_call =
    SRefresh
  | SValidate nat nat js_file
  | SSave nat jstr "js_file option" bool

record st_page = "st_call base" +
  st_provider :: provider
  st_mount :: nat
  st_form :: settings_form
  st_failedUrl :: "jstr option"

definition fresh_form :: "SiteSettings \<Rightarrow> settings_form" where
  "fresh_form settings =
     \<lparr>sf_siteTitle = ss_site_title settings, sf_logoFile = None, sf_preview = None, sf_removeLogo = False,
      sf_saving = False, sf_formError = None, sf_token = 0\<rparr>"

definition form_key :: "SiteSettings \<Rightarrow> jstr" where
  "form_key settings = (if ss_updated_at settings \<noteq> [] then ss_updated_at settings else ss_site_title settings)"

definition mounted :: "provider \<Rightarrow> bool" where
  "mounted p \<longleftrightarrow> pv_status p = StatusReady"

text \<open>After a render: the form is mounted anew if it was not there or its key changed.\<close>

definition remount :: "provider \<Rightarrow> st_page \<Rightarrow> st_page" where
  "remount before s =
     (let now = st_provider s in
      if mounted now \<and> (\<not> mounted before \<or> form_key (pv_settings before) \<noteq> form_key (pv_settings now))
      then s\<lparr>st_mount := Suc (st_mount s), st_form := fresh_form (pv_settings now), st_failedUrl := None\<rparr>
      else s)"

definition on_form :: "(settings_form \<Rightarrow> settings_form) \<Rightarrow> st_page \<Rightarrow> st_page" where
  "on_form f s = s\<lparr>st_form := f (st_form s)\<rparr>"

definition st_refresh :: "st_page \<Rightarrow> st_page" where
  "st_refresh s = call SRefresh (s\<lparr>st_provider := refresh_start (st_provider s)\<rparr>)"

definition st_refresh_done :: "(js_error \<Rightarrow> jstr) \<Rightarrow> SiteSettings res \<Rightarrow> st_page \<Rightarrow> st_page" where
  "st_refresh_done em r s = remount (st_provider s) (s\<lparr>st_provider := refresh_done em r (st_provider s)\<rparr>)"

definition st_init :: st_page where
  "st_init = call SRefresh
     \<lparr>pend = [], log = [], st_provider = provider_init, st_mount = 0,
      st_form = fresh_form DEFAULT_SITE_SETTINGS, st_failedUrl = None\<rparr>"

section \<open>The form\<close>

definition st_handleFileChange :: "js_file option \<Rightarrow> st_page \<Rightarrow> st_page" where
  "st_handleFileChange picked s =
     (let validationToken = Suc (sf_token (st_form s));
          t = on_form (\<lambda>f. f\<lparr>sf_token := validationToken\<rparr>) s
      in case picked of
           None \<Rightarrow> t
         | Some file1 \<Rightarrow>
             call (SValidate (st_mount s) validationToken file1) (on_form (\<lambda>f. f\<lparr>sf_formError := None\<rparr>) t))"

definition validated :: "nat \<Rightarrow> nat \<Rightarrow> js_file \<Rightarrow> (int \<times> int) option \<Rightarrow> st_page \<Rightarrow> st_page" where
  "validated mount validationToken file1 bitmap s =
     (if mount \<noteq> st_mount s \<or> validationToken \<noteq> sf_token (st_form s) then s
      else case validateLogo file1 bitmap of
             Some e \<Rightarrow> on_form (\<lambda>f. f\<lparr>sf_formError := Some e\<rparr>) s
           | None \<Rightarrow> on_form (\<lambda>f. f\<lparr>sf_logoFile := Some file1, sf_preview := Some file1, sf_removeLogo := False\<rparr>) s)"

definition handleRemoveLogo :: "st_page \<Rightarrow> st_page" where
  "handleRemoveLogo s =
     on_form (\<lambda>f. let g = f\<lparr>sf_token := Suc (sf_token f), sf_formError := None\<rparr> in
       if sf_logoFile f \<noteq> None then g\<lparr>sf_logoFile := None, sf_preview := None\<rparr>
       else g\<lparr>sf_removeLogo := True\<rparr>) s"

definition st_handleSubmit :: "st_page \<Rightarrow> st_page" where
  "st_handleSubmit s =
     (let f = st_form s; title = js_trim (sf_siteTitle f) in
      if title = [] then on_form (\<lambda>f. f\<lparr>sf_formError := Some msg_st_need_title\<rparr>) s
      else if length (code_points title) > 100
      then on_form (\<lambda>f. f\<lparr>sf_formError := Some msg_st_long_title\<rparr>) s
      else call (SSave (st_mount s) title (sf_logoFile f) (sf_removeLogo f))
             (on_form (\<lambda>f. f\<lparr>sf_token := Suc (sf_token f), sf_saving := True, sf_formError := None\<rparr>) s))"

definition saved :: "nat \<Rightarrow> (SiteSettings \<times> jstr option) res \<Rightarrow> st_page \<Rightarrow> st_page" where
  "saved mount r s =
     (let upd = (\<lambda>g x. if mount = st_mount s then on_form g x else x) in
      case r of
        Inr (settings, message) \<Rightarrow>
          remount (st_provider s)
            (emit (ToastSuccess (js_or message msg_st_saved))
              (upd (\<lambda>f. f\<lparr>sf_siteTitle := ss_site_title settings, sf_logoFile := None, sf_preview := None,
                         sf_removeLogo := False, sf_saving := False\<rparr>) s)
              \<lparr>st_provider := replaceSettings settings (st_provider s)\<rparr>)
      | Inl e \<Rightarrow>
          upd (\<lambda>f. f\<lparr>sf_formError := Some (message_if_api msg_st_save_failed e), sf_saving := False\<rparr>) s)"

definition st_endpoint :: "st_call \<Rightarrow> endpoint option" where
  "st_endpoint c = (case c of
     SRefresh \<Rightarrow> Some api_siteSettings
   | SValidate m t f \<Rightarrow> None
   | SSave m title logo remove_logo \<Rightarrow> Some (api_updateSiteSettings title logo remove_logo))"

section \<open>View\<close>

datatype st_event =
    StRefresh
  | PickLogo "js_file option"
  | RemoveLogo
  | UndoRemove
  | EditSiteTitle jstr
  | SaveSettings
  | LogoFailed jstr

definition titleLength :: "settings_form \<Rightarrow> nat" where
  "titleLength f = length (code_points (js_trim (sf_siteTitle f)))"

definition titleInvalid :: "settings_form \<Rightarrow> bool" where
  "titleInvalid f \<longleftrightarrow> js_trim (sf_siteTitle f) = [] \<or> titleLength f > 100"

definition hasChanges :: "SiteSettings \<Rightarrow> settings_form \<Rightarrow> bool" where
  "hasChanges settings f \<longleftrightarrow>
     js_trim (sf_siteTitle f) \<noteq> ss_site_title settings \<or> sf_logoFile f \<noteq> None \<or> sf_removeLogo f"

definition logo_controls :: "SiteSettings \<Rightarrow> settings_form \<Rightarrow> st_event node list" where
  "logo_controls settings f =
     (let hasVisibleCustomLogo = (ss_has_logo settings \<and> \<not> sf_removeLogo f); picked = (sf_logoFile f \<noteq> None) in
      [button [] (if hasVisibleCustomLogo \<or> picked then msg_st_change else msg_st_choose)]
      @ show_if (picked \<or> hasVisibleCustomLogo)
          (button [On RemoveLogo] (if picked then msg_st_unpick else msg_st_remove))
      @ show_if (sf_removeLogo f) (button [On UndoRemove] msg_st_undo))"

definition settings_form_view :: "SiteSettings \<Rightarrow> jstr option \<Rightarrow> settings_form \<Rightarrow> st_event node" where
  "settings_form_view settings failedUrl f =
     El ''div'' []
       [PageHeader msg_st_title msg_st_subtitle [],
        El ''Card'' []
          [El ''CardTitle'' [] [Txt msg_st_identity],
           El ''CardDescription'' [] [Txt msg_st_identity_hint],
           El ''fieldset'' [Inert (sf_saving f)]
             ([El ''label'' [] [Txt msg_st_logo],
               (if sf_preview f \<noteq> None then El ''img'' [Attr ''alt'' msg_st_preview_alt] []
                else if sf_removeLogo f then El ''Zap'' [] []
                else SiteLogo settings failedUrl msg_st_logo_alt LogoFailed)]
              @ logo_controls settings f
              @ [El ''p'' [] [Txt msg_st_logo_hint]]
              @ show_if (sf_removeLogo f) (El ''p'' [] [Txt msg_st_remove_hint])
              @ [El ''input'' [OnFile PickLogo] [],
                 El ''label'' [] [Txt msg_st_site_title],
                 El ''span'' [] [Txt (nat_str (titleLength f) @ js ''/100'')],
                 El ''input'' [Attr ''value'' (sf_siteTitle f), OnValue EditSiteTitle] []]
              @ show_if (truthy (map_option JStr (sf_formError f)))
                  (El ''Alert'' [] [Txt msg_st_not_saved, Txt (the (sf_formError f))])
              @ [button [Disabled (sf_saving f \<or> titleInvalid f \<or> \<not> hasChanges settings f), On SaveSettings]
                   (if sf_saving f then msg_st_saving else msg_st_save)])]]"

definition st_view :: "st_page \<Rightarrow> st_event node" where
  "st_view s = (let p = st_provider s in
     case pv_status p of
       StatusLoading \<Rightarrow> El ''Skeleton'' [] []
     | StatusError \<Rightarrow>
         El ''div'' []
           [PageHeader msg_st_title msg_st_subtitle [],
            El ''Alert'' []
              [Txt msg_st_load_failed, Txt (js_or (pv_error p) msg_st_retry_later),
               button [On StRefresh] msg_st_reload]]
     | StatusReady \<Rightarrow> settings_form_view (pv_settings p) (st_failedUrl s) (st_form s))"

section \<open>Steps\<close>

record st_env = se_text :: "js_error \<Rightarrow> jstr"

fun st_handle :: "st_env \<Rightarrow> st_event \<Rightarrow> st_page \<Rightarrow> st_page" where
  "st_handle env StRefresh s = st_refresh s"
| "st_handle env (PickLogo f) s = st_handleFileChange f s"
| "st_handle env RemoveLogo s = handleRemoveLogo s"
| "st_handle env UndoRemove s = on_form (\<lambda>f. f\<lparr>sf_removeLogo := False\<rparr>) s"
| "st_handle env (EditSiteTitle v) s = on_form (\<lambda>f. f\<lparr>sf_siteTitle := v\<rparr>) s"
| "st_handle env SaveSettings s = st_handleSubmit s"
| "st_handle env (LogoFailed u) s = s\<lparr>st_failedUrl := Some u\<rparr>"

datatype st_answer =
    SettingsAnswer "SiteSettings res"
  | BitmapAnswer "(int \<times> int) option"
  | SavedAnswer "(SiteSettings \<times> jstr option) res"

fun st_settle :: "st_env \<Rightarrow> st_call \<Rightarrow> st_answer \<Rightarrow> st_page \<Rightarrow> st_page option" where
  "st_settle env SRefresh (SettingsAnswer r) s = Some (st_refresh_done (se_text env) r s)"
| "st_settle env (SValidate m t f) (BitmapAnswer b) s = Some (validated m t f b s)"
| "st_settle env (SSave m ti l rm) (SavedAnswer r) s = Some (saved m r s)"
| "st_settle env _ _ s = None"

abbreviation st_step :: "st_page \<Rightarrow> st_page \<Rightarrow> bool" where
  "st_step \<equiv> page_step (\<lambda>s. offers (st_view s)) st_handle st_settle"

end
