(* ===== verification/SiteSettingsProofs.thy ===== *)
theory SiteSettingsProofs
  imports SiteSettingsPage
begin

text \<open>
  The site settings page over all interleavings of edits, picture checks, saves
  and reloads: what is being saved is what the form shows, and it is valid.
\<close>

lemma st_page_frame [simp]:
  "st_provider (emit e s) = st_provider s"
  "st_mount (emit e s) = st_mount s"
  "st_form (emit e s) = st_form s"
  "st_failedUrl (emit e s) = st_failedUrl s"
  "st_provider (call c s) = st_provider s"
  "st_mount (call c s) = st_mount s"
  "st_form (call c s) = st_form s"
  "st_failedUrl (call c s) = st_failedUrl s"
  "st_provider (settled c s) = st_provider s"
  "st_mount (settled c s) = st_mount s"
  "st_form (settled c s) = st_form s"
  "st_failedUrl (settled c s) = st_failedUrl s"
  "st_provider (emits es s) = st_provider s"
  "st_mount (emits es s) = st_mount s"
  "st_form (emits es s) = st_form s"
  "st_failedUrl (emits es s) = st_failedUrl s"
  by (simp_all add: base_ops emits_frame)

lemma on_form_frame [simp]:
  "pend (on_form g s) = pend s" "log (on_form g s) = log s" "st_provider (on_form g s) = st_provider s"
  "st_mount (on_form g s) = st_mount s" "st_form (on_form g s) = g (st_form s)"
  by (simp_all add: on_form_def)

lemma remount_frame [simp]:
  "pend (remount p s) = pend s" "st_provider (remount p s) = st_provider s"
  by (simp_all add: remount_def Let_def)

section \<open>Invariant\<close>

fun is_refresh :: "st_call \<Rightarrow> bool" where
  "is_refresh SRefresh = True"
| "is_refresh _ = False"

fun is_save :: "st_call \<Rightarrow> bool" where
  "is_save (SSave m t l r) = True"
| "is_save _ = False"

fun logo_ok :: "js_file option \<Rightarrow> bool" where
  "logo_ok None \<longleftrightarrow> True"
| "logo_ok (Some f) \<longleftrightarrow> (\<exists>width height. validateLogo f (Some (width, height)) = None)"

definition proper_save :: "jstr \<Rightarrow> js_file option \<Rightarrow> bool \<Rightarrow> bool" where
  "proper_save title logo remove_logo \<longleftrightarrow>
     title \<noteq> [] \<and> js_trim title = title \<and> length (code_points title) \<le> 100 \<and> logo_ok logo
     \<and> \<not> (logo \<noteq> None \<and> remove_logo)"

fun saves_shown :: "st_page \<Rightarrow> st_call \<Rightarrow> bool" where
  "saves_shown s (SSave m title logo rm) \<longleftrightarrow>
     m = st_mount s \<and> mounted (st_provider s) \<and> proper_save title logo rm
     \<and> js_trim (sf_siteTitle (st_form s)) = title \<and> sf_logoFile (st_form s) = logo \<and> sf_removeLogo (st_form s) = rm"
| "saves_shown s c \<longleftrightarrow> True"

fun check_known :: "st_page \<Rightarrow> st_call \<Rightarrow> bool" where
  "check_known s (SValidate m t f) \<longleftrightarrow>
     m \<le> st_mount s \<and> (m = st_mount s \<longrightarrow> t \<le> sf_token (st_form s) \<and> (sf_saving (st_form s) \<longrightarrow> t < sf_token (st_form s)))"
| "check_known s c \<longleftrightarrow> True"

definition form_ok :: "settings_form \<Rightarrow> bool" where
  "form_ok f \<longleftrightarrow> logo_ok (sf_logoFile f) \<and> \<not> (sf_logoFile f \<noteq> None \<and> sf_removeLogo f)"

definition st_inv :: "st_page \<Rightarrow> bool" where
  "st_inv s \<longleftrightarrow>
     one_call is_refresh (pv_status (st_provider s) = StatusLoading) (pend s)
     \<and> one_call is_save (sf_saving (st_form s)) (pend s)
     \<and> list_all (saves_shown s) (pend s) \<and> list_all (check_known s) (pend s)
     \<and> form_ok (st_form s) \<and> (\<not> mounted (st_provider s) \<longrightarrow> \<not> sf_saving (st_form s))"

lemma no_save_shown: "one_call is_save False cs \<Longrightarrow> list_all (saves_shown s) cs"
proof -
  assume a: "one_call is_save False cs"
  have "saves_shown s c" if "\<not> is_save c" for c
    using that by (cases c) auto
  then show "list_all (saves_shown s) cs"
    using one_call_none [OF a] by (auto simp: list_all_iff)
qed

lemma check_known_mono:
  assumes "st_mount t = st_mount s" "sf_token (st_form s) \<le> sf_token (st_form t)"
    and "sf_saving (st_form t) \<Longrightarrow> sf_token (st_form s) < sf_token (st_form t) \<or> sf_saving (st_form s)"
    and "list_all (check_known s) cs"
  shows "list_all (check_known t) cs"
proof -
  have "check_known t c" if "check_known s c" for c
    using that assms(1-3) by (cases c) auto
  then show ?thesis
    using assms(4) by (auto simp: list_all_iff)
qed

lemma check_known_remount:
  assumes "st_mount t = Suc (st_mount s)" "list_all (check_known s) cs"
  shows "list_all (check_known t) cs"
proof -
  have "check_known t c" if "check_known s c" for c
    using that assms(1) by (cases c) auto
  then show ?thesis
    using assms(2) by (auto simp: list_all_iff)
qed

text \<open>A change of the form that neither starts nor ends a save.\<close>

lemma st_inv_edit:
  assumes "st_inv s" "\<not> sf_saving (st_form s)"
    and "\<not> sf_saving (g (st_form s))" "sf_token (st_form s) \<le> sf_token (g (st_form s))" "form_ok (g (st_form s))"
  shows "st_inv (on_form g s)"
  using assms check_known_mono [of "on_form g s" s "pend s"] no_save_shown [of "pend s" "on_form g s"]
  by (simp add: st_inv_def)

lemma st_inv_call:
  "st_inv s \<Longrightarrow> \<not> is_refresh c \<Longrightarrow> \<not> is_save c \<Longrightarrow> check_known s c \<Longrightarrow> st_inv (call c s)"
proof -
  assume a: "st_inv s" "\<not> is_refresh c" "\<not> is_save c" "check_known s c"
  have "saves_shown (call c s) x = saves_shown s x" "check_known (call c s) x = check_known s x" for x
    by (cases x; simp)+
  moreover have "saves_shown s c"
    using a(3) by (cases c) auto
  ultimately show ?thesis
    using a by (simp add: st_inv_def list_all_iff)
qed

lemma st_inv_settled: "st_inv s \<Longrightarrow> \<not> is_refresh c \<Longrightarrow> \<not> is_save c \<Longrightarrow> st_inv (settled c s)"
proof -
  assume a: "st_inv s" "\<not> is_refresh c" "\<not> is_save c"
  have "saves_shown (settled c s) x = saves_shown s x" "check_known (settled c s) x = check_known s x" for x
    by (cases x; simp)+
  then show ?thesis
    using a by (auto simp: st_inv_def list_all_iff one_call_remove_other dest: in_remove1)
qed

section \<open>User events\<close>

lemma offers_settings_form:
  "offers (settings_form_view settings u f) e \<Longrightarrow> \<not> sf_saving f \<and> (e = SaveSettings \<longrightarrow> \<not> titleInvalid f) \<and> e \<noteq> StRefresh"
  by (auto simp: settings_form_view_def logo_controls_def SiteLogo_def Let_def split: if_splits)

lemma st_offered:
  assumes "offers (st_view s) e"
  shows "e = StRefresh \<and> pv_status (st_provider s) = StatusError
    \<or> mounted (st_provider s) \<and> \<not> sf_saving (st_form s) \<and> e \<noteq> StRefresh
      \<and> (e = SaveSettings \<longrightarrow> \<not> titleInvalid (st_form s))"
  using assms offers_settings_form [of "pv_settings (st_provider s)" "st_failedUrl s" "st_form s" e]
  by (auto simp: st_view_def Let_def mounted_def split: SiteSettingsStatus.splits)

lemma st_inv_submit:
  assumes "st_inv s" "mounted (st_provider s)" "\<not> sf_saving (st_form s)" "\<not> titleInvalid (st_form s)"
  shows "st_inv (st_handleSubmit s)"
proof -
  let ?f = "st_form s"
  let ?t = "js_trim (sf_siteTitle ?f)"
  let ?c = "SSave (st_mount s) ?t (sf_logoFile ?f) (sf_removeLogo ?f)"
  let ?u = "call ?c (on_form (\<lambda>f. f\<lparr>sf_token := Suc (sf_token f), sf_saving := True, sf_formError := None\<rparr>) s)"
  have u: "st_handleSubmit s = ?u"
    using assms(4) by (simp add: st_handleSubmit_def titleInvalid_def titleLength_def Let_def)
  have n: "one_call is_save False (pend s)"
    using assms(1,3) by (simp add: st_inv_def)
  have "list_all (saves_shown ?u) (pend ?u)"
    using no_save_shown [OF n, of ?u] assms(1,2,4)
    by (simp add: st_inv_def proper_save_def titleInvalid_def titleLength_def form_ok_def)
  moreover have "list_all (check_known ?u) (pend ?u)"
    using check_known_mono [of ?u s "pend s"] assms(1) by (simp add: st_inv_def)
  moreover have "one_call is_save True (pend ?u)"
    using one_call_start [OF n] by simp
  ultimately show ?thesis
    unfolding u using assms(1,2) by (simp add: st_inv_def form_ok_def)
qed

lemma st_inv_handle:
  assumes "st_inv s" "offers (st_view s) e"
  shows "st_inv (st_handle env e s)"
proof -
  have fo: "form_ok (st_form s)"
    using assms(1) by (simp add: st_inv_def)
  note off = st_offered [OF assms(2)]
  show ?thesis
  proof (cases e)
    case StRefresh
    then have p: "pv_status (st_provider s) = StatusError" using off by simp
    then have sv: "\<not> sf_saving (st_form s)"
      using assms(1) by (simp add: st_inv_def mounted_def)
    have "check_known (st_refresh s) x = check_known s x" for x
      by (cases x) (simp_all add: st_refresh_def)
    then show ?thesis
      using StRefresh assms(1) p sv no_save_shown [of "pend s" "st_refresh s"] one_call_start [of is_refresh "pend s" SRefresh]
      by (simp add: st_inv_def st_refresh_def refresh_start_def list_all_iff mounted_def)
  next
    case (PickLogo f)
    then have ns: "\<not> sf_saving (st_form s)" using off by simp
    have i: "st_inv (on_form (\<lambda>f. f\<lparr>sf_token := Suc (sf_token f)\<rparr>) s)"
      by (rule st_inv_edit [OF assms(1) ns]) (use ns fo in \<open>simp_all add: form_ok_def\<close>)
    show ?thesis
    proof (cases f)
      case None
      with PickLogo i show ?thesis by (simp add: st_handleFileChange_def on_form_def)
    next
      case (Some x)
      let ?s = "on_form (\<lambda>f. f\<lparr>sf_token := Suc (sf_token f), sf_formError := None\<rparr>) s"
      have "st_inv ?s"
        by (rule st_inv_edit [OF assms(1) ns]) (use ns fo in \<open>simp_all add: form_ok_def\<close>)
      then have "st_inv (call (SValidate (st_mount s) (Suc (sf_token (st_form s))) x) ?s)"
        using ns by (intro st_inv_call) simp_all
      with PickLogo Some show ?thesis by (simp add: st_handleFileChange_def on_form_def Let_def)
    qed
  next
    case RemoveLogo
    then have ns: "\<not> sf_saving (st_form s)" using off by simp
    have "st_inv (handleRemoveLogo s)" unfolding handleRemoveLogo_def
      by (rule st_inv_edit [OF assms(1) ns]) (use ns fo in \<open>auto simp: form_ok_def Let_def\<close>)
    with RemoveLogo show ?thesis by simp
  next
    case UndoRemove
    then have ns: "\<not> sf_saving (st_form s)" using off by simp
    have "st_inv (on_form (\<lambda>f. f\<lparr>sf_removeLogo := False\<rparr>) s)"
      by (rule st_inv_edit [OF assms(1) ns]) (use ns fo in \<open>simp_all add: form_ok_def\<close>)
    with UndoRemove show ?thesis by simp
  next
    case (EditSiteTitle v)
    then have ns: "\<not> sf_saving (st_form s)" using off by simp
    have "st_inv (on_form (\<lambda>f. f\<lparr>sf_siteTitle := v\<rparr>) s)"
      by (rule st_inv_edit [OF assms(1) ns]) (use ns fo in \<open>simp_all add: form_ok_def\<close>)
    with EditSiteTitle show ?thesis by simp
  next
    case SaveSettings
    then show ?thesis using off st_inv_submit [OF assms(1)] by simp
  next
    case (LogoFailed u)
    have "saves_shown (s\<lparr>st_failedUrl := Some u\<rparr>) x = saves_shown s x"
      "check_known (s\<lparr>st_failedUrl := Some u\<rparr>) x = check_known s x" for x
      by (cases x; simp)+
    then show ?thesis using LogoFailed assms(1) by (simp add: st_inv_def list_all_iff)
  qed
qed

section \<open>Answers\<close>

lemma st_inv_validated:
  assumes "st_inv s" "SValidate m t f \<in> set (pend s)"
  shows "st_inv (validated m t f b (settled (SValidate m t f) s))"
proof -
  let ?s = "settled (SValidate m t f) s"
  have i: "st_inv ?s"
    by (rule st_inv_settled [OF assms(1)]) simp_all
  have k: "check_known s (SValidate m t f)"
    using assms unfolding st_inv_def list_all_iff by blast
  have fo: "form_ok (st_form s)"
    using assms(1) by (simp add: st_inv_def)
  show ?thesis
  proof (cases "m \<noteq> st_mount s \<or> t \<noteq> sf_token (st_form s)")
    case True
    then show ?thesis using i by (simp add: validated_def)
  next
    case False
    with k have ns: "\<not> sf_saving (st_form ?s)" by auto
    have b: "b = Some (fst (the b), snd (the b))" if "validateLogo f b = None"
      using that by (cases b) (auto simp: validateLogo_def split: if_splits)
    have ok: "logo_ok (Some f)" if "validateLogo f b = None"
      using that b [OF that] by (metis logo_ok.simps(2))
    have "st_inv (on_form (\<lambda>f. f\<lparr>sf_formError := Some e\<rparr>) ?s)" for e
      by (rule st_inv_edit [OF i ns]) (use ns fo in \<open>simp_all add: form_ok_def\<close>)
    moreover have "st_inv (on_form (\<lambda>g. g\<lparr>sf_logoFile := Some f, sf_preview := Some f, sf_removeLogo := False\<rparr>) ?s)"
      if "validateLogo f b = None"
      by (rule st_inv_edit [OF i ns]) (use ns ok [OF that] in \<open>simp_all add: form_ok_def\<close>)
    ultimately show ?thesis
      using False by (simp add: validated_def split: option.split)
  qed
qed

lemma form_ok_fresh: "form_ok (fresh_form x)" "\<not> sf_saving (fresh_form x)"
  by (simp_all add: fresh_form_def form_ok_def)

lemma st_inv_refreshed:
  assumes "st_inv s" "SRefresh \<in> set (pend s)"
  shows "st_inv (st_refresh_done em r (settled SRefresh s))"
proof -
  let ?t = "st_refresh_done em r (settled SRefresh s)"
  have l: "pv_status (st_provider s) = StatusLoading" "one_call is_refresh False (remove1 SRefresh (pend s))"
    using one_call_end [of is_refresh _ "pend s" SRefresh] assms by (auto simp: st_inv_def)
  have ns: "\<not> sf_saving (st_form s)"
    using assms(1) l(1) by (simp add: st_inv_def mounted_def)
  have p: "pend ?t = remove1 SRefresh (pend s)"
    by (simp add: st_refresh_done_def)
  have sv: "one_call is_save False (pend ?t)"
    using assms(1) ns p by (simp add: st_inv_def one_call_remove_other)
  have f: "st_form ?t = st_form s \<and> st_mount ?t = st_mount s
      \<or> st_form ?t = fresh_form (pv_settings (st_provider ?t)) \<and> st_mount ?t = Suc (st_mount s)"
    by (auto simp: st_refresh_done_def remount_def Let_def)
  have c: "list_all (check_known s) (pend ?t)"
    using assms(1) p by (simp add: st_inv_def list_all_remove1)
  have "list_all (check_known ?t) (pend ?t)"
    using f check_known_mono [of ?t s "pend ?t"] check_known_remount [of ?t s "pend ?t"] c ns by auto
  moreover have "pv_status (st_provider ?t) \<noteq> StatusLoading"
    by (simp add: st_refresh_done_def refresh_done_def split: sum.split)
  moreover have "form_ok (st_form ?t)" "\<not> sf_saving (st_form ?t)"
    using f assms(1) ns form_ok_fresh by (auto simp: st_inv_def)
  ultimately show ?thesis
    using l(2) sv no_save_shown [OF sv] p by (simp add: st_inv_def)
qed

lemma st_inv_saved:
  assumes "st_inv s" "SSave m ti lo rm \<in> set (pend s)"
  shows "st_inv (saved m r (settled (SSave m ti lo rm) s))"
proof -
  let ?c = "SSave m ti lo rm"
  let ?t = "saved m r (settled ?c s)"
  have sv: "one_call is_save False (remove1 ?c (pend s))"
    using one_call_end [of is_save "sf_saving (st_form s)" "pend s" ?c] assms by (auto simp: st_inv_def)
  have "saves_shown s ?c"
    using assms by (auto simp: st_inv_def list_all_iff)
  then have m: "m = st_mount s" "mounted (st_provider s)" "form_ok (st_form s)"
    using assms(1) by (auto simp: st_inv_def)
  have p: "pend ?t = remove1 ?c (pend s)"
    using m by (simp add: saved_def Let_def split: sum.split prod.split)
  have rf: "one_call is_refresh False (pend ?t)"
    using assms(1) m(2) p by (simp add: st_inv_def mounted_def one_call_remove_other)
  have st: "pv_status (st_provider ?t) = StatusReady"
    using m by (auto simp: saved_def Let_def mounted_def replaceSettings_def split: sum.split prod.split)
  have f: "\<not> sf_saving (st_form ?t) \<and> form_ok (st_form ?t)
      \<and> (st_mount ?t = Suc (st_mount s) \<or> st_mount ?t = st_mount s \<and> sf_token (st_form ?t) = sf_token (st_form s))"
    using m form_ok_fresh by (auto simp: saved_def Let_def remount_def form_ok_def split: sum.split prod.split)
  have c: "list_all (check_known s) (pend ?t)"
    using assms(1) p by (simp add: st_inv_def list_all_remove1)
  have "list_all (check_known ?t) (pend ?t)"
    using f check_known_mono [of ?t s "pend ?t"] check_known_remount [of ?t s "pend ?t"] c by auto
  then show ?thesis
    using sv p rf f st no_save_shown [of "pend ?t" ?t] by (simp add: st_inv_def mounted_def)
qed

interpretation st: page_system "\<lambda>s. s = st_init" "\<lambda>s. offers (st_view s)" st_handle st_settle st_inv
proof unfold_locales
  show "s = st_init \<Longrightarrow> st_inv s" for s
    by (simp add: st_init_def st_inv_def provider_init_def refresh_start_def one_call_def form_ok_fresh mounted_def)
  show "st_inv t" if "st_inv s" "c \<in> set (pend s)" "st_settle env c a (settled c s) = Some t" for s t c a and env :: st_env
    using that st_inv_validated st_inv_refreshed st_inv_saved
    by (cases "(env, c, a, settled c s)" rule: st_settle.cases) auto
qed (rule st_inv_handle)

section \<open>Property\<close>

text \<open>C29: In every reachable state of the settings page at most one save is under way,
  exactly while the form says so, and it carries what the form still shows: a
  trimmed title of 1 to 100 characters, a picture that passed the check of type,
  size and dimensions or none, and never both a new picture and the removal. A
  picture check that ends late can neither change what is being saved nor undo a
  removal.\<close>

theorem site_saves_valid:
  assumes "st_step\<^sup>*\<^sup>* st_init s"
  shows "length (filter is_save (pend s)) = (if sf_saving (st_form s) then 1 else 0)
    \<and> (\<forall>m title logo rm. SSave m title logo rm \<in> set (pend s) \<longrightarrow>
         proper_save title logo rm \<and> js_trim (sf_siteTitle (st_form s)) = title
         \<and> sf_logoFile (st_form s) = logo \<and> sf_removeLogo (st_form s) = rm)
    \<and> (\<forall>m t f b. sf_saving (st_form s) \<and> SValidate m t f \<in> set (pend s) \<longrightarrow> validated m t f b s = s)"
proof -
  have i: "st_inv s"
    using st.reachable_inv [OF refl assms] .
  have "proper_save title logo rm \<and> js_trim (sf_siteTitle (st_form s)) = title
         \<and> sf_logoFile (st_form s) = logo \<and> sf_removeLogo (st_form s) = rm"
    if "SSave m title logo rm \<in> set (pend s)" for m title logo rm
    using i that saves_shown.simps(1) [of s m title logo rm] unfolding st_inv_def list_all_iff by blast
  moreover have "validated m t f b s = s" if "sf_saving (st_form s)" "SValidate m t f \<in> set (pend s)" for m t f b
  proof -
    have "check_known s (SValidate m t f)"
      using i that(2) unfolding st_inv_def list_all_iff by blast
    with that(1) show ?thesis by (auto simp: validated_def)
  qed
  ultimately show ?thesis
    using i unfolding st_inv_def one_call_def by blast
qed

lemma st_userI: "st_step\<^sup>*\<^sup>* a s \<Longrightarrow> offers (st_view s) e \<Longrightarrow> st_step\<^sup>*\<^sup>* a (st_handle env e s)"
  by (erule rtranclp.rtrancl_into_rtrancl) (rule page_step.user)

text \<open>A run of the page: the settings arrive, a title is typed and saved.\<close>

lemma st_sample:
  "\<exists>s :: st_page. \<exists>m. st_step\<^sup>*\<^sup>* st_init s \<and> SSave m (js ''a'') None False \<in> set (pend s) \<and> sf_saving (st_form s)"
proof -
  fix env :: st_env
  let ?a = "st_refresh_done (se_text env) (Inr DEFAULT_SITE_SETTINGS) (settled SRefresh st_init)"
  let ?s1 = "st_handle env (EditSiteTitle (js ''a'')) ?a"
  let ?s = "st_handle env SaveSettings ?s1"
  have "SRefresh \<in> set (pend st_init)"
    "st_settle env SRefresh (SettingsAnswer (Inr DEFAULT_SITE_SETTINGS)) (settled SRefresh st_init) = Some ?a"
    by (simp_all add: st_init_def)
  then have r0: "st_step\<^sup>*\<^sup>* st_init ?a"
    using page_step.answer [where settle = st_settle] by blast
  have f0: "st_form ?a = fresh_form DEFAULT_SITE_SETTINGS" "pend ?a = []" "st_mount ?a = 1"
    "st_provider ?a = \<lparr>pv_settings = DEFAULT_SITE_SETTINGS, pv_status = StatusReady, pv_error = None\<rparr>"
    by (simp_all add: st_refresh_done_def refresh_done_def st_init_def remount_def provider_init_def
        refresh_start_def mounted_def Let_def)
  have t: "js_trim (js ''a'') = js ''a''" "length (code_points (js ''a'')) = 1" "js ''a'' \<noteq> ss_site_title DEFAULT_SITE_SETTINGS"
    "js ''a'' \<noteq> []"
    by code_simp+
  have r1: "st_step\<^sup>*\<^sup>* st_init ?s1"
    by (rule st_userI [OF r0])
       (simp add: st_view_def f0 settings_form_view_def fresh_form_def Let_def)
  have f1: "st_form ?s1 = (fresh_form DEFAULT_SITE_SETTINGS)\<lparr>sf_siteTitle := js ''a''\<rparr>" "pend ?s1 = []"
    "st_provider ?s1 = st_provider ?a" "st_mount ?s1 = 1"
    using f0 by (simp_all del: js_Cons)
  have ti: "\<not> titleInvalid (st_form ?s1)" "hasChanges DEFAULT_SITE_SETTINGS (st_form ?s1)"
    unfolding f1 using t by (simp_all add: titleInvalid_def titleLength_def hasChanges_def del: js_Cons)
  have "offers (st_view ?s1) SaveSettings"
    unfolding st_view_def Let_def f1(3) f0(4) using ti f1(1)
    by (simp add: settings_form_view_def fresh_form_def Let_def del: js_Cons)
  then have r: "st_step\<^sup>*\<^sup>* st_init ?s"
    by (rule st_userI [OF r1])
  have p: "pend ?s = [SSave 1 (js ''a'') None False]" "sf_saving (st_form ?s)"
    using t by (simp_all add: st_handleSubmit_def f1 fresh_form_def Let_def del: js_Cons st_handle.simps(5))
  then have m: "SSave 1 (js ''a'') None False \<in> set (pend ?s)"
    by (simp del: js_Cons st_handle.simps)
  show ?thesis
    using r m p(2) by blast
qed

text \<open>C29 after loading the settings, typing a title and saving.\<close>

theorem site_saves_valid_witness:
  "\<exists>s :: st_page. \<exists>m. st_step\<^sup>*\<^sup>* st_init s \<and> SSave m (js ''a'') None False \<in> set (pend s)
     \<and> proper_save (js ''a'') None False \<and> length (filter is_save (pend s)) = 1"
proof -
  obtain s :: st_page and m where s: "st_step\<^sup>*\<^sup>* st_init s" "SSave m (js ''a'') None False \<in> set (pend s)" "sf_saving (st_form s)"
    using st_sample by blast
  note v = site_saves_valid [OF s(1)]
  have "proper_save (js ''a'') None False"
    using v s(2) by blast
  moreover have "length (filter is_save (pend s)) = 1"
    unfolding v [THEN conjunct1] using s(3) by simp
  ultimately show ?thesis
    using s by blast
qed

end
