(* ===== verification/Logs.thy ===== *)
theory Logs
  imports AdminFrame
begin

text \<open>
  The redemption log, web/src/pages/admin/logs.tsx: filters, the paged list and
  resending a webhook. A load carries the filters of the render whose callback
  it is; the timer that reloads after a resend carries them too. The batch
  filter is the text of an id of the list of batches, or empty; it is modelled
  by that id.
\<close>

definition RESULT_OPTIONS :: "(jstr \<times> jstr) list" where
  "RESULT_OPTIONS =
     [(js ''success'', msg_lg_r_success), (js ''invalid_code'', msg_lg_r_invalid_code),
      (js ''code_used_up'', msg_lg_r_code_used_up), (js ''code_disabled'', msg_lg_r_code_disabled),
      (js ''batch_disabled'', msg_lg_r_batch_disabled), (js ''expired'', msg_lg_r_expired),
      (js ''user_limit'', msg_lg_r_user_limit), (js ''invalid_input'', msg_lg_r_invalid_input)]"

definition WEBHOOK_OPTIONS :: "(jstr \<times> jstr) list" where
  "WEBHOOK_OPTIONS =
     [(js ''pending'', msg_lg_w_pending), (js ''success'', msg_lg_w_success),
      (js ''failed'', msg_lg_w_failed), (js ''dead_letter'', msg_lg_w_dead_letter)]"

section \<open>State\<close>

record log_filters =
  lf_batchId :: "int option"
  lf_result :: jstr
  lf_webhook :: jstr
  lf_userId :: jstr
  lf_page :: int

datatype log_call = LLoad log_filters | LResend int log_filters | LTimer log_filters

record log_page = "log_call base" +
  lg_logs :: "LogItem list option"
  lg_paged :: Paged
  lg_batchOptions :: "(int \<times> jstr) list"
  lg_filters :: log_filters

definition text_param :: "jstr \<Rightarrow> jstr option" where
  "text_param t = (if t = [] then None else Some t)"

text \<open>The argument of \<^verbatim>\<open>api.logs\<close>.\<close>

definition logs_params :: "log_filters \<Rightarrow> LogsParams" where
  "logs_params q =
     \<lparr>lp_batch_id = lf_batchId q, lp_result = text_param (lf_result q), lp_webhook = text_param (lf_webhook q),
      lp_user_id = text_param (js_trim (lf_userId q)), lp_page = Some (lf_page q)\<rparr>"

definition lg_load :: "log_filters \<Rightarrow> log_page \<Rightarrow> log_page" where
  "lg_load q s = call (LLoad q) (s\<lparr>lg_logs := None\<rparr>)"

definition lg_load_done :: "(js_error \<Rightarrow> jstr) \<Rightarrow> (LogItem list \<times> Paged \<times> (int \<times> jstr) list) res \<Rightarrow> log_page \<Rightarrow> log_page" where
  "lg_load_done em r s = (case r of
     Inr (logs, d, batches) \<Rightarrow>
       s\<lparr>lg_logs := Some logs,
         lg_paged := \<lparr>pg_total = pg_total d, pg_page = pg_page d, pg_pages = pg_pages d\<rparr>,
         lg_batchOptions := batches\<rparr>
   | Inl e \<Rightarrow> emit (ToastError (err_message em e)) s)"

definition no_filters :: log_filters where
  "no_filters = \<lparr>lf_batchId = None, lf_result = [], lf_webhook = [], lf_userId = [], lf_page = 1\<rparr>"

definition lg_init :: log_page where
  "lg_init = lg_load no_filters
     \<lparr>pend = [], log = [], lg_logs = None, lg_paged = \<lparr>pg_total = 0, pg_page = 1, pg_pages = 1\<rparr>,
      lg_batchOptions = [], lg_filters = no_filters\<rparr>"

text \<open>New filters; the effect on \<^verbatim>\<open>[load]\<close> runs when a dependency of the callback changed.\<close>

definition set_filters :: "(log_filters \<Rightarrow> log_filters) \<Rightarrow> log_page \<Rightarrow> log_page" where
  "set_filters f s =
     (let q = f (lg_filters s); t = s\<lparr>lg_filters := q\<rparr> in
      if q \<noteq> lg_filters s then lg_load q t else t)"

definition resetFilters :: "log_page \<Rightarrow> log_page" where
  "resetFilters s = set_filters (\<lambda>_. no_filters) s"

definition handleResend :: "int \<Rightarrow> log_page \<Rightarrow> log_page" where
  "handleResend ident s = call (LResend ident (lg_filters s)) s"

definition resend_done :: "(js_error \<Rightarrow> jstr) \<Rightarrow> log_filters \<Rightarrow> jstr res \<Rightarrow> log_page \<Rightarrow> log_page" where
  "resend_done em q r s = (case r of
     Inr message \<Rightarrow> call (LTimer q) (emit (ToastSuccess message) s)
   | Inl e \<Rightarrow> emit (ToastError (message_if_error em msg_lg_failed e)) s)"

section \<open>View\<close>

datatype log_event =
    FilterBatch "int option"
  | FilterResult "jstr option"
  | FilterWebhook "jstr option"
  | FilterUser jstr
  | ResetFilters
  | Resend int
  | LogPage int

definition select_view :: "jstr \<Rightarrow> jstr \<Rightarrow> ('b option \<Rightarrow> 'e) \<Rightarrow> ('b \<times> jstr) list \<Rightarrow> 'e node" where
  "select_view v all_label pick options =
     El ''Select'' [Attr ''value'' v]
       (El ''SelectItem'' [On (pick None)] [Txt all_label]
        # map (\<lambda>(o_value, label). El ''SelectItem'' [On (pick (Some o_value))] [Txt label]) options)"

definition lg_filters_view :: "log_page \<Rightarrow> log_event node" where
  "lg_filters_view s = (let q = lg_filters s in
     El ''Card'' []
       [El ''CardTitle'' [] [Txt msg_lg_filter],
        El ''CardDescription'' [] [Txt msg_lg_filter_hint],
        select_view (case lf_batchId q of None \<Rightarrow> [] | Some i \<Rightarrow> int_str i) msg_lg_all_batches FilterBatch
          (map (\<lambda>(i, name). (i, js ''#'' @ int_str i @ js '' '' @ name)) (lg_batchOptions s)),
        select_view (lf_result q) msg_lg_all_results FilterResult RESULT_OPTIONS,
        select_view (lf_webhook q) msg_lg_all_webhooks FilterWebhook WEBHOOK_OPTIONS,
        El ''input'' [Attr ''value'' (lf_userId q), OnValue FilterUser] [],
        button [On ResetFilters] msg_lg_reset])"

definition resendable :: "LogItem \<Rightarrow> bool" where
  "resendable r \<longleftrightarrow> li_result r = js ''success''
     \<and> li_webhook_status r \<in> {js ''success'', js ''failed'', js ''dead_letter''}"

definition log_row_view :: "LogItem \<Rightarrow> log_event node" where
  "log_row_view r =
     El ''TableRow'' []
       ([Txt (li_created_at r), Txt (case li_batch_name r of None \<Rightarrow> msg_lg_dash | Some n \<Rightarrow> n),
         Txt (li_code r), Txt (li_user_id r), ResultBadge (li_result r) (li_message r),
         WebhookBadge (li_webhook_status r),
         Txt (if li_webhook_response r \<noteq> [] then li_webhook_response r else msg_dash), Txt (li_ip r)]
        @ show_if (resendable r)
            (ConfirmDialog [] msg_lg_resend msg_lg_resend_title
               msg_lg_resend_hint (Some msg_lg_resend) (Resend (li_id r))))"

definition lg_table_view :: "log_page \<Rightarrow> log_event node" where
  "lg_table_view s = (case lg_logs s of
     None \<Rightarrow> El ''Skeleton'' [] []
   | Some rows \<Rightarrow>
       if length rows = 0 then EmptyState msg_lg_none msg_lg_none_hint
       else El ''Table'' []
         (El ''TableHeader'' []
            [Txt msg_lg_col_time, Txt msg_lg_col_batch, Txt msg_lg_col_code, Txt msg_lg_col_mail, Txt msg_lg_col_result,
             Txt (js ''Webhook''), Txt msg_lg_col_answer, Txt (js ''IP''), Txt msg_lg_col_actions]
          # map log_row_view rows))"

definition lg_view :: "log_page \<Rightarrow> log_event node" where
  "lg_view s = (let d = lg_paged s in
     El ''div'' []
       [PageHeader msg_lg_title msg_lg_subtitle [],
        lg_filters_view s,
        El ''Card'' []
          [El ''CardTitle'' [] [Txt msg_lg_list],
           El ''CardDescription'' [] [Txt (msg_lg_total @ int_str (pg_total d) @ msg_lg_entries)],
           lg_table_view s,
           DataPagination (pg_page d) (pg_pages d) (pg_total d) LogPage]])"

section \<open>Steps\<close>

record log_env = le_text :: "js_error \<Rightarrow> jstr"

definition chosen :: "jstr option \<Rightarrow> jstr" where
  "chosen v = (case v of None \<Rightarrow> [] | Some t \<Rightarrow> t)"

fun lg_handle :: "log_env \<Rightarrow> log_event \<Rightarrow> log_page \<Rightarrow> log_page" where
  "lg_handle env (FilterBatch v) s = set_filters (\<lambda>q. q\<lparr>lf_batchId := v, lf_page := 1\<rparr>) s"
| "lg_handle env (FilterResult v) s = set_filters (\<lambda>q. q\<lparr>lf_result := chosen v, lf_page := 1\<rparr>) s"
| "lg_handle env (FilterWebhook v) s = set_filters (\<lambda>q. q\<lparr>lf_webhook := chosen v, lf_page := 1\<rparr>) s"
| "lg_handle env (FilterUser v) s = set_filters (\<lambda>q. q\<lparr>lf_userId := v, lf_page := 1\<rparr>) s"
| "lg_handle env ResetFilters s = resetFilters s"
| "lg_handle env (Resend i) s = handleResend i s"
| "lg_handle env (LogPage p) s = set_filters (\<lambda>q. q\<lparr>lf_page := p\<rparr>) s"

datatype log_answer =
    LogsAnswer "(LogItem list \<times> Paged \<times> (int \<times> jstr) list) res"
  | ResendAnswer "jstr res"
  | TimerFires

text \<open>The server numbers its pages from 1.\<close>

fun good_log_answer :: "log_answer \<Rightarrow> bool" where
  "good_log_answer (LogsAnswer (Inr (rows, d, bs))) \<longleftrightarrow> 1 \<le> pg_page d"
| "good_log_answer _ \<longleftrightarrow> True"

fun lg_continue :: "log_env \<Rightarrow> log_call \<Rightarrow> log_answer \<Rightarrow> log_page \<Rightarrow> log_page option" where
  "lg_continue env (LLoad q) (LogsAnswer r) s = Some (lg_load_done (le_text env) r s)"
| "lg_continue env (LResend i q) (ResendAnswer r) s = Some (resend_done (le_text env) q r s)"
| "lg_continue env (LTimer q) TimerFires s = Some (lg_load q s)"
| "lg_continue env _ _ s = None"

definition lg_settle :: "log_env \<Rightarrow> log_call \<Rightarrow> log_answer \<Rightarrow> log_page \<Rightarrow> log_page option" where
  "lg_settle env c a s = (if good_log_answer a then lg_continue env c a s else None)"

abbreviation lg_step :: "log_page \<Rightarrow> log_page \<Rightarrow> bool" where
  "lg_step \<equiv> page_step (\<lambda>s. offers (lg_view s)) lg_handle lg_settle"

section \<open>What the page offers\<close>

lemma log_page_frame [simp]:
  "lg_logs (emit e s) = lg_logs s"
  "lg_paged (emit e s) = lg_paged s"
  "lg_batchOptions (emit e s) = lg_batchOptions s"
  "lg_filters (emit e s) = lg_filters s"
  "lg_logs (call c s) = lg_logs s"
  "lg_paged (call c s) = lg_paged s"
  "lg_batchOptions (call c s) = lg_batchOptions s"
  "lg_filters (call c s) = lg_filters s"
  "lg_logs (settled c s) = lg_logs s"
  "lg_paged (settled c s) = lg_paged s"
  "lg_batchOptions (settled c s) = lg_batchOptions s"
  "lg_filters (settled c s) = lg_filters s"
  "lg_logs (emits es s) = lg_logs s"
  "lg_paged (emits es s) = lg_paged s"
  "lg_batchOptions (emits es s) = lg_batchOptions s"
  "lg_filters (emits es s) = lg_filters s"
  by (simp_all add: base_ops emits_frame)

lemma offers_select [simp]:
  "offers (select_view v l pick options) e \<longleftrightarrow> e = pick None \<or> (\<exists>x \<in> fst ` set options. e = pick (Some x))"
  by (auto simp: select_view_def list_ex_map_iff split: prod.splits) force+

lemma offers_log_row [simp]: "offers (log_row_view r) e \<longleftrightarrow> resendable r \<and> e = Resend (li_id r)"
  by (auto simp: log_row_view_def)

fun shown_rows :: "LogItem list option \<Rightarrow> LogItem list" where
  "shown_rows None = []"
| "shown_rows (Some rows) = rows"

lemma offers_lg_table:
  "offers (lg_table_view s) e \<longleftrightarrow> (\<exists>r \<in> set (shown_rows (lg_logs s)). resendable r \<and> e = Resend (li_id r))"
  by (cases "lg_logs s") (auto simp: lg_table_view_def list_ex_map_iff)

lemma list_ex_option_ids: "fst ` set (map (\<lambda>(i, name). (i, f i name)) xs) = fst ` set xs"
  by force

definition picks :: "('b option \<Rightarrow> 'e) \<Rightarrow> ('b \<times> 'd) list \<Rightarrow> 'e \<Rightarrow> bool" where
  "picks f options e \<longleftrightarrow> e = f None \<or> (\<exists>x \<in> fst ` set options. e = f (Some x))"

lemma offers_lg_filters:
  "offers (lg_filters_view s) e \<longleftrightarrow>
     picks FilterBatch (lg_batchOptions s) e \<or> picks FilterResult RESULT_OPTIONS e
     \<or> picks FilterWebhook WEBHOOK_OPTIONS e \<or> (\<exists>v. e = FilterUser v) \<or> e = ResetFilters"
  unfolding lg_filters_view_def Let_def picks_def
  by (simp add: list_ex_option_ids del: set_map)

lemma offers_lg_view:
  "offers (lg_view s) e \<longleftrightarrow>
     offers (lg_filters_view s) e
     \<or> (\<exists>r \<in> set (shown_rows (lg_logs s)). resendable r \<and> e = Resend (li_id r))
     \<or> offers (DataPagination (pg_page (lg_paged s)) (pg_pages (lg_paged s)) (pg_total (lg_paged s)) LogPage) e"
  by (simp add: lg_view_def Let_def offers_lg_table)

lemma offered_filters:
  "offers (lg_view s) (FilterResult v) \<Longrightarrow> chosen v = [] \<or> chosen v \<in> fst ` set RESULT_OPTIONS"
  "offers (lg_view s) (FilterWebhook v) \<Longrightarrow> chosen v = [] \<or> chosen v \<in> fst ` set WEBHOOK_OPTIONS"
  by (auto simp: offers_lg_view offers_lg_filters picks_def chosen_def intro: rev_image_eqI)

lemma offered_page: "offers (lg_view s) (LogPage p) \<Longrightarrow> p = pg_page (lg_paged s) + 1 \<or> 1 < pg_page (lg_paged s) \<and> p = pg_page (lg_paged s) - 1"
  by (auto simp: offers_lg_view offers_lg_filters picks_def)

section \<open>Invariant\<close>

definition valid_filters :: "log_filters \<Rightarrow> bool" where
  "valid_filters q \<longleftrightarrow>
     (lf_result q = [] \<or> lf_result q \<in> fst ` set RESULT_OPTIONS)
     \<and> (lf_webhook q = [] \<or> lf_webhook q \<in> fst ` set WEBHOOK_OPTIONS) \<and> 1 \<le> lf_page q"

fun call_filters :: "log_call \<Rightarrow> log_filters" where
  "call_filters (LLoad q) = q"
| "call_filters (LResend i q) = q"
| "call_filters (LTimer q) = q"

definition lg_inv :: "log_page \<Rightarrow> bool" where
  "lg_inv s \<longleftrightarrow> valid_filters (lg_filters s) \<and> list_all (\<lambda>c. valid_filters (call_filters c)) (pend s)
     \<and> 1 \<le> pg_page (lg_paged s)"

lemma lg_inv_set:
  "lg_inv s \<Longrightarrow> valid_filters (f (lg_filters s)) \<Longrightarrow> lg_inv (set_filters f s)"
  by (simp add: set_filters_def Let_def lg_load_def lg_inv_def)

lemma valid_no_filters: "valid_filters no_filters"
  by (simp add: valid_filters_def no_filters_def)

lemma lg_inv_handle:
  assumes "lg_inv s" "offers (lg_view s) e"
  shows "lg_inv (lg_handle env e s)"
proof -
  have v: "valid_filters (lg_filters s)"
    using assms(1) by (simp add: lg_inv_def)
  show ?thesis
  proof (cases e)
    case (FilterResult x)
    have "valid_filters ((\<lambda>q. q\<lparr>lf_result := chosen x, lf_page := 1\<rparr>) (lg_filters s))"
      using v offered_filters(1) [of s x] assms(2) FilterResult by (simp add: valid_filters_def)
    from lg_inv_set [where f = "\<lambda>q. q\<lparr>lf_result := chosen x, lf_page := 1\<rparr>", OF assms(1) this] FilterResult show ?thesis by simp
  next
    case (FilterWebhook x)
    have "valid_filters ((\<lambda>q. q\<lparr>lf_webhook := chosen x, lf_page := 1\<rparr>) (lg_filters s))"
      using v offered_filters(2) [of s x] assms(2) FilterWebhook by (simp add: valid_filters_def)
    from lg_inv_set [where f = "\<lambda>q. q\<lparr>lf_webhook := chosen x, lf_page := 1\<rparr>", OF assms(1) this] FilterWebhook show ?thesis by simp
  next
    case (LogPage p)
    then have "1 \<le> p"
      using assms offered_page [of s p] by (auto simp: lg_inv_def)
    then have "valid_filters ((\<lambda>q. q\<lparr>lf_page := p\<rparr>) (lg_filters s))"
      using v by (simp add: valid_filters_def)
    from lg_inv_set [where f = "\<lambda>q. q\<lparr>lf_page := p\<rparr>", OF assms(1) this] LogPage show ?thesis by simp
  next
    case ResetFilters
    then show ?thesis using lg_inv_set [OF assms(1)] valid_no_filters by (simp add: resetFilters_def)
  next
    case (Resend i)
    then show ?thesis using assms(1) by (simp add: handleResend_def lg_inv_def)
  next
    case (FilterBatch x)
    have "valid_filters ((\<lambda>q. q\<lparr>lf_batchId := x, lf_page := 1\<rparr>) (lg_filters s))"
      using v by (simp add: valid_filters_def)
    from lg_inv_set [where f = "\<lambda>q. q\<lparr>lf_batchId := x, lf_page := 1\<rparr>", OF assms(1) this] FilterBatch show ?thesis by simp
  next
    case (FilterUser x)
    have "valid_filters ((\<lambda>q. q\<lparr>lf_userId := x, lf_page := 1\<rparr>) (lg_filters s))"
      using v by (simp add: valid_filters_def)
    from lg_inv_set [where f = "\<lambda>q. q\<lparr>lf_userId := x, lf_page := 1\<rparr>", OF assms(1) this] FilterUser show ?thesis by simp
  qed
qed

lemma lg_inv_settle:
  assumes "lg_inv s" "c \<in> set (pend s)" "lg_settle env c a (settled c s) = Some t"
  shows "lg_inv t"
proof -
  have g: "good_log_answer a" "lg_continue env c a (settled c s) = Some t"
    using assms(3) by (auto simp: lg_settle_def split: if_splits)
  have v: "valid_filters (call_filters c)"
    using assms(1,2) by (auto simp: lg_inv_def list_all_iff)
  have i: "lg_inv (settled c s)"
    using assms(1) by (simp add: lg_inv_def list_all_remove1)
  from g i v show ?thesis
    by (cases "(env, c, a, settled c s)" rule: lg_continue.cases)
       (auto simp: lg_inv_def lg_load_done_def resend_done_def lg_load_def split: sum.splits)
qed

interpretation lg: page_system "\<lambda>s. s = lg_init" "\<lambda>s. offers (lg_view s)" lg_handle lg_settle lg_inv
proof unfold_locales
  show "s = lg_init \<Longrightarrow> lg_inv s" for s
    by (simp add: lg_init_def lg_load_def lg_inv_def valid_no_filters)
qed (auto intro: lg_inv_handle lg_inv_settle)

section \<open>Properties\<close>

text \<open>Every list request of the log page, its timers' included, asks for a page from
  1 on with filters the server knows, and its query string splits into exactly
  the parameters set; changing a filter always goes back to page 1.\<close>

lemma logs_requests_valid:
  assumes "lg_step\<^sup>*\<^sup>* lg_init s"
  shows "valid_filters (lg_filters s)
    \<and> (\<forall>c \<in> set (pend s). valid_filters (call_filters c)
         \<and> (js ''page'', int_str (lf_page (call_filters c))) \<in> set (logs_query (logs_params (call_filters c))))
    \<and> (\<forall>env e. e \<notin> range LogPage \<and> lg_filters (lg_handle env e s) \<noteq> lg_filters s
         \<longrightarrow> lf_page (lg_filters (lg_handle env e s)) = 1)"
proof -
  have i: "lg_inv s"
    using lg.reachable_inv [OF refl assms] .
  have "(js ''page'', int_str (lf_page q)) \<in> set (logs_query (logs_params q))" if "valid_filters q" for q
    using that by (simp add: logs_query_def logs_params_def opt_int_param_def valid_filters_def)
  moreover have "lf_page (lg_filters (lg_handle env e s)) = 1"
    if "e \<notin> range LogPage" "lg_filters (lg_handle env e s) \<noteq> lg_filters s" for env e
    using that
    by (cases e) (auto simp: set_filters_def Let_def lg_load_def resetFilters_def no_filters_def handleResend_def)
  ultimately show ?thesis
    using i by (auto simp: lg_inv_def list_all_iff)
qed

end
