(* ===== verification/AdminComposed.thy ===== *)
theory AdminComposed
  imports AdminShellProofs SidebarProofs SiteSettingsProofs Logs
begin

text \<open>
  A whole admin screen: the layout of web/src/layouts/admin-layout.tsx with its
  session check, the sidebar, the theme, the site settings, and the page of the
  matched route in its outlet, all in one state. A component is what a page gives
  the screen; one step relation interleaves the events the view of the screen
  offers, the key and size events of the window, and the answers to the layout
  and to the page.
\<close>

section \<open>Components and screens\<close>

text \<open>
  A page as the screen sees it. It is opened while the provider of the site settings
  is in some state; \<open>co_provider\<close> is that provider when the page holds it in its
  own state, as the settings page does.
\<close>

record ('p, 'e, 'v) component =
  co_init :: "provider \<Rightarrow> 'p \<Rightarrow> bool"
  co_view :: "'p \<Rightarrow> 'e node"
  co_off :: "'p \<Rightarrow> 'e \<Rightarrow> bool"
  co_handle :: "'v \<Rightarrow> 'e \<Rightarrow> 'p \<Rightarrow> 'p"
  co_answer :: "'p \<Rightarrow> 'p \<Rightarrow> bool"
  co_provider :: "'p \<Rightarrow> provider option"

record 'p screen =
  sn_layout :: layout
  sn_sidebar :: sidebar
  sn_theme :: jstr
  sn_failedUrl :: "jstr option"
  sn_provider :: provider
  sn_page :: "'p option"

text \<open>The sidebar is mounted with the layout's frame; until then this is its initial state.\<close>

definition screen_init :: "jstr \<Rightarrow> 'p screen" where
  "screen_init theme =
     \<lparr>sn_layout = la_init, sn_sidebar = sidebar_mount layout_sidebar, sn_theme = theme, sn_failedUrl = None,
      sn_provider = provider_init, sn_page = None\<rparr>"

definition owned_provider :: "('p, 'e, 'v) component \<Rightarrow> 'p screen \<Rightarrow> provider option" where
  "owned_provider k s = (case sn_page s of None \<Rightarrow> None | Some p \<Rightarrow> co_provider k p)"

definition screen_settings :: "('p, 'e, 'v) component \<Rightarrow> 'p screen \<Rightarrow> SiteSettings" where
  "screen_settings k s = pv_settings (case owned_provider k s of None \<Rightarrow> sn_provider s | Some prov \<Rightarrow> prov)"

definition screen_ctx :: "('p, 'e, 'v) component \<Rightarrow> jstr \<Rightarrow> 'p screen \<Rightarrow> layout_ctx" where
  "screen_ctx k pathname s =
     \<lparr>lv_settings = screen_settings k s, lv_theme = sn_theme s, lv_pathname = pathname,
      lv_failedUrl = sn_failedUrl s, lv_sidebar = sn_sidebar s\<rparr>"

definition outlet :: "('p, 'e, 'v) component \<Rightarrow> 'p screen \<Rightarrow> 'e node" where
  "outlet k s = (case sn_page s of None \<Rightarrow> fragment [] | Some p \<Rightarrow> co_view k p)"

definition screen_view :: "('p, 'e, 'v) component \<Rightarrow> jstr \<Rightarrow> 'p screen \<Rightarrow> 'e shell_event node" where
  "screen_view k pathname s = la_view (screen_ctx k pathname s) (outlet k s) (sn_layout s)"

text \<open>Each event goes to the part it belongs to.\<close>

fun screen_handle :: "('p, 'e, 'v) component \<Rightarrow> la_env \<Rightarrow> 'v \<Rightarrow> 'e shell_event \<Rightarrow> 'p screen \<Rightarrow> 'p screen" where
  "screen_handle k lenv env Logout s = s\<lparr>sn_layout := handleLogout (sn_layout s)\<rparr>"
| "screen_handle k lenv env (SetTheme t) s = s\<lparr>sn_theme := t\<rparr>"
| "screen_handle k lenv env (LayoutLogoFailed u) s = s\<lparr>sn_failedUrl := Some u\<rparr>"
| "screen_handle k lenv env (Side e) s = s\<lparr>sn_sidebar := sidebar_handle layout_sidebar e (sn_sidebar s)\<rparr>"
| "screen_handle k lenv env (InPage e) s = s\<lparr>sn_page := map_option (co_handle k env e) (sn_page s)\<rparr>"

text \<open>An event of the page must also be one the page itself takes.\<close>

definition page_takes :: "('p, 'e, 'v) component \<Rightarrow> 'p screen \<Rightarrow> 'e shell_event \<Rightarrow> bool" where
  "page_takes k s e = (case e of
     InPage x \<Rightarrow> (case sn_page s of None \<Rightarrow> False | Some p \<Rightarrow> co_off k p x)
   | _ \<Rightarrow> True)"

fun window_event :: "sidebar_event \<Rightarrow> bool" where
  "window_event (KeyDown e) = True"
| "window_event (Resize w) = True"
| "window_event _ = False"

text \<open>When the session is confirmed the outlet mounts its page.\<close>

definition mount_page :: "layout \<Rightarrow> 'p \<Rightarrow> 'p screen \<Rightarrow> 'p screen" where
  "mount_page l p s =
     s\<lparr>sn_layout := l,
       sn_page := (if la_auth l = AuthOk then (case sn_page s of None \<Rightarrow> Some p | Some q \<Rightarrow> Some q) else sn_page s)\<rparr>"

inductive screen_step :: "('p, 'e, 'v) component \<Rightarrow> jstr \<Rightarrow> 'p screen \<Rightarrow> 'p screen \<Rightarrow> bool"
  for k pathname where
  user: "\<not> left_page (sn_layout s) \<Longrightarrow> offers (screen_view k pathname s) e \<Longrightarrow> page_takes k s e
    \<Longrightarrow> screen_step k pathname s (screen_handle k lenv env e s)"
| window: "\<not> left_page (sn_layout s) \<Longrightarrow> la_auth (sn_layout s) = AuthOk \<Longrightarrow> window_event e
    \<Longrightarrow> screen_step k pathname s (s\<lparr>sn_sidebar := sidebar_handle layout_sidebar e (sn_sidebar s)\<rparr>)"
| session: "c \<in> set (pend (sn_layout s)) \<Longrightarrow> la_settle lenv c r (settled c (sn_layout s)) = Some l \<Longrightarrow> 
    co_init k (sn_provider s) p \<Longrightarrow> screen_step k pathname s (mount_page l p s)"
| settings: "owned_provider k s = None \<Longrightarrow> pv_status (sn_provider s) = StatusLoading
    \<Longrightarrow> screen_step k pathname s (s\<lparr>sn_provider := refresh_done em r (sn_provider s)\<rparr>)"
| page_answers: "sn_page s = Some p \<Longrightarrow> co_answer k p q \<Longrightarrow> screen_step k pathname s (s\<lparr>sn_page := Some q\<rparr>)"

inductive_cases screen_stepE: "screen_step k pathname s t"

text \<open>The component of a page given by the functions of \<open>page_step\<close>.\<close>

definition component_of ::
  "(provider \<Rightarrow> ('c, 'x) base_scheme \<Rightarrow> bool) \<Rightarrow> (('c, 'x) base_scheme \<Rightarrow> 'e node) \<Rightarrow> (('c, 'x) base_scheme \<Rightarrow> 'e \<Rightarrow> bool)
   \<Rightarrow> ('v \<Rightarrow> 'e \<Rightarrow> ('c, 'x) base_scheme \<Rightarrow> ('c, 'x) base_scheme)
   \<Rightarrow> ('w \<Rightarrow> 'c \<Rightarrow> 'a \<Rightarrow> ('c, 'x) base_scheme \<Rightarrow> ('c, 'x) base_scheme option)
   \<Rightarrow> (('c, 'x) base_scheme \<Rightarrow> provider option) \<Rightarrow> (('c, 'x) base_scheme, 'e, 'v) component" where
  "component_of init view off handle settle holds =
     \<lparr>co_init = init, co_view = view, co_off = off, co_handle = handle, co_answer = page_answer settle,
      co_provider = holds\<rparr>"

section \<open>What a screen keeps\<close>

text \<open>
  The interface between screen and page: a property every page of the component
  starts with and every event and answer keeps. The whole screen then keeps it,
  together with what it keeps itself.
\<close>

locale kept_component =
  fixes k :: "('p, 'e, 'v) component" and keep :: "'p \<Rightarrow> bool"
  assumes starts: "co_init k prov p \<Longrightarrow> keep p"
    and takes: "keep p \<Longrightarrow> co_off k p e \<Longrightarrow> keep (co_handle k env e p)"
    and answers: "keep p \<Longrightarrow> co_answer k p q \<Longrightarrow> keep q"

definition sidebar_run :: "sidebar \<Rightarrow> bool" where
  "sidebar_run sb \<longleftrightarrow> (\<exists>es. sb = sidebar_session layout_sidebar es (sidebar_mount layout_sidebar))"

definition screen_inv :: "('p \<Rightarrow> bool) \<Rightarrow> 'p screen \<Rightarrow> bool" where
  "screen_inv keep s \<longleftrightarrow>
     la_inv (sn_layout s) \<and> sidebar_run (sn_sidebar s)
     \<and> (sn_page s \<noteq> None \<longleftrightarrow> la_auth (sn_layout s) = AuthOk)
     \<and> (\<forall>p. sn_page s = Some p \<longrightarrow> keep p)"

lemma sidebar_session_snoc:
  "sidebar_session props (es @ [e]) s = sidebar_handle props e (sidebar_session props es s)"
  by (simp add: sidebar_session_def)

lemma sidebar_run_handle: "sidebar_run sb \<Longrightarrow> sidebar_run (sidebar_handle layout_sidebar e sb)"
  unfolding sidebar_run_def by (metis sidebar_session_snoc)

lemma la_inv_logout: "la_inv l \<Longrightarrow> la_inv (handleLogout l)"
  by (auto simp: la_inv_def handleLogout_def)

text \<open>A confirmed session stays confirmed: the check is asked once.\<close>

lemma la_settle_auth:
  assumes "la_inv l" "c \<in> set (pend l)" "la_settle lenv c r (settled c l) = Some m" "la_auth l = AuthOk"
  shows "la_auth m = AuthOk"
  using assms by (cases c) (auto simp: la_inv_def logout_done_def)

context kept_component
begin

lemma screen_inv_user:
  assumes "screen_inv keep s" "page_takes k s e"
  shows "screen_inv keep (screen_handle k lenv env e s)"
proof (cases e)
  case Logout
  then show ?thesis
    using assms(1) la_inv_logout by (auto simp: screen_inv_def handleLogout_def)
next
  case (Side x)
  then show ?thesis
    using assms(1) sidebar_run_handle by (auto simp: screen_inv_def)
next
  case (InPage x)
  then show ?thesis
    using assms takes by (auto simp: screen_inv_def page_takes_def split: option.splits)
qed (use assms(1) in \<open>simp_all add: screen_inv_def\<close>)

lemma screen_inv_session:
  assumes "screen_inv keep s" "c \<in> set (pend (sn_layout s))"
    "la_settle lenv c r (settled c (sn_layout s)) = Some l" "co_init k prov p"
  shows "screen_inv keep (mount_page l p s)"
  using assms la_inv_settle [OF _ assms(2,3)] la_settle_auth [OF _ assms(2,3)] starts
  by (auto simp: screen_inv_def mount_page_def split: option.splits)

lemma screen_inv_step:
  assumes "screen_inv keep s" "screen_step k pathname s t"
  shows "screen_inv keep t"
  using assms(2)
proof (cases rule: screen_step.cases)
  case (window e)
  then show ?thesis
    using assms(1) sidebar_run_handle by (simp add: screen_inv_def)
next
  case (settings em r)
  then show ?thesis
    using assms(1) by (simp add: screen_inv_def)
next
  case (page_answers p q)
  then show ?thesis
    using assms(1) answers by (auto simp: screen_inv_def)
qed (use assms(1) screen_inv_user screen_inv_session in auto)

end

sublocale kept_component \<subseteq> screen: invariant_system "\<lambda>s. s = screen_init theme" "screen_step k pathname" "screen_inv keep"
  for theme pathname
proof unfold_locales
  have "sidebar_run (sidebar_mount layout_sidebar)"
    unfolding sidebar_run_def by (metis sidebar_session_simps(1))
  then show "s = screen_init theme \<Longrightarrow> screen_inv keep s" for s
    by (simp add: screen_inv_def screen_init_def la_init_def la_inv_def)
qed (rule screen_inv_step)

text \<open>Any page: what it keeps inside a screen is being reached by steps of its own.\<close>

definition page_run ::
  "(provider \<Rightarrow> ('c, 'x) base_scheme \<Rightarrow> bool) \<Rightarrow> (('c, 'x) base_scheme \<Rightarrow> 'e \<Rightarrow> bool)
   \<Rightarrow> ('v \<Rightarrow> 'e \<Rightarrow> ('c, 'x) base_scheme \<Rightarrow> ('c, 'x) base_scheme)
   \<Rightarrow> ('v \<Rightarrow> 'c \<Rightarrow> 'a \<Rightarrow> ('c, 'x) base_scheme \<Rightarrow> ('c, 'x) base_scheme option)
   \<Rightarrow> ('c, 'x) base_scheme \<Rightarrow> bool" where
  "page_run init off handle settle p \<longleftrightarrow> (\<exists>prov p0. init prov p0 \<and> (page_step off handle settle)\<^sup>*\<^sup>* p0 p)"

lemma page_run_step: "page_run init off handle settle p \<Longrightarrow> page_step off handle settle p q \<Longrightarrow> page_run init off handle settle q"
  unfolding page_run_def by (blast intro: rtranclp.rtrancl_into_rtrancl)

interpretation run: kept_component "component_of init view off handle settle holds" "page_run init off handle settle"
  for init view off handle settle holds
proof unfold_locales
  let ?k = "component_of init view off handle settle holds"
  show "co_init ?k prov p \<Longrightarrow> page_run init off handle settle p" for prov p
    unfolding page_run_def component_of_def by auto
  show "page_run init off handle settle p \<Longrightarrow> co_off ?k p e
      \<Longrightarrow> page_run init off handle settle (co_handle ?k env e p)" for p e env
    by (erule page_run_step) (simp add: component_of_def page_step.user)
  show "page_run init off handle settle p \<Longrightarrow> co_answer ?k p q \<Longrightarrow> page_run init off handle settle q" for p q
    by (erule page_run_step) (auto simp: component_of_def elim!: page_answerE intro: page_step.answer)
qed

section \<open>The settings page in its screen\<close>

text \<open>The page as it opens under a provider in any state; a load under way goes on.\<close>

definition st_open :: "provider \<Rightarrow> st_page" where
  "st_open prov =
     \<lparr>pend = (if pv_status prov = StatusLoading then [SRefresh] else []), log = [], st_provider = prov,
      st_mount = (if mounted prov then 1 else 0), st_form = fresh_form (pv_settings prov), st_failedUrl = None\<rparr>"

lemma st_open_init: "st_open provider_init = st_init"
  by (simp add: st_open_def st_init_def provider_init_def refresh_start_def mounted_def call_def)

definition st_component :: "(st_page, st_event, st_env) component" where
  "st_component = component_of (\<lambda>prov p. p = st_open prov) st_view (\<lambda>s. offers (st_view s)) st_handle st_settle
     (\<lambda>p. Some (st_provider p))"

interpretation st_screen: kept_component st_component st_inv
proof unfold_locales
  show "co_init st_component prov p \<Longrightarrow> st_inv p" for prov p
    by (simp add: st_component_def component_of_def st_open_def st_inv_def one_call_def form_ok_fresh)
  show "st_inv p \<Longrightarrow> co_off st_component p e \<Longrightarrow> st_inv (co_handle st_component env e p)" for p e env
    by (simp add: st_component_def component_of_def st.user_ok)
  show "st_inv p \<Longrightarrow> co_answer st_component p q \<Longrightarrow> st_inv q" for p q
    by (auto simp: st_component_def component_of_def elim!: page_answerE dest: st.answer_ok)
qed

definition menu_shown :: "sidebar \<Rightarrow> bool" where
  "menu_shown sb \<longleftrightarrow> useIsMobile (sb_isMobile sb) \<longrightarrow> sb_openMobile sb"

lemma texts_sidebar_title:
  "menu_shown (lv_sidebar v) \<Longrightarrow> ss_site_title (lv_settings v) \<in> set (texts (sidebar_view v))"
  by (auto simp: menu_shown_def sidebar_view_def Let_def Sidebar_def contextValue_def SidebarHeader_def SidebarMenu_def
      SidebarMenuItem_def SidebarMenuButton_def slot_def)

lemma texts_screen_title:
  assumes "la_auth (sn_layout s) = AuthOk" "menu_shown (sn_sidebar s)"
  shows "ss_site_title (screen_settings k s) \<in> set (texts (screen_view k pathname s))"
  using assms(1) texts_sidebar_title [of "screen_ctx k pathname s"] assms(2)
  by (auto simp: screen_view_def la_view_def SidebarProvider_def screen_ctx_def)

lemma replaced_settings [simp]: "pv_settings (replaceSettings settings prov) = settings"
  by (simp add: replaceSettings_def)

lemma saved_answer:
  assumes "st_inv p" "SSave m title logo rm \<in> set (pend p)"
  shows "let q = saved m (Inr (settings, msg)) (settled (SSave m title logo rm) p) in
    st_provider q = replaceSettings settings (st_provider p)
    \<and> sf_siteTitle (st_form q) = ss_site_title settings \<and> \<not> sf_saving (st_form q)"
proof -
  have "m = st_mount p"
    using assms by (auto simp: st_inv_def list_all_iff)
  then show ?thesis
    by (auto simp: saved_def Let_def remount_def fresh_form_def on_form_def emit_def settled_def)
qed

section \<open>Properties\<close>


lemma screen_session_ok:
  assumes "co_init k provider_init p"
  shows "screen_step k pathname (screen_init theme)
    (mount_page \<lparr>pend = [], log = [], la_auth = AuthOk\<rparr> p (screen_init theme))"
proof -
  fix lenv :: la_env
  have "la_settle lenv LMe (Inr ()) (settled LMe la_init) = Some \<lparr>pend = [], log = [], la_auth = AuthOk\<rparr>"
    by (simp add: la_init_def me_done_def settled_def call_def)
  then show ?thesis
    using screen_step.session [where s = "screen_init theme" and c = LMe and k = k and p = p] assms
    by (simp add: screen_init_def la_init_def call_def)
qed


text \<open>Conversely a mounted page can make all its steps inside the screen.\<close>

lemma screen_lifts_page:
  assumes "(page_step (\<lambda>s. offers (view s)) handle settle)\<^sup>*\<^sup>* p q"
    and "sn_page s = Some p" "la_auth (sn_layout s) = AuthOk" "\<not> left_page (sn_layout s)"
  shows "(screen_step (component_of init view (\<lambda>s. offers (view s)) handle settle holds) pathname)\<^sup>*\<^sup>* s
    (s\<lparr>sn_page := Some q\<rparr>)"
  using assms(1)
proof (induction rule: rtranclp_induct)
  case base
  have "s\<lparr>sn_page := Some p\<rparr> = s"
    using assms(2) by (cases s) simp
  then show ?case by simp
next
  case (step q r)
  let ?k = "component_of init view (\<lambda>s. offers (view s)) handle settle holds"
  let ?s = "s\<lparr>sn_page := Some q\<rparr>"
  have "screen_step ?k pathname ?s (s\<lparr>sn_page := Some r\<rparr>)"
    using step.hyps(2)
  proof (cases rule: page_step.cases)
    case (user e env)
    fix lenv :: la_env
    have "offers (screen_view ?k pathname ?s) (InPage e)" "page_takes ?k ?s (InPage e)"
      using user assms(3)
      by (simp_all add: screen_view_def offers_la_view outlet_def page_takes_def component_of_def)
    from screen_step.user [OF _ this, of lenv env] show ?thesis
      using user(1) assms(4) by (simp add: component_of_def)
  next
    case (answer c env a)
    then have "co_answer ?k q r"
      by (simp add: component_of_def page_answer.answer)
    from screen_step.page_answers [OF _ this, of ?s pathname] show ?thesis by simp
  qed
  with step.IH show ?case by (rule rtranclp.rtrancl_into_rtrancl)
qed



interpretation any_page: kept_component k "\<lambda>p. True" for k
  by unfold_locales simp_all

lemma alternating_own: "list_all own_cookie (alternating n b)"
  by (induction n arbitrary: b) (auto simp del: own_cookie.simps)

lemma sidebar_run_log: "sidebar_run sb \<Longrightarrow> list_all own_cookie (sb_log sb)"
proof -
  have "layout_sidebar = uncontrolled True"
    by (simp add: layout_sidebar_def uncontrolled_def)
  moreover assume "sidebar_run sb"
  ultimately obtain es where "sb = sidebar_session (uncontrolled True) es (sidebar_mount (uncontrolled True))"
    by (auto simp: sidebar_run_def)
  then show ?thesis
    using session_uncontrolled [of "sidebar_mount (uncontrolled True)" es True] alternating_own
    by (simp add: Let_def) (simp add: sidebar_mount_def alternating_own)
qed

text \<open>Whatever is done with the sidebar of a screen, with the mouse, the keyboard or
  the size of the window, the cookies it writes leave the requests of the client as
  they are: the same address, body and CSRF token, or the same refusal.\<close>

lemma sidebar_keeps_requests:
  assumes "(screen_step k pathname)\<^sup>*\<^sup>* (screen_init theme) s" "cookie_ok ps"
  shows "build_request (cookie_str (browser_jar (sb_log (sn_sidebar s)) ps)) url init = build_request (cookie_str ps) url init"
proof -
  have "sidebar_run (sn_sidebar s)"
    using any_page.screen.reachable_inv [OF refl assms(1)] by (simp add: screen_inv_def)
  then show ?thesis
    using browser_jar_keeps [OF sidebar_run_log assms(2)] build_request_jar [OF _ assms(2)] by simp
qed

end
