(* ===== verification/BatchNew.thy ===== *)
theory BatchNew
  imports AdminFrame
begin

text \<open>
  The page that creates a batch, web/src/pages/admin/batch-new.tsx: the form, its
  validation, the submission, and the plan list it needs when credentials are
  assigned. The random bytes of a secret, the engine's texts and Unicode upper
  case are inputs.
\<close>

section \<open>The webhook secret\<close>

fun hex_str :: "nat \<Rightarrow> jstr" where
  "hex_str n = (if n < 16 then [hex_cu n] else hex_str (n div 16) @ [hex_cu (n mod 16)])"

declare hex_str.simps [simp del]

text \<open>\<open>bytes i\<close> is byte \<open>i\<close> of the array filled by \<^verbatim>\<open>crypto.getRandomValues\<close>.\<close>

definition randomSecret :: "(nat \<Rightarrow> 8 word) \<Rightarrow> jstr" where
  "randomSecret bytes = concat (map (\<lambda>i. js_padStart 2 48 (hex_str (unat (bytes i)))) [0..<16])"

section \<open>State\<close>

text \<open>The initial form; the module evaluates it once, so its secret is a parameter.\<close>

definition INITIAL :: "(nat \<Rightarrow> 8 word) \<Rightarrow> BatchInput" where
  "INITIAL bytes =
     \<lparr>bi_name = [], bi_description = [], bi_payload_json = [], bi_count = jint 100, bi_prefix = [],
      bi_code_length = jint 12, bi_expires_at = [], bi_max_uses_per_code = jint 1,
      bi_max_redeems_per_user = jint 1, bi_assign_credential = False, bi_credential_plan_type = [],
      bi_webhook_url = [], bi_webhook_secret = randomSecret bytes\<rparr>"

datatype bn_call = BPlans | BCreate BatchInput

record bn_page = "bn_call base" +
  bn_form :: BatchInput
  bn_loading :: bool
  bn_errors :: "jstr list"
  bn_plans :: "CredentialPlan list"
  bn_plansLoading :: bool
  bn_plansError :: "jstr option"

record bn_env =
  be_text :: "js_error \<Rightarrow> jstr"
  be_json_text :: "jstr \<Rightarrow> jstr"
  be_bytes :: "nat \<Rightarrow> 8 word"
  be_upper :: "jstr \<Rightarrow> jstr"

definition bn_loadPlans :: "bn_page \<Rightarrow> bn_page" where
  "bn_loadPlans s = call BPlans (s\<lparr>bn_plansLoading := True, bn_plansError := None\<rparr>)"

definition bn_plans_done :: "(js_error \<Rightarrow> jstr) \<Rightarrow> CredentialPlan list option res \<Rightarrow> bn_page \<Rightarrow> bn_page" where
  "bn_plans_done em r s =
     (case r of
        Inr ps \<Rightarrow> s\<lparr>bn_plans := (case ps of None \<Rightarrow> [] | Some xs \<Rightarrow> xs)\<rparr>
      | Inl e \<Rightarrow> s\<lparr>bn_plans := [], bn_plansError := Some (message_if_error em msg_bn_plans_failed e)\<rparr>)
     \<lparr>bn_plansLoading := False\<rparr>"

definition bn_init :: "(nat \<Rightarrow> 8 word) \<Rightarrow> bn_page" where
  "bn_init bytes = bn_loadPlans
     \<lparr>pend = [], log = [], bn_form = INITIAL bytes, bn_loading = False, bn_errors = [], bn_plans = [],
      bn_plansLoading = True, bn_plansError = None\<rparr>"

section \<open>Validation and submission\<close>

definition bn_plansError_set :: "bn_page \<Rightarrow> bool" where
  "bn_plansError_set s = truthy (map_option JStr (bn_plansError s))"

definition https_re :: regex where
  "https_re = RSeq RBegin (RLit (js ''https://''))"

definition plan_errors :: "bn_page \<Rightarrow> jstr list" where
  "plan_errors s =
     (let planType = js_trim (bi_credential_plan_type (bn_form s)) in
      if bn_plansLoading s then [msg_bn_plans_pending]
      else if bn_plansError_set s then [msg_bn_plans_reload]
      else if planType = [] then [msg_bn_choose_plan]
      else if \<not> list_ex (\<lambda>plan. cp_plan_type plan = planType \<and> cp_available plan > 0) (bn_plans s)
      then [msg_bn_out_of_stock]
      else [])"

text \<open>\<open>json_text t\<close> is the message of the exception \<^verbatim>\<open>JSON.parse(t)\<close> throws.\<close>

definition validate :: "(jstr \<Rightarrow> jstr) \<Rightarrow> bn_page \<Rightarrow> jstr list" where
  "validate json_text s =
     (let form = bn_form s in
      (if js_trim (bi_name form) = [] then [msg_bn_need_name] else [])
      @ (if js_trim (bi_payload_json form) \<noteq> [] \<and> JSON_parse (bi_payload_json form) = None
         then [msg_bn_bad_json @ json_text (bi_payload_json form)] else [])
      @ (if bi_webhook_url form \<noteq> [] \<and> \<not> regex_test https_re (bi_webhook_url form)
         then [msg_bn_bad_url] else [])
      @ (if bi_assign_credential form then plan_errors s else []))"

definition submitted :: "BatchInput \<Rightarrow> BatchInput" where
  "submitted form = form
     \<lparr>bi_payload_json := (if js_trim (bi_payload_json form) = [] then js ''{}'' else js_trim (bi_payload_json form)),
      bi_name := js_trim (bi_name form),
      bi_credential_plan_type :=
        (if bi_assign_credential form then js_trim (bi_credential_plan_type form) else [])\<rparr>"

text \<open>The object handed to \<^verbatim>\<open>api.createBatch\<close>, in the order of the initial form's keys.\<close>

definition batch_json :: "BatchInput \<Rightarrow> json" where
  "batch_json i = json_obj
     [(''name'', JStr (bi_name i)), (''description'', JStr (bi_description i)),
      (''payload_json'', JStr (bi_payload_json i)), (''count'', bi_count i), (''prefix'', JStr (bi_prefix i)),
      (''code_length'', bi_code_length i), (''expires_at'', JStr (bi_expires_at i)),
      (''max_uses_per_code'', bi_max_uses_per_code i), (''max_redeems_per_user'', bi_max_redeems_per_user i),
      (''webhook_url'', JStr (bi_webhook_url i)), (''webhook_secret'', JStr (bi_webhook_secret i)),
      (''assign_credential'', JBool (bi_assign_credential i)),
      (''credential_plan_type'', JStr (bi_credential_plan_type i))]"

definition bn_endpoint :: "bn_call \<Rightarrow> endpoint" where
  "bn_endpoint c = (case c of
     BPlans \<Rightarrow> api_credentialPlans
   | BCreate i \<Rightarrow> api_createBatch (batch_json i))"

definition bn_handleSubmit :: "(jstr \<Rightarrow> jstr) \<Rightarrow> bn_page \<Rightarrow> bn_page" where
  "bn_handleSubmit json_text s =
     (let errs = validate json_text s in
      if length errs > 0 then s\<lparr>bn_errors := errs\<rparr>
      else call (BCreate (submitted (bn_form s))) (s\<lparr>bn_loading := True, bn_errors := []\<rparr>))"

definition bn_create_done :: "(jstr \<times> int) res \<Rightarrow> bn_page \<Rightarrow> bn_page option" where
  "bn_create_done r s = map_option (\<lambda>t. t\<lparr>bn_loading := False\<rparr>)
     (case r of
        Inr (message, batch_id) \<Rightarrow>
          Some (emit (Navigate (js ''/admin/batches/'' @ int_str batch_id) False) (emit (ToastSuccess message) s))
      | Inl (ApiErr m st errs) \<Rightarrow> map_option (\<lambda>ls. s\<lparr>bn_errors := ls\<rparr>) (error_lines m errs)
      | Inl _ \<Rightarrow> Some (s\<lparr>bn_errors := [msg_bn_network]\<rparr>))"

section \<open>View\<close>

datatype bn_event =
    EditName jstr
  | EditDescription jstr
  | EditPayload jstr
  | EditCount jstr
  | EditPrefix jstr
  | EditCodeLength jstr
  | EditExpires jstr
  | EditMaxUses jstr
  | SetAssign bool
  | BnReloadPlans
  | PickPlan jstr
  | EditWebhookUrl jstr
  | EditSecret jstr
  | NewSecret
  | CreateBatch

definition labelled :: "jstr \<Rightarrow> 'e attr list \<Rightarrow> jstr \<Rightarrow> jstr \<Rightarrow> 'e node" where
  "labelled label ps v hint =
     El ''div'' [] ([El ''label'' [] [Txt label], El ''input'' (Attr ''value'' v # ps) []]
       @ show_if (hint \<noteq> []) (El ''p'' [] [Txt hint]))"

lemma offers_labelled [simp]:
  "offers (labelled label ps v hint) e \<longleftrightarrow>
     \<not> closed ps \<and> \<not> inert ps \<and> \<not> blocked ps \<and> list_ex (\<lambda>p. fires p e) ps"
  by (auto simp: labelled_def)

fun number_text :: "json \<Rightarrow> jstr" where
  "number_text (JNum m e) = num_str m e"
| "number_text _ = []"

definition bn_basic_view :: "bn_page \<Rightarrow> bn_event node" where
  "bn_basic_view s = (let form = bn_form s in
     El ''Card'' []
       [El ''CardTitle'' [] [Txt msg_bn_basic],
        El ''CardDescription'' [] [Txt msg_bn_basic_hint],
        labelled msg_bn_name [OnText 100 EditName] (bi_name form) [],
        labelled msg_bn_description [OnText 200 EditDescription] (bi_description form) [],
        labelled msg_bn_payload [OnValue EditPayload] (bi_payload_json form)
          msg_bn_payload_hint])"

definition bn_rules_view :: "bn_page \<Rightarrow> bn_event node" where
  "bn_rules_view s = (let form = bn_form s in
     El ''Card'' []
       [El ''CardTitle'' [] [Txt msg_bn_rules],
        El ''CardDescription'' [] [Txt msg_bn_rules_hint],
        labelled msg_bn_count [OnValue EditCount] (number_text (bi_count form)) [],
        labelled msg_bn_prefix [OnText 8 EditPrefix] (bi_prefix form) [],
        labelled msg_bn_code_length [OnValue EditCodeLength] (number_text (bi_code_length form)) [],
        labelled msg_bn_expires [OnValue EditExpires] (bi_expires_at form) msg_bn_expires_hint,
        labelled msg_bn_max_uses [OnValue EditMaxUses] (number_text (bi_max_uses_per_code form))
          msg_bn_max_uses_hint])"

definition bn_plan_view :: "bn_page \<Rightarrow> bn_event node" where
  "bn_plan_view s =
     (if bn_plansLoading s then El ''Skeleton'' [] []
      else if bn_plansError_set s
      then El ''Alert'' []
        [Txt msg_bn_plans_failed, Txt (the (bn_plansError s)), button [On BnReloadPlans] msg_bn_reload]
      else if length (bn_plans s) = 0
      then El ''Alert'' []
        [Txt msg_bn_no_plan, Txt msg_bn_no_plan_hint,
         Link (js ''/admin/credentials'') msg_bn_to_credentials]
      else fragment
        (El ''Select'' [Attr ''value'' (bi_credential_plan_type (bn_form s))]
           (map (\<lambda>plan. El ''SelectItem'' [Disabled (cp_available plan = 0), On (PickPlan (cp_plan_type plan))]
              [Txt (cp_plan_type plan @ msg_bn_stock @ int_str (cp_available plan) @ js ''/'' @ int_str (cp_total plan))])
              (bn_plans s))
         # show_if (list_all (\<lambda>plan. cp_available plan = 0) (bn_plans s))
             (El ''p'' [] [Txt msg_bn_no_stock])))"

definition bn_assign_view :: "bn_page \<Rightarrow> bn_event node" where
  "bn_assign_view s =
     El ''Card'' []
       ([El ''CardTitle'' [] [Txt msg_bn_assign],
         El ''CardDescription'' [] [Txt msg_bn_assign_hint],
         El ''label'' [] [Txt msg_bn_auto_assign],
         El ''Switch'' [Attr ''checked'' (if bi_assign_credential (bn_form s) then js ''true'' else js ''false''),
           OnFlag SetAssign] []]
        @ show_if (bi_assign_credential (bn_form s))
            (El ''div'' [] [El ''label'' [] [Txt msg_bn_plan_type], bn_plan_view s]))"

definition bn_webhook_view :: "bn_page \<Rightarrow> bn_event node" where
  "bn_webhook_view s = (let form = bn_form s in
     El ''Card'' []
       [El ''CardTitle'' [] [Txt msg_bn_webhook],
        El ''CardDescription'' [] [Txt msg_bn_webhook_hint],
        labelled msg_bn_webhook_url [OnValue EditWebhookUrl] (bi_webhook_url form) [],
        labelled msg_bn_secret [OnText 64 EditSecret] (bi_webhook_secret form)
          msg_bn_secret_hint,
        button [On NewSecret] msg_bn_new_secret])"

definition bn_view :: "bn_page \<Rightarrow> bn_event node" where
  "bn_view s =
     El ''div'' []
       [PageHeader msg_bn_title msg_bn_subtitle [Link (js ''/admin/batches'') msg_bn_back],
        El ''form'' []
          ([bn_basic_view s, bn_rules_view s, bn_assign_view s, bn_webhook_view s]
           @ show_if (length (bn_errors s) > 0)
               (El ''Alert'' [] (Txt msg_bn_fix # map (\<lambda>e. El ''li'' [] [Txt e]) (bn_errors s)))
           @ [button [Disabled (bn_loading s), On CreateBatch] msg_bn_create,
              Link (js ''/admin/batches'') msg_bn_cancel])]"

section \<open>Steps\<close>

definition set_form :: "(BatchInput \<Rightarrow> BatchInput) \<Rightarrow> bn_page \<Rightarrow> bn_page" where
  "set_form f s = s\<lparr>bn_form := f (bn_form s)\<rparr>"

fun bn_handle :: "bn_env \<Rightarrow> bn_event \<Rightarrow> bn_page \<Rightarrow> bn_page" where
  "bn_handle env (EditName v) s = set_form (bi_name_update (\<lambda>_. v)) s"
| "bn_handle env (EditDescription v) s = set_form (bi_description_update (\<lambda>_. v)) s"
| "bn_handle env (EditPayload v) s = set_form (bi_payload_json_update (\<lambda>_. v)) s"
| "bn_handle env (EditCount v) s = set_form (bi_count_update (\<lambda>_. number_input v)) s"
| "bn_handle env (EditPrefix v) s = set_form (bi_prefix_update (\<lambda>_. be_upper env v)) s"
| "bn_handle env (EditCodeLength v) s = set_form (bi_code_length_update (\<lambda>_. number_input v)) s"
| "bn_handle env (EditExpires v) s = set_form (bi_expires_at_update (\<lambda>_. v)) s"
| "bn_handle env (EditMaxUses v) s = set_form (bi_max_uses_per_code_update (\<lambda>_. number_input v)) s"
| "bn_handle env (SetAssign checked) s = set_form (\<lambda>current. current
     \<lparr>bi_assign_credential := checked,
      bi_credential_plan_type := (if checked then bi_credential_plan_type current else [])\<rparr>) s"
| "bn_handle env BnReloadPlans s = bn_loadPlans s"
| "bn_handle env (PickPlan v) s = set_form (bi_credential_plan_type_update (\<lambda>_. v)) s"
| "bn_handle env (EditWebhookUrl v) s = set_form (bi_webhook_url_update (\<lambda>_. v)) s"
| "bn_handle env (EditSecret v) s = set_form (bi_webhook_secret_update (\<lambda>_. v)) s"
| "bn_handle env NewSecret s = set_form (bi_webhook_secret_update (\<lambda>_. randomSecret (be_bytes env))) s"
| "bn_handle env CreateBatch s = bn_handleSubmit (be_json_text env) s"

datatype bn_answer = BnPlans "CredentialPlan list option res" | BnCreated "(jstr \<times> int) res"

fun bn_settle :: "bn_env \<Rightarrow> bn_call \<Rightarrow> bn_answer \<Rightarrow> bn_page \<Rightarrow> bn_page option" where
  "bn_settle env BPlans (BnPlans r) s = Some (bn_plans_done (be_text env) r s)"
| "bn_settle env (BCreate i) (BnCreated r) s = bn_create_done r s"
| "bn_settle env _ _ s = None"

definition bn_offered :: "bn_page \<Rightarrow> bn_event \<Rightarrow> bool" where
  "bn_offered s e \<longleftrightarrow> \<not> left_page s \<and> offers (bn_view s) e"

abbreviation bn_step :: "bn_page \<Rightarrow> bn_page \<Rightarrow> bool" where
  "bn_step \<equiv> page_step bn_offered bn_handle bn_settle"

end
