(* ===== verification/JsonTrim.thy ===== *)
theory JsonTrim
  imports JsonProofs
begin

text \<open>
  A text and its trimmed form parse to the same JSON value. Each parser is
  local: what it consumed determines what it returned, whatever follows, as
  long as that does not continue a number; and it never ends in white space.
\<close>

definition local_parse :: "(jstr \<Rightarrow> ('a \<times> jstr) option) \<Rightarrow> jstr \<Rightarrow> 'a \<Rightarrow> bool" where
  "local_parse f p v \<longleftrightarrow>
     p \<noteq> [] \<and> \<not> is_ws (last p) \<and> (\<forall>r. num_stop r \<longrightarrow> f (p @ r) = Some (v, r))"

lemma not_ws_marks [simp]:
  "\<not> is_ws 34" "\<not> is_ws 93" "\<not> is_ws 125" "\<not> is_ws 91" "\<not> is_ws 123" "\<not> is_ws 45"
  by (simp_all add: is_ws_def)

lemma digit_not_ws: "is_digit c \<Longrightarrow> \<not> is_ws c"
  by (auto simp: char_defs word_le_nat_alt)

section \<open>Strings and numbers\<close>

lemma local_cons:
  assumes "local_parse parse_chars p v" "\<And>x. parse_chars (q @ x) = cons_fst w (parse_chars x)"
  shows "local_parse parse_chars (q @ p) (w # v)"
proof -
  have "parse_chars ((q @ p) @ r) = Some (w # v, r)" if "num_stop r" for r
    using assms that by (simp add: local_parse_def del: parse_chars.simps)
  then show ?thesis
    using assms(1) unfolding local_parse_def by (simp del: parse_chars.simps)
qed

lemma parse_chars_cons:
  "c \<noteq> 34 \<Longrightarrow> \<not> c < 32 \<Longrightarrow> c \<noteq> 92 \<Longrightarrow> parse_chars ([c] @ x) = cons_fst c (parse_chars x)"
  "simple_escape d = Some w \<Longrightarrow> d \<noteq> 117 \<Longrightarrow> parse_chars ([92, d] @ x) = cons_fst w (parse_chars x)"
  "hex4_val h1 h2 h3 h4 = Some w \<Longrightarrow>
     parse_chars ([92, 117, h1, h2, h3, h4] @ x) = cons_fst w (parse_chars x)"
  by simp_all

text \<open>What one character of a literal is: the quote, a plain unit, or one of two escapes.\<close>

lemma parse_chars_step:
  assumes "parse_chars s = Some (u, r)"
  obtains "s = 34 # r" "u = []"
  | q t w v where "s = q @ t" "q \<noteq> []" "u = w # v" "parse_chars t = Some (v, r)"
      "\<And>x. parse_chars (q @ x) = cons_fst w (parse_chars x)"
proof (cases s)
  case (Cons c t)
  consider "c = 34" | "c \<noteq> 34" "\<not> c < 32" "c \<noteq> 92" | "c = 92"
    using assms Cons by (auto split: if_splits)
  then show ?thesis
  proof cases
    case 1
    then show ?thesis using assms Cons that(1) by simp
  next
    case 2
    then show ?thesis
      using assms Cons parse_chars_cons(1) [OF 2] that(2) [of "[c]" t c] by auto
  next
    case 3
    then obtain d v where t: "t = d # v"
      using assms Cons by (auto split: list.splits)
    show ?thesis
    proof (cases "d = 117")
      case True
      then obtain h1 h2 h3 h4 v' w x where v: "v = h1 # h2 # h3 # h4 # v'" "hex4_val h1 h2 h3 h4 = Some w"
        "parse_chars v' = Some (x, r)" "u = w # x"
        using assms Cons 3 t by (auto split: list.splits option.splits)
      then show ?thesis
        using Cons 3 t True that(2) [of "[92, 117, h1, h2, h3, h4]" v' w x] parse_chars_cons(3) [OF v(2)]
        by simp
    next
      case False
      then obtain w x where v: "simple_escape d = Some w" "parse_chars v = Some (x, r)" "u = w # x"
        using assms Cons 3 t by (auto split: option.splits)
      then show ?thesis
        using Cons 3 t that(2) [of "[92, d]" v w x] parse_chars_cons(2) [OF v(1) False] by simp
    qed
  qed
qed (use assms in simp)

lemma parse_chars_local:
  "parse_chars s = Some (u, r) \<Longrightarrow> \<exists>p. s = p @ r \<and> local_parse parse_chars p u"
proof (induction "length s" arbitrary: s u rule: less_induct)
  case less
  from less.prems show ?case
  proof (cases rule: parse_chars_step)
    case 1
    then show ?thesis by (intro exI [of _ "[34]"]) (simp add: local_parse_def)
  next
    case (2 q t w v)
    then obtain p where "t = p @ r" "local_parse parse_chars p v"
      using less.hyps [of t v] by auto
    then show ?thesis
      using 2 local_cons [of p v q w] by (intro exI [of _ "q @ p"]) simp
  qed
qed

lemma parse_int_local:
  assumes "parse_int s = Some (ds, r)"
  shows "s = ds @ r \<and> ds \<noteq> [] \<and> list_all is_digit ds
    \<and> (\<forall>r2. r2 = [] \<or> \<not> is_digit (hd r2) \<longrightarrow> parse_int (ds @ r2) = Some (ds, r2))"
proof (cases s)
  case (Cons c t)
  have d: "is_digit c"
    using assms Cons by (auto simp: parse_int_def split: if_splits)
  show ?thesis
  proof (cases "c = 48")
    case True
    then show ?thesis using assms Cons d by (auto simp: parse_int_def)
  next
    case False
    then have "ds = takeWhile is_digit s" "r = dropWhile is_digit s"
      using assms Cons d by (auto simp: parse_int_def)
    moreover have "hd (takeWhile is_digit s) = c" "takeWhile is_digit s \<noteq> []"
      using Cons d by auto
    moreover have "list_all is_digit (takeWhile is_digit s)"
      by (auto simp: list_all_iff dest: set_takeWhileD)
    ultimately show ?thesis
      using False parse_int_printed by auto
  qed
qed (use assms in \<open>simp add: parse_int_def\<close>)

lemma takeWhile_digits: "list_all is_digit (takeWhile is_digit t)"
  by (auto simp: list_all_iff dest: set_takeWhileD)

lemma last_digits: "list_all is_digit ds \<Longrightarrow> ds \<noteq> [] \<Longrightarrow> is_digit (last ds)"
  by (simp add: list_all_iff)

lemma parse_frac_local:
  assumes "parse_frac s = Some (fs, r)"
  shows "\<exists>p. s = p @ r \<and> (p \<noteq> [] \<longrightarrow> hd p = 46 \<and> is_digit (last p))
    \<and> (\<forall>r2. r2 = [] \<or> \<not> is_digit (hd r2) \<and> hd r2 \<noteq> 46 \<longrightarrow> parse_frac (p @ r2) = Some (fs, r2))"
proof (cases "\<exists>t. s = 46 # t")
  case True
  then obtain t where t: "s = 46 # t" by blast
  let ?ds = "takeWhile is_digit t"
  have "?ds \<noteq> []" "fs = ?ds" "r = dropWhile is_digit t"
    using assms t by (auto simp: parse_frac_def split: if_splits)
  note ds = this
  show ?thesis
  proof (intro exI conjI impI allI)
    show "s = (46 # ?ds) @ r" using t ds by simp
    show "hd (46 # ?ds) = 46" by simp
    show "is_digit (last (46 # ?ds))" using ds(1) last_digits [OF takeWhile_digits ds(1)] by simp
    fix r2 :: jstr
    assume "r2 = [] \<or> \<not> is_digit (hd r2) \<and> hd r2 \<noteq> 46"
    then have "r2 = [] \<or> \<not> is_digit (hd r2)" by blast
    from parse_frac_printed [OF ds(1) takeWhile_digits this] ds(2)
    show "parse_frac ((46 # ?ds) @ r2) = Some (fs, r2)" by (simp only: append_Cons)
  qed
next
  case False
  then have "fs = []" "r = s"
    using assms by (auto simp: parse_frac_def split: list.splits if_splits)
  then show ?thesis
    by (intro exI [of _ "[]"]) (auto simp: parse_frac_def split: list.split)
qed

lemma parse_exp_digits:
  assumes "c = 101 \<or> c = 69" "sg = [] \<or> sg = [43] \<or> sg = [45]" "ds \<noteq> []" "list_all is_digit ds" "num_stop r"
  shows "parse_exp (c # sg @ ds @ r) = Some (if sg = [45] then - int (digits_val ds) else int (digits_val ds), r)"
proof -
  have tw: "takeWhile is_digit (ds @ r) = ds" "dropWhile is_digit (ds @ r) = r"
    using takeWhile_append_stop [OF assms(4) num_stop_not_digit [OF assms(5)]]
      dropWhile_append_stop [OF assms(4) num_stop_not_digit [OF assms(5)]] by blast+
  obtain d t where d: "ds = d # t" "is_digit d"
    using assms(3,4) by (cases ds) auto
  have n: "d \<noteq> 43" "d \<noteq> 45"
    using digit_chars [OF d(2)] by auto
  show ?thesis
    using assms(1,2) tw n d by (auto simp: parse_exp_def Let_def)
qed

lemma parse_exp_local:
  assumes "parse_exp s = Some (x, r)"
  shows "\<exists>p. s = p @ r \<and> (p \<noteq> [] \<longrightarrow> (hd p = 101 \<or> hd p = 69) \<and> is_digit (last p))
    \<and> (\<forall>r2. num_stop r2 \<longrightarrow> parse_exp (p @ r2) = Some (x, r2))"
proof (cases "\<exists>c t. s = c # t \<and> (c = 101 \<or> c = 69)")
  case True
  then obtain c t where t: "s = c # t" "c = 101 \<or> c = 69" by blast
  define sg where "sg = (if t \<noteq> [] \<and> (hd t = 43 \<or> hd t = 45) then [hd t] else [])"
  define u where "u = (if t \<noteq> [] \<and> (hd t = 43 \<or> hd t = 45) then tl t else t)"
  define ds where "ds = takeWhile is_digit u"
  have tu: "t = sg @ u" "sg = [] \<or> sg = [43] \<or> sg = [45]" "sg = [45] \<longleftrightarrow> t \<noteq> [] \<and> hd t = 45"
    by (cases t; auto simp: sg_def u_def)+
  have ds: "ds \<noteq> []" "r = dropWhile is_digit u"
    "x = (if sg = [45] then - int (digits_val ds) else int (digits_val ds))"
    using assms t unfolding tu(3) ds_def
    by (auto simp: parse_exp_def Let_def u_def split: if_splits)
  have dg: "list_all is_digit ds"
    unfolding ds_def by (rule takeWhile_digits)
  have "s = (c # sg @ ds) @ r"
    using t(1) tu(1) ds(2) by (simp add: ds_def)
  moreover have "is_digit (last (c # sg @ ds))"
    using ds(1) last_digits [OF dg ds(1)] by auto
  moreover have "parse_exp ((c # sg @ ds) @ r2) = Some (x, r2)" if "num_stop r2" for r2
    using parse_exp_digits [OF t(2) tu(2) ds(1) dg that] ds(3) by simp
  ultimately show ?thesis
    using t(2) by (intro exI [of _ "c # sg @ ds"]) auto
next
  case False
  then have "x = 0" "r = s"
    using assms by (auto simp: parse_exp_def Let_def split: list.splits if_splits)
  then show ?thesis
    by (intro exI [of _ "[]"]) (auto simp: parse_exp_stop)
qed

lemma parse_num_iff:
  "parse_num s = Some (v, r) \<longleftrightarrow>
     (\<exists>ds t fs w x. parse_int (if s \<noteq> [] \<and> hd s = 45 then tl s else s) = Some (ds, t)
        \<and> parse_frac t = Some (fs, w) \<and> parse_exp w = Some (x, r)
        \<and> v = mk_num (s \<noteq> [] \<and> hd s = 45) (digits_val (ds @ fs)) (x - int (length fs)))"
  unfolding parse_num_def Let_def
  by (cases "parse_int (if s \<noteq> [] \<and> hd s = 45 then tl s else s)") (auto split: option.splits)

lemma parse_num_local:
  assumes "parse_num s = Some (v, r)"
  shows "\<exists>p. s = p @ r \<and> local_parse parse_num p v"
proof -
  define neg where "neg \<longleftrightarrow> s \<noteq> [] \<and> hd s = 45"
  define sg where "sg = (if neg then [45] else [] :: jstr)"
  define u where "u = (if neg then tl s else s)"
  have s: "s = sg @ u"
    by (cases s) (auto simp: sg_def u_def neg_def)
  obtain ds s2 fs s3 x where i: "parse_int u = Some (ds, s2)" and f: "parse_frac s2 = Some (fs, s3)"
    and x: "parse_exp s3 = Some (x, r)" and v: "v = mk_num neg (digits_val (ds @ fs)) (x - int (length fs))"
    using assms unfolding parse_num_iff neg_def [symmetric] u_def [symmetric] by blast
  from parse_int_local [OF i] have u: "u = ds @ s2" and ne: "ds \<noteq> []" and dg: "list_all is_digit ds"
    and it: "\<And>r2. r2 = [] \<or> \<not> is_digit (hd r2) \<Longrightarrow> parse_int (ds @ r2) = Some (ds, r2)"
    by blast+
  obtain pf where pf: "s2 = pf @ s3" "pf \<noteq> [] \<longrightarrow> hd pf = 46 \<and> is_digit (last pf)"
    "\<And>r2. r2 = [] \<or> \<not> is_digit (hd r2) \<and> hd r2 \<noteq> 46 \<Longrightarrow> parse_frac (pf @ r2) = Some (fs, r2)"
    using parse_frac_local [OF f] by blast
  obtain px where px: "s3 = px @ r" "px \<noteq> [] \<longrightarrow> (hd px = 101 \<or> hd px = 69) \<and> is_digit (last px)"
    "\<And>r2. num_stop r2 \<Longrightarrow> parse_exp (px @ r2) = Some (x, r2)"
    using parse_exp_local [OF x] by blast
  have hd: "hd (ds @ t) \<noteq> 45" for t
    using dg digit_chars [of "hd ds"] ne by (cases ds) simp_all
  have "parse_num ((sg @ ds @ pf @ px) @ r2) = Some (v, r2)" if r2: "num_stop r2" for r2
  proof -
    have "px @ r2 = [] \<or> \<not> is_digit (hd (px @ r2)) \<and> hd (px @ r2) \<noteq> 46"
      using px(2) r2 by (cases px) (auto simp: num_stop_def is_digit_def)
    then have 1: "parse_frac (pf @ px @ r2) = Some (fs, px @ r2)"
      by (rule pf(3))
    have "pf @ px @ r2 = [] \<or> \<not> is_digit (hd (pf @ px @ r2))"
      using pf(2) px(2) r2 by (cases pf; cases px) (auto simp: num_stop_def is_digit_def)
    then have 2: "parse_int (ds @ pf @ px @ r2) = Some (ds, pf @ px @ r2)"
      by (rule it)
    let ?x = "(sg @ ds @ pf @ px) @ r2"
    have 3: "(?x \<noteq> [] \<and> hd ?x = 45) = neg"
      using hd [of "pf @ px @ r2"] by (cases neg) (simp_all add: sg_def)
    have 4: "(if neg then tl ?x else ?x) = ds @ pf @ px @ r2"
      by (simp add: sg_def)
    show ?thesis
      unfolding parse_num_iff 3 4 v using 1 2 px(3) [OF r2] by blast
  qed
  moreover have "is_digit (last (sg @ ds @ pf @ px))"
  proof -
    have "is_digit (last ds)"
      by (rule last_digits [OF dg ne])
    then show ?thesis
      using ne pf(2) px(2) by (cases "px = []"; cases "pf = []") simp_all
  qed
  moreover have "s = (sg @ ds @ pf @ px) @ r"
    unfolding s u pf(1) px(1) by simp
  ultimately show ?thesis
    using ne digit_not_ws [of "last (sg @ ds @ pf @ px)"]
    by (intro exI [of _ "sg @ ds @ pf @ px"]) (simp add: local_parse_def)
qed

section \<open>Values\<close>

lemma split_ws:
  assumes "skip_ws s = c # t"
  obtains w where "list_all is_json_ws w" "s = w @ c # t" "\<not> is_json_ws c"
proof
  show "list_all is_json_ws (takeWhile is_json_ws s)"
    by (auto simp: list_all_iff dest: set_takeWhileD)
  show "s = takeWhile is_json_ws s @ c # t"
    using assms takeWhile_dropWhile_id [of is_json_ws s] by simp
  show "\<not> is_json_ws c"
    using assms by (simp add: dropWhile_eq_Cons_conv)
qed

lemma json_ws_ws: "is_json_ws c \<Longrightarrow> is_ws c"
  by (auto simp: is_json_ws_def is_ws_def word_le_nat_alt)

lemma local_not_ws: "local_parse f p v \<Longrightarrow> \<exists>c \<in> set p. \<not> is_json_ws c"
  using json_ws_ws by (metis last_in_set local_parse_def)

lemma local_skip_ws: "local_parse f p v \<Longrightarrow> skip_ws (p @ x) = skip_ws p @ x \<and> skip_ws p \<noteq> []"
  using local_not_ws [of f p v] by (auto intro: dropWhile_append1)

lemma local_ws_front:
  "list_all is_json_ws w \<Longrightarrow> local_parse (pv f) p v \<Longrightarrow> local_parse (pv f) (w @ p) v"
  by (auto simp: local_parse_def pv_ws)

lemma local_after:
  assumes "local_parse g p v" "\<not> is_ws (last (q @ p))"
    "\<And>x. (\<And>r. num_stop r \<Longrightarrow> g (p @ r) = Some (v, r)) \<Longrightarrow> num_stop x \<Longrightarrow> f (q @ p @ x) = Some (u, x)"
  shows "local_parse f (q @ p) u"
  using assms by (simp add: local_parse_def)

lemma starts_split: "js_startsWith s (js k) \<Longrightarrow> s = js k @ drop (length k) s"
  unfolding js_startsWith_def length_js by (metis append_take_drop_id)

lemma parse_num_hd: "parse_num (c # t) = Some (v, r) \<Longrightarrow> c = 45 \<or> is_digit c"
  by (auto simp: parse_num_iff parse_int_def split: if_splits)

lemma digit_marks: "c = 45 \<or> is_digit c \<Longrightarrow> c \<noteq> 34 \<and> c \<noteq> 91 \<and> c \<noteq> 123 \<and> c \<noteq> 110 \<and> c \<noteq> 116 \<and> c \<noteq> 102 \<and> \<not> is_json_ws c"
  by (auto simp: is_digit_def is_json_ws_def)

lemma pv_num: "c = 45 \<or> is_digit c \<Longrightarrow> pv (Suc f) (c # t) = parse_num (c # t)"
  using digit_marks [of c] by (simp add: pv.simps(2) js_startsWith_def of_char_def)

lemma pv_string: "pv (Suc f) (34 # t) = map_option (\<lambda>(u, r). (JStr u, r)) (parse_chars t)"
  by (simp add: pv.simps(2))

lemma pv_arr:
  "\<forall>x. skip_ws t \<noteq> 93 # x \<Longrightarrow> pv (Suc f) (91 # t) = map_option (\<lambda>(xs, r). (JArr xs, r)) (parr f t)"
  by (cases "skip_ws t") (auto simp: pv.simps(2))

lemma pv_obj:
  "\<forall>x. skip_ws t \<noteq> 125 # x \<Longrightarrow>
   pv (Suc f) (123 # t) = map_option (\<lambda>(kvs, r). (JObj (obj_build [] kvs), r)) (pobj f t)"
  by (cases "skip_ws t") (auto simp: pv.simps(2))

lemma pv_atoms:
  "pv (Suc f) (js ''null'' @ t) = Some (JNull, t)"
  "pv (Suc f) (js ''true'' @ t) = Some (JBool True, t)"
  "pv (Suc f) (js ''false'' @ t) = Some (JBool False, t)"
  by (simp_all add: pv.simps(2) js_startsWith_def is_json_ws_def of_char_def)

lemma pv_empty:
  "list_all is_json_ws w \<Longrightarrow> pv (Suc f) (91 # w @ 93 # t) = Some (JArr [], t)"
  "list_all is_json_ws w \<Longrightarrow> pv (Suc f) (123 # w @ 125 # t) = Some (JObj [], t)"
  by (simp_all add: pv.simps(2) skip_ws_append)

lemma pv_closed:
  "skip_ws t = 93 # x \<Longrightarrow> pv (Suc f) (91 # t) = Some (JArr [], x)"
  "skip_ws t = 125 # x \<Longrightarrow> pv (Suc f) (123 # t) = Some (JObj [], x)"
  by (erule split_ws, simp add: pv_empty)+

lemma local_atoms:
  "local_parse (pv (Suc f)) (js ''null'') JNull"
  "local_parse (pv (Suc f)) (js ''true'') (JBool True)"
  "local_parse (pv (Suc f)) (js ''false'') (JBool False)"
  unfolding local_parse_def pv_atoms by (simp_all add: is_ws_def of_char_def)

lemma local_empty:
  "list_all is_json_ws w \<Longrightarrow> local_parse (pv (Suc f)) (91 # w @ [93]) (JArr [])"
  "list_all is_json_ws w \<Longrightarrow> local_parse (pv (Suc f)) (123 # w @ [125]) (JObj [])"
  using pv_empty [of w f] by (simp_all add: local_parse_def)

lemma pv_first:
  assumes "skip_ws s = c # t" "pv (Suc f) s = Some (v, r)"
  shows "pv (Suc f) (c # t) = Some (v, r) \<and> \<not> is_ws c"
proof -
  obtain w where w: "list_all is_json_ws w" "s = w @ c # t" "\<not> is_json_ws c"
    using assms(1) by (rule split_ws)
  have p: "pv (Suc f) (c # t) = Some (v, r)"
    using assms(2) w pv_ws by simp
  have "c = 34 \<or> c = 91 \<or> c = 123 \<or> c = 110 \<or> c = 116 \<or> c = 102 \<or> c = 45 \<or> is_digit c"
    using p w(3) parse_num_hd [of c t v r]
    by (auto simp: pv.simps(2) js_startsWith_def of_char_def split: if_splits)
  then have "\<not> is_ws c"
    using digit_not_ws [of c] by (auto simp: is_ws_def)
  with p show ?thesis by blast
qed

text \<open>The values a JSON text can start with.\<close>

lemma pv_other:
  assumes "pv (Suc f) (c # t) = Some (v, r)" "\<not> is_json_ws c" "c \<noteq> 34" "c \<noteq> 91" "c \<noteq> 123"
  obtains a where "a \<in> {''null'', ''true'', ''false''}" "c # t = js a @ r" "local_parse (pv (Suc f)) (js a) v"
  | "c = 45 \<or> is_digit c" "parse_num (c # t) = Some (v, r)"
proof -
  note p = assms(1) [unfolded pv.simps(2)]
  consider "js_startsWith (c # t) (js ''null'')" | "js_startsWith (c # t) (js ''true'')"
    | "js_startsWith (c # t) (js ''false'')" | "parse_num (c # t) = Some (v, r)"
    using p assms(2-5) by (simp split: if_splits del: js_Cons)
  then show thesis
  proof cases
    case 1
    note s = starts_split [OF 1]
    have "v = JNull \<and> r = drop (length ''null'') (c # t)"
      using assms(1) pv_atoms(1) [of f "drop (length ''null'') (c # t)"] unfolding s [symmetric] by simp
    then show thesis using s local_atoms(1) [of f] that(1) [of "''null''"] by blast
  next
    case 2
    note s = starts_split [OF 2]
    have "v = JBool True \<and> r = drop (length ''true'') (c # t)"
      using assms(1) pv_atoms(2) [of f "drop (length ''true'') (c # t)"] unfolding s [symmetric] by simp
    then show thesis using s local_atoms(2) [of f] that(1) [of "''true''"] by blast
  next
    case 3
    note s = starts_split [OF 3]
    have "v = JBool False \<and> r = drop (length ''false'') (c # t)"
      using assms(1) pv_atoms(3) [of f "drop (length ''false'') (c # t)"] unfolding s [symmetric] by simp
    then show thesis using s local_atoms(3) [of f] that(1) [of "''false''"] by blast
  next
    case 4
    then show thesis using parse_num_hd that(2) by blast
  qed
qed

section \<open>Arrays, objects and all values\<close>

definition all_local :: "(jstr \<Rightarrow> ('a \<times> jstr) option) \<Rightarrow> bool" where
  "all_local f \<longleftrightarrow> (\<forall>s v r. f s = Some (v, r) \<longrightarrow> (\<exists>p. s = p @ r \<and> local_parse f p v))"

lemma all_localD: "all_local f \<Longrightarrow> f s = Some (v, r) \<Longrightarrow> \<exists>p. s = p @ r \<and> local_parse f p v"
  unfolding all_local_def by blast

lemma local_parse_last: "local_parse f p v \<Longrightarrow> p \<noteq> [] \<and> \<not> is_ws (last p)"
  by (simp add: local_parse_def)

lemma local_parseD: "local_parse f p v \<Longrightarrow> num_stop r \<Longrightarrow> f (p @ r) = Some (v, r)"
  by (simp add: local_parse_def)

lemma local_bracket:
  assumes "local_parse f p v" "\<forall>x. skip_ws (p @ r) \<noteq> k # x"
  shows "\<forall>x. skip_ws (p @ r2) \<noteq> k # x"
  using local_skip_ws [OF assms(1)] assms(2) by (cases "skip_ws p") auto

lemma local_under:
  assumes "local_parse g p v" "\<And>x. num_stop x \<Longrightarrow> f (c # p @ x) = Some (u, x)"
  shows "local_parse f (c # p) u"
  using assms local_parse_last [OF assms(1)] by (simp add: local_parse_def)

lemma pv_local_first:
  assumes "all_local (parr f)" "all_local (pobj f)" "pv (Suc f) (c # t) = Some (v, r)" "\<not> is_json_ws c"
  shows "\<exists>p. c # t = p @ r \<and> local_parse (pv (Suc f)) p v"
proof -
  consider "c = 34" | "c = 91" | "c = 123" | "c \<noteq> 34" "c \<noteq> 91" "c \<noteq> 123" by blast
  then show ?thesis
  proof cases
    case 1
    then obtain u where u: "parse_chars t = Some (u, r)" "v = JStr u"
      using assms(3) by (auto simp: pv_string)
    obtain p where p: "t = p @ r" "local_parse parse_chars p u"
      using parse_chars_local [OF u(1)] by blast
    have "local_parse (pv (Suc f)) (34 # p) v"
      by (rule local_under [OF p(2)]) (simp add: pv_string u(2) local_parseD [OF p(2)])
    with 1 p(1) show ?thesis by (intro exI [of _ "34 # p"]) simp
  next
    case 2
    show ?thesis
    proof (cases "\<exists>x. skip_ws t = 93 # x")
      case True
      then obtain x where x: "skip_ws t = 93 # x" by blast
      obtain w where w: "list_all is_json_ws w" "t = w @ 93 # x"
        using x by (rule split_ws)
      have "v = JArr [] \<and> r = x"
        using assms(3) pv_closed(1) [OF x] 2 by simp
      with 2 w local_empty(1) [OF w(1), of f] show ?thesis
        by (intro exI [of _ "91 # w @ [93]"]) simp
    next
      case False
      then have nb: "\<forall>x. skip_ws t \<noteq> 93 # x" by blast
      then obtain xs where xs: "parr f t = Some (xs, r)" "v = JArr xs"
        using assms(3) 2 by (auto simp: pv_arr)
      obtain p where p: "t = p @ r" "local_parse (parr f) p xs"
        using all_localD [OF assms(1) xs(1)] by blast
      have "local_parse (pv (Suc f)) (91 # p) v"
        using local_bracket [OF p(2) nb [unfolded p(1)]]
        by (intro local_under [OF p(2)]) (simp add: pv_arr xs(2) local_parseD [OF p(2)])
      with 2 p(1) show ?thesis by (intro exI [of _ "91 # p"]) simp
    qed
  next
    case 3
    show ?thesis
    proof (cases "\<exists>x. skip_ws t = 125 # x")
      case True
      then obtain x where x: "skip_ws t = 125 # x" by blast
      obtain w where w: "list_all is_json_ws w" "t = w @ 125 # x"
        using x by (rule split_ws)
      have "v = JObj [] \<and> r = x"
        using assms(3) pv_closed(2) [OF x] 3 by simp
      with 3 w local_empty(2) [OF w(1), of f] show ?thesis
        by (intro exI [of _ "123 # w @ [125]"]) simp
    next
      case False
      then have nb: "\<forall>x. skip_ws t \<noteq> 125 # x" by blast
      then obtain kvs where kvs: "pobj f t = Some (kvs, r)" "v = JObj (obj_build [] kvs)"
        using assms(3) 3 by (auto simp: pv_obj)
      obtain p where p: "t = p @ r" "local_parse (pobj f) p kvs"
        using all_localD [OF assms(2) kvs(1)] by blast
      have "local_parse (pv (Suc f)) (123 # p) v"
        using local_bracket [OF p(2) nb [unfolded p(1)]]
        by (intro local_under [OF p(2)]) (simp add: pv_obj kvs(2) local_parseD [OF p(2)])
      with 3 p(1) show ?thesis by (intro exI [of _ "123 # p"]) simp
    qed
  next
    case 4
    from pv_other [OF assms(3,4) 4] show ?thesis
    proof cases
      case (1 a)
      then show ?thesis by blast
    next
      case 2
      obtain p where p: "c # t = p @ r" "local_parse parse_num p v"
        using parse_num_local [OF 2(2)] by blast
      then obtain q where q: "p = c # q"
        using local_parse_last [OF p(2)] by (cases p) auto
      have "local_parse (pv (Suc f)) p v"
        using p(2) unfolding local_parse_def q by (simp add: pv_num [OF 2(1)])
      with p(1) show ?thesis by blast
    qed
  qed
qed

lemma pv_local_step:
  assumes "all_local (parr f)" "all_local (pobj f)"
  shows "all_local (pv (Suc f))"
  unfolding all_local_def
proof (intro allI impI)
  fix s v r
  assume a: "pv (Suc f) s = Some (v, r)"
  then obtain c t where c: "skip_ws s = c # t"
    by (cases "skip_ws s") (auto simp: pv.simps(2))
  obtain w where w: "list_all is_json_ws w" "s = w @ c # t" "\<not> is_json_ws c"
    using c by (rule split_ws)
  obtain p where "c # t = p @ r" "local_parse (pv (Suc f)) p v"
    using pv_local_first [OF assms _ w(3)] pv_first [OF c a] by blast
  with w local_ws_front [OF w(1), of "Suc f" p v] show "\<exists>p. s = p @ r \<and> local_parse (pv (Suc f)) p v"
    by (intro exI [of _ "w @ p"]) simp
qed

text \<open>An array item or object entry, white space, and a comma or the closing bracket.\<close>

lemma parr_step:
  assumes "parr (Suc f) s = Some (xs, r)"
  obtains v a w u ys where "pv f s = Some (v, a)" "list_all is_json_ws w" "a = w @ 44 # u"
      "parr f u = Some (ys, r)" "xs = v # ys"
  | v w where "pv f s = Some (v, w @ 93 # r)" "list_all is_json_ws w" "xs = [v]"
proof -
  obtain v a where v: "pv f s = Some (v, a)"
    using assms by (auto simp: parr.simps(2) split: option.splits)
  obtain c u where c: "skip_ws a = c # u"
    using assms v by (auto simp: parr.simps(2) split: list.splits)
  obtain w where w: "list_all is_json_ws w" "a = w @ c # u"
    using c by (rule split_ws)
  have "c = 44 \<or> c = 93"
    using assms v c by (auto simp: parr.simps(2) split: if_splits)
  then show thesis
    using assms v c w that by (auto simp: parr.simps(2) split: if_splits)
qed

lemma parr_local_step:
  assumes "all_local (pv f)" "all_local (parr f)"
  shows "all_local (parr (Suc f))"
  unfolding all_local_def
proof (intro allI impI)
  fix s xs r
  assume "parr (Suc f) s = Some (xs, r)"
  then show "\<exists>p. s = p @ r \<and> local_parse (parr (Suc f)) p xs"
  proof (cases rule: parr_step)
    case (1 v a w u ys)
    obtain p q where p: "s = p @ a" "local_parse (pv f) p v" and q: "u = q @ r" "local_parse (parr f) q ys"
      using all_localD [OF assms(1) 1(1)] all_localD [OF assms(2) 1(4)] by blast
    have "parr (Suc f) ((p @ w @ 44 # q) @ x) = Some (xs, x)" if "num_stop x" for x
      using local_parseD [OF p(2) num_stop_ws [OF 1(2) num_stop_marks(1)], of "q @ x"]
        local_parseD [OF q(2) that] 1(2,5)
      by (simp add: parr.simps(2) skip_ws_append)
    with 1 p q(1) local_parse_last [OF q(2)] show ?thesis
      by (intro exI [of _ "p @ w @ 44 # q"]) (simp add: local_parse_def)
  next
    case (2 v w)
    obtain p where p: "s = p @ w @ 93 # r" "local_parse (pv f) p v"
      using all_localD [OF assms(1) 2(1)] by blast
    have "parr (Suc f) ((p @ w @ [93]) @ x) = Some (xs, x)" for x
      using local_parseD [OF p(2) num_stop_ws [OF 2(2) num_stop_marks(2)], of x] 2
      by (simp add: parr.simps(2) skip_ws_append)
    with p(1) show ?thesis
      by (intro exI [of _ "p @ w @ [93]"]) (simp add: local_parse_def)
  qed
qed

lemma pobj_step:
  assumes "pobj (Suc f) s = Some (kvs, r)"
  obtains w1 t k w2 b v w3 u where "s = w1 @ 34 # t" "list_all is_json_ws w1"
    "parse_chars t = Some (k, w2 @ 58 # b)" "list_all is_json_ws w2"
    "pv f b = Some (v, w3 @ u)" "list_all is_json_ws w3"
    "(\<exists>x lvs. u = 44 # x \<and> pobj f x = Some (lvs, r) \<and> kvs = (k, v) # lvs) \<or> u = 125 # r \<and> kvs = [(k, v)]"
proof -
  obtain t where t: "skip_ws s = 34 # t"
    using assms by (auto simp: pobj.simps(2) split: list.splits if_splits)
  obtain k a where k: "parse_chars t = Some (k, a)"
    using assms t by (auto simp: pobj.simps(2) split: option.splits)
  obtain c b where c: "skip_ws a = c # b"
    using assms t k by (auto simp: pobj.simps(2) split: list.splits)
  have c58: "c = 58"
    using assms t k c by (auto simp: pobj.simps(2) split: if_splits)
  obtain v e where v: "pv f b = Some (v, e)"
    using assms t k c c58 by (auto simp: pobj.simps(2) split: option.splits)
  obtain d u where d: "skip_ws e = d # u"
    using assms t k c c58 v by (auto simp: pobj.simps(2) split: list.splits)
  obtain w1 where w1: "list_all is_json_ws w1" "s = w1 @ 34 # t" using t by (rule split_ws)
  obtain w2 where w2: "list_all is_json_ws w2" "a = w2 @ c # b" using c by (rule split_ws)
  obtain w3 where w3: "list_all is_json_ws w3" "e = w3 @ d # u" using d by (rule split_ws)
  have "d = 44 \<and> (\<exists>lvs. pobj f u = Some (lvs, r) \<and> kvs = (k, v) # lvs) \<or> d = 125 \<and> u = r \<and> kvs = [(k, v)]"
    using assms t k c c58 v d by (auto simp: pobj.simps(2) split: if_splits)
  with w1 w2 w3 k c58 v show thesis
    by (intro that [of w1 t k w2 b v w3 "d # u"]) auto
qed

lemma pobj_local_step:
  assumes "all_local (pv f)" "all_local (pobj f)"
  shows "all_local (pobj (Suc f))"
  unfolding all_local_def
proof (intro allI impI)
  fix s kvs r
  assume "pobj (Suc f) s = Some (kvs, r)"
  then show "\<exists>p. s = p @ r \<and> local_parse (pobj (Suc f)) p kvs"
  proof (cases rule: pobj_step)
    case (1 w1 t k w2 b v w3 u)
    obtain p where p: "t = p @ w2 @ 58 # b" "local_parse parse_chars p k"
      using parse_chars_local [OF 1(3)] by blast
    obtain q where q: "b = q @ w3 @ u" "local_parse (pv f) q v"
      using all_localD [OF assms(1) 1(5)] by blast
    have key: "parse_chars (p @ w2 @ 58 # y) = Some (k, w2 @ 58 # y)" for y
      by (rule local_parseD [OF p(2) num_stop_ws [OF 1(4)]]) (simp add: num_stop_def is_digit_def)
    let ?p = "w1 @ 34 # p @ w2 @ 58 # q @ w3"
    from 1(7) show ?thesis
    proof (elim disjE exE conjE)
      fix x lvs
      assume x: "u = 44 # x" "pobj f x = Some (lvs, r)" "kvs = (k, v) # lvs"
      obtain z where z: "x = z @ r" "local_parse (pobj f) z lvs"
        using all_localD [OF assms(2) x(2)] by blast
      have "pobj (Suc f) ((?p @ 44 # z) @ y) = Some (kvs, y)" if "num_stop y" for y
        using key [of "q @ w3 @ 44 # z @ y"] 1(2,4,6) x(3) local_parseD [OF z(2) that]
          local_parseD [OF q(2) num_stop_ws [OF 1(6) num_stop_marks(1)], of "z @ y"]
        by (simp add: pobj.simps(2) skip_ws_append)
      with 1(1) p(1) q(1) x(1) z(1) local_parse_last [OF z(2)] show ?thesis
        by (intro exI [of _ "?p @ 44 # z"]) (simp add: local_parse_def)
    next
      assume x: "u = 125 # r" "kvs = [(k, v)]"
      have "pobj (Suc f) ((?p @ [125]) @ y) = Some (kvs, y)" for y
        using key [of "q @ w3 @ 125 # y"] 1(2,4,6) x(2)
          local_parseD [OF q(2) num_stop_ws [OF 1(6) num_stop_marks(3)], of y]
        by (simp add: pobj.simps(2) skip_ws_append)
      with 1(1) p(1) q(1) x(1) show ?thesis
        by (intro exI [of _ "?p @ [125]"]) (simp add: local_parse_def)
    qed
  qed
qed

lemma parser_local: "all_local (pv f) \<and> all_local (parr f) \<and> all_local (pobj f)"
proof (induction f)
  case 0
  show ?case by (simp add: all_local_def parser_simps)
next
  case (Suc f)
  then show ?case
    using pv_local_step parr_local_step pobj_local_step by blast
qed

section \<open>Trimming\<close>

lemma dropWhile_wider:
  assumes "\<And>c. p c \<Longrightarrow> q c" "dropWhile p s = c # t" "\<not> q c"
  shows "dropWhile q s = c # t"
  using assms by (induction s) (auto split: if_splits)

lemma JSON_parse_trim:
  assumes "JSON_parse s = Some v"
  shows "JSON_parse (js_trim s) = Some v"
proof -
  obtain r where r: "pv (2 * length s + 2) s = Some (v, r)" "skip_ws r = []"
    using assms by (auto simp: JSON_parse_def split: option.splits if_splits)
  then obtain c t where c: "skip_ws s = c # t"
    by (cases "skip_ws s") (auto simp: pv.simps(2))
  have cw: "\<not> is_ws c"
    using pv_first [of s c t "2 * length s + 1" v r] c r(1) by simp
  obtain w where w: "list_all is_json_ws w" "s = w @ c # t" using c by (rule split_ws)
  have p1: "pv (2 * length s + 2) (c # t) = Some (v, r)"
    using r(1) w pv_ws by simp
  obtain p where p: "c # t = p @ r" "local_parse (pv (2 * length s + 2)) p v"
    using all_localD [of "pv (2 * length s + 2)" "c # t" v r] p1 parser_local by blast
  have "list_all is_ws r"
    using r(2) json_ws_ws by (auto simp: list_all_iff dropWhile_eq_Nil_conv)
  moreover have "dropWhile is_ws s = p @ r"
    using dropWhile_wider [of is_json_ws is_ws s c t] json_ws_ws c cw p(1) by simp
  moreover have "p \<noteq> []" "\<not> is_ws (last p)"
    using local_parse_last [OF p(2)] by simp_all
  moreover have "dropWhile is_ws (rev r @ rev p) = dropWhile is_ws (rev p)" if "list_all is_ws r"
    using that by (intro dropWhile_append2) (simp add: list_all_iff)
  ultimately have trim: "js_trim s = p"
    by (simp add: js_trim_def dropWhile_rev_last)
  have "pv (2 * length s + 2) p = Some (v, [])"
    using local_parseD [OF p(2), of "[]"] by simp
  moreover have "2 * length s + 2 = 2 * length p + 2 + 2 * (length w + length r)"
    unfolding w(2) p(1) by simp
  ultimately have "pv (2 * length p + 2) p = Some (v, [])"
    using pv_more_fuel [of p "2 * length p + 2" "2 * (length w + length r)"] by simp
  then show ?thesis
    unfolding trim by (simp add: JSON_parse_def)
qed

end
