(* ===== verification/BatchNewProofs.thy ===== *)
theory BatchNewProofs
  imports BatchNew JsonTrim
begin

text \<open>
  The batch form: what its validation accepts, what reaches the server in every
  interleaving of edits, submissions and answers, and the shape of a secret.
\<close>

lemma bn_page_frame [simp]:
  "bn_form (emit e s) = bn_form s"
  "bn_loading (emit e s) = bn_loading s"
  "bn_errors (emit e s) = bn_errors s"
  "bn_plans (emit e s) = bn_plans s"
  "bn_plansLoading (emit e s) = bn_plansLoading s"
  "bn_plansError (emit e s) = bn_plansError s"
  "bn_form (call c s) = bn_form s"
  "bn_loading (call c s) = bn_loading s"
  "bn_errors (call c s) = bn_errors s"
  "bn_plans (call c s) = bn_plans s"
  "bn_plansLoading (call c s) = bn_plansLoading s"
  "bn_plansError (call c s) = bn_plansError s"
  "bn_form (settled c s) = bn_form s"
  "bn_loading (settled c s) = bn_loading s"
  "bn_errors (settled c s) = bn_errors s"
  "bn_plans (settled c s) = bn_plans s"
  "bn_plansLoading (settled c s) = bn_plansLoading s"
  "bn_plansError (settled c s) = bn_plansError s"
  "bn_form (emits es s) = bn_form s"
  "bn_loading (emits es s) = bn_loading s"
  "bn_errors (emits es s) = bn_errors s"
  "bn_plans (emits es s) = bn_plans s"
  "bn_plansLoading (emits es s) = bn_plansLoading s"
  "bn_plansError (emits es s) = bn_plansError s"
  by (simp_all add: base_ops emits_frame)

section \<open>Secrets\<close>

lemma hex_str_byte: "b < 256 \<Longrightarrow> js_padStart 2 48 (hex_str b) = [hex_cu (b div 16), hex_cu (b mod 16)]"
  by (cases "b < 16") (simp_all add: hex_str.simps [of b] hex_str.simps [of "b div 16"] js_padStart_def hex_cu_def)

fun read_bytes :: "jstr \<Rightarrow> nat option list" where
  "read_bytes (a # b # s) =
     (case (hex_val a, hex_val b) of (Some x, Some y) \<Rightarrow> Some (16 * x + y) | _ \<Rightarrow> None) # read_bytes s"
| "read_bytes _ = []"

lemma unat_byte: "unat (b :: 8 word) < 256"
  using unsigned_less [of b] by simp

lemma secret_pairs:
  "randomSecret bytes =
     concat (map (\<lambda>i. [hex_cu (unat (bytes i) div 16), hex_cu (unat (bytes i) mod 16)]) [0..<16])"
  unfolding randomSecret_def by (simp only: hex_str_byte [OF unat_byte])

lemma read_pairs:
  "read_bytes (concat (map (\<lambda>i. [hex_cu (unat (f i) div 16), hex_cu (unat (f i) mod 16)]) is))
     = map (\<lambda>i. Some (unat (f i :: 8 word))) is"
proof (induction "is")
  case (Cons i "is")
  have "unat (f i) div 16 < 16"
    using unat_byte [of "f i"] by (simp add: less_mult_imp_div_less)
  then show ?case
    using Cons by (simp add: hex_val_hex_cu)
qed simp

lemma length_concat_pairs: "length (concat (map (\<lambda>i. [f i, g i]) is)) = 2 * length is"
  by (induction "is") auto

section \<open>Validation\<close>

definition acceptable :: "bn_page \<Rightarrow> bool" where
  "acceptable s \<longleftrightarrow>
     (let form = bn_form s; plan = js_trim (bi_credential_plan_type form) in
      js_trim (bi_name form) \<noteq> []
      \<and> (js_trim (bi_payload_json form) = [] \<or> JSON_parse (bi_payload_json form) \<noteq> None)
      \<and> (bi_webhook_url form = [] \<or> js_startsWith (bi_webhook_url form) (js ''https://''))
      \<and> (bi_assign_credential form \<longrightarrow>
           \<not> bn_plansLoading s \<and> \<not> bn_plansError_set s \<and> plan \<noteq> []
           \<and> (\<exists>p \<in> set (bn_plans s). cp_plan_type p = plan \<and> 0 < cp_available p)))"

lemma plan_errors_Nil:
  "plan_errors s = [] \<longleftrightarrow>
     \<not> bn_plansLoading s \<and> \<not> bn_plansError_set s \<and> js_trim (bi_credential_plan_type (bn_form s)) \<noteq> []
     \<and> (\<exists>p \<in> set (bn_plans s). cp_plan_type p = js_trim (bi_credential_plan_type (bn_form s)) \<and> 0 < cp_available p)"
  by (auto simp: plan_errors_def Let_def list_ex_iff)

lemma validate_Nil: "validate json_text s = [] \<longleftrightarrow> acceptable s"
  unfolding validate_def acceptable_def Let_def append_is_Nil_conv https_re_def regex_test_begin_lit
  by (simp add: plan_errors_Nil split: if_splits)

lemma length_plan_errors: "length (plan_errors s) \<le> 1"
  by (simp add: plan_errors_def Let_def)

section \<open>Invariant\<close>

fun is_create :: "bn_call \<Rightarrow> bool" where
  "is_create (BCreate i) = True"
| "is_create BPlans = False"

definition proper_input :: "BatchInput \<Rightarrow> bool" where
  "proper_input i \<longleftrightarrow>
     bi_name i \<noteq> [] \<and> js_trim (bi_name i) = bi_name i \<and> length (bi_name i) \<le> 100
     \<and> length (bi_description i) \<le> 200 \<and> length (bi_webhook_secret i) \<le> 64
     \<and> JSON_parse (bi_payload_json i) \<noteq> None
     \<and> (bi_webhook_url i = [] \<or> js_startsWith (bi_webhook_url i) (js ''https://''))
     \<and> (bi_credential_plan_type i = [] \<longleftrightarrow> \<not> bi_assign_credential i)"

fun proper_create :: "bn_call \<Rightarrow> bool" where
  "proper_create (BCreate i) = proper_input i"
| "proper_create BPlans = True"

definition bounded_form :: "BatchInput \<Rightarrow> bool" where
  "bounded_form i \<longleftrightarrow>
     length (bi_name i) \<le> 100 \<and> length (bi_description i) \<le> 200 \<and> length (bi_webhook_secret i) \<le> 64"

definition bn_inv :: "bn_page \<Rightarrow> bool" where
  "bn_inv s \<longleftrightarrow>
     one_call is_create (bn_loading s) (pend s) \<and> list_all proper_create (pend s)
     \<and> bounded_form (bn_form s) \<and> navigations s \<le> 1 \<and> (left_page s \<longrightarrow> \<not> bn_loading s)"

lemma length_randomSecret: "length (randomSecret bytes) = 32"
  unfolding secret_pairs length_concat_pairs by simp

lemma parse_empty_object: "JSON_parse (js ''{}'') = Some (JObj [])"
  by code_simp

lemma submitted_proper:
  assumes "acceptable s" "bounded_form (bn_form s)"
  shows "proper_input (submitted (bn_form s))"
proof -
  have "length (js_trim (bi_name (bn_form s))) \<le> 100"
    using assms(2) length_js_trim [of "bi_name (bn_form s)"] by (simp add: bounded_form_def)
  moreover have "JSON_parse (bi_payload_json (submitted (bn_form s))) \<noteq> None"
    using assms(1) JSON_parse_trim parse_empty_object
    by (auto simp: acceptable_def Let_def submitted_def simp del: js_Cons)
  ultimately show ?thesis
    using assms
    by (auto simp: acceptable_def Let_def proper_input_def submitted_def bounded_form_def simp del: js_Cons)
qed

lemma left_bn [simp]:
  "left_page (bn_form_update f s) = left_page s" "navigations (bn_form_update f s) = navigations s"
  "left_page (bn_loading_update g s) = left_page s" "navigations (bn_loading_update g s) = navigations s"
  "left_page (bn_errors_update h s) = left_page s" "navigations (bn_errors_update h s) = navigations s"
  "left_page (bn_plans_update k s) = left_page s" "navigations (bn_plans_update k s) = navigations s"
  "left_page (bn_plansLoading_update l s) = left_page s" "navigations (bn_plansLoading_update l s) = navigations s"
  "left_page (bn_plansError_update m s) = left_page s" "navigations (bn_plansError_update m s) = navigations s"
  by (simp_all add: left_page_def navigations_def)

lemma bn_inv_loadPlans: "bn_inv s \<Longrightarrow> bn_inv (bn_loadPlans s)"
  by (simp add: bn_inv_def bn_loadPlans_def)

lemma bn_inv_submit:
  assumes "bn_inv s" "\<not> bn_loading s" "\<not> left_page s"
  shows "bn_inv (bn_handleSubmit json_text s)"
proof (cases "acceptable s")
  case True
  then have "validate json_text s = []"
    by (simp add: validate_Nil)
  with True assms submitted_proper [OF True] one_call_start [of is_create "pend s"] show ?thesis
    by (simp add: bn_inv_def bn_handleSubmit_def)
next
  case False
  then have "validate json_text s \<noteq> []"
    by (simp add: validate_Nil)
  with assms show ?thesis
    by (simp add: bn_inv_def bn_handleSubmit_def)
qed

lemma offers_bn_form:
  "offers (bn_view s) (EditName v) \<Longrightarrow> length v \<le> 100"
  "offers (bn_view s) (EditDescription v) \<Longrightarrow> length v \<le> 200"
  "offers (bn_view s) (EditSecret v) \<Longrightarrow> length v \<le> 64"
  "offers (bn_view s) CreateBatch \<Longrightarrow> \<not> bn_loading s"
  by (auto simp: bn_view_def bn_basic_view_def bn_rules_view_def bn_assign_view_def bn_plan_view_def
      bn_webhook_view_def Let_def list_ex_map_iff split: if_splits)

lemma bn_inv_handle:
  assumes "bn_inv s" "bn_offered s e"
  shows "bn_inv (bn_handle env e s)"
proof (cases e)
  case CreateBatch
  then show ?thesis
    using assms bn_inv_submit offers_bn_form(4) [of s] by (simp add: bn_offered_def)
next
  case BnReloadPlans
  then show ?thesis using assms bn_inv_loadPlans by simp
next
  case NewSecret
  then show ?thesis
    using assms by (simp add: bn_inv_def set_form_def bounded_form_def length_randomSecret)
qed (use assms offers_bn_form(1-3) [of s] in
      \<open>auto simp: bn_inv_def bn_offered_def set_form_def bounded_form_def\<close>)

lemma bn_inv_created:
  assumes "bn_inv s" "BCreate i \<in> set (pend s)" "bn_create_done r (settled (BCreate i) s) = Some t"
  shows "bn_inv t"
proof -
  have l: "bn_loading s" "one_call is_create False (remove1 (BCreate i) (pend s))" "\<not> left_page s"
    using one_call_end [of is_create "bn_loading s" "pend s" "BCreate i"] assms(1,2) by (auto simp: bn_inv_def)
  then have "navigations s = 0"
    by (simp add: left_page_iff)
  with l assms(1,3) show ?thesis
    by (auto simp: bn_inv_def bn_create_done_def list_all_remove1 split: sum.splits js_error.splits)
qed

lemma bn_inv_settle:
  assumes "bn_inv s" "c \<in> set (pend s)" "bn_settle env c a (settled c s) = Some t"
  shows "bn_inv t"
proof (cases c)
  case BPlans
  then obtain r where "t = bn_plans_done (be_text env) r (settled BPlans s)"
    using assms(3) by (cases a) auto
  moreover have "one_call is_create (bn_loading s) (remove1 BPlans (pend s))"
    using assms(1) by (simp add: bn_inv_def one_call_remove_other)
  ultimately show ?thesis
    using assms(1) by (auto simp: bn_inv_def bn_plans_done_def list_all_remove1 split: sum.split)
next
  case (BCreate i)
  then obtain r where "bn_create_done r (settled (BCreate i) s) = Some t"
    using assms(3) by (cases a) auto
  with bn_inv_created assms(1,2) BCreate show ?thesis by blast
qed

interpretation bn: page_system "\<lambda>s. \<exists>bytes. s = bn_init bytes" bn_offered bn_handle bn_settle bn_inv
proof unfold_locales
  show "\<exists>bytes. s = bn_init bytes \<Longrightarrow> bn_inv s" for s
    by (auto simp: bn_init_def bn_loadPlans_def bn_inv_def one_call_def INITIAL_def bounded_form_def
        length_randomSecret left_page_def navigations_def)
qed (auto intro: bn_inv_handle bn_inv_settle)

section \<open>Properties\<close>

text \<open>C28: Whatever the administrator types and clicks, and in whatever order answers
  arrive: at most one creation request is under way, exactly while the page is
  loading; each has a trimmed name of 1 to 100 units, a payload that is JSON, a
  webhook address that is empty or https, and a plan exactly when credentials
  are assigned; and a visit creates at most one batch, after which nothing more
  is sent.\<close>

theorem batch_submissions_valid:
  assumes "bn_step\<^sup>*\<^sup>* (bn_init bytes) s"
  shows "length (filter is_create (pend s)) = (if bn_loading s then 1 else 0)
    \<and> (\<forall>i. BCreate i \<in> set (pend s) \<longrightarrow> proper_input i)
    \<and> navigations s \<le> 1 \<and> (left_page s \<longrightarrow> filter is_create (pend s) = [])"
proof -
  have i: "bn_inv s"
    using bn.reachable_inv assms by blast
  then have "left_page s \<longrightarrow> filter is_create (pend s) = []"
    by (auto simp: bn_inv_def one_call_def)
  with i show ?thesis
    by (auto simp: bn_inv_def one_call_def list_all_iff)
qed

lemma bn_stepI: "\<not> left_page s \<Longrightarrow> offers (bn_view s) e \<Longrightarrow> bn_step s (bn_handle env e s)"
  by (rule page_step.user) (simp add: bn_offered_def)

lemma offers_bn_name: "length v \<le> 100 \<Longrightarrow> offers (bn_view s) (EditName v)"
  by (simp add: bn_view_def bn_basic_view_def Let_def)

lemma offers_bn_create: "\<not> bn_loading s \<Longrightarrow> offers (bn_view s) CreateBatch"
  by (simp add: bn_view_def)

lemma bn_init_fields:
  "\<not> left_page (bn_init bytes)" "\<not> bn_loading (bn_init bytes)" "bn_form (bn_init bytes) = INITIAL bytes"
  "pend (bn_init bytes) = [BPlans]"
  by (simp_all add: bn_init_def bn_loadPlans_def left_page_def)

text \<open>C28 after typing a name and submitting: the request is under way.\<close>

theorem batch_submissions_valid_witness:
  "\<exists>s :: bn_page. \<exists>i. bn_step\<^sup>*\<^sup>* (bn_init (\<lambda>_. 171)) s \<and> BCreate i \<in> set (pend s) \<and> proper_input i
     \<and> bn_loading s \<and> length (filter is_create (pend s)) = 1"
proof -
  fix env
  let ?s0 = "bn_init (\<lambda>_. 171)"
  let ?s1 = "bn_handle env (EditName (js ''a'')) ?s0"
  let ?s2 = "bn_handle env CreateBatch ?s1"
  have s1: "bn_step ?s0 ?s1"
    by (rule bn_stepI) (simp_all add: bn_init_fields offers_bn_name del: bn_handle.simps)
  have f1: "\<not> left_page ?s1" "\<not> bn_loading ?s1"
    by (simp_all add: bn_init_fields set_form_def)
  then have s2: "bn_step ?s1 ?s2"
    by (intro bn_stepI offers_bn_create)
  have r: "bn_step\<^sup>*\<^sup>* ?s0 ?s2"
    using s1 s2 by (meson converse_rtranclp_into_rtranclp rtranclp.rtrancl_refl)
  have "js_trim (js ''a'') = js ''a''"
    by code_simp
  then have "acceptable ?s1"
    by (simp add: acceptable_def Let_def set_form_def bn_init_fields INITIAL_def)
  then have "validate (be_json_text env) ?s1 = []"
    by (simp add: validate_Nil)
  then have "\<exists>i. BCreate i \<in> set (pend ?s2) \<and> bn_loading ?s2"
    by (auto simp: bn_handleSubmit_def)
  with batch_submissions_valid [OF r] r show ?thesis by auto
qed

text \<open>Submitting decides by the form alone: the validation accepts exactly the
  forms with a name, JSON or no payload, an https address or none and, when
  credentials are assigned, a listed plan with stock. An accepted form is sent
  once, with its trimmed fields; any other is answered by its list of problems,
  at most one for each rule, and sends nothing.\<close>

lemma batch_submit_decides:
  "(validate json_text s = [] \<longleftrightarrow> acceptable s)
   \<and> length (validate json_text s) \<le> 4
   \<and> bn_handleSubmit json_text s =
       (if acceptable s then call (BCreate (submitted (bn_form s))) (s\<lparr>bn_loading := True, bn_errors := []\<rparr>)
        else s\<lparr>bn_errors := validate json_text s\<rparr>)"
proof -
  have "length (validate json_text s) \<le> 4"
    using length_plan_errors [of s] by (simp add: validate_def Let_def)
  then show ?thesis
    using validate_Nil [of json_text s] by (simp add: bn_handleSubmit_def Let_def)
qed

text \<open>C37: A webhook secret is 32 lower-case hexadecimal digits that spell the sixteen
  random bytes: reading the digits in pairs gives the bytes back, so no
  randomness is lost.\<close>

theorem randomSecret_reads_back:
  "length (randomSecret bytes) = 32
   \<and> list_all (\<lambda>c. is_digit c \<or> (97 \<le> c \<and> c \<le> 102)) (randomSecret bytes)
   \<and> read_bytes (randomSecret bytes) = map (\<lambda>i. Some (unat (bytes i))) [0..<16]"
proof -
  have "\<forall>d \<in> {0..<16}. is_digit (hex_cu d) \<or> (97 \<le> hex_cu d \<and> hex_cu d \<le> 102)"
    by code_simp
  then have h: "d < 16 \<Longrightarrow> is_digit (hex_cu d) \<or> (97 \<le> hex_cu d \<and> hex_cu d \<le> 102)" for d
    by simp
  have "unat (bytes i) div 16 < 16" for i
    using unat_byte [of "bytes i"] by (simp add: less_mult_imp_div_less)
  then have "list_all (\<lambda>c. is_digit c \<or> (97 \<le> c \<and> c \<le> 102)) (randomSecret bytes)"
    unfolding secret_pairs list_all_iff using h by auto
  then show ?thesis
    using length_randomSecret read_pairs [of bytes "[0..<16]"] by (simp add: secret_pairs)
qed

end
