(* ===== verification/BatchDetail.thy ===== *)
theory BatchDetail
  imports AdminFrame
begin

text \<open>
  The page of one batch, web/src/pages/admin/batch-detail.tsx: the batch with its
  counts, the paged list of its codes, and the switches that disable them. The
  parameter \<open>batchId\<close> is the text of \<^verbatim>\<open>Number(id)\<close> as it enters the URLs.
\<close>

definition CODE_TABS :: "(string \<times> jstr) list" where
  "CODE_TABS =
     [(''all'', msg_bd_all), (''active'', msg_bd_active), (''partused'', msg_bd_partused),
      (''used'', msg_bd_used), (''disabled'', msg_bd_disabled)]"

section \<open>State\<close>

type_synonym code_query = "string \<times> int"

datatype bd_call = DBatch | DCodes code_query | DToggleBatch int | DToggleCode int code_query

record bd_page = "bd_call base" +
  bd_batch :: "Batch option"
  bd_counts :: "BatchCounts option"
  bd_notFound :: bool
  bd_state :: string
  bd_pageNo :: int
  bd_codes :: "CodeItem list option"
  bd_paged :: Paged
  bd_maxUses :: int

definition bd_endpoint :: "jstr \<Rightarrow> bd_call \<Rightarrow> endpoint res" where
  "bd_endpoint batchId c = (case c of
     DBatch \<Rightarrow> Inr (api_batch batchId)
   | DCodes q \<Rightarrow> api_batchCodes batchId (js (fst q)) (snd q)
   | DToggleBatch i \<Rightarrow> Inr (api_toggleBatch i)
   | DToggleCode i q \<Rightarrow> Inr (api_toggleCode i))"

definition loadBatch :: "bd_page \<Rightarrow> bd_page" where
  "loadBatch s = call DBatch s"

definition batch_done :: "(js_error \<Rightarrow> jstr) \<Rightarrow> (Batch \<times> BatchCounts) res \<Rightarrow> bd_page \<Rightarrow> bd_page" where
  "batch_done em r s = (case r of
     Inr (b, n) \<Rightarrow> s\<lparr>bd_batch := Some b, bd_counts := Some n\<rparr>
   | Inl e \<Rightarrow> (emit (ToastError (err_message em e)) s)\<lparr>bd_notFound := True\<rparr>)"

definition loadCodes :: "code_query \<Rightarrow> bd_page \<Rightarrow> bd_page" where
  "loadCodes q s = call (DCodes q) (s\<lparr>bd_codes := None\<rparr>)"

definition codes_done :: "(js_error \<Rightarrow> jstr) \<Rightarrow> (CodeItem list \<times> Paged \<times> int) res \<Rightarrow> bd_page \<Rightarrow> bd_page" where
  "codes_done em r s = (case r of
     Inr (codes, d, max_uses) \<Rightarrow>
       s\<lparr>bd_codes := Some codes,
         bd_paged := \<lparr>pg_total = pg_total d, pg_page = pg_page d, pg_pages = pg_pages d\<rparr>,
         bd_maxUses := max_uses\<rparr>
   | Inl e \<Rightarrow> emit (ToastError (err_message em e)) s)"

definition bd_init :: bd_page where
  "bd_init = loadCodes (''all'', 1) (loadBatch
     \<lparr>pend = [], log = [], bd_batch = None, bd_counts = None, bd_notFound = False, bd_state = ''all'',
      bd_pageNo = 1, bd_codes = None, bd_paged = \<lparr>pg_total = 0, pg_page = 1, pg_pages = 1\<rparr>, bd_maxUses = 1\<rparr>)"

text \<open>A new tab or page; the effect on \<^verbatim>\<open>[loadCodes]\<close> runs when one of them changed.\<close>

definition bd_query :: "bd_page \<Rightarrow> code_query" where
  "bd_query s = (bd_state s, bd_pageNo s)"

definition set_query :: "code_query \<Rightarrow> bd_page \<Rightarrow> bd_page" where
  "set_query q s =
     (let t = s\<lparr>bd_state := fst q, bd_pageNo := snd q\<rparr> in if q \<noteq> bd_query s then loadCodes q t else t)"

section \<open>Switching a batch or a code\<close>

definition handleToggleBatch :: "bd_page \<Rightarrow> bd_page" where
  "handleToggleBatch s = (case bd_batch s of None \<Rightarrow> s | Some b \<Rightarrow> call (DToggleBatch (b_id b)) s)"

definition handleToggleCode :: "int \<Rightarrow> bd_page \<Rightarrow> bd_page" where
  "handleToggleCode codeId s = call (DToggleCode codeId (bd_query s)) s"

definition toggle_batch_done :: "(js_error \<Rightarrow> jstr) \<Rightarrow> jstr res \<Rightarrow> bd_page \<Rightarrow> bd_page" where
  "toggle_batch_done em r s = (case r of
     Inr message \<Rightarrow> loadBatch (emit (ToastSuccess message) s)
   | Inl e \<Rightarrow> emit (ToastError (message_if_error em msg_bd_failed e)) s)"

definition toggle_code_done :: "(js_error \<Rightarrow> jstr) \<Rightarrow> code_query \<Rightarrow> jstr res \<Rightarrow> bd_page \<Rightarrow> bd_page" where
  "toggle_code_done em q r s = (case r of
     Inr message \<Rightarrow> loadBatch (loadCodes q (emit (ToastSuccess message) s))
   | Inl e \<Rightarrow> emit (ToastError (message_if_error em msg_bd_failed e)) s)"

section \<open>View\<close>

datatype bd_event =
    ToggleBatch
  | CopySecret
  | CopyPayload
  | CodeTab string
  | CopyCode jstr
  | ToggleCode int
  | CodePage int

definition InfoItem :: "jstr \<Rightarrow> 'e node list \<Rightarrow> 'e node" where
  "InfoItem label children = El ''div'' [] [El ''dt'' [] [Txt label], El ''dd'' [] children]"

lemma offers_InfoItem [simp]: "offers (InfoItem label cs) e \<longleftrightarrow> list_ex (\<lambda>c. offers c e) cs"
  by (simp add: InfoItem_def)

definition toggle_batch_dialog :: "Batch \<Rightarrow> jstr \<Rightarrow> jstr \<Rightarrow> jstr \<Rightarrow> 'e \<Rightarrow> 'e node" where
  "toggle_batch_dialog b label before after e =
     (let on = (b_status b = BatchActive) in
      ConfirmDialog [] label
        (before @ (if on then msg_bd_turn_off else msg_bd_turn_on) @ after)
        (if on then msg_bd_off_hint else msg_bd_on_hint)
        (Some (if on then msg_bd_turn_off else msg_bd_turn_on)) e)"

lemma offers_toggle_batch_dialog [simp]: "offers (toggle_batch_dialog b l x y e) e' \<longleftrightarrow> e' = e"
  by (simp add: toggle_batch_dialog_def Let_def)

definition bd_header_view :: "Batch \<Rightarrow> bd_event node" where
  "bd_header_view b =
     PageHeader (b_name b)
       (if b_description b \<noteq> [] then b_description b else msg_bd_batch_no @ int_str (b_id b))
       [Link (js ''/admin/batches'') msg_bd_back,
        Link (api_exportUrl (b_id b) ''txt'') msg_bd_export_txt,
        Link (api_exportUrl (b_id b) ''csv'') msg_bd_export_csv,
        toggle_batch_dialog b (if b_status b = BatchActive then msg_bd_off_batch else msg_bd_on_batch)
          msg_bd_sure msg_bd_this_batch ToggleBatch]"

definition opt_count :: "int option \<Rightarrow> int" where
  "opt_count n = (case n of None \<Rightarrow> 0 | Some k \<Rightarrow> k)"

definition bd_info_view :: "Batch \<Rightarrow> BatchCounts \<Rightarrow> bd_event node" where
  "bd_info_view b n =
     El ''Card'' []
       ([El ''CardTitle'' [] [Txt msg_bd_info],
         El ''CardDescription'' [] [Txt msg_bd_info_hint],
         InfoItem msg_bd_status [BatchStatusBadge (b_status b)],
         InfoItem msg_bd_codes_total [Txt (int_str (bc_total n))],
         InfoItem msg_bd_used [Txt (int_str (opt_count (bc_usedup n)))],
         InfoItem msg_bd_uses [Txt (int_str (bc_total_uses n))],
         InfoItem msg_bd_disabled [Txt (int_str (opt_count (bc_disabled n)))],
         InfoItem msg_bd_prefix [Txt (if b_prefix b \<noteq> [] then b_prefix b else msg_bd_dash)],
         InfoItem msg_bd_expires [Txt (expiry_text (b_expires_at b))],
         InfoItem msg_bd_max_uses [Txt (int_str (b_max_uses_per_code b))],
         InfoItem msg_bd_assign
           [Txt (if b_assign_credential b then b_credential_plan_type b else msg_bd_no_assign)],
         InfoItem msg_bd_created [Txt (b_created_at b)]]
        @ show_if (b_webhook_url b \<noteq> [])
            (El ''div'' []
               [Badge ''outline'' (js ''Webhook''), Txt (b_webhook_url b), Txt msg_bd_secret,
                Txt (b_webhook_secret b), button [On CopySecret] msg_bd_copy_secret])
        @ [Txt msg_bd_payload, button [On CopyPayload] msg_bd_copy, JsonViewer (b_payload_json b)])"

definition code_row_view :: "int \<Rightarrow> CodeItem \<Rightarrow> bd_event node" where
  "code_row_view maxUses c =
     (let label = (if ci_status c = CodeUnused then msg_bd_disable else msg_bd_restore) in
      El ''TableRow'' []
        [El ''button'' [On (CopyCode (ci_code c))] [Txt (ci_code c)],
         CodeStatusBadge (ci_status c) (ci_use_count c) maxUses,
         Txt (int_str (ci_use_count c) @ js '' / '' @ int_str maxUses),
         Txt (ci_created_at c),
         ConfirmDialog [] label (msg_bd_sure @ label @ msg_bd_the_code @ ci_display c @ msg_bd_question) []
           (Some label) (ToggleCode (ci_id c))])"

definition bd_codes_view :: "bd_page \<Rightarrow> bd_event node" where
  "bd_codes_view s =
     El ''Card'' []
       [El ''CardTitle'' [] [Txt msg_bd_codes],
        El ''CardDescription'' [] [Txt (msg_bd_total @ int_str (pg_total (bd_paged s)) @ msg_bd_pieces)],
        El ''Tabs'' [Attr ''value'' (js (bd_state s))]
          (map (\<lambda>(v, label). button [On (CodeTab v)] label) CODE_TABS),
        (case bd_codes s of
           None \<Rightarrow> El ''Skeleton'' [] []
         | Some codes \<Rightarrow>
             if length codes = 0 then EmptyState msg_bd_no_codes []
             else El ''Table'' []
               (El ''TableHeader'' []
                  [Txt msg_bd_codes, Txt msg_bd_status, Txt msg_bd_use_count, Txt msg_bd_created, Txt msg_bd_actions]
                # map (code_row_view (bd_maxUses s)) codes)),
        DataPagination (pg_page (bd_paged s)) (pg_pages (bd_paged s)) (pg_total (bd_paged s)) CodePage]"

definition bd_view :: "bd_page \<Rightarrow> bd_event node" where
  "bd_view s =
     (if bd_notFound s then EmptyState msg_bd_missing msg_bd_missing_hint
      else case (bd_batch s, bd_counts s) of
             (Some b, Some n) \<Rightarrow> El ''div'' [] [bd_header_view b, bd_info_view b n, bd_codes_view s]
           | _ \<Rightarrow> El ''Skeleton'' [] [])"

section \<open>Steps\<close>

record bd_env =
  de_text :: "js_error \<Rightarrow> jstr"
  de_clip :: "bool \<times> bool"

definition copy_with :: "bd_env \<Rightarrow> jstr \<Rightarrow> jstr \<Rightarrow> bd_page \<Rightarrow> bd_page" where
  "copy_with env t tip s = emits (copyText (fst (de_clip env)) (snd (de_clip env)) t (Some tip)) s"

fun bd_handle :: "bd_env \<Rightarrow> bd_event \<Rightarrow> bd_page \<Rightarrow> bd_page" where
  "bd_handle env ToggleBatch s = handleToggleBatch s"
| "bd_handle env CopySecret s = (case bd_batch s of
     None \<Rightarrow> s | Some b \<Rightarrow> copy_with env (b_webhook_secret b) msg_bd_secret_copied s)"
| "bd_handle env CopyPayload s = (case bd_batch s of
     None \<Rightarrow> s | Some b \<Rightarrow> copy_with env (stringify2 (b_payload_json b)) msg_bd_json_copied s)"
| "bd_handle env (CodeTab v) s = set_query (v, 1) s"
| "bd_handle env (CopyCode c) s = copy_with env c (msg_bd_copied @ c) s"
| "bd_handle env (ToggleCode i) s = handleToggleCode i s"
| "bd_handle env (CodePage p) s = set_query (bd_state s, p) s"

datatype bd_answer =
    BatchAnswer "(Batch \<times> BatchCounts) res"
  | CodesAnswer "(CodeItem list \<times> Paged \<times> int) res"
  | ToggleAnswer "jstr res"

fun bd_settle :: "bd_env \<Rightarrow> bd_call \<Rightarrow> bd_answer \<Rightarrow> bd_page \<Rightarrow> bd_page option" where
  "bd_settle env DBatch (BatchAnswer r) s = Some (batch_done (de_text env) r s)"
| "bd_settle env (DCodes q) (CodesAnswer r) s = Some (codes_done (de_text env) r s)"
| "bd_settle env (DToggleBatch i) (ToggleAnswer r) s = Some (toggle_batch_done (de_text env) r s)"
| "bd_settle env (DToggleCode i q) (ToggleAnswer r) s = Some (toggle_code_done (de_text env) q r s)"
| "bd_settle env _ _ s = None"

abbreviation bd_step :: "bd_page \<Rightarrow> bd_page \<Rightarrow> bool" where
  "bd_step \<equiv> page_step (\<lambda>s. offers (bd_view s)) bd_handle bd_settle"

section \<open>Facts\<close>

lemma bd_page_frame [simp]:
  "bd_batch (emit e s) = bd_batch s"
  "bd_counts (emit e s) = bd_counts s"
  "bd_notFound (emit e s) = bd_notFound s"
  "bd_state (emit e s) = bd_state s"
  "bd_pageNo (emit e s) = bd_pageNo s"
  "bd_codes (emit e s) = bd_codes s"
  "bd_paged (emit e s) = bd_paged s"
  "bd_maxUses (emit e s) = bd_maxUses s"
  "bd_batch (call c s) = bd_batch s"
  "bd_counts (call c s) = bd_counts s"
  "bd_notFound (call c s) = bd_notFound s"
  "bd_state (call c s) = bd_state s"
  "bd_pageNo (call c s) = bd_pageNo s"
  "bd_codes (call c s) = bd_codes s"
  "bd_paged (call c s) = bd_paged s"
  "bd_maxUses (call c s) = bd_maxUses s"
  "bd_batch (settled c s) = bd_batch s"
  "bd_counts (settled c s) = bd_counts s"
  "bd_notFound (settled c s) = bd_notFound s"
  "bd_state (settled c s) = bd_state s"
  "bd_pageNo (settled c s) = bd_pageNo s"
  "bd_codes (settled c s) = bd_codes s"
  "bd_paged (settled c s) = bd_paged s"
  "bd_maxUses (settled c s) = bd_maxUses s"
  "bd_batch (emits es s) = bd_batch s"
  "bd_counts (emits es s) = bd_counts s"
  "bd_notFound (emits es s) = bd_notFound s"
  "bd_state (emits es s) = bd_state s"
  "bd_pageNo (emits es s) = bd_pageNo s"
  "bd_codes (emits es s) = bd_codes s"
  "bd_paged (emits es s) = bd_paged s"
  "bd_maxUses (emits es s) = bd_maxUses s"
  by (simp_all add: base_ops emits_frame)

lemmas bd_ops = loadBatch_def loadCodes_def set_query_def Let_def handleToggleBatch_def handleToggleCode_def
  copy_with_def

lemmas bd_conts = batch_done_def codes_done_def toggle_batch_done_def toggle_code_done_def

lemma notFound_offers: "bd_notFound s \<Longrightarrow> \<not> offers (bd_view s) e"
  by (simp add: bd_view_def)

lemma notFound_settle:
  "bd_notFound s \<Longrightarrow> bd_settle env c a (settled c s) = Some t \<Longrightarrow> bd_notFound t"
  by (cases "(env, c, a, settled c s)" rule: bd_settle.cases)
     (auto simp: bd_conts bd_ops split: sum.splits prod.splits)

lemma batch_settle:
  "bd_settle env c a (settled c s) = Some t \<Longrightarrow> bd_batch t = None \<Longrightarrow> bd_batch s = None"
  by (cases "(env, c, a, settled c s)" rule: bd_settle.cases)
     (auto simp: bd_conts bd_ops split: sum.splits prod.splits)

lemma notFound_step: "bd_notFound s \<Longrightarrow> bd_step s t \<Longrightarrow> bd_notFound t"
  by (erule page_stepE) (auto simp: notFound_offers intro: notFound_settle)

interpretation lost: page_system bd_notFound "\<lambda>s. offers (bd_view s)" bd_handle bd_settle bd_notFound
  by unfold_locales (auto simp: notFound_offers intro: notFound_settle)

section \<open>Property\<close>

text \<open>C35: One failed reload hides an existing batch for good. When a switch of the batch
  has succeeded and the reload that follows fails, whatever the reason (a lost
  connection, say), the page says the batch does not exist; and from then on,
  whatever answers still arrive, it keeps saying so and offers no control.\<close>

theorem batch_detail_lost_after_toggle:
  assumes "bd_batch s = Some b" "DToggleBatch (b_id b) \<in> set (pend s)"
    and "bd_settle env (DToggleBatch (b_id b)) (ToggleAnswer (Inr m)) (settled (DToggleBatch (b_id b)) s) = Some t"
    and "bd_settle env DBatch (BatchAnswer (Inl e)) (settled DBatch t) = Some u"
    and "bd_step\<^sup>*\<^sup>* u w"
  shows "bd_step s t \<and> bd_step t u \<and> bd_batch w \<noteq> None
    \<and> bd_view w = EmptyState msg_bd_missing msg_bd_missing_hint \<and> (\<forall>ev. \<not> offers (bd_view w) ev)"
proof -
  have st: "bd_step s t"
    by (rule page_step.answer [where settle = bd_settle, OF assms(2,3)])
  have t: "bd_batch t = Some b" "DBatch \<in> set (pend t)"
    using assms(1,3) by (auto simp: bd_conts bd_ops)
  have tu: "bd_step t u"
    by (rule page_step.answer [where settle = bd_settle, OF t(2) assms(4)])
  have u: "bd_notFound u" "bd_batch u \<noteq> None"
    using assms(4) t(1) by (auto simp: bd_conts)
  have keep: "bd_batch y \<noteq> None" if "bd_notFound x" "bd_batch x \<noteq> None" "bd_step x y" for x y
    using that by (elim page_stepE) (auto simp: notFound_offers dest: batch_settle)
  from assms(5) have "bd_notFound w \<and> bd_batch w \<noteq> None"
    by (induction rule: rtranclp_induct) (use u keep notFound_step in \<open>blast+\<close>)
  then show ?thesis
    using st tu notFound_offers [of w] by (simp add: bd_view_def)
qed

definition shown_batch :: Batch where
  "shown_batch = \<lparr>b_id = 7, b_name = js ''b'', b_description = [], b_payload_json = JObj [], b_prefix = [],
     b_code_length = 12, b_expires_at = None, b_max_uses_per_code = 1, b_max_redeems_per_user = 1,
     b_assign_credential = False, b_credential_plan_type = [], b_webhook_url = [], b_webhook_secret = [],
     b_status = BatchActive, b_created_at = [], b_code_count = None, b_used_count = None\<rparr>"

text \<open>C35 on a page that shows a batch and has just been asked to switch it off.\<close>

theorem batch_detail_lost_after_toggle_witness:
  "\<exists>s t u :: bd_page. bd_batch s = Some shown_batch \<and> bd_notFound s = False
     \<and> bd_step s t \<and> bd_step t u \<and> bd_view u = EmptyState msg_bd_missing msg_bd_missing_hint"
proof -
  fix env :: bd_env
  let ?n = "\<lparr>bc_total = 1, bc_disabled = None, bc_usedup = None, bc_total_uses = 0\<rparr>"
  let ?s0 = "bd_init\<lparr>pend := [], bd_batch := Some shown_batch, bd_counts := Some ?n\<rparr>"
  let ?s = "handleToggleBatch ?s0"
  let ?t = "toggle_batch_done (de_text env) (Inr (js ''ok'')) (settled (DToggleBatch 7) ?s)"
  let ?u = "batch_done (de_text env) (Inl TypeErr) (settled DBatch ?t)"
  have i: "b_id shown_batch = 7"
    by (simp add: shown_batch_def)
  have s: "bd_batch ?s = Some shown_batch" "DToggleBatch (b_id shown_batch) \<in> set (pend ?s)" "\<not> bd_notFound ?s"
    by (simp_all add: handleToggleBatch_def i bd_init_def bd_ops)
  have t: "bd_settle env (DToggleBatch (b_id shown_batch)) (ToggleAnswer (Inr (js ''ok'')))
      (settled (DToggleBatch (b_id shown_batch)) ?s) = Some ?t"
    by (simp add: i)
  have u: "bd_settle env DBatch (BatchAnswer (Inl TypeErr)) (settled DBatch ?t) = Some ?u"
    by simp
  show ?thesis
    using batch_detail_lost_after_toggle [OF s(1,2) t u rtranclp.rtrancl_refl] s(1,3) by blast
qed

end
