(* ===== verification/Faq.thy ===== *)
theory Faq
  imports AdminFrame "HOL-Library.Multiset"
begin

text \<open>
  The page of the redemption notes, web/src/pages/admin/faq.tsx: the ordered
  list, moving an entry up or down with an optimistic update, and the dialog
  that creates or edits an entry.
\<close>

section \<open>State\<close>

record FormState =
  fo_open :: bool
  fo_item :: "FaqItem option"
  fo_title :: jstr
  fo_content :: jstr

datatype faq_call =
    FLoad
  | FUpdate int jstr jstr
  | FCreate jstr jstr
  | FDelete int
  | FReorder "int list"

record faq_page = "faq_call base" +
  fa_items :: "FaqItem list option"
  fa_form :: FormState

definition faq_endpoint :: "faq_call \<Rightarrow> endpoint" where
  "faq_endpoint c = (case c of
     FLoad \<Rightarrow> api_faq
   | FUpdate i title content \<Rightarrow> api_updateFaq i title content
   | FCreate title content \<Rightarrow> api_createFaq title content
   | FDelete i \<Rightarrow> api_deleteFaq i
   | FReorder ids \<Rightarrow> api_reorderFaq ids)"

definition fa_load :: "faq_page \<Rightarrow> faq_page" where
  "fa_load s = call FLoad s"

definition fa_load_done :: "(js_error \<Rightarrow> jstr) \<Rightarrow> FaqItem list res \<Rightarrow> faq_page \<Rightarrow> faq_page" where
  "fa_load_done em r s = (case r of
     Inr items \<Rightarrow> s\<lparr>fa_items := Some items\<rparr>
   | Inl e \<Rightarrow> emit (ToastError (err_message em e)) s)"

definition fa_init :: faq_page where
  "fa_init = fa_load
     \<lparr>pend = [], log = [], fa_items = None,
      fa_form = \<lparr>fo_open = False, fo_item = None, fo_title = [], fo_content = []\<rparr>\<rparr>"

section \<open>The dialog\<close>

definition openCreate :: "faq_page \<Rightarrow> faq_page" where
  "openCreate s = s\<lparr>fa_form := \<lparr>fo_open = True, fo_item = None, fo_title = [], fo_content = []\<rparr>\<rparr>"

definition openEdit :: "FaqItem \<Rightarrow> faq_page \<Rightarrow> faq_page" where
  "openEdit item s =
     s\<lparr>fa_form := \<lparr>fo_open = True, fo_item = Some item, fo_title = fq_title item, fo_content = fq_content item\<rparr>\<rparr>"

definition closeForm :: "faq_page \<Rightarrow> faq_page" where
  "closeForm s = s\<lparr>fa_form := (fa_form s)\<lparr>fo_open := False\<rparr>\<rparr>"

definition handleSave :: "faq_page \<Rightarrow> faq_page" where
  "handleSave s =
     (let title = js_trim (fo_title (fa_form s)); content = js_trim (fo_content (fa_form s)) in
      if title = [] \<or> content = [] then emit (ToastError msg_fq_need_both) s
      else case fo_item (fa_form s) of
             Some item \<Rightarrow> call (FUpdate (fq_id item) title content) s
           | None \<Rightarrow> call (FCreate title content) s)"

definition save_done :: "jstr \<Rightarrow> unit res \<Rightarrow> faq_page \<Rightarrow> faq_page" where
  "save_done ok_text r s = (case r of
     Inr _ \<Rightarrow> fa_load (closeForm (emit (ToastSuccess ok_text) s))
   | Inl e \<Rightarrow> emit (ToastError (message_if_api msg_fq_failed e)) s)"

section \<open>Deleting and moving\<close>

definition faq_handleDelete :: "int \<Rightarrow> faq_page \<Rightarrow> faq_page" where
  "faq_handleDelete ident s = call (FDelete ident) s"

definition faq_delete_done :: "unit res \<Rightarrow> faq_page \<Rightarrow> faq_page" where
  "faq_delete_done r s = (case r of
     Inr _ \<Rightarrow> fa_load (emit (ToastSuccess msg_fq_deleted) s)
   | Inl e \<Rightarrow> emit (ToastError (message_if_api msg_fq_failed e)) s)"

text \<open>
  \<^verbatim>\<open>next.splice(index, 1)\<close> and \<^verbatim>\<open>next.splice(newIndex, 0, removed)\<close> on a copy of the
  items; \<open>index\<close> is the number of a row on show.
\<close>

definition splice_move :: "'a list \<Rightarrow> nat \<Rightarrow> nat \<Rightarrow> 'a list" where
  "splice_move items index newIndex =
     (let removed = items ! index; rest = take index items @ drop (Suc index) items in
      take newIndex rest @ [removed] @ drop newIndex rest)"

datatype direction = Up | Down

definition move :: "nat \<Rightarrow> direction \<Rightarrow> faq_page \<Rightarrow> faq_page" where
  "move index direction s = (case fa_items s of
     None \<Rightarrow> s
   | Some items \<Rightarrow>
       (let newIndex = (if direction = Up then int index - 1 else int index + 1) in
        if newIndex < 0 \<or> newIndex \<ge> int (length items) then s
        else let next_items = splice_move items index (nat newIndex) in
             call (FReorder (map fq_id next_items)) (s\<lparr>fa_items := Some next_items\<rparr>)))"

definition reorder_done :: "unit res \<Rightarrow> faq_page \<Rightarrow> faq_page" where
  "reorder_done r s = (case r of
     Inr _ \<Rightarrow> fa_load (emit (ToastSuccess msg_fq_reordered) s)
   | Inl e \<Rightarrow> fa_load (emit (ToastError (message_if_api msg_fq_reorder_failed e)) s))"

section \<open>View\<close>

datatype faq_event =
    OpenCreate
  | OpenEdit FaqItem
  | Move nat direction
  | DeleteFaq int
  | SetFaqOpen bool
  | EditTitle jstr
  | EditContent jstr
  | CloseFaq
  | SaveFaq

definition faq_row_view :: "nat \<Rightarrow> nat \<Rightarrow> FaqItem \<Rightarrow> faq_event node" where
  "faq_row_view n idx item =
     El ''div'' []
       [El ''div'' [] [Txt (nat_str (idx + 1) @ js ''. '' @ fq_title item)],
        El ''div'' [] [Txt (fq_content item)],
        button [Disabled (idx = 0), On (Move idx Up)] msg_fq_up,
        button [Disabled (idx + 1 = n), On (Move idx Down)] msg_fq_down,
        button [On (OpenEdit item)] msg_fq_edit,
        ConfirmDialog [] msg_fq_delete (msg_fq_sure_delete @ fq_title item @ msg_fq_question)
          msg_fq_delete_hint (Some msg_fq_delete) (DeleteFaq (fq_id item))]"

definition faq_list_view :: "faq_page \<Rightarrow> faq_event node" where
  "faq_list_view s = (case fa_items s of
     None \<Rightarrow> El ''Skeleton'' [] []
   | Some items \<Rightarrow>
       if length items = 0
       then EmptyState msg_fq_empty msg_fq_empty_hint
       else fragment (map (\<lambda>(idx, item). faq_row_view (length items) idx item) (enumerate 0 items)))"

definition faq_dialog_view :: "faq_page \<Rightarrow> faq_event node" where
  "faq_dialog_view s = (let form = fa_form s in
     El ''Dialog'' [Open (fo_open form), OnFlag SetFaqOpen]
       [El ''DialogTitle'' [] [Txt (case fo_item form of None \<Rightarrow> msg_fq_new | Some _ \<Rightarrow> msg_fq_edit_entry)],
        El ''DialogDescription'' [] [Txt msg_fq_dialog_hint],
        El ''label'' [] [Txt msg_fq_title_label],
        El ''input'' [Attr ''value'' (fo_title form), OnValue EditTitle] [],
        El ''label'' [] [Txt msg_fq_content_label],
        El ''textarea'' [Attr ''value'' (fo_content form), OnValue EditContent] [],
        button [On CloseFaq] msg_fq_cancel,
        button [On SaveFaq] msg_fq_save])"

definition fa_view :: "faq_page \<Rightarrow> faq_event node" where
  "fa_view s =
     El ''div'' []
       [PageHeader msg_fq_title msg_fq_subtitle [button [On OpenCreate] msg_fq_new],
        El ''Card'' []
          [El ''CardTitle'' [] [Txt msg_fq_list],
           El ''CardDescription'' []
             [Txt (msg_fq_total @ (case fa_items s of None \<Rightarrow> msg_fq_dots | Some items \<Rightarrow> nat_str (length items))
                   @ msg_fq_list_hint)],
           faq_list_view s],
        faq_dialog_view s]"

section \<open>Steps\<close>

record faq_env = fe_text :: "js_error \<Rightarrow> jstr"

fun fa_handle :: "faq_env \<Rightarrow> faq_event \<Rightarrow> faq_page \<Rightarrow> faq_page" where
  "fa_handle env OpenCreate s = openCreate s"
| "fa_handle env (OpenEdit item) s = openEdit item s"
| "fa_handle env (Move idx d) s = move idx d s"
| "fa_handle env (DeleteFaq i) s = faq_handleDelete i s"
| "fa_handle env (SetFaqOpen b) s = (if \<not> b then closeForm s else s)"
| "fa_handle env (EditTitle v) s = s\<lparr>fa_form := (fa_form s)\<lparr>fo_title := v\<rparr>\<rparr>"
| "fa_handle env (EditContent v) s = s\<lparr>fa_form := (fa_form s)\<lparr>fo_content := v\<rparr>\<rparr>"
| "fa_handle env CloseFaq s = closeForm s"
| "fa_handle env SaveFaq s = handleSave s"

datatype faq_answer = FaqItems "FaqItem list res" | FaqOk "unit res"

fun fa_settle :: "faq_env \<Rightarrow> faq_call \<Rightarrow> faq_answer \<Rightarrow> faq_page \<Rightarrow> faq_page option" where
  "fa_settle env FLoad (FaqItems r) s = Some (fa_load_done (fe_text env) r s)"
| "fa_settle env (FUpdate i t c) (FaqOk r) s = Some (save_done msg_fq_updated r s)"
| "fa_settle env (FCreate t c) (FaqOk r) s = Some (save_done msg_fq_added r s)"
| "fa_settle env (FDelete i) (FaqOk r) s = Some (faq_delete_done r s)"
| "fa_settle env (FReorder ids) (FaqOk r) s = Some (reorder_done r s)"
| "fa_settle env _ _ s = None"

abbreviation fa_step :: "faq_page \<Rightarrow> faq_page \<Rightarrow> bool" where
  "fa_step \<equiv> page_step (\<lambda>s. offers (fa_view s)) fa_handle fa_settle"

section \<open>Moving is swapping neighbours\<close>

lemma faq_page_frame [simp]:
  "fa_items (emit e s) = fa_items s"
  "fa_form (emit e s) = fa_form s"
  "fa_items (call c s) = fa_items s"
  "fa_form (call c s) = fa_form s"
  "fa_items (settled c s) = fa_items s"
  "fa_form (settled c s) = fa_form s"
  "fa_items (emits es s) = fa_items s"
  "fa_form (emits es s) = fa_form s"
  by (simp_all add: base_ops emits_frame)

fun target :: "nat \<Rightarrow> direction \<Rightarrow> nat" where
  "target i Up = i - 1"
| "target i Down = Suc i"

definition swap :: "'a list \<Rightarrow> nat \<Rightarrow> nat \<Rightarrow> 'a list" where
  "swap xs i j = xs[i := xs ! j, j := xs ! i]"

lemma split_two: "Suc i < length xs \<Longrightarrow> xs = take i xs @ xs ! i # xs ! Suc i # drop (Suc (Suc i)) xs"
  by (metis Cons_nth_drop_Suc Suc_lessD append_take_drop_id)

lemma splice_move_neighbour:
  assumes "Suc i < length xs"
  shows "splice_move xs i (Suc i) = swap xs i (Suc i)" "splice_move xs (Suc i) i = swap xs (Suc i) i"
proof -
  obtain as x y bs where xs: "xs = as @ x # y # bs" "length as = i"
    using split_two [OF assms] assms by (metis Suc_lessD length_take min.absorb4)
  show "splice_move xs i (Suc i) = swap xs i (Suc i)" "splice_move xs (Suc i) i = swap xs (Suc i) i"
    unfolding xs(2) [symmetric] by (simp_all add: xs(1) splice_move_def swap_def nth_append list_update_append)
qed

lemma swap_same_entries: "i < length xs \<Longrightarrow> j < length xs \<Longrightarrow> mset (swap xs i j) = mset xs"
  unfolding swap_def by (rule mset_swap)

lemma list_ex_enumerate:
  "list_ex P (map (\<lambda>(i, x). f i x) (enumerate 0 xs)) \<longleftrightarrow> (\<exists>i < length xs. P (f i (xs ! i)))"
proof -
  have "enumerate 0 xs = map (\<lambda>i. (i, xs ! i)) [0..<length xs]"
    by (rule nth_equalityI) (simp_all add: nth_enumerate_eq)
  then show ?thesis
    by (auto simp: list_ex_map_iff)
qed

lemma offers_faq_move:
  "offers (fa_view s) (Move i d) \<longleftrightarrow>
     (\<exists>items. fa_items s = Some items \<and> i < length items \<and> (d = Up \<longrightarrow> 0 < i) \<and> (d = Down \<longrightarrow> Suc i < length items))"
  by (cases "fa_items s"; cases d)
     (auto simp: fa_view_def faq_list_view_def faq_dialog_view_def faq_row_view_def Let_def
       list_ex_enumerate)

section \<open>What is saved\<close>

fun proper_faq_call :: "faq_call \<Rightarrow> bool" where
  "proper_faq_call (FUpdate i t c) \<longleftrightarrow> t \<noteq> [] \<and> c \<noteq> [] \<and> js_trim t = t \<and> js_trim c = c"
| "proper_faq_call (FCreate t c) \<longleftrightarrow> t \<noteq> [] \<and> c \<noteq> [] \<and> js_trim t = t \<and> js_trim c = c"
| "proper_faq_call c \<longleftrightarrow> True"

definition fa_inv :: "faq_page \<Rightarrow> bool" where
  "fa_inv s \<longleftrightarrow> list_all proper_faq_call (pend s)"

lemmas fa_ops = fa_load_def openCreate_def openEdit_def closeForm_def handleSave_def faq_handleDelete_def
  move_def Let_def

lemmas fa_conts = fa_load_done_def save_done_def faq_delete_done_def reorder_done_def

interpretation fa: page_system "\<lambda>s. s = fa_init" "\<lambda>s. offers (fa_view s)" fa_handle fa_settle fa_inv
proof unfold_locales
  show "s = fa_init \<Longrightarrow> fa_inv s" for s
    by (simp add: fa_init_def fa_inv_def fa_load_def)
  show "fa_inv s \<Longrightarrow> fa_inv (fa_handle env e s)" for s e and env :: faq_env
    by (cases e) (auto simp: fa_inv_def fa_ops split: option.split)
  show "fa_inv t" if "fa_inv s" "fa_settle env c a (settled c s) = Some t" for s t c a and env :: faq_env
    using that
    by (cases "(env, c, a, settled c s)" rule: fa_settle.cases)
       (auto simp: fa_inv_def fa_ops fa_conts list_all_remove1 split: sum.splits)
qed

section \<open>Properties\<close>

text \<open>C32: Moving an entry swaps it with its neighbour, on the page at once and in the
  order sent to the server: for every arrow the page offers, the new list is the
  old one with the two neighbours exchanged, no entry lost or doubled, the one
  request sent carries exactly the ids of the list now shown, and the arrows
  never leave the list.\<close>

theorem faq_move_swaps:
  assumes "fa_items s = Some items" "offers (fa_view s) (Move i d)"
  shows "target i d < length items
    \<and> fa_items (move i d s) = Some (swap items i (target i d))
    \<and> mset (swap items i (target i d)) = mset items
    \<and> pend (move i d s) = pend s @ [FReorder (map fq_id (swap items i (target i d)))]
    \<and> swap (swap items i (target i d)) (target i d) i = items"
proof -
  have b: "i < length items" "d = Up \<Longrightarrow> 0 < i" "d = Down \<Longrightarrow> Suc i < length items"
    using assms by (auto simp: offers_faq_move)
  have t: "target i d < length items"
    using b by (cases d) auto
  have m: "splice_move items i (target i d) = swap items i (target i d)"
    using b splice_move_neighbour [of i items] splice_move_neighbour [of "i - 1" items] by (cases d) auto
  have n: "nat (if d = Up then int i - 1 else int i + 1) = target i d"
    "\<not> ((if d = Up then int i - 1 else int i + 1) < 0 \<or> (if d = Up then int i - 1 else int i + 1) \<ge> int (length items))"
    using b by (cases d; simp)+
  have "swap (swap items i (target i d)) (target i d) i = items"
    using b(1) t by (intro nth_equalityI) (auto simp: swap_def nth_list_update)
  then show ?thesis
    using t swap_same_entries [OF b(1) t] n m assms(1) by (simp add: move_def Let_def)
qed

text \<open>C32 on a list of two entries: the second moves up.\<close>

theorem faq_move_swaps_witness:
  "\<exists>s :: faq_page. \<exists>items. fa_items s = Some items \<and> length items = 2 \<and> offers (fa_view s) (Move 1 Up)
     \<and> map fq_id items = [1, 2] \<and> pend (move 1 Up s) = pend s @ [FReorder [2, 1]]"
proof -
  let ?e = "\<lambda>i. \<lparr>fq_id = i, fq_sort_order = i, fq_title = [], fq_content = [], fq_created_at = []\<rparr>"
  let ?s = "fa_init\<lparr>fa_items := Some [?e 1, ?e 2]\<rparr>"
  have o: "offers (fa_view ?s) (Move 1 Up)"
    by (simp add: offers_faq_move)
  have i: "fa_items ?s = Some [?e 1, ?e 2]" by simp
  have "pend (move 1 Up ?s) = pend ?s @ [FReorder [2, 1]]"
    using faq_move_swaps [OF i o] by (simp add: swap_def)
  with o i show ?thesis by (intro exI [of _ ?s] exI [of _ "[?e 1, ?e 2]"]) simp
qed

text \<open>C36: What the page saves is never blank: every creation or update under way, in
  any reachable state, has a trimmed title and content. But nothing stops a
  second click: with a new entry filled in, saving twice before the first answer
  sends the same creation twice.\<close>

theorem faq_saves_proper_but_repeat:
  assumes "fa_step\<^sup>*\<^sup>* fa_init s"
  shows "list_all proper_faq_call (pend s)
    \<and> (fo_open (fa_form s) \<and> fo_item (fa_form s) = None \<and> js_trim (fo_title (fa_form s)) \<noteq> []
         \<and> js_trim (fo_content (fa_form s)) \<noteq> []
       \<longrightarrow> (\<exists>t. fa_step\<^sup>*\<^sup>* s t \<and> pend t = pend s
              @ replicate 2 (FCreate (js_trim (fo_title (fa_form s))) (js_trim (fo_content (fa_form s))))))"
proof (intro conjI impI)
  show "list_all proper_faq_call (pend s)"
    using fa.reachable_inv [OF refl assms] by (simp add: fa_inv_def)
  let ?c = "FCreate (js_trim (fo_title (fa_form s))) (js_trim (fo_content (fa_form s)))"
  assume a: "fo_open (fa_form s) \<and> fo_item (fa_form s) = None \<and> js_trim (fo_title (fa_form s)) \<noteq> []
         \<and> js_trim (fo_content (fa_form s)) \<noteq> []"
  have o: "offers (fa_view x) SaveFaq" if "fo_open (fa_form x)" for x
    using that by (simp add: fa_view_def faq_dialog_view_def Let_def)
  have h: "fa_handle env SaveFaq x = call ?c x" if "fa_form x = fa_form s" for x and env :: faq_env
    using a that by (simp add: handleSave_def Let_def)
  fix env :: faq_env
  have "fa_step x (call ?c x)" if "fa_form x = fa_form s" for x
    using page_step.user [where off = "\<lambda>s. offers (fa_view s)" and handle = fa_handle and s = x and e = SaveFaq
        and env = env] o [of x] h [OF that] a that by simp
  from this [of s] this [of "call ?c s"]
  have "fa_step\<^sup>*\<^sup>* s (call ?c (call ?c s))"
    by (simp add: converse_rtranclp_into_rtranclp)
  then show "\<exists>t. fa_step\<^sup>*\<^sup>* s t \<and> pend t = pend s @ replicate 2 ?c"
    by (intro exI [of _ "call ?c (call ?c s)"]) (simp add: numeral_2_eq_2)
qed

lemma fa_userI: "fa_step\<^sup>*\<^sup>* a s \<Longrightarrow> offers (fa_view s) e \<Longrightarrow> fa_step\<^sup>*\<^sup>* a (fa_handle env e s)"
  by (erule rtranclp.rtrancl_into_rtrancl) (rule page_step.user)

text \<open>C36 after opening the dialog and typing a title and a content.\<close>

theorem faq_saves_proper_but_repeat_witness:
  "\<exists>t :: faq_page. fa_step\<^sup>*\<^sup>* fa_init t \<and> replicate 2 (FCreate (js ''q'') (js ''a'')) = drop 1 (pend t)"
proof -
  fix env :: faq_env
  let ?s1 = "fa_handle env OpenCreate fa_init"
  let ?s2 = "fa_handle env (EditTitle (js ''q'')) ?s1"
  let ?s = "fa_handle env (EditContent (js ''a'')) ?s2"
  have "fa_step\<^sup>*\<^sup>* fa_init ?s1"
    by (rule fa_userI [OF rtranclp.rtrancl_refl]) (simp add: fa_view_def)
  then have "fa_step\<^sup>*\<^sup>* fa_init ?s2"
    by (rule fa_userI) (simp add: fa_view_def faq_dialog_view_def openCreate_def Let_def)
  then have r: "fa_step\<^sup>*\<^sup>* fa_init ?s"
    by (rule fa_userI) (simp add: fa_view_def faq_dialog_view_def openCreate_def Let_def)
  have f: "fa_form ?s = \<lparr>fo_open = True, fo_item = None, fo_title = js ''q'', fo_content = js ''a''\<rparr>"
    "pend ?s = [FLoad]"
    by (simp_all add: openCreate_def fa_init_def fa_load_def)
  have t: "js_trim (js ''q'') = js ''q''" "js_trim (js ''a'') = js ''a''"
    by code_simp+
  have p: "fo_open (fa_form ?s) \<and> fo_item (fa_form ?s) = None \<and> js_trim (fo_title (fa_form ?s)) \<noteq> []
      \<and> js_trim (fo_content (fa_form ?s)) \<noteq> []"
    unfolding f(1) by (simp add: t del: js_Cons) simp
  obtain u where u: "fa_step\<^sup>*\<^sup>* ?s u" "pend u = pend ?s
      @ replicate 2 (FCreate (js_trim (fo_title (fa_form ?s))) (js_trim (fo_content (fa_form ?s))))"
    using faq_saves_proper_but_repeat [OF r, THEN conjunct2, THEN mp, OF p] by blast
  have "pend u = [FLoad] @ replicate 2 (FCreate (js ''q'') (js ''a''))"
    unfolding u(2) f by (simp add: t del: js_Cons)
  then show ?thesis
    using rtranclp_trans [OF r u(1)] by (intro exI [of _ u]) simp
qed

end
