(* ===== verification/Chart.thy ===== *)
theory Chart
  imports AdminFrame
begin

text \<open>
  The chart frame, web/src/components/ui/chart.tsx: the style element with the
  colours of a configuration, the tooltip and the legend over the payload the
  chart library hands them. A payload item is the JavaScript object of the library,
  here a JSON object; labels of a configuration are texts. How a number is
  formatted for the user's language is a parameter.
\<close>

section \<open>Configuration\<close>

text \<open>An entry has a color or a theme (a color per theme), by its type.\<close>

record chart_item =
  ch_label :: "jstr option"
  ch_icon :: "string option"
  ch_color :: "jstr option"
  ch_theme :: "(jstr \<times> jstr) list option"

type_synonym ChartConfig = "(jstr \<times> chart_item) list"

definition THEMES :: "(jstr \<times> jstr) list" where
  "THEMES = [(js ''light'', js ''''), (js ''dark'', js ''.dark'')]"

definition useChart :: "ChartConfig option \<Rightarrow> ChartConfig res" where
  "useChart context = (case context of
     None \<Rightarrow> Inl (ErrorMsg (js ''useChart must be used within a <ChartContainer />''))
   | Some c \<Rightarrow> Inr c)"

text \<open>
  \<^verbatim>\<open>config[key]\<close>. A name of Object.prototype finds the inherited value, a function
  or an object with none of the fields the code reads.
\<close>

definition object_names :: "jstr list" where
  "object_names = map js
     [''constructor'', ''__defineGetter__'', ''__defineSetter__'', ''hasOwnProperty'', ''__lookupGetter__'',
      ''__lookupSetter__'', ''isPrototypeOf'', ''propertyIsEnumerable'', ''toString'', ''valueOf'', ''__proto__'',
      ''toLocaleString'']"

definition inherited_item :: chart_item where
  "inherited_item = \<lparr>ch_label = None, ch_icon = None, ch_color = None, ch_theme = None\<rparr>"

definition config_get :: "ChartConfig \<Rightarrow> jstr \<Rightarrow> chart_item option" where
  "config_get config key = (case map_of config key of
     Some c \<Rightarrow> Some c
   | None \<Rightarrow> if key \<in> set object_names then Some inherited_item else None)"

definition item_label :: "chart_item option \<Rightarrow> jstr option" where
  "item_label c = (case c of None \<Rightarrow> None | Some i \<Rightarrow> ch_label i)"

text \<open>
  \<^verbatim>\<open>key in v && typeof v[key] === "string"\<close> for an object: an own property with a
  text; inherited properties are never texts.
\<close>

definition text_field :: "json \<Rightarrow> jstr \<Rightarrow> jstr option" where
  "text_field v key = (case map_of (obj_entries v) key of Some (JStr t) \<Rightarrow> Some t | _ \<Rightarrow> None)"

definition getPayloadConfigFromPayload :: "ChartConfig \<Rightarrow> json \<Rightarrow> jstr \<Rightarrow> chart_item option" where
  "getPayloadConfigFromPayload config payload key =
     (if \<not> is_object payload then None
      else let payloadPayload = (case obj_get payload (js ''payload'') of
                 Some v \<Rightarrow> if is_object v then Some v else None | None \<Rightarrow> None);
               configLabelKey = (case text_field payload key of
                   Some t \<Rightarrow> t
                 | None \<Rightarrow> (case payloadPayload of
                     Some v \<Rightarrow> (case text_field v key of Some t \<Rightarrow> t | None \<Rightarrow> key)
                   | None \<Rightarrow> key))
           in case config_get config configLabelKey of
                Some c \<Rightarrow> Some c | None \<Rightarrow> config_get config key)"

section \<open>Container and style\<close>

definition INITIAL_DIMENSION :: "int \<times> int" where
  "INITIAL_DIMENSION = (320, 200)"

text \<open>\<^verbatim>\<open>itemConfig.theme?.[theme] ?? itemConfig.color\<close>\<close>

definition theme_color :: "jstr \<Rightarrow> chart_item \<Rightarrow> jstr option" where
  "theme_color theme c = (case ch_theme c of
     None \<Rightarrow> ch_color c
   | Some cs \<Rightarrow> (case map_of cs theme of Some col \<Rightarrow> Some col | None \<Rightarrow> ch_color c))"

definition is_coloured :: "chart_item \<Rightarrow> bool" where
  "is_coloured c \<longleftrightarrow> ch_theme c \<noteq> None \<or> js_or (ch_color c) [] \<noteq> []"

definition color_line :: "jstr \<Rightarrow> jstr \<times> chart_item \<Rightarrow> jstr" where
  "color_line theme kc =
     (let color = js_or (theme_color theme (snd kc)) [] in
      if color \<noteq> [] then js ''  --color-'' @ fst kc @ js '': '' @ color @ js '';'' else [])"

definition style_block :: "jstr \<Rightarrow> ChartConfig \<Rightarrow> jstr \<times> jstr \<Rightarrow> jstr" where
  "style_block ident colorConfig tp =
     [10] @ snd tp @ js '' [data-chart='' @ ident @ js ''] {'' @ [10]
     @ js_join [10] (map (color_line (fst tp)) colorConfig) @ [10] @ js ''}'' @ [10]"

definition chart_css :: "jstr \<Rightarrow> ChartConfig \<Rightarrow> jstr option" where
  "chart_css ident config =
     (let colorConfig = filter (\<lambda>(k, c). is_coloured c) config in
      if length colorConfig = 0 then None
      else Some (js_join [10] (map (style_block ident colorConfig) THEMES)))"

definition ChartStyle :: "jstr \<Rightarrow> ChartConfig \<Rightarrow> 'e node list" where
  "ChartStyle ident config = (case chart_css ident config of
     None \<Rightarrow> [] | Some css \<Rightarrow> [El ''style'' [Attr ''html'' css] []])"

text \<open>\<^verbatim>\<open>chart-${id ?? uniqueId.replace(/:/g, "")}\<close>\<close>

definition chart_id :: "jstr option \<Rightarrow> jstr \<Rightarrow> jstr" where
  "chart_id ident uniqueId = js ''chart-'' @ (case ident of Some i \<Rightarrow> i | None \<Rightarrow> filter (\<lambda>c. c \<noteq> 58) uniqueId)"

definition ChartContainer :: "jstr option \<Rightarrow> jstr \<Rightarrow> ChartConfig \<Rightarrow> int \<times> int \<Rightarrow> 'e node list \<Rightarrow> 'e node" where
  "ChartContainer ident uniqueId config initialDimension cs =
     El ''div'' [Attr ''data-slot'' (js ''chart''), Attr ''data-chart'' (chart_id ident uniqueId)]
       (ChartStyle (chart_id ident uniqueId) config
        @ [El ''ResponsiveContainer''
             [Attr ''initialWidth'' (int_str (fst initialDimension)),
              Attr ''initialHeight'' (int_str (snd initialDimension))] cs])"

section \<open>Tooltip\<close>

datatype indicator = IndicatorLine | IndicatorDot | IndicatorDashed

text \<open>
  The props. \<open>tt_label\<close> is the label of the hovered point; the two formatters are the
  caller's, over the values the code passes them.
\<close>

record tooltip_props =
  tt_active :: bool
  tt_payload :: "json list option"
  tt_indicator :: indicator
  tt_hideLabel :: bool
  tt_hideIndicator :: bool
  tt_label :: "json option"
  tt_labelFormatter :: "(jstr option \<Rightarrow> json list \<Rightarrow> jstr) option"
  tt_formatter :: "(json \<Rightarrow> json \<Rightarrow> json \<Rightarrow> nat \<Rightarrow> jstr) option"
  tt_color :: "jstr option"
  tt_nameKey :: "jstr option"
  tt_labelKey :: "jstr option"

text \<open>\<^verbatim>\<open><ChartTooltipContent />\<close> as the chart library calls it.\<close>

definition tooltip_defaults :: "bool \<Rightarrow> json list option \<Rightarrow> json option \<Rightarrow> tooltip_props" where
  "tooltip_defaults active payload label =
     \<lparr>tt_active = active, tt_payload = payload, tt_indicator = IndicatorDot, tt_hideLabel = False,
      tt_hideIndicator = False, tt_label = label, tt_labelFormatter = None, tt_formatter = None, tt_color = None,
      tt_nameKey = None, tt_labelKey = None\<rparr>"

lemma tooltip_defaults_simps [simp]:
  "tt_active (tooltip_defaults a p l) = a" "tt_payload (tooltip_defaults a p l) = p"
  "tt_indicator (tooltip_defaults a p l) = IndicatorDot" "tt_hideLabel (tooltip_defaults a p l) = False"
  "tt_hideIndicator (tooltip_defaults a p l) = False" "tt_label (tooltip_defaults a p l) = l"
  "tt_labelFormatter (tooltip_defaults a p l) = None" "tt_formatter (tooltip_defaults a p l) = None"
  "tt_color (tooltip_defaults a p l) = None" "tt_nameKey (tooltip_defaults a p l) = None"
  "tt_labelKey (tooltip_defaults a p l) = None"
  by (simp_all add: tooltip_defaults_def)

text \<open>The first value that is neither null nor undefined, as a template string prints it.\<close>

fun first_value :: "json option list \<Rightarrow> json option" where
  "first_value [] = None"
| "first_value (v # vs) = (case v of None \<Rightarrow> first_value vs | Some JNull \<Rightarrow> first_value vs | Some w \<Rightarrow> Some w)"

definition key_text :: "json option list \<Rightarrow> jstr res" where
  "key_text vs = js_String (case first_value vs of None \<Rightarrow> JStr (js ''value'') | Some v \<Rightarrow> v)"

definition no_payload :: "json list option \<Rightarrow> bool" where
  "no_payload payload \<longleftrightarrow> payload = None \<or> payload = Some []"

definition label_value :: "ChartConfig \<Rightarrow> tooltip_props \<Rightarrow> json \<Rightarrow> jstr \<Rightarrow> jstr option" where
  "label_value config p item key =
     (case tt_label p of
        Some (JStr l) \<Rightarrow>
          if js_or (tt_labelKey p) [] = []
          then Some (case item_label (config_get config l) of Some t \<Rightarrow> t | None \<Rightarrow> l)
          else item_label (getPayloadConfigFromPayload config item key)
      | _ \<Rightarrow> item_label (getPayloadConfigFromPayload config item key))"

definition tooltipLabel :: "ChartConfig \<Rightarrow> tooltip_props \<Rightarrow> jstr option res" where
  "tooltipLabel config p =
     (case tt_payload p of
        Some (item # items) \<Rightarrow>
          if tt_hideLabel p then Inr None
          else bind_res (key_text [map_option JStr (tt_labelKey p), obj_get item (js ''dataKey''), obj_get item (js ''name'')])
            (\<lambda>key. let v = label_value config p item key in
              Inr (case tt_labelFormatter p of
                     Some f \<Rightarrow> Some (f v (item # items))
                   | None \<Rightarrow> if js_or v [] = [] then None else v))
      | _ \<Rightarrow> Inr None)"

text \<open>The items shown: \<^verbatim>\<open>item.type !== "none"\<close>.\<close>

definition shown_items :: "json list \<Rightarrow> json list" where
  "shown_items payload = filter (\<lambda>item. obj_get item (js ''type'') \<noteq> Some (JStr (js ''none''))) payload"

text \<open>\<^verbatim>\<open>color ?? item.payload?.fill ?? item.color\<close>\<close>

definition indicator_color :: "tooltip_props \<Rightarrow> json \<Rightarrow> json option" where
  "indicator_color p item =
     first_value [map_option JStr (tt_color p),
       (case obj_get item (js ''payload'') of None \<Rightarrow> None | Some v \<Rightarrow> obj_get v (js ''fill'')),
       obj_get item (js ''color'')]"

text \<open>A value in a view: a text or a number prints itself, nothing prints nothing.\<close>

definition value_text :: "(json \<Rightarrow> jstr) \<Rightarrow> json option \<Rightarrow> jstr res" where
  "value_text to_locale v = (case v of
     None \<Rightarrow> Inr []
   | Some (JNum m e) \<Rightarrow> Inr (to_locale (JNum m e))
   | Some w \<Rightarrow> js_String w)"

definition name_text :: "chart_item option \<Rightarrow> json \<Rightarrow> jstr" where
  "name_text c item = (case item_label c of
     Some t \<Rightarrow> t
   | None \<Rightarrow> (case obj_get item (js ''name'') of
       Some (JStr t) \<Rightarrow> t | Some (JNum m e) \<Rightarrow> num_str m e | _ \<Rightarrow> []))"

definition indicator_view :: "tooltip_props \<Rightarrow> chart_item option \<Rightarrow> json \<Rightarrow> 'e node list" where
  "indicator_view p c item =
     (case (case c of None \<Rightarrow> None | Some i \<Rightarrow> ch_icon i) of
        Some icon \<Rightarrow> [El icon [] []]
      | None \<Rightarrow> show_if (\<not> tt_hideIndicator p)
          (El ''indicator'' [Attr ''--color-bg'' (case indicator_color p item of Some (JStr t) \<Rightarrow> t | _ \<Rightarrow> [])] []))"

definition tooltip_row ::
  "(json \<Rightarrow> jstr) \<Rightarrow> ChartConfig \<Rightarrow> tooltip_props \<Rightarrow> jstr option \<Rightarrow> nat \<Rightarrow> json \<Rightarrow> 'e node res" where
  "tooltip_row to_locale config p nested idx item =
     bind_res (key_text [map_option JStr (tt_nameKey p), obj_get item (js ''name''), obj_get item (js ''dataKey'')])
       (\<lambda>key. let c = getPayloadConfigFromPayload config item key; v = obj_get item (js ''value'') in
         case (tt_formatter p, v, truthy (obj_get item (js ''name''))) of
           (Some f, Some w, True) \<Rightarrow>
             Inr (El ''div'' [] [Txt (f w (the (obj_get item (js ''name''))) item idx)])
         | _ \<Rightarrow>
             bind_res (value_text to_locale v) (\<lambda>t.
               Inr (El ''div'' []
                 (indicator_view p c item
                  @ (case nested of None \<Rightarrow> [] | Some l \<Rightarrow> [El ''div'' [] [Txt l]])
                  @ [El ''span'' [] [Txt (name_text c item)]]
                  @ show_if (v \<noteq> None \<and> v \<noteq> Some JNull) (El ''span'' [] [Txt t])))))"

fun rows_res :: "(nat \<Rightarrow> 'a \<Rightarrow> 'b res) \<Rightarrow> nat \<Rightarrow> 'a list \<Rightarrow> 'b list res" where
  "rows_res f i [] = Inr []"
| "rows_res f i (x # xs) = bind_res (f i x) (\<lambda>y. bind_res (rows_res f (Suc i) xs) (\<lambda>ys. Inr (y # ys)))"

definition ChartTooltipContent :: "(json \<Rightarrow> jstr) \<Rightarrow> ChartConfig \<Rightarrow> tooltip_props \<Rightarrow> 'e node list res" where
  "ChartTooltipContent to_locale config p =
     bind_res (tooltipLabel config p) (\<lambda>label.
       case tt_payload p of
         None \<Rightarrow> Inr []
       | Some payload \<Rightarrow>
           if \<not> tt_active p \<or> length payload = 0 then Inr []
           else let nestLabel = (length payload = 1 \<and> tt_indicator p \<noteq> IndicatorDot);
                    labels = (case label of None \<Rightarrow> [] | Some l \<Rightarrow> [El ''div'' [] [Txt l]])
                in bind_res (rows_res (tooltip_row to_locale config p (if nestLabel then label else None)) 0 (shown_items payload))
                     (\<lambda>rows. Inr [El ''div'' [] ((if \<not> nestLabel then labels else []) @ [El ''div'' [] rows])]))"

section \<open>Legend\<close>

definition legend_row :: "ChartConfig \<Rightarrow> bool \<Rightarrow> jstr option \<Rightarrow> nat \<Rightarrow> json \<Rightarrow> 'e node res" where
  "legend_row config hideIcon nameKey idx item =
     bind_res (key_text [map_option JStr nameKey, obj_get item (js ''dataKey'')])
       (\<lambda>key. let c = getPayloadConfigFromPayload config item key in
         Inr (El ''div'' []
           ((case (case c of None \<Rightarrow> None | Some i \<Rightarrow> ch_icon i) of
               Some icon \<Rightarrow> if hideIcon
                 then [El ''div'' [Attr ''backgroundColor'' (case obj_get item (js ''color'') of Some (JStr t) \<Rightarrow> t | _ \<Rightarrow> [])] []]
                 else [El icon [] []]
             | None \<Rightarrow> [El ''div'' [Attr ''backgroundColor'' (case obj_get item (js ''color'') of Some (JStr t) \<Rightarrow> t | _ \<Rightarrow> [])] []])
            @ (case item_label c of None \<Rightarrow> [] | Some l \<Rightarrow> [Txt l]))))"

definition ChartLegendContent :: "ChartConfig \<Rightarrow> bool \<Rightarrow> json list option \<Rightarrow> jstr option \<Rightarrow> 'e node list res" where
  "ChartLegendContent config hideIcon payload nameKey =
     (case payload of
        None \<Rightarrow> Inr []
      | Some items \<Rightarrow>
          if length items = 0 then Inr []
          else bind_res (rows_res (legend_row config hideIcon nameKey) 0 (shown_items items))
                 (\<lambda>rows. Inr [El ''div'' [] rows]))"

end
