(* ===== verification/Dashboard.thy ===== *)
theory Dashboard
  imports Chart
begin

text \<open>
  The dashboard (web/src/pages/admin/dashboard.tsx) and the list of batches
  (web/src/pages/admin/batches.tsx). The dashboard only shows what one request
  answered; the list switches batches on and off and reloads.
\<close>

section \<open>Dashboard\<close>

datatype dash_call = DashStats

record dash_page = "dash_call base" +
  da_data :: "(Stats \<times> DailyPoint list option \<times> RecentItem list option) option"

definition da_init :: dash_page where
  "da_init = call DashStats \<lparr>pend = [], log = [], da_data = None\<rparr>"

definition da_done ::
  "(js_error \<Rightarrow> jstr) \<Rightarrow> (Stats \<times> DailyPoint list option \<times> RecentItem list option) res \<Rightarrow> dash_page \<Rightarrow> dash_page" where
  "da_done em r s = (case r of
     Inr d \<Rightarrow> s\<lparr>da_data := Some d\<rparr>
   | Inl e \<Rightarrow> emit (ToastError (err_message em e)) s)"

definition dash_cards :: "Stats \<Rightarrow> 'e node" where
  "dash_cards stats =
     El ''div'' []
       [StatCard msg_da_codes_total (int_str (st_codes_total stats)) [] ''default'',
        StatCard msg_da_redeemed (int_str (st_redeem_total stats)) [] ''default'',
        StatCard msg_da_today (int_str (st_today stats)) [] ''primary'',
        StatCard msg_da_batches (int_str (st_batches stats)) [] ''default'',
        StatCard msg_da_webhook_failed (int_str (st_webhook_failed stats))
          (if st_webhook_failed stats > 0 then msg_da_resend_hint else [])
          (if st_webhook_failed stats > 0 then ''destructive'' else ''default'')]"

definition chartConfig :: ChartConfig where
  "chartConfig = [(js ''count'', \<lparr>ch_label = Some msg_da_redeem_count, ch_icon = None,
      ch_color = Some (js ''var(--chart-1)''), ch_theme = None\<rparr>)]"

text \<open>\<open>uniqueId\<close> is what \<^verbatim>\<open>React.useId()\<close> gives the container.\<close>

definition dash_chart :: "jstr \<Rightarrow> DailyPoint list \<Rightarrow> 'e node" where
  "dash_chart uniqueId points =
     El ''Card'' []
       [El ''CardTitle'' [] [Txt msg_da_trend],
        El ''CardDescription'' [] [Txt msg_da_trend_hint],
        ChartContainer None uniqueId chartConfig INITIAL_DIMENSION
          [El ''AreaChart'' []
             (map (\<lambda>p. El ''point'' [Attr ''date'' (dp_date p), Attr ''count'' (int_str (dp_count p))] []) points
              @ [El ''XAxis'' [Attr ''dataKey'' (js ''date'')] [],
                 El ''YAxis'' [Attr ''allowDecimals'' (js ''false'')] [],
                 El ''ChartTooltip'' [] [],
                 El ''Area'' [Attr ''dataKey'' (js ''count''), Attr ''stroke'' (js ''var(--color-count)'')] []])]]"

definition dash_row :: "RecentItem \<Rightarrow> 'e node" where
  "dash_row r =
     El ''TableRow'' []
       [Txt (rc_created_at r), Txt (case rc_batch_name r of None \<Rightarrow> msg_da_dash | Some n \<Rightarrow> n), Txt (rc_code r),
        Txt (rc_user_id r), ResultBadge (rc_result r) (rc_message r), WebhookBadge (rc_webhook_status r)]"

definition dash_recent :: "RecentItem list \<Rightarrow> 'e node" where
  "dash_recent items =
     El ''Card'' []
       [El ''CardTitle'' [] [Txt msg_da_recent],
        El ''CardDescription'' [] [Txt msg_da_recent_hint],
        (if length items = 0
         then EmptyState msg_da_no_recent msg_da_no_recent_hint
         else El ''Table'' []
           (El ''TableHeader'' []
              [Txt msg_da_col_time, Txt msg_da_col_batch, Txt msg_da_col_code, Txt msg_da_col_mail, Txt msg_da_col_result,
               Txt (js ''Webhook'')]
            # map dash_row items))]"

definition list_or_empty :: "'a list option \<Rightarrow> 'a list" where
  "list_or_empty v = (case v of None \<Rightarrow> [] | Some xs \<Rightarrow> xs)"

definition da_view :: "jstr \<Rightarrow> dash_page \<Rightarrow> 'e node" where
  "da_view uniqueId s = (case da_data s of
     None \<Rightarrow> El ''div'' [] (replicate 5 (El ''Skeleton'' [] []) @ [El ''Skeleton'' [] []])
   | Some (stats, daily, recent) \<Rightarrow>
       El ''div'' []
         [PageHeader msg_da_title msg_da_subtitle [Link (js ''/admin/batches/new'') msg_da_new_batch],
          dash_cards stats, dash_chart uniqueId (list_or_empty daily), dash_recent (list_or_empty recent)])"

section \<open>Batches\<close>

datatype bl_call = BList | BToggle int

record bl_page = "bl_call base" +
  bl_batches :: "Batch list option"

definition bl_load :: "bl_page \<Rightarrow> bl_page" where
  "bl_load s = call BList s"

definition bl_load_done :: "(js_error \<Rightarrow> jstr) \<Rightarrow> Batch list res \<Rightarrow> bl_page \<Rightarrow> bl_page" where
  "bl_load_done em r s = (case r of
     Inr bs \<Rightarrow> s\<lparr>bl_batches := Some bs\<rparr>
   | Inl e \<Rightarrow> emit (ToastError (err_message em e)) s)"

definition bl_init :: bl_page where
  "bl_init = bl_load \<lparr>pend = [], log = [], bl_batches = None\<rparr>"

definition handleToggle :: "int \<Rightarrow> bl_page \<Rightarrow> bl_page" where
  "handleToggle ident s = call (BToggle ident) s"

definition bl_toggle_done :: "(js_error \<Rightarrow> jstr) \<Rightarrow> jstr res \<Rightarrow> bl_page \<Rightarrow> bl_page" where
  "bl_toggle_done em r s = (case r of
     Inr message \<Rightarrow> bl_load (emit (ToastSuccess message) s)
   | Inl e \<Rightarrow> emit (ToastError (message_if_error em msg_da_failed e)) s)"

definition opt_int_text :: "int option \<Rightarrow> jstr" where
  "opt_int_text n = (case n of None \<Rightarrow> [] | Some k \<Rightarrow> int_str k)"

datatype bl_event = ToggleBatchRow int

definition batch_row_view :: "Batch \<Rightarrow> bl_event node" where
  "batch_row_view b =
     (let on = (b_status b = BatchActive); label = (if on then msg_da_turn_off else msg_da_turn_on) in
      El ''TableRow'' []
        ([Txt (js ''#'' @ int_str (b_id b)), Link (js ''/admin/batches/'' @ int_str (b_id b)) (b_name b)]
         @ show_if (b_description b \<noteq> []) (El ''div'' [] [Txt (b_description b)])
         @ [Txt (if b_prefix b \<noteq> [] then b_prefix b else msg_dash),
            Txt (opt_int_text (b_code_count b)), Txt (opt_int_text (b_used_count b)),
            Txt (expiry_text (b_expires_at b)),
            (if b_webhook_url b \<noteq> [] then Badge ''outline'' msg_da_configured else El ''span'' [] [Txt msg_dash]),
            BatchStatusBadge (b_status b),
            Link (js ''/admin/batches/'' @ int_str (b_id b)) msg_da_details,
            ConfirmDialog [] label (msg_da_sure @ label @ msg_da_the_batch @ b_name b @ msg_da_question)
              (if on then msg_da_off_hint else msg_da_on_hint)
              (Some label) (ToggleBatchRow (b_id b))]))"

definition bl_view :: "bl_page \<Rightarrow> bl_event node" where
  "bl_view s =
     El ''div'' []
       [PageHeader msg_da_batches_title msg_da_batches_subtitle
          [Link (js ''/admin/batches/new'') msg_da_new_batch],
        El ''Card'' []
          [El ''CardTitle'' [] [Txt msg_da_all_batches],
           El ''CardDescription'' []
             [Txt (msg_da_total @ (case bl_batches s of None \<Rightarrow> msg_da_dots | Some bs \<Rightarrow> nat_str (length bs))
                   @ msg_da_batches_unit)],
           (case bl_batches s of
              None \<Rightarrow> El ''Skeleton'' [] []
            | Some bs \<Rightarrow>
                if length bs = 0 then EmptyState msg_da_no_batches msg_da_no_batches_hint
                else El ''Table'' []
                  (El ''TableHeader'' []
                     [Txt (js ''ID''), Txt msg_da_col_name, Txt msg_da_col_prefix, Txt msg_da_col_codes,
                      Txt msg_da_col_used, Txt msg_da_col_expires, Txt (js ''Webhook''), Txt msg_da_col_status,
                      Txt msg_da_col_actions]
                   # map batch_row_view bs))]]"

record bl_env = ble_text :: "js_error \<Rightarrow> jstr"

fun bl_handle :: "bl_env \<Rightarrow> bl_event \<Rightarrow> bl_page \<Rightarrow> bl_page" where
  "bl_handle env (ToggleBatchRow i) s = handleToggle i s"

datatype bl_answer = BatchesAnswer "Batch list res" | SwitchAnswer "jstr res"

fun bl_settle :: "bl_env \<Rightarrow> bl_call \<Rightarrow> bl_answer \<Rightarrow> bl_page \<Rightarrow> bl_page option" where
  "bl_settle env BList (BatchesAnswer r) s = Some (bl_load_done (ble_text env) r s)"
| "bl_settle env (BToggle i) (SwitchAnswer r) s = Some (bl_toggle_done (ble_text env) r s)"
| "bl_settle env _ _ s = None"

abbreviation bl_step :: "bl_page \<Rightarrow> bl_page \<Rightarrow> bool" where
  "bl_step \<equiv> page_step (\<lambda>s. offers (bl_view s)) bl_handle bl_settle"

section \<open>Facts\<close>

lemma bl_page_frame [simp]:
  "bl_batches (emit e s) = bl_batches s"
  "bl_batches (call c s) = bl_batches s"
  "bl_batches (settled c s) = bl_batches s"
  "bl_batches (emits es s) = bl_batches s"
  by (simp_all add: base_ops emits_frame)

lemma list_ex_replicate: "list_ex p (replicate n x) \<longleftrightarrow> 0 < n \<and> p x"
  by (induction n) auto

lemma dash_no_controls: "\<not> offers (da_view uniqueId s) e"
  by (auto simp: da_view_def ChartContainer_def ChartStyle_def dash_cards_def dash_chart_def dash_recent_def dash_row_def list_ex_map_iff
      list_ex_replicate split: option.split)

lemma offers_bl_view:
  "offers (bl_view s) e \<longleftrightarrow>
     (\<exists>bs. bl_batches s = Some bs \<and> (\<exists>b \<in> set bs. e = ToggleBatchRow (b_id b)))"
proof -
  have "offers (batch_row_view b) e \<longleftrightarrow> e = ToggleBatchRow (b_id b)" for b
    by (simp add: batch_row_view_def Let_def)
  then show ?thesis
    by (cases "bl_batches s") (auto simp: bl_view_def list_ex_map_iff)
qed

text \<open>Once listed, the batches stay on show: a failed reload keeps the old list.\<close>

definition bl_shown :: "bl_page \<Rightarrow> bool" where
  "bl_shown s \<longleftrightarrow> bl_batches s \<noteq> None"

interpretation bl: page_system bl_shown "\<lambda>s. offers (bl_view s)" bl_handle bl_settle bl_shown
proof unfold_locales
  show "bl_shown s \<Longrightarrow> bl_shown (bl_handle env e s)" for s e and env :: bl_env
    by (cases e) (simp add: bl_shown_def handleToggle_def)
  show "bl_shown t" if "bl_shown s" "bl_settle env c a (settled c s) = Some t" for s t c a and env :: bl_env
    using that
    by (cases "(env, c, a, settled c s)" rule: bl_settle.cases)
       (auto simp: bl_shown_def bl_load_def bl_load_done_def bl_toggle_done_def split: sum.splits)
qed

section \<open>The tooltip of the chart\<close>

lemma config_count:
  "config_get chartConfig (js ''count'') = Some (snd (hd chartConfig))"
  "ch_label (snd (hd chartConfig)) = Some msg_da_redeem_count" "ch_icon (snd (hd chartConfig)) = None"
  by (simp_all add: config_get_def chartConfig_def)

lemma config_other: "key \<noteq> js ''count'' \<Longrightarrow> item_label (config_get chartConfig key) = None"
  by (simp add: config_get_def chartConfig_def item_label_def inherited_item_def del: js_Cons)

text \<open>A point as the row of data the chart library keeps in \<^verbatim>\<open>item.payload\<close>.\<close>

definition point_row :: "jstr \<Rightarrow> json \<Rightarrow> json" where
  "point_row date value = JObj [(js ''date'', JStr date), (js ''count'', value)]"

lemma point_row_count: "text_field (point_row date (JNum m x)) (js ''count'') = None"
  by (simp add: text_field_def point_row_def obj_entries_def js_def)

text \<open>The item of a day, as the hypotheses of the property describe it.\<close>

lemma area_item_config:
  assumes "is_object item" "text_field item (js ''count'') = None"
    and "obj_get item (js ''payload'') = Some (point_row date (JNum m x))"
  shows "getPayloadConfigFromPayload chartConfig item (js ''count'') = Some (snd (hd chartConfig))"
proof -
  have "is_object (point_row date (JNum m x))"
    by (simp add: point_row_def is_object_def)
  then show ?thesis
    using assms point_row_count [of date m x]
    by (simp add: getPayloadConfigFromPayload_def config_count del: js_Cons)
qed

lemma area_item_label:
  assumes "obj_get item (js ''dataKey'') = Some (JStr (js ''count''))" "date \<noteq> []" "date \<noteq> js ''count''"
  shows "tooltipLabel chartConfig (tooltip_defaults b (Some [item]) (Some (JStr date))) = Inr (Some date)"
  using assms config_other [of date]
  by (simp add: tooltipLabel_def key_text_def label_value_def js_or_def Let_def del: js_Cons)

text \<open>Hovering over a day of the dashboard's chart shows that day, the label of the
  configuration and the day's count. The hypotheses say what the chart library
  puts into the item of an Area without a name: its data key as key and name, the
  value, the row of data, no type, and no field named after the data key. The date
  is neither empty nor the configuration's own key, for which the label of the
  series would be shown instead. The colour the chart is drawn with is defined for
  both themes.\<close>

lemma dashboard_tooltip:
  assumes "is_object item" "text_field item (js ''count'') = None"
    and "obj_get item (js ''dataKey'') = Some (JStr (js ''count''))" "obj_get item (js ''name'') = Some (JStr (js ''count''))"
    and "obj_get item (js ''value'') = Some (JNum m x)" "obj_get item (js ''payload'') = Some (point_row date (JNum m x))"
    and "obj_get item (js ''type'') = None" "date \<noteq> []" "date \<noteq> js ''count''"
  shows "(\<exists>n. ChartTooltipContent to_locale chartConfig (tooltip_defaults True (Some [item]) (Some (JStr date))) = Inr [n]
      \<and> texts (n :: unit node) = [date, msg_da_redeem_count, to_locale (JNum m x)])
    \<and> (\<forall>(theme, prefix) \<in> set THEMES.
          map (color_line theme) chartConfig = [js ''  --color-count: var(--chart-1);''])"
proof
  let ?p = "tooltip_defaults True (Some [item]) (Some (JStr date))"
  have k: "key_text [map_option JStr (tt_nameKey ?p), obj_get item (js ''name''), obj_get item (js ''dataKey'')] = Inr (js ''count'')"
    using assms(4) by (simp add: key_text_def del: js_Cons)
  have r: "\<exists>row. tooltip_row to_locale chartConfig ?p None 0 item = Inr row
      \<and> texts (row :: unit node) = [msg_da_redeem_count, to_locale (JNum m x)]"
    unfolding tooltip_row_def k
    by (simp add: area_item_config [OF assms(1,2,6)] assms(5) value_text_def indicator_view_def
        config_count name_text_def item_label_def show_if_def Let_def del: js_Cons)
  have s: "shown_items [item] = [item]"
    using assms(7) by (simp add: shown_items_def)
  from r show "\<exists>n. ChartTooltipContent to_locale chartConfig ?p = Inr [n]
      \<and> texts (n :: unit node) = [date, msg_da_redeem_count, to_locale (JNum m x)]"
    by (auto simp: ChartTooltipContent_def area_item_label [OF assms(3,8,9)] s)
  show "\<forall>(theme, prefix) \<in> set THEMES. map (color_line theme) chartConfig = [js ''  --color-count: var(--chart-1);'']"
    by (simp add: THEMES_def chartConfig_def color_line_def theme_color_def js_or_def js_def)
qed

end
