(* ===== verification/AdminQuiet.thy ===== *)
theory AdminQuiet
  imports BatchNewProofs Logs BatchDetail Faq SiteSettingsProofs Dashboard
begin

text \<open>
  The admin pages come to rest: left alone, each page receives only a bounded
  number of further answers, whatever they are, because every continuation
  starts less work than the call it ends.
\<close>

fun log_weight :: "log_call \<Rightarrow> nat" where
  "log_weight (LLoad q) = 1"
| "log_weight (LTimer q) = 2"
| "log_weight (LResend i q) = 3"

interpretation lg_drain: draining lg_settle log_weight
proof unfold_locales
  show "work log_weight t < work log_weight s + log_weight c" if "lg_settle env c a s = Some t" for env :: log_env and c a s t
  proof -
    have "lg_continue env c a s = Some t"
      using that by (auto simp: lg_settle_def split: if_splits)
    then show ?thesis
      by (cases "(env, c, a, s)" rule: lg_continue.cases)
         (auto simp: lg_load_done_def resend_done_def lg_load_def work_def split: sum.splits)
  qed
qed

fun bd_weight :: "bd_call \<Rightarrow> nat" where
  "bd_weight DBatch = 1"
| "bd_weight (DCodes q) = 1"
| "bd_weight (DToggleBatch i) = 2"
| "bd_weight (DToggleCode i q) = 3"

interpretation bd_drain: draining bd_settle bd_weight
proof unfold_locales
  show "work bd_weight t < work bd_weight s + bd_weight c" if "bd_settle env c a s = Some t" for env :: bd_env and c a s t
    using that
    by (cases "(env, c, a, s)" rule: bd_settle.cases)
       (auto simp: bd_conts loadBatch_def loadCodes_def work_def split: sum.splits)
qed

fun faq_weight :: "faq_call \<Rightarrow> nat" where
  "faq_weight FLoad = 1"
| "faq_weight _ = 2"

interpretation fa_drain: draining fa_settle faq_weight
proof unfold_locales
  show "work faq_weight t < work faq_weight s + faq_weight c" if "fa_settle env c a s = Some t" for env :: faq_env and c a s t
    using that
    by (cases "(env, c, a, s)" rule: fa_settle.cases)
       (auto simp: fa_conts fa_load_def closeForm_def work_def split: sum.splits)
qed

interpretation bn_drain: draining bn_settle "\<lambda>_. 1"
proof unfold_locales
  show "work (\<lambda>_. 1) t < work (\<lambda>_. 1) s + 1" if "bn_settle env c a s = Some t" for env :: bn_env and c a s t
    using that
    by (cases "(env, c, a, s)" rule: bn_settle.cases)
       (auto simp: bn_plans_done_def bn_create_done_def work_def split: sum.splits js_error.splits)
qed

interpretation st_drain: draining st_settle "\<lambda>_. 1"
proof unfold_locales
  show "work (\<lambda>_. 1) t < work (\<lambda>_. 1) s + 1" if "st_settle env c a s = Some t" for env :: st_env and c a s t
    using that
    by (cases "(env, c, a, s)" rule: st_settle.cases)
       (auto simp: st_refresh_done_def validated_def saved_def work_def Let_def split: sum.splits option.splits)
qed

fun bl_weight :: "bl_call \<Rightarrow> nat" where
  "bl_weight BList = 1"
| "bl_weight (BToggle i) = 2"

interpretation bl_drain: draining bl_settle bl_weight
proof unfold_locales
  show "work bl_weight t < work bl_weight s + bl_weight c" if "bl_settle env c a s = Some t" for env :: bl_env and c a s t
    using that
    by (cases "(env, c, a, s)" rule: bl_settle.cases)
       (auto simp: bl_load_def bl_load_done_def bl_toggle_done_def work_def split: sum.splits)
qed

text \<open>A call under way can always be answered, so a run of answers only stops at rest.\<close>

lemma lg_progress: "pend s \<noteq> [] \<Longrightarrow> \<exists>t. page_answer lg_settle s t"
proof -
  assume "pend s \<noteq> []"
  then obtain c where c: "c \<in> set (pend s)"
    by (cases "pend s") auto
  fix env :: log_env
  have "\<exists>a t. lg_settle env c a (settled c s) = Some t"
  proof (cases c)
    case (LLoad q)
    have "lg_settle env c (LogsAnswer (Inl TypeErr)) (settled c s) \<noteq> None"
      by (simp add: LLoad lg_settle_def)
    then show ?thesis by blast
  next
    case (LResend i q)
    have "lg_settle env c (ResendAnswer (Inl TypeErr)) (settled c s) \<noteq> None"
      by (simp add: LResend lg_settle_def)
    then show ?thesis by blast
  next
    case (LTimer q)
    have "lg_settle env c TimerFires (settled c s) \<noteq> None"
      by (simp add: LTimer lg_settle_def)
    then show ?thesis by blast
  qed
  with c show ?thesis
    using page_answer.answer [where settle = lg_settle] by blast
qed



end
