(* ===== verification/Codes.thy ===== *)
theory Codes
  imports CdkInput AdminMessages
begin

text \<open>
  The life of a code outside the data base: internal/batch/batch.go draws it,
  internal/redeem/service.go shows it in groups and reads it back,
  internal/httpapi/admin.go exports it. A Go string that is valid UTF-8 is kept
  as the UTF-16 code units of its text, so that client and server share one
  string type; \<open>go_len\<close> and \<open>go_runes\<close> count its bytes and its runes.
\<close>

section \<open>Strings of Go\<close>

type_synonym gostr = jstr

definition go_len :: "gostr \<Rightarrow> nat" where
  "go_len s = blob_size s"

definition go_runes :: "gostr \<Rightarrow> nat" where
  "go_runes s = length (code_points s)"

text \<open>\<^verbatim>\<open>unicode.IsSpace\<close>: unlike the white space of JavaScript it has U+0085 and not U+FEFF.\<close>

definition go_is_space :: "cu \<Rightarrow> bool" where
  "go_is_space c \<longleftrightarrow>
     (9 \<le> c \<and> c \<le> 13) \<or> c = 32 \<or> c = 133 \<or> c = 160 \<or> c = 5760 \<or> (8192 \<le> c \<and> c \<le> 8202) \<or>
     c = 8232 \<or> c = 8233 \<or> c = 8239 \<or> c = 8287 \<or> c = 12288"

definition TrimSpace :: "gostr \<Rightarrow> gostr" where
  "TrimSpace s = rev (dropWhile go_is_space (rev (dropWhile go_is_space s)))"

text \<open>
  The tables of the package \<^verbatim>\<open>unicode\<close> for the runes that are not ASCII; \<open>gu_fold\<close> is the
  smallest rune of the orbit under \<^verbatim>\<open>SimpleFold\<close>.
\<close>

record go_unicode =
  gu_upper :: "nat \<Rightarrow> nat"
  gu_lower :: "nat \<Rightarrow> nat"
  gu_print :: "nat \<Rightarrow> bool"
  gu_fold :: "nat \<Rightarrow> nat"

definition of_runes :: "nat list \<Rightarrow> gostr" where
  "of_runes ps = concat (map utf16_encode ps)"

definition ToUpper :: "go_unicode \<Rightarrow> gostr \<Rightarrow> gostr" where
  "ToUpper U s = of_runes (map (\<lambda>p. if p < 128 then unat (upper_cu (of_nat p)) else gu_upper U p) (code_points s))"

definition ToLower :: "go_unicode \<Rightarrow> gostr \<Rightarrow> gostr" where
  "ToLower U s = of_runes (map (\<lambda>p. if p < 128 then unat (lower_cu (of_nat p)) else gu_lower U p) (code_points s))"

text \<open>How \<^verbatim>\<open>encoding/json\<close> reads a string: a lone surrogate becomes U+FFFD.\<close>

definition json_string :: "jstr \<Rightarrow> gostr" where
  "json_string s = of_runes (map (\<lambda>p. if is_surrogate_point p then 65533 else p) (code_points s))"

section \<open>Drawing codes\<close>

definition alphabet :: gostr where
  "alphabet = js ''ABCDEFGHJKMNPQRSTUVWXYZ23456789''"

text \<open>\<open>ns\<close> are the numbers \<^verbatim>\<open>rand.Int\<close> returns, each below the bound it is given.\<close>

definition randomCode :: "nat \<Rightarrow> nat list \<Rightarrow> gostr" where
  "randomCode len ns = map (\<lambda>i. alphabet ! (ns ! i)) [0..<len]"

text \<open>The loop, one entry of \<open>draws\<close> per turn; None while the random source is not drawn from far enough.\<close>

fun generate_from :: "gostr \<Rightarrow> nat \<Rightarrow> nat \<Rightarrow> gostr list \<Rightarrow> nat list list \<Rightarrow> gostr list option" where
  "generate_from pre len count codes draws =
     (if length codes < count then
        (case draws of
           [] \<Rightarrow> None
         | ns # rest \<Rightarrow>
             let code = pre @ randomCode len ns in
             if code \<in> set codes then generate_from pre len count codes rest
             else generate_from pre len count (codes @ [code]) rest)
      else Some codes)"

declare generate_from.simps [simp del]

definition generateCodes :: "gostr \<Rightarrow> nat \<Rightarrow> nat \<Rightarrow> nat list list \<Rightarrow> gostr list option" where
  "generateCodes pre len count draws = generate_from pre len count [] draws"

definition drawn :: "nat \<Rightarrow> nat list list \<Rightarrow> bool" where
  "drawn len draws \<longleftrightarrow> list_all (\<lambda>ns. length ns = len \<and> list_all (\<lambda>n. n < length alphabet) ns) draws"

section \<open>Showing and reading codes\<close>

text \<open>A stored code consists of ASCII letters and digits (a check of its table), so bytes are code units.\<close>

definition NormalizeCode :: "go_unicode \<Rightarrow> gostr \<Rightarrow> gostr" where
  "NormalizeCode U raw = ToUpper U (filter is_alnum raw)"

fun groups4 :: "gostr \<Rightarrow> gostr list" where
  "groups4 s = (if s = [] then [] else take 4 s # groups4 (drop 4 s))"

declare groups4.simps [simp del]

definition formatGroups :: "gostr \<Rightarrow> gostr" where
  "formatGroups s = (if go_len s \<le> 4 then s else js_join [45] (groups4 s))"

definition DisplayCode :: "go_unicode \<Rightarrow> gostr \<Rightarrow> gostr \<Rightarrow> gostr" where
  "DisplayCode U code pre =
     (let p = ToUpper U pre in
      if p \<noteq> [] \<and> take (length p) code = p then p @ [45] @ formatGroups (drop (length p) code)
      else formatGroups code)"

section \<open>The exported files\<close>

text \<open>\<^verbatim>\<open>csv.Writer\<close>: a field is quoted only when it has to be.\<close>

definition csv_quoted :: "gostr \<Rightarrow> bool" where
  "csv_quoted f \<longleftrightarrow>
     f \<noteq> [] \<and> (f = js [CHR 0x5C, CHR ''.''] \<or> (\<exists>c \<in> set f. c \<in> {44, 34, 13, 10}) \<or> go_is_space (hd f))"

definition csv_field :: "gostr \<Rightarrow> gostr" where
  "csv_field f = (if csv_quoted f then [34] @ js_replaceAll (\<lambda>c. c = 34) [34, 34] f @ [34] else f)"

definition export_txt :: "go_unicode \<Rightarrow> gostr \<Rightarrow> gostr list \<Rightarrow> gostr" where
  "export_txt U pre codes = concat (map (\<lambda>c. DisplayCode U c pre @ [10]) codes)"

definition export_csv :: "go_unicode \<Rightarrow> gostr \<Rightarrow> gostr list \<Rightarrow> gostr" where
  "export_csv U pre codes =
     [65279] @ csv_field msg_cd_export_header @ [10]
     @ concat (map (\<lambda>c. csv_field (DisplayCode U c pre) @ [10]) codes)"

section \<open>Generated codes\<close>

text \<open>\<^verbatim>\<open>isASCIIAlphanumeric\<close>: what the server demands of an upper-case prefix.\<close>

definition isASCIIAlphanumeric :: "gostr \<Rightarrow> bool" where
  "isASCIIAlphanumeric s \<longleftrightarrow> list_all (\<lambda>c. is_upper c \<or> is_digit c) s"

lemma alphabet_upper: "list_all (\<lambda>c. is_upper c \<or> is_digit c) alphabet"
  by (simp add: alphabet_def char_defs)

lemma randomCode_upper:
  assumes "length ns = len" "list_all (\<lambda>n. n < length alphabet) ns"
  shows "list_all (\<lambda>c. is_upper c \<or> is_digit c) (randomCode len ns)"
  using assms alphabet_upper by (auto simp: randomCode_def list_all_iff)

lemma generate_from_sound:
  assumes "generate_from pre len count cs draws = Some out" "distinct cs" "length cs \<le> count"
  shows "distinct out \<and> length out = count
    \<and> (\<forall>c \<in> set out. c \<in> set cs \<or> (\<exists>ns \<in> set draws. c = pre @ randomCode len ns))"
  using assms
proof (induction pre len count cs draws rule: generate_from.induct)
  case (1 pre len count cs draws)
  note step = "1.prems"(1) [unfolded generate_from.simps [of pre len count cs draws]]
  show ?case
  proof (cases "length cs < count")
    case False
    then show ?thesis using step "1.prems" by simp
  next
    case True
    then obtain ns rest where d: "draws = ns # rest"
      using step by (cases draws) simp_all
    define code where "code = pre @ randomCode len ns"
    show ?thesis
    proof (cases "code \<in> set cs")
      case True
      then have "generate_from pre len count cs rest = Some out"
        using step \<open>length cs < count\<close> by (simp add: d code_def)
      from "1.IH"(1) [OF \<open>length cs < count\<close> d code_def True this "1.prems"(2,3)]
      show ?thesis by (auto simp: d)
    next
      case False
      then have "generate_from pre len count (cs @ [code]) rest = Some out"
        using step \<open>length cs < count\<close> by (simp add: d code_def)
      from "1.IH"(2) [OF \<open>length cs < count\<close> d code_def False this] "1.prems" False \<open>length cs < count\<close>
      show ?thesis by (auto simp: d code_def)
    qed
  qed
qed

lemma generateCodes_sound:
  assumes "generateCodes pre len count draws = Some codes" "drawn len draws"
    "isASCIIAlphanumeric pre" "1 \<le> len"
  shows "distinct codes" "length codes = count" "list_all clean_code codes"
proof -
  note s = generate_from_sound [OF assms(1) [unfolded generateCodes_def]]
  show "distinct codes" "length codes = count" using s by simp_all
  have "clean_code (pre @ randomCode len ns)" if "ns \<in> set draws" for ns
    using that assms randomCode_upper [of ns len]
    by (auto simp: clean_code_def drawn_def list_all_iff isASCIIAlphanumeric_def randomCode_def)
  then show "list_all clean_code codes"
    using s by (auto simp: list_all_iff)
qed

text \<open>Enough different draws make the loop end.\<close>

lemma generate_from_returns:
  assumes "count \<le> length cs + card ((\<lambda>ns. pre @ randomCode len ns) ` set draws - set cs)"
  shows "\<exists>out. generate_from pre len count cs draws = Some out"
  using assms
proof (induction pre len count cs draws rule: generate_from.induct)
  case (1 pre len count cs draws)
  show ?case
  proof (cases "length cs < count")
    case False
    then show ?thesis by (simp add: generate_from.simps [of _ _ _ _ draws])
  next
    case True
    then obtain ns rest where d: "draws = ns # rest"
      using "1.prems" by (cases draws) simp_all
    let ?f = "\<lambda>ns. pre @ randomCode len ns"
    define code where "code = ?f ns"
    show ?thesis
    proof (cases "code \<in> set cs")
      case in_cs: True
      then have "?f ` set draws - set cs = ?f ` set rest - set cs"
        by (auto simp: d code_def)
      then have "\<exists>out. generate_from pre len count cs rest = Some out"
        using "1.prems" by (intro "1.IH"(1) [OF True d code_def in_cs]) simp
      then show ?thesis
        using True in_cs by (simp add: generate_from.simps [of pre len count cs "ns # rest"] d code_def)
    next
      case fresh: False
      have "card (?f ` set draws - set cs) \<le> Suc (card (?f ` set rest - set (cs @ [code])))"
      proof -
        have "?f ` set draws - set cs \<subseteq> insert code (?f ` set rest - set (cs @ [code]))"
          by (auto simp: d code_def)
        then have "card (?f ` set draws - set cs) \<le> card (insert code (?f ` set rest - set (cs @ [code])))"
          by (intro card_mono) auto
        also have "\<dots> \<le> Suc (card (?f ` set rest - set (cs @ [code])))"
          by (rule card_insert_le_m1) auto
        finally show ?thesis .
      qed
      then have "\<exists>out. generate_from pre len count (cs @ [code]) rest = Some out"
        using "1.prems" by (intro "1.IH"(2) [OF True d code_def fresh]) simp
      then show ?thesis
        using True fresh by (simp add: generate_from.simps [of pre len count cs "ns # rest"] d code_def)
    qed
  qed
qed

section \<open>Display and normal form\<close>

lemma code_points_ascii: "list_all (\<lambda>c. c < 128) s \<Longrightarrow> code_points s = map unat s"
proof (induction s rule: code_points.induct)
  case (3 c d s)
  then have "\<not> is_high_surrogate c" by (auto simp: char_defs word_le_nat_alt word_less_nat_alt)
  with 3 show ?case by simp
qed simp_all

lemma of_runes_ascii: "list_all (\<lambda>p. p < 65536) ps \<Longrightarrow> of_runes ps = map of_nat ps"
  by (induction ps) (simp_all add: of_runes_def utf16_encode_def)

lemma ToUpper_ascii:
  assumes "list_all (\<lambda>c. c < 128) s"
  shows "ToUpper U s = map upper_cu s"
proof -
  have u: "unat c < 128" if "c \<in> set s" for c
    using that assms by (auto simp: list_all_iff word_less_nat_alt)
  have "unat (upper_cu c) < 65536" for c
    using unsigned_less [of "upper_cu c"] by simp
  then have "list_all (\<lambda>p. p < 65536) (map (\<lambda>c. unat (upper_cu c)) s)"
    by (simp add: list_all_iff)
  moreover have "ToUpper U s = of_runes (map (\<lambda>c. unat (upper_cu c)) s)"
    unfolding ToUpper_def code_points_ascii [OF assms] map_map
    by (intro arg_cong [where f = of_runes] map_cong refl) (simp add: u)
  ultimately show ?thesis by (simp add: of_runes_ascii o_def)
qed

lemma alnum_ascii: "is_alnum c \<Longrightarrow> c < 128"
  by (auto simp: char_defs word_le_nat_alt word_less_nat_alt)

lemma ToUpper_clean: "list_all (\<lambda>c. is_upper c \<or> is_digit c) s \<Longrightarrow> ToUpper U s = s"
  using alnum_ascii
  by (subst ToUpper_ascii)
    (auto simp: list_all_iff is_alnum_def upper_cu_def is_upper_not_lower is_digit_not_lower intro!: map_idI)

text \<open>Server and client clean a code in the same way.\<close>

lemma NormalizeCode_normalizeCdk: "NormalizeCode U = normalizeCdk"
  by (auto simp: NormalizeCode_def normalizeCdk_filter fun_eq_iff alnum_ascii list_all_iff intro!: ToUpper_ascii)

lemma concat_groups4: "concat (groups4 s) = s"
  by (induction s rule: groups4.induct) (simp add: groups4.simps)

lemma js_join_concat: "filter is_alnum (js_join [45] ts) = filter is_alnum (concat ts)"
proof (induction ts)
  case (Cons t ts)
  moreover have "\<not> is_alnum 45" by (simp add: char_defs)
  ultimately show ?case by (cases ts) simp_all
qed simp

lemma set_js_join: "set (js_join sep ts) \<subseteq> set sep \<union> \<Union> (set ` set ts)"
  by (induction sep ts rule: js_join.induct) auto

definition shown_char :: "cu \<Rightarrow> bool" where
  "shown_char c \<longleftrightarrow> is_alnum c \<or> c = 45"

lemma formatGroups_alnum: "filter is_alnum (formatGroups s) = filter is_alnum s"
  by (simp add: formatGroups_def js_join_concat concat_groups4)

lemma formatGroups_shown: "list_all is_alnum s \<Longrightarrow> list_all shown_char (formatGroups s)"
proof -
  assume s: "list_all is_alnum s"
  have "set (js_join [45] (groups4 s)) \<subseteq> {45} \<union> set (concat (groups4 s))"
    using set_js_join [of "[45]" "groups4 s"] by auto
  then show ?thesis
    using s by (auto simp: formatGroups_def concat_groups4 list_all_iff shown_char_def)
qed

lemma DisplayCode_clean:
  assumes "clean_code c"
  shows "filter is_alnum (DisplayCode U c pre) = c" "list_all shown_char (DisplayCode U c pre)"
    "DisplayCode U c pre \<noteq> []"
proof -
  let ?p = "ToUpper U pre" and ?d = "DisplayCode U c pre"
  have c: "list_all is_alnum c" using assms by (rule clean_code_alnum)
  then have keep: "filter is_alnum c = c" by (simp add: list_all_iff filter_id_conv)
  have dash: "\<not> is_alnum 45" by (simp add: char_defs)
  show f: "filter is_alnum ?d = c"
  proof (cases "?p \<noteq> [] \<and> take (length ?p) c = ?p")
    case True
    then have d: "?d = ?p @ [45] @ formatGroups (drop (length ?p) c)"
      by (simp add: DisplayCode_def Let_def)
    have "filter is_alnum ?d = filter is_alnum (?p @ drop (length ?p) c)"
      unfolding d by (simp add: formatGroups_alnum dash)
    also have "?p @ drop (length ?p) c = c"
      using True append_take_drop_id [of "length ?p" c] by simp
    finally show ?thesis by (simp add: keep)
  next
    case False
    then show ?thesis by (auto simp: DisplayCode_def Let_def formatGroups_alnum keep)
  qed
  show "list_all shown_char ?d"
  proof (cases "?p \<noteq> [] \<and> take (length ?p) c = ?p")
    case True
    then have "set ?p \<subseteq> set c" by (metis set_take_subset)
    then have "list_all is_alnum ?p" "list_all is_alnum (drop (length ?p) c)"
      using c by (auto simp: list_all_iff dest: in_set_dropD)
    with True show ?thesis
      using formatGroups_shown [of "drop (length ?p) c"]
      by (auto simp: DisplayCode_def Let_def list_all_iff shown_char_def)
  next
    case False
    then show ?thesis using formatGroups_shown [OF c] by (auto simp: DisplayCode_def Let_def)
  qed
  show "?d \<noteq> []" using f assms by (auto simp: clean_code_def)
qed

lemma normalize_display: "clean_code c \<Longrightarrow> normalizeCdk (DisplayCode U c pre) = c"
proof -
  assume c: "clean_code c"
  have "normalizeCdk (DisplayCode U c pre) = map upper_cu c"
    using c by (simp add: normalizeCdk_filter DisplayCode_clean)
  also have "\<dots> = normalizeCdk c"
    using clean_code_alnum [OF c] by (simp add: normalizeCdk_filter list_all_iff filter_id_conv [THEN iffD2])
  finally show ?thesis using c by (simp add: normalize_clean)
qed

section \<open>Exported files are read back\<close>

lemma shown_char_facts:
  assumes "shown_char c"
  shows "\<not> is_sep c" "c \<notin> {44, 34, 13, 10}" "\<not> go_is_space c" "c \<noteq> 92"
  using assms alnum_not_sep [of c]
  by (auto simp: shown_char_def is_sep_def go_is_space_def char_defs word_le_nat_alt)

lemma DisplayCode_no_sep:
  "clean_code c \<Longrightarrow> DisplayCode U c pre \<noteq> [] \<and> list_all (\<lambda>x. \<not> is_sep x) (DisplayCode U c pre)"
  using DisplayCode_clean [of c U pre] shown_char_facts(1) by (auto simp: list_all_iff)

lemma csv_field_shown:
  assumes "list_all shown_char f"
  shows "csv_field f = f"
proof (cases f)
  case (Cons c r)
  then have "shown_char c" using assms by simp
  moreover have "\<not> (\<exists>c \<in> set f. c \<in> {44, 34, 13, 10})"
    using assms shown_char_facts(2) unfolding list_all_iff by blast
  ultimately show ?thesis
    using shown_char_facts(3,4) [of c] by (auto simp: csv_field_def csv_quoted_def Cons)
qed (simp add: csv_field_def csv_quoted_def)

lemma runs_lines:
  assumes "\<And>t. t \<in> set ts \<Longrightarrow> t \<noteq> [] \<and> list_all (\<lambda>x. \<not> m x) t" "m sep"
  shows "runs m (concat (map (\<lambda>t. t @ [sep]) ts)) = ts"
  using assms(1)
proof (induction ts)
  case Nil
  show ?case by (simp add: runs.simps)
next
  case (Cons t ts)
  have "runs m (t @ sep # concat (map (\<lambda>t. t @ [sep]) ts))
      = t # runs m (sep # concat (map (\<lambda>t. t @ [sep]) ts))"
    using Cons.prems assms(2) by (intro runs_append) auto
  with Cons assms(2) show ?case by (simp add: runs_skip)
qed

lemma parse_shown_lines:
  assumes "distinct xs" "list_all clean_code xs" "runs is_sep v = junk @ map (\<lambda>c. DisplayCode U c pre) xs"
    "\<And>j. j \<in> set junk \<Longrightarrow> normalizeCdk j = []"
  shows "parseCdkList v = xs"
proof -
  have "map normalizeCdk (map (\<lambda>c. DisplayCode U c pre) xs) = xs"
    using assms(2) by (auto simp: list_all_iff normalize_display intro: map_idI)
  moreover have "filter (\<lambda>c. c \<noteq> []) (map normalizeCdk junk) = []"
    using assms(4) by (auto simp: filter_empty_conv)
  moreover have "filter (\<lambda>c. c \<noteq> []) xs = xs"
    using assms(2) by (auto simp: list_all_iff clean_code_def filter_id_conv)
  ultimately show ?thesis
    using assms(1,3) by (simp add: parseCdkList_runs first_occurrences_distinct)
qed

lemma export_txt_read_back:
  assumes "distinct xs" "list_all clean_code xs"
  shows "parseCdkList (export_txt U pre xs) = xs"
proof (rule parse_shown_lines [OF assms])
  have "runs is_sep (concat (map (\<lambda>t. t @ [10]) (map (\<lambda>c. DisplayCode U c pre) xs)))
      = map (\<lambda>c. DisplayCode U c pre) xs"
    using assms(2) DisplayCode_no_sep is_sep_newline
    by (intro runs_lines) (auto simp: list_all_iff)
  then show "runs is_sep (export_txt U pre xs) = [] @ map (\<lambda>c. DisplayCode U c pre) xs"
    by (simp add: export_txt_def o_def)
qed simp

lemma export_csv_read_back:
  assumes "distinct xs" "list_all clean_code xs"
  shows "parseCdkList (export_csv U pre xs) = xs"
proof (rule parse_shown_lines [OF assms])
  let ?h = "msg_cd_export_header" and ?rows = "map (\<lambda>c. DisplayCode U c pre) xs"
  have field: "csv_field (DisplayCode U c pre) = DisplayCode U c pre" if "c \<in> set xs" for c
    using that assms(2) by (intro csv_field_shown DisplayCode_clean) (auto simp: list_all_iff)
  have h: "csv_field ?h = ?h" "list_all (\<lambda>x. \<not> is_sep x) ?h" "?h \<noteq> []"
    by (simp_all add: csv_field_def csv_quoted_def msg_cd_export_header_def go_is_space_def is_sep_def is_ws_def)
  have bom: "is_sep 65279" by (simp add: is_sep_def is_ws_def)
  have rows: "concat (map (\<lambda>c. csv_field (DisplayCode U c pre) @ [10]) xs)
      = concat (map (\<lambda>t. t @ [10]) ?rows)"
    using field by (auto simp: o_def intro!: arg_cong [where f = concat])
  have "runs is_sep (export_csv U pre xs)
      = runs is_sep (concat (map (\<lambda>t. t @ [10]) (?h # ?rows)))"
    by (simp add: export_csv_def rows h(1) runs_skip bom)
  also have "\<dots> = ?h # ?rows"
    using assms(2) h DisplayCode_no_sep is_sep_newline
    by (intro runs_lines) (auto simp: list_all_iff)
  finally show "runs is_sep (export_csv U pre xs) = [?h] @ ?rows" by simp
  show "normalizeCdk j = []" if "j \<in> set [?h]" for j
    using that by (simp add: normalizeCdk_filter msg_cd_export_header_def char_defs)
qed

text \<open>C8 (roundtrip). The codes of a batch survive the way through a file: whatever
  random draws made them and in whatever order they are listed, the exported text
  file and the exported table, pasted into the redeem page, are read as exactly
  these codes, which the server's \<^verbatim>\<open>NormalizeCode\<close> leaves as they are; they are as
  many as were asked for and all different.\<close>

theorem exported_codes_read_back:
  assumes "generateCodes pre len count draws = Some codes" "drawn len draws"
    "isASCIIAlphanumeric pre" "1 \<le> len" "distinct xs" "set xs = set codes"
  shows "parseCdkList (export_txt U pre xs) = xs \<and> parseCdkList (export_csv U pre xs) = xs
    \<and> map (NormalizeCode U) xs = xs \<and> length xs = count"
proof -
  note codes = generateCodes_sound [OF assms(1-4)]
  have xs: "distinct xs" "list_all clean_code xs" "length xs = count"
    using codes assms(5,6) distinct_card [of xs] distinct_card [of codes]
    by (simp_all add: list_all_iff)
  moreover have "map (NormalizeCode U) xs = xs"
    using xs(2) by (auto simp: NormalizeCode_normalizeCdk list_all_iff normalize_clean intro: map_idI)
  ultimately show ?thesis by (simp add: export_txt_read_back export_csv_read_back)
qed

text \<open>C8: Two codes of four letters behind a prefix; the second draw repeats the first.\<close>

lemma exported_codes_read_back_witness:
  "\<forall>U. parseCdkList (export_csv U (js ''AB'') [js ''ABCDEA'', js ''ABAAAA'']) = [js ''ABCDEA'', js ''ABAAAA'']"
proof
  fix U
  have "generateCodes (js ''AB'') 4 2 [[0, 0, 0, 0], [0, 0, 0, 0], [2, 3, 4, 0]]
      = Some [js ''ABAAAA'', js ''ABCDEA'']"
    by (simp add: generateCodes_def generate_from.simps randomCode_def alphabet_def upt_rec)
  note read_back = exported_codes_read_back [OF this, where xs = "[js ''ABCDEA'', js ''ABAAAA'']"]
  show "parseCdkList (export_csv U (js ''AB'') [js ''ABCDEA'', js ''ABAAAA'']) = [js ''ABCDEA'', js ''ABAAAA'']"
    using read_back by (simp add: drawn_def alphabet_def isASCIIAlphanumeric_def char_defs insert_commute)
qed

end
