(* ===== verification/RedeemServer.thy ===== *)
theory RedeemServer
  imports Codes Types
begin

text \<open>
  The redemption service internal/redeem/service.go with the queries it runs
  (db/queries/queries.sql, internal/store/queries.sql.go). A table is a list of
  records; a query is a function on the data base. A transaction works on its own
  copy: its result is the new data base on commit and the old one on every error
  return, as the deferred Rollback has it. What the service asks of its
  surroundings during one redemption (the clocks, random identifiers, rows
  locked by others, whether a statement fails) is a record \<open>service_env\<close>. Left
  out are gaps in the numbers of rows.
\<close>

section \<open>Requests and responses\<close>

named_theorems result_defs "the result constants"

definition ResultInvalidInput :: gostr where
  [result_defs]: "ResultInvalidInput = js ''invalid_input''"

definition ResultInvalidCode :: gostr where
  [result_defs]: "ResultInvalidCode = js ''invalid_code''"

definition ResultCodeDisabled :: gostr where
  [result_defs]: "ResultCodeDisabled = js ''code_disabled''"

definition ResultBatchDisabled :: gostr where
  [result_defs]: "ResultBatchDisabled = js ''batch_disabled''"

definition ResultExpired :: gostr where
  [result_defs]: "ResultExpired = js ''expired''"

definition ResultCodeUsedUp :: gostr where
  [result_defs]: "ResultCodeUsedUp = js ''code_used_up''"

definition ResultUserLimit :: gostr where
  [result_defs]: "ResultUserLimit = js ''user_limit''"

definition ResultRateLimited :: gostr where
  [result_defs]: "ResultRateLimited = js ''rate_limited''"

definition ResultCredentialUnavailable :: gostr where
  [result_defs]: "ResultCredentialUnavailable = js ''credential_unavailable''"

definition ResultSuccess :: gostr where
  [result_defs]: "ResultSuccess = js ''success''"

record RedeemRequest =
  rq_user :: gostr
  rq_code :: gostr
  rq_key :: gostr

record RedeemResponse =
  rr_ok :: bool
  rr_result :: gostr
  rr_message :: gostr
  rr_batch :: gostr
  rr_code :: gostr
  rr_user :: gostr
  rr_payload :: "json option"
  rr_credential :: "json option"
  rr_redeemed_at :: gostr
  rr_event :: gostr
  rr_webhook_pending :: bool

record BatchRedeemRequest =
  bq_user :: gostr
  bq_codes :: "gostr list"
  bq_key :: gostr

record BatchRedeemItem =
  it_code :: gostr
  it_ok :: bool
  it_result :: gostr
  it_message :: gostr
  it_redemption :: "RedeemResponse option"

record BatchRedeemResponse =
  bp_ok :: bool
  bp_message :: gostr
  bp_total :: nat
  bp_succeeded :: nat
  bp_failed :: nat
  bp_results :: "BatchRedeemItem list"

definition failure :: "gostr \<Rightarrow> gostr \<Rightarrow> RedeemResponse" where
  "failure result message =
     \<lparr>rr_ok = False, rr_result = result, rr_message = message, rr_batch = [], rr_code = [], rr_user = [],
      rr_payload = None, rr_credential = None, rr_redeemed_at = [], rr_event = [], rr_webhook_pending = False\<rparr>"

definition batchFailure :: "gostr \<Rightarrow> BatchRedeemResponse" where
  "batchFailure message =
     \<lparr>bp_ok = False, bp_message = message, bp_total = 0, bp_succeeded = 0, bp_failed = 0, bp_results = []\<rparr>"

datatype go_error = ErrIdempotencyConflict | ErrOther

section \<open>The data base\<close>

text \<open>
  The tables of db/migrations with the columns the service and the invariant need;
  left out are descriptions, the length of codes, the limit per user (which
  redeeming no longer reads), the webhook's secret, e-mail addresses of
  credentials, delivery attempts, addresses of callers and times of creation.
\<close>

record batch_row =
  ba_id :: int
  ba_name :: gostr
  ba_prefix :: gostr
  ba_payload :: json
  ba_status :: batch_status
  ba_expires :: "int option"
  ba_max_uses :: int
  ba_webhook_url :: gostr
  ba_assign :: bool
  ba_plan :: gostr

record code_row =
  co_id :: int
  co_batch :: int
  co_code :: gostr
  co_status :: code_status
  co_use_count :: int

record credential_row =
  cd_id :: int
  cd_plan :: gostr
  cd_expired :: "int option"
  cd_data :: json
  cd_used :: bool
  cd_redemption :: "int option"

datatype webhook_status = WebhookNone | WebhookPending | WebhookSuccess | WebhookFailed | WebhookDeadLetter

record redemption_row =
  re_id :: int
  re_code :: "int option"
  re_batch :: "int option"
  re_code_text :: gostr
  re_user :: gostr
  re_user_key :: gostr
  re_payload :: json
  re_result :: gostr
  re_message :: gostr
  re_webhook :: webhook_status
  re_key :: "gostr option"
  re_event :: "gostr option"

text \<open>The stored answer of a key: of a single or of a batch redemption.\<close>

datatype stored = StoredOne RedeemResponse | StoredBatch BatchRedeemResponse

record idempotency_row =
  ik_key :: gostr
  ik_hash :: gostr
  ik_response :: "stored option"

record database =
  db_batches :: "batch_row list"
  db_codes :: "code_row list"
  db_credentials :: "credential_row list"
  db_redemptions :: "redemption_row list"
  db_outbox :: "(gostr \<times> int) list"
  db_keys :: "idempotency_row list"
  db_next :: int

record service_env =
  sv_now :: int
  sv_db_now :: int
  sv_time_text :: gostr
  sv_event :: gostr
  sv_locked :: "int list"
  sv_fails :: bool

section \<open>Queries\<close>

definition GetCodeByCode :: "gostr \<Rightarrow> database \<Rightarrow> (code_row \<times> batch_row) option" where
  "GetCodeByCode code db =
     Option.bind (find (\<lambda>c. co_code c = code) (db_codes db))
       (\<lambda>c. Option.bind (find (\<lambda>b. ba_id b = co_batch c) (db_batches db)) (\<lambda>b. Some (c, b)))"

text \<open>None: no row matches.\<close>

definition IncrementCodeUseCount :: "int \<Rightarrow> int \<Rightarrow> database \<Rightarrow> database option" where
  "IncrementCodeUseCount ident limit db =
     (let hit = (\<lambda>c. co_id c = ident \<and> co_status c = CodeUnused \<and> co_use_count c < limit) in
      if list_ex hit (db_codes db)
      then Some (db\<lparr>db_codes := map (\<lambda>c. if hit c then c\<lparr>co_use_count := co_use_count c + 1\<rparr> else c) (db_codes db)\<rparr>)
      else None)"

definition GetUnusedCredential :: "service_env \<Rightarrow> gostr \<Rightarrow> database \<Rightarrow> credential_row option" where
  "GetUnusedCredential v plan db =
     (case sort_key cd_id (filter (\<lambda>c. \<not> cd_used c
          \<and> (case cd_expired c of None \<Rightarrow> True | Some t \<Rightarrow> t > sv_db_now v)
          \<and> (plan = [] \<or> cd_plan c = plan) \<and> cd_id c \<notin> set (sv_locked v)) (db_credentials db)) of
        [] \<Rightarrow> None
      | c # _ \<Rightarrow> Some c)"

definition MarkCredentialUsed :: "int \<Rightarrow> int \<Rightarrow> database \<Rightarrow> database" where
  "MarkCredentialUsed ident redemption db =
     db\<lparr>db_credentials := map (\<lambda>c. if cd_id c = ident then c\<lparr>cd_used := True, cd_redemption := Some redemption\<rparr> else c)
          (db_credentials db)\<rparr>"

text \<open>None: the unique index on \<^verbatim>\<open>event_id\<close> is violated.\<close>

definition CreateRedemption :: "redemption_row \<Rightarrow> database \<Rightarrow> (int \<times> database) option" where
  "CreateRedemption row db =
     (if re_event row \<noteq> None \<and> re_event row \<in> re_event ` set (db_redemptions db) then None
      else Some (db_next db,
        db\<lparr>db_redemptions := db_redemptions db @ [row\<lparr>re_id := db_next db\<rparr>], db_next := db_next db + 1\<rparr>))"

definition CreateWebhookOutboxEvent :: "gostr \<Rightarrow> int \<Rightarrow> database \<Rightarrow> database option" where
  "CreateWebhookOutboxEvent event redemption db =
     (if event \<in> fst ` set (db_outbox db) then None
      else Some (db\<lparr>db_outbox := db_outbox db @ [(event, redemption)]\<rparr>))"

definition find_key :: "gostr \<Rightarrow> database \<Rightarrow> idempotency_row option" where
  "find_key key db = find (\<lambda>k. ik_key k = key) (db_keys db)"

definition CreateIdempotencyKey :: "gostr \<Rightarrow> gostr \<Rightarrow> database \<Rightarrow> database" where
  "CreateIdempotencyKey key hash db =
     db\<lparr>db_keys := db_keys db @ [\<lparr>ik_key = key, ik_hash = hash, ik_response = None\<rparr>]\<rparr>"

definition SetIdempotencyResponse :: "gostr \<Rightarrow> stored \<Rightarrow> database \<Rightarrow> database" where
  "SetIdempotencyResponse key body db =
     db\<lparr>db_keys := map (\<lambda>k. if ik_key k = key then k\<lparr>ik_response := Some body\<rparr> else k) (db_keys db)\<rparr>"

section \<open>The service\<close>

definition validIdempotencyKey :: "gostr \<Rightarrow> bool" where
  "validIdempotencyKey key \<longleftrightarrow> key = [] \<or> (go_len key \<le> 128 \<and> key = TrimSpace key)"

definition stringPtr :: "gostr \<Rightarrow> gostr option" where
  "stringPtr s = (if s = [] then None else Some s)"

definition rune_space :: "nat \<Rightarrow> bool" where
  "rune_space p \<longleftrightarrow> p < 65536 \<and> go_is_space (of_nat p)"

definition NormalizeUserKey :: "go_unicode \<Rightarrow> gostr \<Rightarrow> gostr" where
  "NormalizeUserKey U raw =
     (let s = code_points (ToLower U (TrimSpace raw)); out = (\<lambda>p. \<not> gu_print U p \<or> rune_space p)
      in of_runes (rev (dropWhile out (rev (dropWhile out s)))))"

text \<open>\<open>sha\<close> is SHA-256 of a text.\<close>

definition hashRequest :: "go_unicode \<Rightarrow> (gostr \<Rightarrow> gostr) \<Rightarrow> RedeemRequest \<Rightarrow> gostr" where
  "hashRequest U sha req = sha (rq_user req @ [0] @ NormalizeCode U (rq_code req))"

definition hashBatchRequest :: "go_unicode \<Rightarrow> (gostr \<Rightarrow> gostr) \<Rightarrow> BatchRedeemRequest \<Rightarrow> gostr" where
  "hashBatchRequest U sha req =
     sha (js ''batch'' @ [0] @ bq_user req @ concat (map (\<lambda>c. 0 # NormalizeCode U c) (bq_codes req)))"

text \<open>A stored answer is JSON: the fields with the tag \<^verbatim>\<open>json:"-"\<close> are not in it.\<close>

definition as_stored :: "RedeemResponse \<Rightarrow> RedeemResponse" where
  "as_stored r = r\<lparr>rr_event := [], rr_webhook_pending := False\<rparr>"

definition item_as_stored :: "BatchRedeemItem \<Rightarrow> BatchRedeemItem" where
  "item_as_stored i = i\<lparr>it_redemption := map_option as_stored (it_redemption i)\<rparr>"

definition batch_as_stored :: "BatchRedeemResponse \<Rightarrow> BatchRedeemResponse" where
  "batch_as_stored b = b\<lparr>bp_results := map item_as_stored (bp_results b)\<rparr>"

text \<open>\<^verbatim>\<open>json.Unmarshal\<close> of a stored answer; fields that are not in it keep their zero value.\<close>

fun read_single :: "stored \<Rightarrow> RedeemResponse" where
  "read_single (StoredOne r) = r"
| "read_single (StoredBatch b) = (failure [] (bp_message b))\<lparr>rr_ok := bp_ok b\<rparr>"

fun read_batch :: "stored \<Rightarrow> BatchRedeemResponse" where
  "read_batch (StoredBatch b) = b"
| "read_batch (StoredOne r) = (batchFailure (rr_message r))\<lparr>bp_ok := rr_ok r\<rparr>"

text \<open>What \<^verbatim>\<open>handleIdempotency\<close> and \<^verbatim>\<open>handleBatchIdempotency\<close> find: a new key, an
  answer to repeat, or a key that belongs to another request.\<close>

definition claim_key :: "gostr \<Rightarrow> gostr \<Rightarrow> database \<Rightarrow> go_error + stored option \<times> database" where
  "claim_key key hash db =
     (case find_key key db of
        None \<Rightarrow> Inr (None, CreateIdempotencyKey key hash db)
      | Some k \<Rightarrow> if ik_hash k \<noteq> hash then Inl ErrIdempotencyConflict else Inr (ik_response k, db))"

definition storeIdempotencyResponse :: "gostr \<Rightarrow> RedeemResponse \<Rightarrow> database \<Rightarrow> database" where
  "storeIdempotencyResponse key resp db =
     (if key = [] then db else SetIdempotencyResponse key (StoredOne (as_stored resp)) db)"

definition checkCodeState :: "service_env \<Rightarrow> code_row \<Rightarrow> batch_row \<Rightarrow> RedeemResponse option" where
  "checkCodeState v c b =
     (if co_status c = CodeDisabled then Some (failure ResultCodeDisabled msg_rs_code_disabled)
      else if ba_status b = BatchDisabled then Some (failure ResultBatchDisabled msg_rs_batch_disabled)
      else if (case ba_expires b of None \<Rightarrow> False | Some t \<Rightarrow> t < sv_now v)
        then Some (failure ResultExpired msg_rs_expired)
      else if ba_max_uses b \<le> co_use_count c then Some (failure ResultCodeUsedUp msg_rs_used_up)
      else None)"

text \<open>Inside a transaction: an error rolls back, a response comes with the data base to commit.\<close>

type_synonym 'a tx = "go_error + 'a \<times> database"

definition recordFailure :: "RedeemRequest \<Rightarrow> gostr \<Rightarrow> gostr \<Rightarrow> int option \<Rightarrow> int option \<Rightarrow> RedeemResponse
    \<Rightarrow> database \<Rightarrow> RedeemResponse tx" where
  "recordFailure req code userKey codeID batchID resp db =
     (case CreateRedemption
          \<lparr>re_id = 0, re_code = codeID, re_batch = batchID, re_code_text = code, re_user = rq_user req,
           re_user_key = userKey, re_payload = JObj [], re_result = rr_result resp,
           re_message = rr_message resp, re_webhook = WebhookNone, re_key = stringPtr (rq_key req),
           re_event = None\<rparr> db of
        None \<Rightarrow> Inl ErrOther
      | Some (_, db') \<Rightarrow> Inr (resp, storeIdempotencyResponse (rq_key req) resp db'))"

definition newEventID :: "service_env \<Rightarrow> bool \<Rightarrow> gostr" where
  "newEventID v webhookPending = (if webhookPending then sv_event v else [])"

definition success_response :: "go_unicode \<Rightarrow> service_env \<Rightarrow> RedeemRequest \<Rightarrow> gostr \<Rightarrow> batch_row
    \<Rightarrow> credential_row option \<Rightarrow> RedeemResponse" where
  "success_response U v req code b credential =
     (let webhookPending = ba_webhook_url b \<noteq> [] in
      \<lparr>rr_ok = True, rr_result = ResultSuccess, rr_message = msg_rs_success, rr_batch = ba_name b,
       rr_code = DisplayCode U code (ba_prefix b), rr_user = rq_user req, rr_payload = Some (ba_payload b),
       rr_credential = map_option cd_data credential, rr_redeemed_at = sv_time_text v,
       rr_event = newEventID v webhookPending, rr_webhook_pending = webhookPending\<rparr>)"

definition success_row :: "service_env \<Rightarrow> RedeemRequest \<Rightarrow> gostr \<Rightarrow> gostr \<Rightarrow> code_row \<Rightarrow> batch_row
    \<Rightarrow> redemption_row" where
  "success_row v req code userKey c b =
     (let webhookPending = ba_webhook_url b \<noteq> [] in
      \<lparr>re_id = 0, re_code = Some (co_id c), re_batch = Some (co_batch c), re_code_text = code,
       re_user = rq_user req, re_user_key = userKey, re_payload = ba_payload b, re_result = ResultSuccess,
       re_message = msg_rs_success, re_webhook = (if webhookPending then WebhookPending else WebhookNone),
       re_key = stringPtr (rq_key req), re_event = stringPtr (newEventID v webhookPending)\<rparr>)"

text \<open>From the increment of the use count to the stored answer.\<close>

definition redeem_success :: "go_unicode \<Rightarrow> service_env \<Rightarrow> RedeemRequest \<Rightarrow> gostr \<Rightarrow> gostr \<Rightarrow> code_row
    \<Rightarrow> batch_row \<Rightarrow> credential_row option \<Rightarrow> database \<Rightarrow> RedeemResponse tx" where
  "redeem_success U v req code userKey c b credential db =
     (let webhookPending = ba_webhook_url b \<noteq> []; resp = success_response U v req code b credential in
      case IncrementCodeUseCount (co_id c) (ba_max_uses b) db of
        None \<Rightarrow> Inl ErrOther
      | Some db1 \<Rightarrow>
          (case CreateRedemption (success_row v req code userKey c b) db1 of
             None \<Rightarrow> Inl ErrOther
           | Some (rid, db2) \<Rightarrow>
               (case (if webhookPending then CreateWebhookOutboxEvent (sv_event v) rid db2 else Some db2) of
                  None \<Rightarrow> Inl ErrOther
                | Some db3 \<Rightarrow>
                    let db4 = (case credential of None \<Rightarrow> db3 | Some cd \<Rightarrow> MarkCredentialUsed (cd_id cd) rid db3)
                    in Inr (resp, storeIdempotencyResponse (rq_key req) resp db4))))"

text \<open>The part of \<^verbatim>\<open>Redeem\<close> after the key is claimed.\<close>

definition redeem_code :: "go_unicode \<Rightarrow> service_env \<Rightarrow> RedeemRequest \<Rightarrow> gostr \<Rightarrow> gostr \<Rightarrow> database
    \<Rightarrow> RedeemResponse tx" where
  "redeem_code U v req code userKey db =
     (case GetCodeByCode code db of
        None \<Rightarrow> recordFailure req code userKey None None
          (failure ResultInvalidCode msg_rs_invalid_code) db
      | Some (c, b) \<Rightarrow>
          let refuse = recordFailure req code userKey (Some (co_id c)) (Some (co_batch c)) in
          (case checkCodeState v c b of
             Some resp \<Rightarrow> refuse resp db
           | None \<Rightarrow>
               if ba_assign b
               then (case GetUnusedCredential v (ba_plan b) db of
                       None \<Rightarrow> refuse (failure ResultCredentialUnavailable
                         msg_rs_no_credential) db
                     | Some cd \<Rightarrow> redeem_success U v req code userKey c b (Some cd) db)
               else redeem_success U v req code userKey c b None db))"

text \<open>The whole transaction of \<^verbatim>\<open>Redeem\<close>.\<close>

definition redeem_tx :: "go_unicode \<Rightarrow> (gostr \<Rightarrow> gostr) \<Rightarrow> service_env \<Rightarrow> RedeemRequest \<Rightarrow> database
    \<Rightarrow> RedeemResponse tx" where
  "redeem_tx U sha v req db =
     (let code = NormalizeCode U (rq_code req); userKey = NormalizeUserKey U (rq_user req) in
      if rq_key req = [] then redeem_code U v req code userKey db
      else case claim_key (rq_key req) (hashRequest U sha req) db of
             Inl e \<Rightarrow> Inl e
           | Inr (Some s, db1) \<Rightarrow> Inr (read_single s, db1)
           | Inr (None, db1) \<Rightarrow> redeem_code U v req code userKey db1)"

definition in_tx :: "service_env \<Rightarrow> database \<Rightarrow> 'a tx \<Rightarrow> (go_error + 'a) \<times> database" where
  "in_tx v db t = (if sv_fails v then (Inl ErrOther, db)
     else case t of Inl e \<Rightarrow> (Inl e, db) | Inr (x, db') \<Rightarrow> (Inr x, db'))"

definition Redeem :: "go_unicode \<Rightarrow> (gostr \<Rightarrow> gostr) \<Rightarrow> service_env \<Rightarrow> RedeemRequest \<Rightarrow> database
    \<Rightarrow> (go_error + RedeemResponse) \<times> database" where
  "Redeem U sha v req0 db =
     (let req = req0\<lparr>rq_user := TrimSpace (rq_user req0)\<rparr>; code = NormalizeCode U (rq_code req) in
      if rq_user req = [] \<or> code = [] then (Inr (failure ResultInvalidInput msg_rs_need_input), db)
      else if 256 < go_runes (rq_user req) then (Inr (failure ResultInvalidInput msg_rs_long_user), db)
      else if 128 < go_len code then (Inr (failure ResultInvalidInput msg_rs_long_code), db)
      else if \<not> validIdempotencyKey (rq_key req)
        then (Inr (failure ResultInvalidInput msg_rs_bad_key), db)
      else in_tx v db (redeem_tx U sha v req db))"

section \<open>Several codes\<close>

definition refused_item :: "gostr \<Rightarrow> gostr \<Rightarrow> BatchRedeemItem" where
  "refused_item input message =
     \<lparr>it_code = TrimSpace input, it_ok = False, it_result = ResultInvalidInput, it_message = message,
      it_redemption = None\<rparr>"

definition answered_item :: "gostr \<Rightarrow> RedeemResponse \<Rightarrow> BatchRedeemItem" where
  "answered_item input r =
     \<lparr>it_code = (if rr_ok r then rr_code r else TrimSpace input), it_ok = rr_ok r, it_result = rr_result r,
      it_message = rr_message r, it_redemption = (if rr_ok r then Some r else None)\<rparr>"

text \<open>What the loop does with one code: an item of its own, or a redemption.\<close>

definition refuse_message :: "go_unicode \<Rightarrow> gostr list \<Rightarrow> gostr \<Rightarrow> gostr option" where
  "refuse_message U seen input =
     (let code = NormalizeCode U input in
      if code = [] then Some msg_rs_empty_code
      else if 128 < go_len code then Some msg_rs_long_code
      else if code \<in> set seen then Some msg_rs_duplicate
      else None)"

definition single :: "gostr \<Rightarrow> gostr \<Rightarrow> RedeemRequest" where
  "single user code = \<lparr>rq_user = user, rq_code = code, rq_key = []\<rparr>"

text \<open>The loop; \<open>vs k\<close> is what the surroundings supply for the code at position k.\<close>

fun batch_loop :: "go_unicode \<Rightarrow> (gostr \<Rightarrow> gostr) \<Rightarrow> gostr \<Rightarrow> (nat \<Rightarrow> service_env) \<Rightarrow> gostr list \<Rightarrow> nat
    \<Rightarrow> gostr list \<Rightarrow> database \<Rightarrow> (go_error + BatchRedeemItem list) \<times> database" where
  "batch_loop U sha user vs seen k [] db = (Inr [], db)"
| "batch_loop U sha user vs seen k (input # rest) db =
     (case refuse_message U seen input of
        Some message \<Rightarrow>
          (case batch_loop U sha user vs seen (k + 1) rest db of
             (Inl e, db') \<Rightarrow> (Inl e, db')
           | (Inr items, db') \<Rightarrow> (Inr (refused_item input message # items), db'))
      | None \<Rightarrow>
          (case Redeem U sha (vs k) (single user input) db of
             (Inl e, db1) \<Rightarrow> (Inl e, db1)
           | (Inr r, db1) \<Rightarrow>
               (case batch_loop U sha user vs (NormalizeCode U input # seen) (k + 1) rest db1 of
                  (Inl e, db') \<Rightarrow> (Inl e, db')
                | (Inr items, db') \<Rightarrow> (Inr (answered_item input r # items), db'))))"

definition batch_response :: "gostr list \<Rightarrow> BatchRedeemItem list \<Rightarrow> BatchRedeemResponse" where
  "batch_response codes items =
     \<lparr>bp_ok = True, bp_message = msg_rs_batch_done, bp_total = length codes,
      bp_succeeded = length (filter it_ok items), bp_failed = length (filter (\<lambda>i. \<not> it_ok i) items),
      bp_results = items\<rparr>"

definition run_batch :: "go_unicode \<Rightarrow> (gostr \<Rightarrow> gostr) \<Rightarrow> (nat \<Rightarrow> service_env) \<Rightarrow> BatchRedeemRequest \<Rightarrow> database
    \<Rightarrow> (go_error + BatchRedeemResponse) \<times> database" where
  "run_batch U sha vs req db =
     (case batch_loop U sha (bq_user req) vs [] 0 (bq_codes req) db of
        (Inl e, db') \<Rightarrow> (Inl e, db')
      | (Inr items, db') \<Rightarrow> (Inr (batch_response (bq_codes req) items), db'))"

text \<open>The key lives in a transaction of its own that is open around the loop; the
  two flags say whether it fails when it is opened or when it is committed.\<close>

definition batch_tx :: "go_unicode \<Rightarrow> (gostr \<Rightarrow> gostr) \<Rightarrow> (nat \<Rightarrow> service_env) \<Rightarrow> bool \<Rightarrow> bool
    \<Rightarrow> BatchRedeemRequest \<Rightarrow> database \<Rightarrow> (go_error + BatchRedeemResponse) \<times> database" where
  "batch_tx U sha vs open_fails close_fails req db =
     (let key = bq_key req; hash = hashBatchRequest U sha req in
      if key = [] then run_batch U sha vs req db
      else if open_fails then (Inl ErrOther, db)
      else case claim_key key hash db of
             Inl e \<Rightarrow> (Inl e, db)
           | Inr (Some s, _) \<Rightarrow> (Inr (read_batch s), db)
           | Inr (None, _) \<Rightarrow>
               (case run_batch U sha vs req db of
                  (Inl e, db') \<Rightarrow> (Inl e, db')
                | (Inr resp, db') \<Rightarrow>
                    if close_fails then (Inl ErrOther, db')
                    else (Inr resp, SetIdempotencyResponse key (StoredBatch (batch_as_stored resp))
                      (if find_key key db' = None then CreateIdempotencyKey key hash db' else db'))))"

definition BatchRedeem :: "go_unicode \<Rightarrow> (gostr \<Rightarrow> gostr) \<Rightarrow> (nat \<Rightarrow> service_env) \<Rightarrow> bool \<Rightarrow> bool
    \<Rightarrow> BatchRedeemRequest \<Rightarrow> database \<Rightarrow> (go_error + BatchRedeemResponse) \<times> database" where
  "BatchRedeem U sha vs open_fails close_fails req0 db =
     (let req = req0\<lparr>bq_user := TrimSpace (bq_user req0)\<rparr> in
      if bq_user req = [] then (Inr (batchFailure msg_rs_need_user), db)
      else if 256 < go_runes (bq_user req) then (Inr (batchFailure msg_rs_long_user), db)
      else if bq_codes req = [] then (Inr (batchFailure msg_rs_need_code), db)
      else if \<not> validIdempotencyKey (bq_key req) then (Inr (batchFailure msg_rs_bad_key), db)
      else batch_tx U sha vs open_fails close_fails req db)"

section \<open>The administrator's operations\<close>

text \<open>The queries \<^verbatim>\<open>ToggleCodeStatus\<close> and \<^verbatim>\<open>ToggleBatchStatus\<close>.\<close>

definition ToggleCodeStatus :: "int \<Rightarrow> database \<Rightarrow> database" where
  "ToggleCodeStatus ident db =
     db\<lparr>db_codes := map (\<lambda>c. if co_id c = ident
          then c\<lparr>co_status := (if co_status c = CodeUnused then CodeDisabled else CodeUnused)\<rparr> else c) (db_codes db)\<rparr>"

definition ToggleBatchStatus :: "int \<Rightarrow> database \<Rightarrow> database" where
  "ToggleBatchStatus ident db =
     db\<lparr>db_batches := map (\<lambda>b. if ba_id b = ident
          then b\<lparr>ba_status := (if ba_status b = BatchActive then BatchDisabled else BatchActive)\<rparr> else b) (db_batches db)\<rparr>"

text \<open>
  \<^verbatim>\<open>batch.CreateBatch\<close>: the batch and its codes in one transaction. None: a check of
  the table or the unique index on the codes is violated, or the random source
  was not drawn from far enough. \<open>b\<close> holds the columns of the request.
\<close>

definition CreateBatch :: "go_unicode \<Rightarrow> nat \<Rightarrow> nat \<Rightarrow> nat list list \<Rightarrow> batch_row \<Rightarrow> database \<Rightarrow> database option" where
  "CreateBatch U len count draws b db =
     (let bid = db_next db; pre = ToUpper U (ba_prefix b);
          row = b\<lparr>ba_id := bid, ba_prefix := pre, ba_status := BatchActive, ba_plan := TrimSpace (ba_plan b)\<rparr> in
      case generateCodes pre len count draws of
        None \<Rightarrow> None
      | Some codes \<Rightarrow>
          if ba_max_uses b < 1 \<or> 100000 < ba_max_uses b \<or> list_ex (\<lambda>code. code \<in> co_code ` set (db_codes db)) codes
            \<or> list_ex (\<lambda>code. \<not> clean_code code \<or> 64 < length code) codes
          then None
          else Some (db\<lparr>db_batches := db_batches db @ [row],
            db_codes := db_codes db @ map (\<lambda>i. \<lparr>co_id = bid + 1 + int i, co_batch = bid, co_code = codes ! i,
              co_status = CodeUnused, co_use_count = 0\<rparr>) [0..<length codes],
            db_next := bid + 1 + int (length codes)\<rparr>))"

definition CreateCredential :: "gostr \<Rightarrow> int option \<Rightarrow> json \<Rightarrow> database \<Rightarrow> database" where
  "CreateCredential plan expired data db =
     db\<lparr>db_credentials := db_credentials db @ [\<lparr>cd_id = db_next db, cd_plan = plan, cd_expired = expired,
          cd_data = data, cd_used = False, cd_redemption = None\<rparr>], db_next := db_next db + 1\<rparr>"

definition DeleteCredentialsByIDs :: "int list \<Rightarrow> database \<Rightarrow> database" where
  "DeleteCredentialsByIDs ids db =
     db\<lparr>db_credentials := filter (\<lambda>c. cd_id c \<notin> set ids) (db_credentials db)\<rparr>"

definition empty_db :: database where
  "empty_db = \<lparr>db_batches = [], db_codes = [], db_credentials = [], db_redemptions = [], db_outbox = [],
     db_keys = [], db_next = 1\<rparr>"

text \<open>One request served, whatever it is and whatever happens meanwhile.\<close>

inductive server_step :: "go_unicode \<Rightarrow> (gostr \<Rightarrow> gostr) \<Rightarrow> database \<Rightarrow> database \<Rightarrow> bool" for U sha where
  step_redeem: "server_step U sha db (snd (Redeem U sha v req db))"
| step_batch: "server_step U sha db (snd (BatchRedeem U sha vs f g breq db))"
| step_toggle_code: "server_step U sha db (ToggleCodeStatus i db)"
| step_toggle_batch: "server_step U sha db (ToggleBatchStatus i db)"
| step_create: "CreateBatch U len count draws b db = Some db' \<Longrightarrow> server_step U sha db db'"
| step_upload: "server_step U sha db (CreateCredential plan expired data db)"
| step_delete: "server_step U sha db (DeleteCredentialsByIDs ids db)"

end
