(* ===== verification/RedeemServerProofs.thy ===== *)
theory RedeemServerProofs
  imports RedeemServer
begin

text \<open>
  What one redemption does to the data base, and the invariant of every reachable
  data base: limits, bookkeeping, credentials.
\<close>

section \<open>What one redemption does\<close>

lemma key_ops_frame [simp]:
  "db_batches (CreateIdempotencyKey k h db) = db_batches db"
  "db_codes (CreateIdempotencyKey k h db) = db_codes db"
  "db_credentials (CreateIdempotencyKey k h db) = db_credentials db"
  "db_redemptions (CreateIdempotencyKey k h db) = db_redemptions db"
  "db_next (CreateIdempotencyKey k h db) = db_next db"
  "db_batches (SetIdempotencyResponse k s db) = db_batches db"
  "db_codes (SetIdempotencyResponse k s db) = db_codes db"
  "db_credentials (SetIdempotencyResponse k s db) = db_credentials db"
  "db_redemptions (SetIdempotencyResponse k s db) = db_redemptions db"
  "db_next (SetIdempotencyResponse k s db) = db_next db"
  by (simp_all add: CreateIdempotencyKey_def SetIdempotencyResponse_def)

lemma store_frame [simp]:
  "db_batches (storeIdempotencyResponse k r db) = db_batches db"
  "db_codes (storeIdempotencyResponse k r db) = db_codes db"
  "db_credentials (storeIdempotencyResponse k r db) = db_credentials db"
  "db_redemptions (storeIdempotencyResponse k r db) = db_redemptions db"
  "db_next (storeIdempotencyResponse k r db) = db_next db"
  by (simp_all add: storeIdempotencyResponse_def)

text \<open>Codes and credentials as they were; at most one more row that is not a success.\<close>

definition quiet :: "database \<Rightarrow> database \<Rightarrow> bool" where
  "quiet db db' \<longleftrightarrow>
     db_batches db' = db_batches db \<and> db_codes db' = db_codes db \<and> db_credentials db' = db_credentials db
     \<and> ((db_redemptions db' = db_redemptions db \<and> db_next db' = db_next db)
        \<or> (\<exists>row. db_redemptions db' = db_redemptions db @ [row] \<and> re_id row = db_next db
             \<and> db_next db' = db_next db + 1 \<and> re_result row \<noteq> ResultSuccess))"

text \<open>One use of the code \<open>c\<close>, with the credential \<open>cd\<close> handed out.\<close>

definition consumed :: "code_row \<Rightarrow> batch_row \<Rightarrow> credential_row option \<Rightarrow> database \<Rightarrow> database \<Rightarrow> bool" where
  "consumed c b cd db db' \<longleftrightarrow>
     c \<in> set (db_codes db) \<and> b \<in> set (db_batches db) \<and> ba_id b = co_batch c
     \<and> co_status c = CodeUnused \<and> co_use_count c < ba_max_uses b
     \<and> (case cd of None \<Rightarrow> \<not> ba_assign b
        | Some d \<Rightarrow> ba_assign b \<and> d \<in> set (db_credentials db) \<and> \<not> cd_used d
            \<and> (ba_plan b = [] \<or> cd_plan d = ba_plan b))
     \<and> db_batches db' = db_batches db
     \<and> db_codes db' = map (\<lambda>x. if co_id x = co_id c \<and> co_status x = CodeUnused \<and> co_use_count x < ba_max_uses b
          then x\<lparr>co_use_count := co_use_count x + 1\<rparr> else x) (db_codes db)
     \<and> db_credentials db' = (case cd of None \<Rightarrow> db_credentials db
          | Some d \<Rightarrow> map (\<lambda>x. if cd_id x = cd_id d then x\<lparr>cd_used := True, cd_redemption := Some (db_next db)\<rparr> else x)
              (db_credentials db))
     \<and> (\<exists>row. db_redemptions db' = db_redemptions db @ [row] \<and> re_id row = db_next db
          \<and> re_result row = ResultSuccess \<and> re_code row = Some (co_id c))
     \<and> db_next db' = db_next db + 1"

lemma GetCodeByCode_Some:
  "GetCodeByCode code db = Some (c, b) \<Longrightarrow>
     c \<in> set (db_codes db) \<and> co_code c = code \<and> b \<in> set (db_batches db) \<and> ba_id b = co_batch c"
  by (auto simp: GetCodeByCode_def find_Some_iff split: bind_splits)

lemma GetUnusedCredential_Some:
  assumes "GetUnusedCredential v plan db = Some d"
  shows "d \<in> set (db_credentials db) \<and> \<not> cd_used d \<and> (plan = [] \<or> cd_plan d = plan)"
proof -
  let ?xs = "filter (\<lambda>c. \<not> cd_used c \<and> (case cd_expired c of None \<Rightarrow> True | Some t \<Rightarrow> t > sv_db_now v)
          \<and> (plan = [] \<or> cd_plan c = plan) \<and> cd_id c \<notin> set (sv_locked v)) (db_credentials db)"
  have "(case sort_key cd_id ?xs of [] \<Rightarrow> None | c # _ \<Rightarrow> Some c) = Some d"
    using assms unfolding GetUnusedCredential_def .
  then obtain r where "sort_key cd_id ?xs = d # r"
    by (cases "sort_key cd_id ?xs") simp_all
  then have "d \<in> set (sort_key cd_id ?xs)" by (simp only: list.set_intros)
  then have "d \<in> set ?xs" by (simp only: set_sort)
  then show ?thesis by (simp only: set_filter mem_Collect_eq simp_thms)
qed

lemma recordFailure_quiet:
  "recordFailure req code key ci bi resp db = Inr (r, db') \<Longrightarrow> rr_result resp \<noteq> ResultSuccess \<Longrightarrow>
     quiet db db' \<and> r = resp"
  by (auto simp: recordFailure_def CreateRedemption_def quiet_def split: if_splits)

lemma checkCodeState_None:
  "checkCodeState v c b = None \<Longrightarrow> co_status c = CodeUnused \<and> ba_status b = BatchActive
     \<and> co_use_count c < ba_max_uses b \<and> (case ba_expires b of None \<Rightarrow> True | Some t \<Rightarrow> sv_now v \<le> t)"
  by (cases "co_status c"; cases "ba_status b"; cases "ba_expires b")
    (auto simp: checkCodeState_def split: if_splits)

lemma checkCodeState_Some: "checkCodeState v c b = Some r \<Longrightarrow> rr_result r \<noteq> ResultSuccess \<and> \<not> rr_ok r"
  by (auto simp: checkCodeState_def failure_def result_defs split: if_splits)

lemma redeem_success_consumed:
  assumes "redeem_success U v req code key c b cd db = Inr (r, db')"
    and "c \<in> set (db_codes db)" "b \<in> set (db_batches db)" "ba_id b = co_batch c"
    and "co_status c = CodeUnused" "co_use_count c < ba_max_uses b"
    and "case cd of None \<Rightarrow> \<not> ba_assign b
        | Some d \<Rightarrow> ba_assign b \<and> d \<in> set (db_credentials db) \<and> \<not> cd_used d
            \<and> (ba_plan b = [] \<or> cd_plan d = ba_plan b)"
  shows "consumed c b cd db db' \<and> r = success_response U v req code b cd"
  using assms
  by (auto simp: redeem_success_def Let_def IncrementCodeUseCount_def CreateRedemption_def success_row_def
      CreateWebhookOutboxEvent_def MarkCredentialUsed_def consumed_def split: if_splits option.splits)

lemma redeem_code_cases:
  assumes "redeem_code U v req code key db = Inr (r, db')"
  shows "(quiet db db' \<and> \<not> rr_ok r)
    \<or> (\<exists>c b cd. consumed c b cd db db' \<and> co_code c = code \<and> r = success_response U v req code b cd)"
proof (cases "GetCodeByCode code db")
  case None
  let ?f = "failure ResultInvalidCode msg_rs_invalid_code"
  have "recordFailure req code key None None ?f db = Inr (r, db')"
    using assms by (simp add: redeem_code_def None)
  then have "quiet db db' \<and> r = ?f"
    by (rule recordFailure_quiet) (simp add: failure_def result_defs)
  then show ?thesis by (simp add: failure_def)
next
  case (Some p)
  then obtain c b where cb: "GetCodeByCode code db = Some (c, b)" by (cases p) simp
  note facts = GetCodeByCode_Some [OF cb]
  let ?refuse = "recordFailure req code key (Some (co_id c)) (Some (co_batch c))"
  show ?thesis
  proof (cases "checkCodeState v c b")
    case (Some f)
    then have "?refuse f db = Inr (r, db')" using assms by (simp add: redeem_code_def cb)
    then show ?thesis
      using recordFailure_quiet checkCodeState_Some [OF Some] by blast
  next
    case None
    note fine = checkCodeState_None [OF None]
    show ?thesis
    proof (cases "ba_assign b")
      case False
      then have "redeem_success U v req code key c b None db = Inr (r, db')"
        using assms None by (simp add: redeem_code_def cb)
      then have "consumed c b None db db' \<and> r = success_response U v req code b None"
        using facts fine False by (intro redeem_success_consumed) auto
      then show ?thesis using facts by blast
    next
      case True
      show ?thesis
      proof (cases "GetUnusedCredential v (ba_plan b) db")
        case none: None
        let ?f = "failure ResultCredentialUnavailable msg_rs_no_credential"
        have "?refuse ?f db = Inr (r, db')"
          using assms None True none by (simp add: redeem_code_def cb)
        then have "quiet db db' \<and> r = ?f"
          by (rule recordFailure_quiet) (simp add: failure_def result_defs)
        then show ?thesis by (simp add: failure_def)
      next
        case (Some d)
        then have "redeem_success U v req code key c b (Some d) db = Inr (r, db')"
          using assms None True by (simp add: redeem_code_def cb)
        then have "consumed c b (Some d) db db' \<and> r = success_response U v req code b (Some d)"
          using facts fine True GetUnusedCredential_Some [OF Some]
          by (intro redeem_success_consumed) auto
        then show ?thesis using facts by blast
      qed
    qed
  qed
qed

lemma quiet_refl [simp]: "quiet db db"
  by (simp add: quiet_def)

text \<open>Claiming a key changes only the table of keys.\<close>

lemma claim_key_frame:
  assumes "claim_key key h db = Inr (s, db1)"
  shows "db_batches db1 = db_batches db" "db_codes db1 = db_codes db" "db_credentials db1 = db_credentials db"
    "db_redemptions db1 = db_redemptions db" "db_next db1 = db_next db"
  using assms by (auto simp: claim_key_def split: option.splits if_splits)

lemma quiet_frame:
  assumes "claim_key key h db = Inr (s, db1)"
  shows "quiet db1 db2 = quiet db db2" "consumed c b cd db1 db2 = consumed c b cd db db2"
  by (simp_all only: quiet_def consumed_def claim_key_frame [OF assms])

lemma success_response_ok [simp]:
  "rr_ok (success_response U v req code b cd)"
  "rr_code (success_response U v req code b cd) = DisplayCode U code (ba_prefix b)"
  "rr_credential (success_response U v req code b cd) = map_option cd_data cd"
  by (simp_all add: success_response_def Let_def)

lemma failure_not_ok [simp]: "\<not> rr_ok (failure r m)"
  by (simp add: failure_def)

text \<open>A successful answer \<open>r\<close> for the code \<open>code\<close>.\<close>

definition used_for :: "go_unicode \<Rightarrow> gostr \<Rightarrow> RedeemResponse \<Rightarrow> database \<Rightarrow> database \<Rightarrow> bool" where
  "used_for U code r db db' \<longleftrightarrow>
     rr_ok r \<and> (\<exists>c b cd. consumed c b cd db db' \<and> co_code c = code
       \<and> rr_code r = DisplayCode U code (ba_prefix b) \<and> rr_credential r = map_option cd_data cd)"

lemma redeem_code_effect:
  assumes "redeem_code U v req code key db = Inr (r, db')"
  shows "(quiet db db' \<and> \<not> rr_ok r) \<or> used_for U code r db db'"
proof -
  have "used_for U code r db db'" if "consumed c b cd db db'" "co_code c = code"
    "r = success_response U v req code b cd" for c b cd
    unfolding used_for_def that(3) using that(1,2)
    by (intro conjI exI [of _ c] exI [of _ b] exI [of _ cd]) simp_all
  then show ?thesis using redeem_code_cases [OF assms] by blast
qed

text \<open>Every redemption leaves codes and credentials alone or uses one code.\<close>

lemma Redeem_effect:
  assumes "Redeem U sha v req db = (res, db')"
  shows "(quiet db db' \<and> (rq_key req = [] \<longrightarrow> (\<forall>r. res = Inr r \<longrightarrow> \<not> rr_ok r)) \<and> (\<forall>e. res = Inl e \<longrightarrow> db' = db))
    \<or> (\<exists>r. res = Inr r \<and> used_for U (NormalizeCode U (rq_code req)) r db db')"
proof -
  let ?q = "req\<lparr>rq_user := TrimSpace (rq_user req)\<rparr>"
  define body where "body = redeem_tx U sha v ?q db"
  consider (early) f where "(res, db') = (Inr (failure ResultInvalidInput f), db)"
    | (tx) "(res, db') = in_tx v db body"
    using assms by (auto simp: Redeem_def Let_def body_def split: if_splits)
  then show ?thesis
  proof cases
    case early
    then show ?thesis by auto
  next
    case tx
    show ?thesis
    proof (cases "sv_fails v \<or> (\<exists>e. body = Inl e)")
      case True
      then have "res = Inl ErrOther \<and> db' = db \<or> (\<exists>e. res = Inl e \<and> db' = db)"
        using tx by (auto simp: in_tx_def split: if_splits)
      then show ?thesis by auto
    next
      case False
      then obtain r where r: "body = Inr (r, db')" "res = Inr r"
        using tx by (cases body) (auto simp: in_tx_def split: prod.splits)
      let ?key = "NormalizeUserKey U (rq_user ?q)" and ?code = "NormalizeCode U (rq_code req)"
      consider (plain) "rq_key req = []" "redeem_code U v ?q ?code ?key db = Inr (r, db')"
        | (new) db1 where "claim_key (rq_key req) (hashRequest U sha ?q) db = Inr (None, db1)"
            "redeem_code U v ?q ?code ?key db1 = Inr (r, db')" "rq_key req \<noteq> []"
        | (old) s where "claim_key (rq_key req) (hashRequest U sha ?q) db = Inr (Some s, db')" "rq_key req \<noteq> []"
        using r by (auto simp: body_def redeem_tx_def Let_def split: if_splits sum.splits option.splits)
      then show ?thesis
      proof cases
        case plain
        then show ?thesis
          using redeem_code_effect [OF plain(2)] r(2) by auto
      next
        case new
        then show ?thesis
          using redeem_code_effect [OF new(2)] r(2) new(3)
          by (auto simp: used_for_def quiet_frame [OF new(1)])
      next
        case old
        then show ?thesis
          using r(2) quiet_frame(1) [OF old(1), of db'] old(2) by auto
      qed
    qed
  qed
qed

section \<open>Limits and bookkeeping\<close>

definition succeeded_for :: "int \<Rightarrow> redemption_row \<Rightarrow> bool" where
  "succeeded_for i r \<longleftrightarrow> re_code r = Some i \<and> re_result r = ResultSuccess"

text \<open>Numbers and codes are unique, batches exist.\<close>

definition ids_ok :: "database \<Rightarrow> bool" where
  "ids_ok db \<longleftrightarrow>
     distinct (map co_id (db_codes db)) \<and> distinct (map co_code (db_codes db))
     \<and> distinct (map ba_id (db_batches db)) \<and> distinct (map cd_id (db_credentials db))
     \<and> distinct (map re_id (db_redemptions db))
     \<and> (\<forall>c \<in> set (db_codes db). co_id c < db_next db \<and> co_batch c \<in> ba_id ` set (db_batches db)
          \<and> clean_code (co_code c))
     \<and> (\<forall>b \<in> set (db_batches db). ba_id b < db_next db)
     \<and> (\<forall>d \<in> set (db_credentials db). cd_id d < db_next db)
     \<and> (\<forall>r \<in> set (db_redemptions db). re_id r < db_next db)"

text \<open>A code is used as often as the log says, and never more often than its batch allows.\<close>

definition uses_ok :: "database \<Rightarrow> bool" where
  "uses_ok db \<longleftrightarrow>
     (\<forall>c \<in> set (db_codes db).
        co_use_count c = int (length (filter (succeeded_for (co_id c)) (db_redemptions db)))
        \<and> (\<forall>b \<in> set (db_batches db). ba_id b = co_batch c \<longrightarrow> co_use_count c \<le> ba_max_uses b))
     \<and> (\<forall>r \<in> set (db_redemptions db). \<forall>i. re_code r = Some i \<longrightarrow> re_result r = ResultSuccess \<longrightarrow> i < db_next db)"

text \<open>A credential is handed out in one successful redemption, a redemption hands out one.\<close>

definition credentials_ok :: "database \<Rightarrow> bool" where
  "credentials_ok db \<longleftrightarrow>
     (\<forall>d \<in> set (db_credentials db). (cd_used d \<longleftrightarrow> cd_redemption d \<noteq> None)
        \<and> (\<forall>i. cd_redemption d = Some i \<longrightarrow>
             (\<exists>r \<in> set (db_redemptions db). re_id r = i \<and> re_result r = ResultSuccess)))
     \<and> (\<forall>d \<in> set (db_credentials db). \<forall>e \<in> set (db_credentials db).
          cd_redemption d \<noteq> None \<longrightarrow> cd_redemption d = cd_redemption e \<longrightarrow> d = e)"

definition db_ok :: "database \<Rightarrow> bool" where
  "db_ok db \<longleftrightarrow> ids_ok db \<and> uses_ok db \<and> credentials_ok db"

lemma quiet_ok:
  assumes "quiet db db'" "db_ok db"
  shows "db_ok db'"
proof -
  note q = assms(1) [unfolded quiet_def]
  have "ids_ok db'" using q assms(2) by (fastforce simp: db_ok_def ids_ok_def)
  moreover have "uses_ok db'" using q assms(2)
    by (fastforce simp: db_ok_def uses_ok_def succeeded_for_def)
  moreover have "credentials_ok db'" using q assms(2)
    by (auto simp: db_ok_def credentials_ok_def)
  ultimately show ?thesis by (simp add: db_ok_def)
qed

lemma consumedE:
  assumes "consumed c b cd db db'"
  obtains row where "c \<in> set (db_codes db)" "b \<in> set (db_batches db)" "ba_id b = co_batch c"
    "co_status c = CodeUnused" "co_use_count c < ba_max_uses b" "db_batches db' = db_batches db"
    "db_codes db' = map (\<lambda>x. if co_id x = co_id c \<and> co_status x = CodeUnused \<and> co_use_count x < ba_max_uses b
       then x\<lparr>co_use_count := co_use_count x + 1\<rparr> else x) (db_codes db)"
    "db_redemptions db' = db_redemptions db @ [row]" "re_id row = db_next db"
    "re_result row = ResultSuccess" "re_code row = Some (co_id c)" "db_next db' = db_next db + 1"
  using assms unfolding consumed_def by blast

lemma consumed_credential_table:
  assumes "consumed c b cd db db'"
  shows "db_credentials db' = (case cd of None \<Rightarrow> db_credentials db
     | Some d \<Rightarrow> map (\<lambda>x. if cd_id x = cd_id d then x\<lparr>cd_used := True, cd_redemption := Some (db_next db)\<rparr> else x)
         (db_credentials db))"
    "cd = Some d \<Longrightarrow> d \<in> set (db_credentials db) \<and> \<not> cd_used d"
proof -
  show "db_credentials db' = (case cd of None \<Rightarrow> db_credentials db
     | Some d \<Rightarrow> map (\<lambda>x. if cd_id x = cd_id d then x\<lparr>cd_used := True, cd_redemption := Some (db_next db)\<rparr> else x)
         (db_credentials db))"
    using assms unfolding consumed_def by blast
  assume "cd = Some d"
  with assms show "d \<in> set (db_credentials db) \<and> \<not> cd_used d" by (simp add: consumed_def)
qed

lemma ids_ok_unique:
  assumes "ids_ok db"
  shows "x \<in> set (db_codes db) \<Longrightarrow> y \<in> set (db_codes db) \<Longrightarrow> co_id x = co_id y \<Longrightarrow> x = y"
    "b \<in> set (db_batches db) \<Longrightarrow> b' \<in> set (db_batches db) \<Longrightarrow> ba_id b = ba_id b' \<Longrightarrow> b = b'"
    "d \<in> set (db_credentials db) \<Longrightarrow> e \<in> set (db_credentials db) \<Longrightarrow> cd_id d = cd_id e \<Longrightarrow> d = e"
  using assms by (auto simp: ids_ok_def distinct_map dest: inj_onD)

lemma consumed_ids:
  assumes c: "consumed c b cd db db'" and ok: "db_ok db"
  shows "ids_ok db'"
  using c
proof (rule consumedE)
  fix row
  assume p: "db_batches db' = db_batches db"
    "db_codes db' = map (\<lambda>x. if co_id x = co_id c \<and> co_status x = CodeUnused \<and> co_use_count x < ba_max_uses b
       then x\<lparr>co_use_count := co_use_count x + 1\<rparr> else x) (db_codes db)"
    "db_redemptions db' = db_redemptions db @ [row]" "re_id row = db_next db" "db_next db' = db_next db + 1"
  note d = consumed_credential_table(1) [OF c]
  have m: "map co_id (db_codes db') = map co_id (db_codes db)" "map co_code (db_codes db') = map co_code (db_codes db)"
    by (simp_all add: p(2))
  have n: "map cd_id (db_credentials db') = map cd_id (db_credentials db)"
    by (cases cd) (simp_all add: d)
  have x: "\<exists>y \<in> set (db_codes db). co_id x = co_id y \<and> co_batch x = co_batch y \<and> co_code x = co_code y" if mem: "x \<in> set (db_codes db')" for x
  proof -
    obtain y where "x = (if co_id y = co_id c \<and> co_status y = CodeUnused
        \<and> co_use_count y < ba_max_uses b then y\<lparr>co_use_count := co_use_count y + 1\<rparr> else y)" "y \<in> set (db_codes db)"
      using mem unfolding p(2) set_map by (rule imageE)
    then show ?thesis by (intro bexI [of _ y]) simp_all
  qed
  have y: "\<exists>y \<in> set (db_credentials db). cd_id x = cd_id y" if "x \<in> set (db_credentials db')" for x
  proof -
    have "cd_id x \<in> set (map cd_id (db_credentials db))"
      using that unfolding n [symmetric] by simp
    then show ?thesis by auto
  qed
  show ?thesis
    using ok x y unfolding db_ok_def ids_ok_def m n p(1,3,5) by (fastforce simp: p(4))
qed

text \<open>Distinct numbers make the update of the code hit only \<open>c\<close>.\<close>

lemma consumed_codes:
  assumes c: "consumed c b cd db db'" and ok: "ids_ok db"
  shows "db_codes db' = map (\<lambda>x. if x = c then x\<lparr>co_use_count := co_use_count x + 1\<rparr> else x) (db_codes db)"
  using c
proof (rule consumedE)
  assume "c \<in> set (db_codes db)" "co_status c = CodeUnused" "co_use_count c < ba_max_uses b"
    "db_codes db' = map (\<lambda>x. if co_id x = co_id c \<and> co_status x = CodeUnused \<and> co_use_count x < ba_max_uses b
       then x\<lparr>co_use_count := co_use_count x + 1\<rparr> else x) (db_codes db)"
  then show ?thesis
    using ids_ok_unique(1) [OF ok, of _ c] by (auto intro!: map_cong)
qed

lemma consumed_uses:
  assumes c: "consumed c b cd db db'" and ok: "db_ok db"
  shows "uses_ok db'"
  using c
proof (rule consumedE)
  fix row
  assume p: "c \<in> set (db_codes db)" "b \<in> set (db_batches db)" "ba_id b = co_batch c"
    "co_use_count c < ba_max_uses b" "db_batches db' = db_batches db"
    and row: "db_redemptions db' = db_redemptions db @ [row]" "re_result row = ResultSuccess"
      "re_code row = Some (co_id c)" "db_next db' = db_next db + 1"
  have ids: "ids_ok db" and uses: "uses_ok db" using ok by (simp_all add: db_ok_def)
  have same: "ba_max_uses b' = ba_max_uses b" if "b' \<in> set (db_batches db)" "ba_id b' = co_batch c" for b'
    using ids_ok_unique(2) [OF ids, of b' b] that p(2,3) by simp
  have counts: "filter (succeeded_for i) (db_redemptions db') =
      filter (succeeded_for i) (db_redemptions db) @ (if i = co_id c then [row] else [])" for i
    by (simp add: row succeeded_for_def)
  have "co_use_count x = int (length (filter (succeeded_for (co_id x)) (db_redemptions db')))
      \<and> (\<forall>b' \<in> set (db_batches db'). ba_id b' = co_batch x \<longrightarrow> co_use_count x \<le> ba_max_uses b')"
    if mem: "x \<in> set (db_codes db')" for x
  proof -
    obtain y where y: "x = (if y = c then y\<lparr>co_use_count := co_use_count y + 1\<rparr> else y)" "y \<in> set (db_codes db)"
      using mem unfolding consumed_codes [OF c ids] set_map by (rule imageE)
    have yu: "co_use_count y = int (length (filter (succeeded_for (co_id y)) (db_redemptions db)))"
      "\<forall>b' \<in> set (db_batches db). ba_id b' = co_batch y \<longrightarrow> co_use_count y \<le> ba_max_uses b'"
      using uses y(2) by (auto simp: uses_ok_def)
    have "co_id y = co_id c \<longleftrightarrow> y = c" using ids_ok_unique(1) [OF ids y(2) p(1)] by auto
    then show ?thesis
      using y(1) yu same p(4) unfolding counts p(5) by (cases "y = c") auto
  qed
  moreover have "i < db_next db'" if "r \<in> set (db_redemptions db')" "re_code r = Some i" "re_result r = ResultSuccess" for r i
  proof -
    have "co_id c < db_next db" using ids p(1) by (simp add: ids_ok_def)
    moreover have "i < db_next db" if "r \<in> set (db_redemptions db)"
      using that \<open>re_code r = Some i\<close> \<open>re_result r = ResultSuccess\<close> uses by (simp add: uses_ok_def)
    ultimately show ?thesis using that(1,2) row(1,3,4) by auto
  qed
  ultimately show ?thesis unfolding uses_ok_def by blast
qed

lemma consumed_credentials:
  assumes c: "consumed c b cd db db'" and ok: "db_ok db"
  shows "credentials_ok db'"
  using c
proof (rule consumedE)
  fix row
  assume row: "db_redemptions db' = db_redemptions db @ [row]" "re_id row = db_next db"
      "re_result row = ResultSuccess"
  have ids: "ids_ok db" and old: "credentials_ok db" using ok by (simp_all add: db_ok_def)
  note table = consumed_credential_table [OF c]
  have fresh: "cd_redemption d \<noteq> Some (db_next db)" if "d \<in> set (db_credentials db)" for d
    using that old ids unfolding credentials_ok_def ids_ok_def by fastforce
  show ?thesis
  proof (cases cd)
    case None
    then show ?thesis using old unfolding credentials_ok_def table row by auto
  next
    case (Some d)
    have "cd_id x = cd_id d \<longleftrightarrow> x = d" if "x \<in> set (db_credentials db)" for x
      using ids_ok_unique(3) [OF ids that] table(2) [OF Some] by auto
    then have creds: "db_credentials db' =
        map (\<lambda>x. if x = d then x\<lparr>cd_used := True, cd_redemption := Some (db_next db)\<rparr> else x) (db_credentials db)"
      unfolding table(1) Some by (auto intro!: map_cong)
    show ?thesis
      using old row(2,3) fresh unfolding credentials_ok_def creds row(1)
      by (auto split: if_splits)
  qed
qed

lemma consumed_ok: "consumed c b cd db db' \<Longrightarrow> db_ok db \<Longrightarrow> db_ok db'"
  using consumed_ids consumed_uses consumed_credentials by (simp add: db_ok_def)

lemma Redeem_ok:
  assumes "db_ok db"
  shows "db_ok (snd (Redeem U sha v req db))"
proof (cases "Redeem U sha v req db")
  case (Pair res db')
  then show ?thesis
    using Redeem_effect [OF Pair] quiet_ok [OF _ assms] consumed_ok [OF _ assms]
    by (auto simp: used_for_def)
qed

lemma batch_loop_ok: "db_ok db \<Longrightarrow> db_ok (snd (batch_loop U sha user vs seen k codes db))"
proof (induction codes arbitrary: seen k db)
  case (Cons c cs)
  note redeem = Redeem_ok [OF Cons.prems, of U sha "vs k" "single user c"]
  show ?case
    using Cons.IH [OF Cons.prems] Cons.IH [OF redeem] redeem
    by (auto split: option.splits prod.splits sum.splits) (metis snd_conv)+
qed simp

lemma run_batch_ok: "db_ok db \<Longrightarrow> db_ok (snd (run_batch U sha vs req db))"
  using batch_loop_ok [of db U sha "bq_user req" vs "[]" 0 "bq_codes req"]
  by (auto simp: run_batch_def split: prod.splits sum.splits)

lemma keys_ok: "db_ok db \<Longrightarrow> db_ok (SetIdempotencyResponse k s db)" "db_ok db \<Longrightarrow> db_ok (CreateIdempotencyKey k h db)"
  by (erule quiet_ok [rotated], simp add: quiet_def)+

lemma batch_tx_ok:
  assumes "db_ok db"
  shows "db_ok (snd (batch_tx U sha vs f g req db))"
proof -
  have run: "db_ok db'" if "run_batch U sha vs req db = (res, db')" for res db'
    using run_batch_ok [OF assms, of U sha vs req] that by simp
  show ?thesis
    unfolding batch_tx_def Let_def using assms
    by (auto split: sum.split option.split prod.split dest: run intro: keys_ok)
qed

lemma BatchRedeem_ok: "db_ok db \<Longrightarrow> db_ok (snd (BatchRedeem U sha vs f g req db))"
  using batch_tx_ok by (simp add: BatchRedeem_def Let_def)

text \<open>Updates of a table that keep what the invariant reads.\<close>

lemma codes_update_ok:
  assumes "db_ok db" "\<And>c. co_id (f c) = co_id c" "\<And>c. co_code (f c) = co_code c"
    "\<And>c. co_batch (f c) = co_batch c" "\<And>c. co_use_count (f c) = co_use_count c"
  shows "db_ok (db\<lparr>db_codes := map f (db_codes db)\<rparr>)"
  using assms unfolding db_ok_def ids_ok_def uses_ok_def credentials_ok_def
  by (auto simp: o_def)

lemma batches_update_ok:
  assumes "db_ok db" "\<And>b. ba_id (f b) = ba_id b" "\<And>b. ba_max_uses (f b) = ba_max_uses b"
  shows "db_ok (db\<lparr>db_batches := map f (db_batches db)\<rparr>)"
  using assms unfolding db_ok_def ids_ok_def uses_ok_def credentials_ok_def
  by (auto simp: o_def image_image)

lemma toggles_ok:
  "db_ok db \<Longrightarrow> db_ok (ToggleCodeStatus i db)" "db_ok db \<Longrightarrow> db_ok (ToggleBatchStatus i db)"
  unfolding ToggleCodeStatus_def ToggleBatchStatus_def
  by (simp_all add: codes_update_ok batches_update_ok)

text \<open>Room for new rows: numbers may be skipped.\<close>

lemma next_ok: "db_ok db \<Longrightarrow> db_next db \<le> n \<Longrightarrow> db_ok (db\<lparr>db_next := n\<rparr>)"
  unfolding db_ok_def ids_ok_def uses_ok_def credentials_ok_def by fastforce

lemma CreateCredential_ok:
  assumes "db_ok db"
  shows "db_ok (CreateCredential plan expired data db)"
proof -
  let ?db = "CreateCredential plan expired data db"
  have "ids_ok ?db" using assms unfolding db_ok_def ids_ok_def CreateCredential_def by force
  moreover have "uses_ok ?db" using assms unfolding db_ok_def uses_ok_def CreateCredential_def by force
  moreover have "credentials_ok ?db"
    using assms unfolding db_ok_def credentials_ok_def CreateCredential_def by auto
  ultimately show ?thesis by (simp add: db_ok_def)
qed

lemma DeleteCredentials_ok: "db_ok db \<Longrightarrow> db_ok (DeleteCredentialsByIDs ids db)"
  unfolding db_ok_def ids_ok_def uses_ok_def credentials_ok_def DeleteCredentialsByIDs_def
  by (auto simp: distinct_map intro: inj_on_subset)

lemma CreateBatch_ok:
  assumes "CreateBatch U len count draws b db = Some db'" "db_ok db"
  shows "db_ok db'"
proof -
  let ?n = "db_next db"
  define row where "row = b\<lparr>ba_id := ?n, ba_prefix := ToUpper U (ba_prefix b), ba_status := BatchActive,
    ba_plan := TrimSpace (ba_plan b)\<rparr>"
  obtain codes where gen: "generateCodes (ToUpper U (ba_prefix b)) len count draws = Some codes"
      and fresh: "\<not> list_ex (\<lambda>code. code \<in> co_code ` set (db_codes db)) codes" "1 \<le> ba_max_uses b"
        "\<not> list_ex (\<lambda>code. \<not> clean_code code \<or> 64 < length code) codes"
      and db': "db' = db\<lparr>db_batches := db_batches db @ [row],
            db_codes := db_codes db @ map (\<lambda>i. \<lparr>co_id = ?n + 1 + int i, co_batch = ?n, co_code = codes ! i,
              co_status = CodeUnused, co_use_count = 0\<rparr>) [0..<length codes],
            db_next := ?n + 1 + int (length codes)\<rparr>"
    using assms(1) unfolding CreateBatch_def Let_def row_def [symmetric]
    by (cases "generateCodes (ToUpper U (ba_prefix b)) len count draws") (simp_all split: if_splits)
  have distinct: "distinct codes"
    using generate_from_sound [OF gen [unfolded generateCodes_def]] by simp
  have row: "ba_id row = ?n" "ba_max_uses row = ba_max_uses b" by (simp_all add: row_def)
  have codes: "map co_code (db_codes db') = map co_code (db_codes db) @ codes"
    by (simp add: db' o_def map_nth)
  have numbers: "map co_id (db_codes db') = map co_id (db_codes db) @ map (\<lambda>i. ?n + 1 + int i) [0..<length codes]"
    by (simp add: db' o_def)
  have low: "\<forall>c \<in> set (db_codes db). co_id c < ?n" "\<forall>c \<in> set (db_batches db). ba_id c < ?n"
      "\<forall>c \<in> set (db_codes db). co_batch c < ?n"
    using assms(2) by (auto simp: db_ok_def ids_ok_def)
  have "distinct (map co_id (db_codes db'))"
  proof -
    have "distinct (map co_id (db_codes db))" using assms(2) by (simp add: db_ok_def ids_ok_def)
    moreover have "distinct (map (\<lambda>i. ?n + 1 + int i) [0..<length codes])"
      by (simp add: distinct_map inj_on_def)
    moreover have "set (map co_id (db_codes db)) \<inter> set (map (\<lambda>i. ?n + 1 + int i) [0..<length codes]) = {}"
      using low(1) by fastforce
    ultimately show ?thesis unfolding numbers distinct_append by blast
  qed
  moreover have "distinct (map co_code (db_codes db'))"
    using assms(2) distinct fresh(1) unfolding codes by (auto simp: db_ok_def ids_ok_def list_ex_iff)
  moreover have "distinct (map ba_id (db_batches db'))"
    using assms(2) low(2) row by (auto simp: db' db_ok_def ids_ok_def)
  moreover have "\<forall>c \<in> set (db_codes db'). co_id c < db_next db' \<and> co_batch c \<in> ba_id ` set (db_batches db')"
    using assms(2) by (fastforce simp: db' row db_ok_def ids_ok_def)
  moreover have "\<forall>c \<in> set (db_codes db'). clean_code (co_code c)"
    using assms(2) fresh(3) by (auto simp: db' db_ok_def ids_ok_def list_ex_iff)
  moreover have "\<forall>b \<in> set (db_batches db'). ba_id b < db_next db'"
    using low(2) row by (fastforce simp: db')
  moreover have rest: "db_credentials db' = db_credentials db" "db_redemptions db' = db_redemptions db"
      "?n \<le> db_next db'"
    by (simp_all add: db')
  have "ids_ok db" "credentials_ok db" and uses: "uses_ok db" using assms(2) by (simp_all add: db_ok_def)
  have "ids_ok db'"
  proof -
    have "\<forall>d \<in> set (db_credentials db'). cd_id d < db_next db'"
      "\<forall>r \<in> set (db_redemptions db'). re_id r < db_next db'"
      using \<open>ids_ok db\<close> rest(3) unfolding ids_ok_def rest(1,2) by (blast intro: less_le_trans)+
    with calculation show ?thesis
      using \<open>ids_ok db\<close> unfolding ids_ok_def rest(1,2) by blast
  qed
  have bound: "\<forall>r \<in> set (db_redemptions db). \<forall>i. re_code r = Some i \<longrightarrow> re_result r = ResultSuccess
      \<longrightarrow> i < ?n"
    using uses unfolding uses_ok_def by blast
  have none: "filter (succeeded_for (?n + 1 + int i)) (db_redemptions db) = []" for i
    using bound by (intro filter_False) (fastforce simp: succeeded_for_def)
  have "co_use_count c = int (length (filter (succeeded_for (co_id c)) (db_redemptions db)))
      \<and> (\<forall>b' \<in> set (db_batches db'). ba_id b' = co_batch c \<longrightarrow> co_use_count c \<le> ba_max_uses b')"
    if c: "c \<in> set (db_codes db')" for c
  proof (cases "c \<in> set (db_codes db)")
    case True
    then have "co_batch c \<noteq> ba_id row" using low(3) row(1) by fastforce
    then show ?thesis using True uses by (auto simp: uses_ok_def db')
  next
    case False
    then obtain i where "c = \<lparr>co_id = ?n + 1 + int i, co_batch = ?n, co_code = codes ! i,
        co_status = CodeUnused, co_use_count = 0\<rparr>"
      using c unfolding db' by auto
    then show ?thesis using none [of i] low(2) row fresh(2) by (auto simp: db')
  qed
  moreover have "\<forall>r \<in> set (db_redemptions db). \<forall>i. re_code r = Some i \<longrightarrow> re_result r = ResultSuccess
      \<longrightarrow> i < db_next db'"
    using bound rest(3) by (blast intro: less_le_trans)
  ultimately have "uses_ok db'" unfolding uses_ok_def rest(2) by blast
  moreover have "credentials_ok db'"
    using \<open>credentials_ok db\<close> unfolding credentials_ok_def rest(1,2) .
  ultimately show ?thesis using \<open>ids_ok db'\<close> by (simp add: db_ok_def)
qed

lemma empty_db_ok: "db_ok empty_db"
  by (simp add: db_ok_def ids_ok_def uses_ok_def credentials_ok_def empty_db_def)

interpretation dbi: invariant_system "\<lambda>db. db = empty_db" "server_step U sha" db_ok for U sha
  by unfold_locales
    (auto simp: empty_db_ok elim!: server_step.cases intro: Redeem_ok BatchRedeem_ok toggles_ok CreateBatch_ok
      CreateCredential_ok DeleteCredentials_ok)


text \<open>C1 (invariant). Whatever requests are served and whatever fails, in every
  reachable data base a code is used exactly as often as successful redemptions
  of it are recorded, and never more often than its batch allows; a credential
  that is handed out belongs to one successful redemption, and no redemption has
  two.\<close>

theorem redemptions_stay_within_limits:
  assumes "(server_step U sha)\<^sup>*\<^sup>* empty_db db"
  shows "(\<forall>c \<in> set (db_codes db). \<exists>b \<in> set (db_batches db). ba_id b = co_batch c
      \<and> co_use_count c \<le> ba_max_uses b
      \<and> co_use_count c = int (length (filter (succeeded_for (co_id c)) (db_redemptions db))))
    \<and> (\<forall>d \<in> set (db_credentials db). cd_used d \<longrightarrow>
         (\<exists>r \<in> set (db_redemptions db). cd_redemption d = Some (re_id r) \<and> re_result r = ResultSuccess))
    \<and> (\<forall>d \<in> set (db_credentials db). \<forall>e \<in> set (db_credentials db).
         cd_used d \<longrightarrow> cd_redemption d = cd_redemption e \<longrightarrow> d = e)"
proof -
  have ok: "ids_ok db" "uses_ok db" "credentials_ok db"
    using dbi.reachable_inv [OF refl assms] by (simp_all add: db_ok_def)
  have "\<exists>b \<in> set (db_batches db). ba_id b = co_batch c \<and> co_use_count c \<le> ba_max_uses b
      \<and> co_use_count c = int (length (filter (succeeded_for (co_id c)) (db_redemptions db)))"
    if c: "c \<in> set (db_codes db)" for c
  proof -
    have "co_batch c \<in> ba_id ` set (db_batches db)" using ok(1) c by (simp add: ids_ok_def)
    then obtain b where "b \<in> set (db_batches db)" "ba_id b = co_batch c" by force
    then show ?thesis using ok(2) c unfolding uses_ok_def by blast
  qed
  moreover have "\<exists>r \<in> set (db_redemptions db). cd_redemption d = Some (re_id r) \<and> re_result r = ResultSuccess"
    if d: "d \<in> set (db_credentials db)" "cd_used d" for d
  proof -
    obtain i where i: "cd_redemption d = Some i" using ok(3) d by (auto simp: credentials_ok_def)
    then obtain r where "r \<in> set (db_redemptions db)" "re_id r = i" "re_result r = ResultSuccess"
      using ok(3) d(1) unfolding credentials_ok_def by metis
    then show ?thesis using i by blast
  qed
  moreover have "d = e" if "d \<in> set (db_credentials db)" "e \<in> set (db_credentials db)" "cd_used d"
    "cd_redemption d = cd_redemption e" for d e
    using ok(3) that unfolding credentials_ok_def by metis
  ultimately show ?thesis by simp
qed

section \<open>A small data base\<close>

definition sample_unicode :: go_unicode where
  "sample_unicode = \<lparr>gu_upper = id, gu_lower = id, gu_print = (\<lambda>_. True), gu_fold = id\<rparr>"

definition sample_env :: service_env where
  "sample_env = \<lparr>sv_now = 0, sv_db_now = 0, sv_time_text = [], sv_event = js ''e'', sv_locked = [], sv_fails = False\<rparr>"

definition sample_batch :: batch_row where
  "sample_batch = \<lparr>ba_id = 0, ba_name = js ''b'', ba_prefix = [], ba_payload = JObj [], ba_status = BatchActive,
     ba_expires = None, ba_max_uses = 1, ba_webhook_url = [], ba_assign = False, ba_plan = []\<rparr>"

definition sample_codes :: "code_row list" where
  "sample_codes =
     [\<lparr>co_id = 2, co_batch = 1, co_code = js ''AAAA'', co_status = CodeUnused, co_use_count = 0\<rparr>,
      \<lparr>co_id = 3, co_batch = 1, co_code = js ''BBBB'', co_status = CodeUnused, co_use_count = 0\<rparr>]"

definition sample_db :: database where
  "sample_db = empty_db\<lparr>db_batches := [sample_batch\<lparr>ba_id := 1\<rparr>], db_codes := sample_codes, db_next := 4\<rparr>"

lemma sample_created:
  "CreateBatch U 4 2 [[0, 0, 0, 0], [1, 1, 1, 1]] sample_batch empty_db = Some sample_db"
proof -
  have gen: "generateCodes [] 4 2 [[0, 0, 0, 0], [1, 1, 1, 1]] = Some [js ''AAAA'', js ''BBBB'']"
    by (simp add: generateCodes_def generate_from.simps randomCode_def alphabet_def upt_rec)
  have clean: "clean_code (js ''AAAA'')" "clean_code (js ''BBBB'')"
    by (simp_all add: clean_code_def char_defs)
  have "ToUpper U [] = []" by (simp add: ToUpper_clean)
  with clean show ?thesis
    by (simp add: CreateBatch_def Let_def sample_batch_def gen [simplified] sample_db_def sample_codes_def empty_db_def
        TrimSpace_def upt_rec)
qed

lemma sample_reachable: "server_step U sha empty_db sample_db"
  by (rule step_create [OF sample_created])

text \<open>The first code is redeemed.\<close>

definition sample_used :: database where
  "sample_used = sample_db\<lparr>
     db_codes := map (\<lambda>c. if co_id c = 2 then c\<lparr>co_use_count := 1\<rparr> else c) sample_codes,
     db_redemptions := [\<lparr>re_id = 4, re_code = Some 2, re_batch = Some 1, re_code_text = js ''AAAA'',
       re_user = js ''u'', re_user_key = js ''u'', re_payload = JObj [], re_result = ResultSuccess,
       re_message = msg_rs_success, re_webhook = WebhookNone, re_key = None, re_event = None\<rparr>],
     db_next := 5\<rparr>"

lemma sample_redeem:
  "\<exists>r. Redeem sample_unicode sha sample_env (single (js ''u'') (js ''aa-aa'')) sample_db = (Inr r, sample_used)"
proof -
  have code: "NormalizeCode sample_unicode (js ''aa-aa'') = js ''AAAA''"
    by (simp add: NormalizeCode_normalizeCdk normalizeCdk_filter char_defs)
  have user: "TrimSpace (js ''u'') = js ''u''" by (simp add: TrimSpace_def go_is_space_def)
  have key: "NormalizeUserKey sample_unicode (js ''u'') = js ''u''"
    unfolding NormalizeUserKey_def user
    by (simp add: ToLower_def sample_unicode_def of_runes_def utf16_encode_def
        rune_space_def go_is_space_def char_defs)
  show ?thesis
    by (simp add: Redeem_def single_def Let_def code [simplified] user [simplified] key [simplified] go_runes_def go_len_def blob_size_def
        validIdempotencyKey_def in_tx_def redeem_tx_def sample_env_def redeem_code_def GetCodeByCode_def
        sample_db_def sample_codes_def sample_batch_def empty_db_def checkCodeState_def redeem_success_def
        IncrementCodeUseCount_def CreateRedemption_def success_row_def storeIdempotencyResponse_def
        sample_used_def stringPtr_def newEventID_def)
qed


lemma sample_code: "NormalizeCode U (js ''aa-aa'') = js ''AAAA''"
  by (simp add: NormalizeCode_normalizeCdk normalizeCdk_filter char_defs)

lemma sample_used_reachable: "(server_step sample_unicode sha)\<^sup>*\<^sup>* empty_db sample_used"
proof -
  have "server_step sample_unicode sha sample_db sample_used"
    using step_redeem [of sample_unicode sha sample_db sample_env] sample_redeem [of sha] by (metis snd_conv)
  then show ?thesis using sample_reachable by (meson converse_rtranclp_into_rtranclp rtranclp.rtrancl_refl)
qed

lemma sample_db_ok: "db_ok sample_db"
  using dbi.inv_step [OF empty_db_ok sample_reachable] .

text \<open>C1: After one redemption of the sample code.\<close>

lemma redemptions_stay_within_limits_witness:
  "\<exists>c \<in> set (db_codes sample_used). co_use_count c = 1
     \<and> length (filter (succeeded_for (co_id c)) (db_redemptions sample_used)) = 1"
proof -
  let ?c = "\<lparr>co_id = 2, co_batch = 1, co_code = js ''AAAA'', co_status = CodeUnused, co_use_count = 1\<rparr>"
  have c: "?c \<in> set (db_codes sample_used)" by (simp add: sample_used_def sample_db_def sample_codes_def)
  have "co_use_count ?c = int (length (filter (succeeded_for (co_id ?c)) (db_redemptions sample_used)))"
    using redemptions_stay_within_limits [OF sample_used_reachable] c by blast
  then show ?thesis by (intro bexI [OF _ c]) simp
qed

end
