(* ===== verification/RedeemBatch.thy ===== *)
theory RedeemBatch
  imports RedeemServerProofs
begin

text \<open>
  Batches of the redemption service as sequences of single redemptions, and how
  often each code is used by them.
\<close>

section \<open>A batch is a sequence of single redemptions\<close>

text \<open>The reference: the codes one after the other, each as a request of its own.\<close>

fun singles :: "go_unicode \<Rightarrow> (gostr \<Rightarrow> gostr) \<Rightarrow> gostr \<Rightarrow> (nat \<Rightarrow> service_env) \<Rightarrow> nat \<Rightarrow> gostr list
    \<Rightarrow> database \<Rightarrow> (go_error + RedeemResponse list) \<times> database" where
  "singles U sha user vs k [] db = (Inr [], db)"
| "singles U sha user vs k (c # cs) db =
     (case Redeem U sha (vs k) (single user c) db of
        (Inl e, db1) \<Rightarrow> (Inl e, db1)
      | (Inr r, db1) \<Rightarrow>
          (case singles U sha user vs (k + 1) cs db1 of
             (Inl e, db') \<Rightarrow> (Inl e, db')
           | (Inr rs, db') \<Rightarrow> (Inr (r # rs), db')))"

text \<open>Codes the loop does not refuse by itself.\<close>

definition proper_codes :: "go_unicode \<Rightarrow> gostr list \<Rightarrow> bool" where
  "proper_codes U codes \<longleftrightarrow> distinct (map (NormalizeCode U) codes)
     \<and> (\<forall>c \<in> set codes. NormalizeCode U c \<noteq> [] \<and> go_len (NormalizeCode U c) \<le> 128)"

lemma batch_loop_singles:
  assumes "proper_codes U codes" "set (map (NormalizeCode U) codes) \<inter> set seen = {}"
  shows "batch_loop U sha user vs seen k codes db =
    (case singles U sha user vs k codes db of
       (Inl e, db') \<Rightarrow> (Inl e, db')
     | (Inr rs, db') \<Rightarrow> (Inr (map2 answered_item codes rs), db'))"
  using assms
proof (induction codes arbitrary: seen k db)
  case (Cons c cs)
  have none: "refuse_message U seen c = None"
    using Cons.prems by (auto simp: refuse_message_def proper_codes_def Let_def)
  have "proper_codes U cs" "set (map (NormalizeCode U) cs) \<inter> set (NormalizeCode U c # seen) = {}"
    using Cons.prems by (auto simp: proper_codes_def)
  note IH = Cons.IH [OF this]
  show ?case by (simp add: none IH split: prod.split sum.split)
qed simp

lemma singles_length:
  "singles U sha user vs k codes db = (Inr rs, db') \<Longrightarrow> length rs = length codes"
  by (induction codes arbitrary: k db rs) (auto split: prod.splits sum.splits)

lemma singles_ok: "db_ok db \<Longrightarrow> db_ok (snd (singles U sha user vs k codes db))"
proof (induction codes arbitrary: k db)
  case (Cons c cs)
  note redeem = Redeem_ok [OF Cons.prems, of U sha "vs k" "single user c"]
  show ?case
    using Cons.IH [OF redeem] redeem by (auto split: prod.splits sum.splits) (metis snd_conv)+
qed simp

text \<open>How often the code with this text is used.\<close>

definition use_of :: "gostr \<Rightarrow> database \<Rightarrow> int" where
  "use_of code db = (case find (\<lambda>c. co_code c = code) (db_codes db) of None \<Rightarrow> 0 | Some c \<Rightarrow> co_use_count c)"

lemma quiet_use_of: "quiet db db' \<Longrightarrow> use_of x db' = use_of x db"
  by (simp add: quiet_def use_of_def)

lemma find_map_same:
  "(\<And>c. co_code (f c) = co_code c) \<Longrightarrow>
     find (\<lambda>c. co_code c = x) (map f cs) = map_option f (find (\<lambda>c. co_code c = x) cs)"
  by (induction cs) auto

lemma find_unique:
  "c \<in> set cs \<Longrightarrow> distinct (map co_code cs) \<Longrightarrow> find (\<lambda>d. co_code d = co_code c) cs = Some c"
  by (induction cs) force+

lemma consumed_use_of:
  assumes "consumed c b cd db db'" "ids_ok db"
  shows "use_of x db' = use_of x db + (if x = co_code c then 1 else 0)"
proof -
  let ?f = "\<lambda>x. if x = c then x\<lparr>co_use_count := co_use_count x + 1\<rparr> else x"
  have c: "c \<in> set (db_codes db)" using assms(1) by (simp add: consumed_def)
  have u: "find (\<lambda>d. co_code d = co_code c) (db_codes db) = Some c"
    using assms(2) c by (intro find_unique) (simp_all add: ids_ok_def)
  have "find (\<lambda>d. co_code d = x) (db_codes db') = map_option ?f (find (\<lambda>d. co_code d = x) (db_codes db))"
    unfolding consumed_codes [OF assms] by (rule find_map_same) simp
  then have found: "use_of x db' = (case find (\<lambda>d. co_code d = x) (db_codes db) of None \<Rightarrow> 0
      | Some d \<Rightarrow> co_use_count (?f d))"
    by (simp add: use_of_def option.case_eq_if map_option_case)
  show ?thesis
  proof (cases "x = co_code c")
    case True
    then show ?thesis unfolding found by (simp add: use_of_def u)
  next
    case False
    then have "d \<noteq> c" if "find (\<lambda>d. co_code d = x) (db_codes db) = Some d" for d
      using that by (auto simp: find_Some_iff)
    then show ?thesis
      using False unfolding found by (cases "find (\<lambda>d. co_code d = x) (db_codes db)") (simp_all add: use_of_def)
  qed
qed

lemma Redeem_use_of:
  assumes "Redeem U sha v req db = (Inr r, db')" "rq_key req = []" "db_ok db"
  shows "use_of x db' = use_of x db + (if rr_ok r \<and> x = NormalizeCode U (rq_code req) then 1 else 0)"
  using Redeem_effect [OF assms(1)] assms(2,3)
  by (auto simp: used_for_def quiet_use_of db_ok_def consumed_use_of)

lemma singles_use_of:
  assumes "singles U sha user vs k codes db = (Inr rs, db')" "db_ok db"
  shows "use_of x db' = use_of x db
    + int (length (filter (\<lambda>(c, r). rr_ok r \<and> x = NormalizeCode U c) (zip codes rs)))"
  using assms
proof (induction codes arbitrary: k db rs)
  case (Cons c cs)
  obtain r db1 rs' where one: "Redeem U sha (vs k) (single user c) db = (Inr r, db1)"
    and rest: "singles U sha user vs (k + 1) cs db1 = (Inr rs', db')" "rs = r # rs'"
    using Cons.prems(1) by (auto split: prod.splits sum.splits)
  have "db_ok db1" using Redeem_ok [OF Cons.prems(2), of U sha "vs k" "single user c"] one by simp
  from Cons.IH [OF rest(1) this] Redeem_use_of [OF one _ Cons.prems(2), of x]
  show ?case by (simp add: rest(2) single_def)
qed simp

lemma item_answered [simp]:
  "it_ok (answered_item c r) = rr_ok r" "it_redemption (answered_item c r) = (if rr_ok r then Some r else None)"
  by (simp_all add: answered_item_def)

lemma run_batch_singles:
  assumes "proper_codes U (bq_codes req)"
  shows "run_batch U sha vs req db =
    (case singles U sha (bq_user req) vs 0 (bq_codes req) db of
       (Inl e, db') \<Rightarrow> (Inl e, db')
     | (Inr rs, db') \<Rightarrow> (Inr (batch_response (bq_codes req) (map2 answered_item (bq_codes req) rs)), db'))"
  using batch_loop_singles [OF assms, of "[]"] by (simp add: run_batch_def split: prod.split sum.split)

lemma batch_response_counts:
  "bp_succeeded (batch_response codes items) + bp_failed (batch_response codes items) = length items"
  by (simp add: batch_response_def sum_length_filter_compl)

definition sent_batch :: "gostr \<Rightarrow> gostr list \<Rightarrow> BatchRedeemRequest" where
  "sent_batch user codes = \<lparr>bq_user = user, bq_codes = codes, bq_key = []\<rparr>"

lemma sent_batch_simps [simp]:
  "(sent_batch u cs)\<lparr>bq_user := w\<rparr> = sent_batch w cs"
  "bq_user (sent_batch u cs) = u" "bq_codes (sent_batch u cs) = cs" "bq_key (sent_batch u cs) = []"
  by (simp_all add: sent_batch_def)

lemma filter_zip_unique:
  assumes "distinct (map f xs)" "length ys = length xs" "j < length xs"
  shows "filter (\<lambda>(c, r). P r \<and> f (xs ! j) = f c) (zip xs ys) = (if P (ys ! j) then [(xs ! j, ys ! j)] else [])"
  using assms
proof (induction xs arbitrary: ys j)
  case (Cons x xs)
  obtain y ys' where ys: "ys = y # ys'" using Cons.prems(2) by (cases ys) simp_all
  show ?case
  proof (cases j)
    case 0
    then have "filter (\<lambda>(c, r). P r \<and> f x = f c) (zip xs ys') = []"
      using Cons.prems(1) by (auto simp: filter_empty_conv dest!: set_zip_leftD)
    then show ?thesis using 0 by (simp add: ys)
  next
    case (Suc i)
    then have "f (xs ! i) \<in> f ` set xs" using Cons.prems(3) by simp
    then have "f (xs ! i) \<noteq> f x" using Cons.prems(1) by auto
    then show ?thesis using Cons.IH [of ys' i] Cons.prems Suc by (simp add: ys)
  qed
qed simp

text \<open>The facts of a batch that runs to its end, shared with the page's properties.\<close>

lemma batch_as_singles:
  assumes "TrimSpace user \<noteq> []" "go_runes (TrimSpace user) \<le> 256" "codes \<noteq> []" "proper_codes U codes"
    "db_ok db"
  shows "BatchRedeem U sha vs f g (sent_batch user codes) db =
      (case singles U sha (TrimSpace user) vs 0 codes db of
         (Inl e, db') \<Rightarrow> (Inl e, db')
       | (Inr rs, db') \<Rightarrow> (Inr (batch_response codes (map2 answered_item codes rs)), db'))
    \<and> (\<forall>resp db'. BatchRedeem U sha vs f g (sent_batch user codes) db = (Inr resp, db') \<longrightarrow>
         bp_total resp = length codes \<and> length (bp_results resp) = length codes
         \<and> bp_succeeded resp + bp_failed resp = bp_total resp
         \<and> (\<forall>j < length codes. use_of (NormalizeCode U (codes ! j)) db'
              = use_of (NormalizeCode U (codes ! j)) db + (if it_ok (bp_results resp ! j) then 1 else 0))
         \<and> (\<forall>x. x \<notin> NormalizeCode U ` set codes \<longrightarrow> use_of x db' = use_of x db))"
proof -
  have eq: "BatchRedeem U sha vs f g (sent_batch user codes) db =
      (case singles U sha (TrimSpace user) vs 0 codes db of
         (Inl e, db') \<Rightarrow> (Inl e, db')
       | (Inr rs, db') \<Rightarrow> (Inr (batch_response codes (map2 answered_item codes rs)), db'))"
    using assms(1-3) run_batch_singles [of U "sent_batch (TrimSpace user) codes", unfolded sent_batch_simps, OF assms(4)]
    by (simp add: BatchRedeem_def batch_tx_def Let_def validIdempotencyKey_def)
  have "bp_total resp = length codes \<and> length (bp_results resp) = length codes
      \<and> bp_succeeded resp + bp_failed resp = bp_total resp
      \<and> (\<forall>j < length codes. use_of (NormalizeCode U (codes ! j)) db'
           = use_of (NormalizeCode U (codes ! j)) db + (if it_ok (bp_results resp ! j) then 1 else 0))
      \<and> (\<forall>x. x \<notin> NormalizeCode U ` set codes \<longrightarrow> use_of x db' = use_of x db)"
    if run: "BatchRedeem U sha vs f g (sent_batch user codes) db = (Inr resp, db')" for resp db'
  proof -
    obtain rs where rs: "singles U sha (TrimSpace user) vs 0 codes db = (Inr rs, db')"
        "resp = batch_response codes (map2 answered_item codes rs)"
      using run unfolding eq by (auto split: prod.splits sum.splits)
    have len: "length rs = length codes" by (rule singles_length [OF rs(1)])
    note uses = singles_use_of [OF rs(1) assms(5)]
    have "use_of (NormalizeCode U (codes ! j)) db'
           = use_of (NormalizeCode U (codes ! j)) db + (if it_ok (bp_results resp ! j) then 1 else 0)"
      if "j < length codes" for j
    proof -
      have "filter (\<lambda>(c, r). rr_ok r \<and> NormalizeCode U (codes ! j) = NormalizeCode U c) (zip codes rs)
          = (if rr_ok (rs ! j) then [(codes ! j, rs ! j)] else [])"
        using assms(4) len that by (intro filter_zip_unique) (simp_all add: proper_codes_def)
      then show ?thesis
        using that len by (simp add: uses rs(2) batch_response_def)
    qed
    moreover have "use_of x db' = use_of x db" if "x \<notin> NormalizeCode U ` set codes" for x
    proof -
      have "filter (\<lambda>(c, r). rr_ok r \<and> x = NormalizeCode U c) (zip codes rs) = []"
        using that by (auto simp: filter_empty_conv dest: set_zip_leftD)
      then show ?thesis by (simp add: uses)
    qed
    moreover have "bp_succeeded resp + bp_failed resp = bp_total resp"
      using len by (simp add: rs(2) batch_response_counts) (simp add: batch_response_def)
    ultimately show ?thesis
      using len by (simp add: rs(2)) (simp add: batch_response_def)
  qed
  with eq show ?thesis by blast
qed

text \<open>C4 (equivalence). A batch request without a key, for an acceptable address and
  codes that differ after cleaning, does exactly what the codes do one after the
  other as single requests; its answer has one item per code, in order, counts
  them rightly, and afterwards a code is used once more exactly when its item
  says so, and no other code is touched.\<close>

theorem batch_is_sequence_of_singles:
  assumes "TrimSpace user \<noteq> []" "go_runes (TrimSpace user) \<le> 256" "codes \<noteq> []" "proper_codes U codes"
    "db_ok db"
  shows "BatchRedeem U sha vs f g (sent_batch user codes) db =
      (case singles U sha (TrimSpace user) vs 0 codes db of
         (Inl e, db') \<Rightarrow> (Inl e, db')
       | (Inr rs, db') \<Rightarrow> (Inr (batch_response codes (map2 answered_item codes rs)), db'))
    \<and> (\<forall>resp db'. BatchRedeem U sha vs f g (sent_batch user codes) db = (Inr resp, db') \<longrightarrow>
         bp_total resp = length codes \<and> length (bp_results resp) = length codes
         \<and> bp_succeeded resp + bp_failed resp = bp_total resp
         \<and> (\<forall>j < length codes. use_of (NormalizeCode U (codes ! j)) db'
              = use_of (NormalizeCode U (codes ! j)) db + (if it_ok (bp_results resp ! j) then 1 else 0))
         \<and> (\<forall>x. x \<notin> NormalizeCode U ` set codes \<longrightarrow> use_of x db' = use_of x db))"
  using assms by (rule batch_as_singles)

text \<open>C4: One sample code in lower case with a dash.\<close>

lemma batch_is_sequence_of_singles_witness:
  "\<exists>resp db'. BatchRedeem sample_unicode id (\<lambda>_. sample_env) False False (sent_batch (js ''u'') [js ''aa-aa'']) sample_db
       = (Inr resp, db') \<and> bp_total resp = 1 \<and> use_of (js ''AAAA'') db' = 1"
proof -
  let ?b = "BatchRedeem sample_unicode id (\<lambda>_. sample_env) False False (sent_batch (js ''u'') [js ''aa-aa'']) sample_db"
  have u: "TrimSpace (js ''u'') = js ''u''" by (simp add: TrimSpace_def go_is_space_def)
  have p: "proper_codes sample_unicode [js ''aa-aa'']"
    using sample_code [simplified, of sample_unicode] by (simp add: proper_codes_def go_len_def blob_size_def)
  have g: "TrimSpace (js ''u'') \<noteq> []" "go_runes (TrimSpace (js ''u'')) \<le> 256"
    unfolding u by (simp_all add: go_runes_def)
  note seq = batch_is_sequence_of_singles [OF g list.distinct(2) p sample_db_ok, of id "\<lambda>_. sample_env" False False]
  obtain r where r: "Redeem sample_unicode id sample_env (single (js ''u'') (js ''aa-aa'')) sample_db = (Inr r, sample_used)"
    using sample_redeem by blast
  have "singles sample_unicode id (TrimSpace (js ''u'')) (\<lambda>_. sample_env) 0 [js ''aa-aa''] sample_db = (Inr [r], sample_used)"
    unfolding u by (simp add: r del: js_Cons)
  then have b: "?b = (Inr (batch_response [js ''aa-aa''] (map2 answered_item [js ''aa-aa''] [r])), sample_used)"
    using seq [THEN conjunct1] by (simp del: js_Cons)
  from seq [THEN conjunct2, rule_format, OF b]
  have "bp_total (batch_response [js ''aa-aa''] (map2 answered_item [js ''aa-aa''] [r])) = length [js ''aa-aa'']"
    by blast
  moreover have "use_of (js ''AAAA'') sample_used = 1"
    by (simp add: use_of_def sample_used_def sample_db_def sample_codes_def)
  ultimately show ?thesis using b by (metis length_Cons list.size(3) One_nat_def)
qed

end
