(* ===== verification/RedeemKeys.thy ===== *)
theory RedeemKeys
  imports RedeemServerProofs
begin

text \<open>
  Requests with an idempotency key: the first answer is stored with the key and
  every later request with this key gets it back.
\<close>

definition answered :: "gostr \<Rightarrow> gostr \<Rightarrow> stored \<Rightarrow> database \<Rightarrow> bool" where
  "answered key hash s db \<longleftrightarrow> find_key key db = Some \<lparr>ik_key = key, ik_hash = hash, ik_response = Some s\<rparr>"

text \<open>Keys are only added, and an answer once stored is not changed.\<close>

definition keys_grow :: "database \<Rightarrow> database \<Rightarrow> bool" where
  "keys_grow db db' \<longleftrightarrow> (\<forall>key hash s. answered key hash s db \<longrightarrow> answered key hash s db')"

lemma keys_grow_refl [simp]: "keys_grow db db"
  by (simp add: keys_grow_def)

lemma keys_grow_trans: "keys_grow a b \<Longrightarrow> keys_grow b c \<Longrightarrow> keys_grow a c"
  by (simp add: keys_grow_def)

lemma keys_grow_same: "db_keys db' = db_keys db \<Longrightarrow> keys_grow db db'"
  by (simp add: keys_grow_def answered_def find_key_def)

lemma find_append: "find P (xs @ ys) = (case find P xs of None \<Rightarrow> find P ys | Some x \<Rightarrow> Some x)"
  by (induction xs) auto

lemma find_key_create:
  "find_key k (CreateIdempotencyKey key hash db) =
     (case find_key k db of None \<Rightarrow> if k = key then Some \<lparr>ik_key = key, ik_hash = hash, ik_response = None\<rparr> else None
      | Some r \<Rightarrow> Some r)"
  by (simp add: find_key_def CreateIdempotencyKey_def find_append split: option.split)

lemma find_key_key: "find_key k db = Some r \<Longrightarrow> ik_key r = k"
  by (auto simp: find_key_def find_Some_iff)

lemma find_key_set:
  "find_key k (SetIdempotencyResponse key body db) =
     map_option (\<lambda>r. if k = key then r\<lparr>ik_response := Some body\<rparr> else r) (find_key k db)"
proof -
  have "find (\<lambda>r. ik_key r = k) (map (\<lambda>r. if ik_key r = key then r\<lparr>ik_response := Some body\<rparr> else r) rs)
      = map_option (\<lambda>r. if k = key then r\<lparr>ik_response := Some body\<rparr> else r) (find (\<lambda>r. ik_key r = k) rs)" for rs
    by (induction rs) auto
  then show ?thesis by (simp add: find_key_def SetIdempotencyResponse_def)
qed

lemma claim_key_None:
  assumes "claim_key key hash db = Inr (None, db1)"
  shows "keys_grow db (SetIdempotencyResponse key body db1)"
    "answered key hash body (SetIdempotencyResponse key body db1)"
proof -
  obtain row where row: "find_key key db1 = Some row" "ik_hash row = hash" "ik_key row = key" "ik_response row = None"
    using assms
    by (cases "find_key key db") (auto simp: claim_key_def find_key_create find_key_key split: if_splits)
  then show "answered key hash body (SetIdempotencyResponse key body db1)"
    by (cases row) (simp add: answered_def find_key_set)
  have "keys_grow db db1" "\<not> answered key h s db" for h s
    using assms
    by (auto simp: claim_key_def keys_grow_def answered_def find_key_create split: option.splits if_splits)
  then show "keys_grow db (SetIdempotencyResponse key body db1)"
    unfolding keys_grow_def by (auto simp: answered_def find_key_set)
qed

section \<open>Where the keys change\<close>

lemma recordFailure_keys:
  "recordFailure req code key ci bi resp db = Inr (r, db') \<Longrightarrow>
     r = resp \<and> db_keys db' = db_keys (storeIdempotencyResponse (rq_key req) resp db)"
  by (auto simp: recordFailure_def CreateRedemption_def storeIdempotencyResponse_def SetIdempotencyResponse_def
      split: if_splits)

lemma redeem_success_keys:
  "redeem_success U v req code key c b cd db = Inr (r, db') \<Longrightarrow>
     db_keys db' = db_keys (storeIdempotencyResponse (rq_key req) r db)"
  by (auto simp: redeem_success_def Let_def IncrementCodeUseCount_def CreateRedemption_def
      CreateWebhookOutboxEvent_def MarkCredentialUsed_def storeIdempotencyResponse_def SetIdempotencyResponse_def
      split: if_splits option.splits)

lemma redeem_code_keys:
  assumes "redeem_code U v req code key db = Inr (r, db')"
  shows "db_keys db' = db_keys (storeIdempotencyResponse (rq_key req) r db)"
  using assms
  by (auto simp: redeem_code_def Let_def dest: recordFailure_keys redeem_success_keys
      split: option.splits prod.splits if_splits)

text \<open>The checks before the transaction.\<close>

definition request_accepted :: "go_unicode \<Rightarrow> RedeemRequest \<Rightarrow> bool" where
  "request_accepted U req \<longleftrightarrow> TrimSpace (rq_user req) \<noteq> [] \<and> NormalizeCode U (rq_code req) \<noteq> []
     \<and> go_runes (TrimSpace (rq_user req)) \<le> 256 \<and> go_len (NormalizeCode U (rq_code req)) \<le> 128
     \<and> validIdempotencyKey (rq_key req)"

definition trimmed :: "RedeemRequest \<Rightarrow> RedeemRequest" where
  "trimmed req = req\<lparr>rq_user := TrimSpace (rq_user req)\<rparr>"

lemma trimmed_simps [simp]:
  "rq_user (trimmed req) = TrimSpace (rq_user req)" "rq_code (trimmed req) = rq_code req"
  "rq_key (trimmed req) = rq_key req"
  by (simp_all add: trimmed_def)

lemma Redeem_accepted: "request_accepted U req \<Longrightarrow> Redeem U sha v req db = in_tx v db (redeem_tx U sha v (trimmed req) db)"
  by (simp add: Redeem_def Let_def request_accepted_def trimmed_def)

lemma Redeem_not_accepted:
  "\<not> request_accepted U req \<Longrightarrow> \<exists>m. Redeem U sha v req db = (Inr (failure ResultInvalidInput m), db)"
  by (auto simp: Redeem_def Let_def request_accepted_def)

lemma redeem_tx_keys:
  assumes "redeem_tx U sha v req db = Inr (r, db')"
  shows "keys_grow db db'" "rq_key req = [] \<Longrightarrow> db_keys db' = db_keys db"
    "rq_key req \<noteq> [] \<Longrightarrow> find_key (rq_key req) db = None \<Longrightarrow>
       answered (rq_key req) (hashRequest U sha req) (StoredOne (as_stored r)) db'"
proof -
  show plain: "rq_key req = [] \<Longrightarrow> db_keys db' = db_keys db"
    using assms by (auto simp: redeem_tx_def Let_def storeIdempotencyResponse_def dest: redeem_code_keys)
  let ?h = "hashRequest U sha req" and ?s = "StoredOne (as_stored r)"
  have new: "keys_grow db db' \<and> answered (rq_key req) ?h ?s db'"
    if "rq_key req \<noteq> []" "claim_key (rq_key req) ?h db = Inr (None, db1)" for db1
  proof -
    have "redeem_code U v req (NormalizeCode U (rq_code req)) (NormalizeUserKey U (rq_user req)) db1 = Inr (r, db')"
      using assms that by (simp add: redeem_tx_def Let_def)
    then have "db_keys db' = db_keys (SetIdempotencyResponse (rq_key req) ?s db1)"
      using that(1) by (auto simp: storeIdempotencyResponse_def dest: redeem_code_keys)
    then show ?thesis
      using claim_key_None [OF that(2), of ?s] by (simp add: keys_grow_def answered_def find_key_def)
  qed
  show "keys_grow db db'"
  proof (cases "rq_key req = []")
    case True
    then show ?thesis using keys_grow_same [OF plain] by blast
  next
    case False
    then consider db1 where "claim_key (rq_key req) ?h db = Inr (None, db1)"
      | s where "claim_key (rq_key req) ?h db = Inr (Some s, db')"
      using assms by (auto simp: redeem_tx_def Let_def split: sum.splits option.splits)
    then show ?thesis
    proof cases
      case 1
      then show ?thesis using new False by blast
    next
      case 2
      then show ?thesis by (auto simp: claim_key_def split: option.splits if_splits)
    qed
  qed
  show "answered (rq_key req) ?h ?s db'" if "rq_key req \<noteq> []" "find_key (rq_key req) db = None"
    using new [OF that(1)] that(2) by (simp add: claim_key_def)
qed

lemma Redeem_keys:
  assumes "Redeem U sha v req db = (res, db')"
  shows "keys_grow db db'" "rq_key req = [] \<Longrightarrow> db_keys db' = db_keys db"
proof -
  have "db' = db \<or> (\<exists>r. redeem_tx U sha v (trimmed req) db = Inr (r, db'))"
    using assms Redeem_not_accepted [of U req sha v db]
    by (cases "request_accepted U req") (auto simp: Redeem_accepted in_tx_def split: if_splits sum.splits)
  then show "keys_grow db db'" "rq_key req = [] \<Longrightarrow> db_keys db' = db_keys db"
    using redeem_tx_keys [of U sha v "trimmed req" db _ db'] by auto
qed

lemma batch_loop_keys: "db_keys (snd (batch_loop U sha user vs seen k codes db)) = db_keys db"
proof (induction codes arbitrary: seen k db)
  case (Cons c cs)
  have one: "db_keys db1 = db_keys db" if "Redeem U sha (vs k) (single user c) db = (res, db1)" for res db1
    using Redeem_keys(2) [OF that] by (simp add: single_def)
  have more: "db_keys d = db_keys db1" if "batch_loop U sha user vs seen' (Suc k) cs db1 = (x, d)" for seen' x d db1
    using Cons.IH [of seen' "Suc k" db1] that by simp
  show ?case
    by (auto split: option.split prod.split sum.split dest!: one more)
qed simp

lemma run_batch_keys: "run_batch U sha vs req db = (x, db') \<Longrightarrow> db_keys db' = db_keys db"
  using batch_loop_keys [of U sha "bq_user req" vs "[]" 0 "bq_codes req" db]
  by (auto simp: run_batch_def split: prod.splits sum.splits)

lemma batch_tx_keys: "keys_grow db (snd (batch_tx U sha vs f g req db))"
proof -
  let ?h = "hashBatchRequest U sha req" and ?k = "bq_key req"
  have set: "keys_grow db (SetIdempotencyResponse ?k s
        (if find_key ?k db' = None then CreateIdempotencyKey ?k ?h db' else db'))"
    if "claim_key ?k ?h db = Inr (None, db1)" "db_keys db' = db_keys db" for db1 db' s
  proof -
    have f: "find_key ?k db' = find_key ?k db" using that(2) by (simp add: find_key_def)
    have "claim_key ?k ?h db' = Inr (None, if find_key ?k db' = None then CreateIdempotencyKey ?k ?h db' else db')"
      using that(1) by (auto simp: claim_key_def f split: option.splits if_splits)
    from claim_key_None(1) [OF this] that(2) show ?thesis
      by (simp add: keys_grow_def answered_def find_key_def)
  qed
  have same: "keys_grow db db'" if "run_batch U sha vs req db = (x, db')" for x db'
    using run_batch_keys [OF that] by (rule keys_grow_same)
  have new: "find_key ?k d = None \<Longrightarrow> keys_grow db (SetIdempotencyResponse ?k s (CreateIdempotencyKey ?k ?h d))"
    "find_key ?k d \<noteq> None \<Longrightarrow> keys_grow db (SetIdempotencyResponse ?k s d)"
    if "claim_key ?k ?h db = Inr (None, db1)" "run_batch U sha vs req db = (x, d)" for db1 x d s
    using set [OF that(1) run_batch_keys [OF that(2)], of s] by (auto split: if_splits)
  show ?thesis
    unfolding batch_tx_def Let_def
    by (auto split: sum.split option.split prod.split dest: same new)
qed

lemma step_keys: "server_step U sha db db' \<Longrightarrow> keys_grow db db'"
proof (induction rule: server_step.induct)
  case (step_redeem db v req)
  then show ?case by (metis Redeem_keys(1) prod.collapse)
next
  case (step_batch db vs f g breq)
  then show ?case using batch_tx_keys by (simp add: BatchRedeem_def Let_def)
qed (auto simp: ToggleCodeStatus_def ToggleBatchStatus_def CreateBatch_def CreateCredential_def
    DeleteCredentialsByIDs_def Let_def intro!: keys_grow_same split: option.splits if_splits)

lemma steps_keys: "(server_step U sha)\<^sup>*\<^sup>* db db' \<Longrightarrow> keys_grow db db'"
  by (induction rule: rtranclp_induct) (auto dest: step_keys intro: keys_grow_trans)

text \<open>C5 (safety). Once a request with a new key has been answered, the key is
  settled: however many requests of any kind are served in between, the same
  request gets the stored answer and changes nothing, and another request with
  this key is refused as a conflict.\<close>

theorem keyed_request_answered_once:
  assumes "rq_key req \<noteq> []" "find_key (rq_key req) db = None"
    "Redeem U sha v req db = (Inr r, db1)" "rr_result r \<noteq> ResultInvalidInput"
    "(server_step U sha)\<^sup>*\<^sup>* db1 db2" "\<not> sv_fails w"
  shows "Redeem U sha w req db2 = (Inr (as_stored r), db2)
    \<and> (\<forall>other. rq_key other = rq_key req \<longrightarrow> request_accepted U other
         \<longrightarrow> hashRequest U sha (trimmed other) \<noteq> hashRequest U sha (trimmed req)
         \<longrightarrow> Redeem U sha w other db2 = (Inl ErrIdempotencyConflict, db2))"
proof -
  have acc: "request_accepted U req"
  proof (rule ccontr)
    assume "\<not> request_accepted U req"
    then obtain m where "r = failure ResultInvalidInput m"
      using assms(3) Redeem_not_accepted [of U req sha v db] by auto
    then show False using assms(4) by (simp add: failure_def)
  qed
  then have "redeem_tx U sha v (trimmed req) db = Inr (r, db1)"
    using assms(3) by (auto simp: Redeem_accepted in_tx_def split: if_splits sum.splits)
  from redeem_tx_keys(3) [OF this] assms(1,2)
  have "answered (rq_key req) (hashRequest U sha (trimmed req)) (StoredOne (as_stored r)) db1"
    by simp
  then have now: "answered (rq_key req) (hashRequest U sha (trimmed req)) (StoredOne (as_stored r)) db2"
    using steps_keys [OF assms(5)] by (simp add: keys_grow_def)
  then show ?thesis
    using acc assms(1,6)
    by (simp add: Redeem_accepted in_tx_def redeem_tx_def claim_key_def answered_def)
qed


text \<open>The sample code with a key, asked for twice.\<close>

lemma sample_keyed:
  "\<exists>r db1. Redeem sample_unicode id sample_env \<lparr>rq_user = js ''u'', rq_code = js ''aa-aa'', rq_key = js ''k''\<rparr> sample_db
     = (Inr r, db1) \<and> rr_result r = ResultSuccess"
proof -
  have user: "TrimSpace (js ''u'') = js ''u''" "TrimSpace (js ''k'') = js ''k''"
    by (simp_all add: TrimSpace_def go_is_space_def)
  show ?thesis
    by (simp add: Redeem_def Let_def sample_code [simplified] user [simplified] go_runes_def go_len_def blob_size_def
        validIdempotencyKey_def in_tx_def redeem_tx_def sample_env_def redeem_code_def GetCodeByCode_def
        claim_key_def find_key_def CreateIdempotencyKey_def
        sample_db_def sample_codes_def sample_batch_def empty_db_def checkCodeState_def redeem_success_def
        IncrementCodeUseCount_def CreateRedemption_def success_row_def success_response_def
        stringPtr_def newEventID_def)
qed

text \<open>C5: The sample code with a key gets the same answer again.\<close>

lemma keyed_request_answered_once_witness:
  "\<exists>r db1. Redeem sample_unicode id sample_env \<lparr>rq_user = js ''u'', rq_code = js ''aa-aa'', rq_key = js ''k''\<rparr> sample_db
       = (Inr r, db1) \<and> rr_result r = ResultSuccess
     \<and> Redeem sample_unicode id sample_env \<lparr>rq_user = js ''u'', rq_code = js ''aa-aa'', rq_key = js ''k''\<rparr> db1
       = (Inr (as_stored r), db1)"
proof -
  let ?q = "\<lparr>rq_user = js ''u'', rq_code = js ''aa-aa'', rq_key = js ''k''\<rparr>"
  obtain r db1 where r: "Redeem sample_unicode id sample_env ?q sample_db = (Inr r, db1)" "rr_result r = ResultSuccess"
    using sample_keyed by blast
  have "find_key (js ''k'') sample_db = None" by (simp add: find_key_def sample_db_def empty_db_def)
  then have "Redeem sample_unicode id sample_env ?q db1 = (Inr (as_stored r), db1)"
    using keyed_request_answered_once [OF _ _ r(1), of db1 sample_env] r(2)
    by (simp add: result_defs sample_env_def)
  then show ?thesis using r by blast
qed

end
