(* ===== verification/RedeemDecides.thy ===== *)
theory RedeemDecides
  imports RedeemBatch RedeemKeys
begin

text \<open>
  What a single redemption answers: a code is accepted exactly when its row, its
  batch and the stock of credentials allow it, and what the answer promises is
  what the data base holds afterwards.
\<close>

section \<open>The conditions\<close>

text \<open>A credential that can be handed out for a batch.\<close>

definition free_credential :: "service_env \<Rightarrow> batch_row \<Rightarrow> database \<Rightarrow> credential_row \<Rightarrow> bool" where
  "free_credential v b db d \<longleftrightarrow> d \<in> set (db_credentials db) \<and> \<not> cd_used d
     \<and> (case cd_expired d of None \<Rightarrow> True | Some t \<Rightarrow> t > sv_db_now v)
     \<and> (ba_plan b = [] \<or> cd_plan d = ba_plan b) \<and> cd_id d \<notin> set (sv_locked v)"

definition usable :: "service_env \<Rightarrow> database \<Rightarrow> code_row \<Rightarrow> batch_row \<Rightarrow> bool" where
  "usable v db c b \<longleftrightarrow> c \<in> set (db_codes db) \<and> b \<in> set (db_batches db) \<and> ba_id b = co_batch c
     \<and> co_status c = CodeUnused \<and> ba_status b = BatchActive
     \<and> (case ba_expires b of None \<Rightarrow> True | Some t \<Rightarrow> sv_now v \<le> t) \<and> co_use_count c < ba_max_uses b
     \<and> (ba_assign b \<longrightarrow> (\<exists>d \<in> set (db_credentials db). free_credential v b db d))"

text \<open>The random event identifier is not in use.\<close>

definition fresh_event :: "service_env \<Rightarrow> database \<Rightarrow> bool" where
  "fresh_event v db \<longleftrightarrow> sv_event v \<notin> fst ` set (db_outbox db)
     \<and> Some (sv_event v) \<notin> re_event ` set (db_redemptions db)"

section \<open>The queries find what there is\<close>

lemma GetCodeByCode_complete:
  assumes "ids_ok db" "c \<in> set (db_codes db)" "b \<in> set (db_batches db)" "ba_id b = co_batch c"
  shows "GetCodeByCode (co_code c) db = Some (c, b)"
proof -
  have "find (\<lambda>d. co_code d = co_code c) (db_codes db) = Some c"
    using assms(1,2) by (intro find_unique) (simp_all add: ids_ok_def)
  moreover have "distinct (map ba_id bs) \<Longrightarrow> b \<in> set bs \<Longrightarrow> find (\<lambda>x. ba_id x = ba_id b) bs = Some b" for bs
    by (induction bs) force+
  then have "find (\<lambda>x. ba_id x = co_batch c) (db_batches db) = Some b"
    using assms(1,3,4) by (simp add: ids_ok_def)
  ultimately show ?thesis by (simp add: GetCodeByCode_def)
qed

lemma GetUnusedCredential_least:
  "case GetUnusedCredential v (ba_plan b) db of
     None \<Rightarrow> \<forall>d. \<not> free_credential v b db d
   | Some d \<Rightarrow> free_credential v b db d \<and> (\<forall>e. free_credential v b db e \<longrightarrow> cd_id d \<le> cd_id e)"
proof -
  define xs where "xs = filter (\<lambda>c. \<not> cd_used c \<and> (case cd_expired c of None \<Rightarrow> True | Some t \<Rightarrow> t > sv_db_now v)
          \<and> (ba_plan b = [] \<or> cd_plan c = ba_plan b) \<and> cd_id c \<notin> set (sv_locked v)) (db_credentials db)"
  have get: "GetUnusedCredential v (ba_plan b) db = (case sort_key cd_id xs of [] \<Rightarrow> None | c # _ \<Rightarrow> Some c)"
    by (simp add: GetUnusedCredential_def xs_def)
  have free: "free_credential v b db d \<longleftrightarrow> d \<in> set (sort_key cd_id xs)" for d
    by (auto simp: free_credential_def xs_def)
  have "sorted (map cd_id (sort_key cd_id xs))" by simp
  then show ?thesis
    unfolding get free by (cases "sort_key cd_id xs") (auto simp del: sorted_sort_key)
qed

lemma recordFailure_returns:
  assumes "rq_key req = []"
  shows "\<exists>row db'. recordFailure req code key ci bi resp db = Inr (resp, db')
    \<and> db_batches db' = db_batches db \<and> db_codes db' = db_codes db \<and> db_credentials db' = db_credentials db
    \<and> db_redemptions db' = db_redemptions db @ [row] \<and> re_result row = rr_result resp
    \<and> re_code_text row = code \<and> re_user row = rq_user req"
  using assms by (simp add: recordFailure_def CreateRedemption_def storeIdempotencyResponse_def)

lemma redeem_success_returns:
  assumes "rq_key req = []" "c \<in> set (db_codes db)" "co_status c = CodeUnused" "co_use_count c < ba_max_uses b"
    "fresh_event v db"
  shows "\<exists>db'. redeem_success U v req code key c b cd db = Inr (success_response U v req code b cd, db')"
proof -
  have "list_ex (\<lambda>x. co_id x = co_id c \<and> co_status x = CodeUnused \<and> co_use_count x < ba_max_uses b) (db_codes db)"
    using assms(2-4) by (auto simp: list_ex_iff)
  then have "\<exists>cs. IncrementCodeUseCount (co_id c) (ba_max_uses b) db = Some (db\<lparr>db_codes := cs\<rparr>)"
    unfolding IncrementCodeUseCount_def Let_def by (simp only: if_True) blast
  then obtain db1 where db1: "IncrementCodeUseCount (co_id c) (ba_max_uses b) db = Some db1"
      "db_outbox db1 = db_outbox db" "db_redemptions db1 = db_redemptions db"
    by fastforce
  have event: "re_event (success_row v req code key c b) \<in> {None, Some (sv_event v)}"
    by (simp add: success_row_def Let_def stringPtr_def newEventID_def)
  then obtain rid db2 where db2: "CreateRedemption (success_row v req code key c b) db1 = Some (rid, db2)"
      "db_outbox db2 = db_outbox db"
    using assms(5) db1(2,3) by (auto simp: CreateRedemption_def fresh_event_def)
  then have "CreateWebhookOutboxEvent (sv_event v) rid db2 \<noteq> None"
    using assms(5) by (simp add: CreateWebhookOutboxEvent_def fresh_event_def)
  then show ?thesis
    using assms(1) by (auto simp: redeem_success_def Let_def db1(1) db2(1) storeIdempotencyResponse_def
        split: option.split)
qed

section \<open>The decision\<close>

definition turned_down :: "gostr \<Rightarrow> RedeemResponse \<Rightarrow> database \<Rightarrow> database \<Rightarrow> bool" where
  "turned_down code r db db' \<longleftrightarrow> \<not> rr_ok r
     \<and> db_batches db' = db_batches db \<and> db_codes db' = db_codes db \<and> db_credentials db' = db_credentials db
     \<and> (\<exists>row. db_redemptions db' = db_redemptions db @ [row] \<and> re_result row = rr_result r
          \<and> re_result row \<noteq> ResultSuccess \<and> re_code_text row = code)"

definition granted :: "go_unicode \<Rightarrow> service_env \<Rightarrow> gostr \<Rightarrow> RedeemResponse \<Rightarrow> database \<Rightarrow> database \<Rightarrow> bool" where
  "granted U v code r db db' \<longleftrightarrow> rr_ok r
     \<and> (\<exists>c b cd. usable v db c b \<and> co_code c = code \<and> consumed c b cd db db'
          \<and> rr_code r = DisplayCode U code (ba_prefix b) \<and> rr_payload r = Some (ba_payload b)
          \<and> rr_credential r = map_option cd_data cd
          \<and> (\<forall>d. cd = Some d \<longrightarrow> free_credential v b db d
               \<and> (\<forall>e. free_credential v b db e \<longrightarrow> cd_id d \<le> cd_id e)))"

lemma grantedI:
  assumes "usable v db c b" "co_code c = code" "consumed c b cd db db'"
    "\<And>d. cd = Some d \<Longrightarrow> free_credential v b db d \<and> (\<forall>e. free_credential v b db e \<longrightarrow> cd_id d \<le> cd_id e)"
  shows "granted U v code (success_response U v req code b cd) db db'"
  unfolding granted_def using assms
  by (intro conjI exI [of _ c] exI [of _ b] exI [of _ cd]) (simp_all add: success_response_def Let_def)

lemma refused:
  assumes "recordFailure req code key ci bi resp db = Inr (r, db')" "rq_key req = []"
    "rr_result resp \<noteq> ResultSuccess" "\<not> rr_ok resp"
  shows "turned_down code r db db'"
  using recordFailure_returns [OF assms(2), of code key ci bi resp db] assms(1,3,4) by (auto simp: turned_down_def)

lemma failure_refuses: "rr_result (failure ResultInvalidCode m) \<noteq> ResultSuccess"
  "rr_result (failure ResultCredentialUnavailable m) \<noteq> ResultSuccess"
  by (simp_all add: failure_def result_defs)

lemma redeem_code_known:
  assumes "rq_key req = []" "fresh_event v db" "GetCodeByCode code db = Some (c, b)"
  shows "\<exists>r db'. redeem_code U v req code key db = Inr (r, db')
    \<and> (if usable v db c b then granted U v code r db db' else turned_down code r db db')"
proof -
  note found = GetCodeByCode_Some [OF assms(3)]
  let ?refuse = "recordFailure req code key (Some (co_id c)) (Some (co_batch c))"
  let ?none = "failure ResultCredentialUnavailable msg_rs_no_credential"
  have stop: "\<exists>r db'. ?refuse f db = Inr (r, db') \<and> turned_down code r db db'"
    if "rr_result f \<noteq> ResultSuccess" "\<not> rr_ok f" for f
    using recordFailure_returns [OF assms(1), of code key "Some (co_id c)" "Some (co_batch c)" f db] refused [OF _ assms(1) that]
    by blast
  show ?thesis
  proof (cases "checkCodeState v c b")
    case (Some f)
    then have "\<not> usable v db c b"
      by (auto simp: checkCodeState_def usable_def split: if_splits option.splits)
    then show ?thesis
      using stop [of f] checkCodeState_Some [OF Some] by (simp add: redeem_code_def assms(3) Some)
  next
    case None
    note fine = checkCodeState_None [OF None]
    have go: "\<exists>r db'. redeem_success U v req code key c b cd db = Inr (r, db') \<and> granted U v code r db db'"
      if cd: "case cd of None \<Rightarrow> \<not> ba_assign b
        | Some d \<Rightarrow> ba_assign b \<and> free_credential v b db d \<and> (\<forall>e. free_credential v b db e \<longrightarrow> cd_id d \<le> cd_id e)" for cd
    proof -
      obtain db' where run: "redeem_success U v req code key c b cd db = Inr (success_response U v req code b cd, db')"
        using redeem_success_returns [OF assms(1) _ _ _ assms(2)] found fine by blast
      have "consumed c b cd db db'"
        using redeem_success_consumed [OF run] found fine cd
        by (auto simp: free_credential_def split: option.splits)
      moreover have "usable v db c b"
        using found fine cd by (auto simp: usable_def free_credential_def split: option.splits)
      ultimately have "granted U v code (success_response U v req code b cd) db db'"
        using found cd by (intro grantedI) (auto split: option.splits)
      then show ?thesis using run by blast
    qed
    show ?thesis
    proof (cases "ba_assign b")
      case False
      then have "usable v db c b" using found fine by (simp add: usable_def)
      then show ?thesis using go [of None] False None by (simp add: redeem_code_def assms(3))
    next
      case True
      show ?thesis
      proof (cases "GetUnusedCredential v (ba_plan b) db")
        case none: None
        then have "\<not> usable v db c b"
          using GetUnusedCredential_least [of v b db] True by (auto simp: usable_def)
        then show ?thesis
          using stop [of ?none] None True none failure_refuses(2) by (simp add: redeem_code_def assms(3))
      next
        case (Some d)
        then have d: "free_credential v b db d" "\<forall>e. free_credential v b db e \<longrightarrow> cd_id d \<le> cd_id e"
          using GetUnusedCredential_least [of v b db] by simp_all
        then have "usable v db c b" using found fine by (auto simp: usable_def free_credential_def)
        then show ?thesis
          using go [of "Some d"] d True None Some by (simp add: redeem_code_def assms(3))
      qed
    qed
  qed
qed

lemma redeem_code_decides:
  assumes "rq_key req = []" "fresh_event v db" "ids_ok db"
  shows "\<exists>r db'. redeem_code U v req code key db = Inr (r, db')
    \<and> (if \<exists>c b. usable v db c b \<and> co_code c = code then granted U v code r db db' else turned_down code r db db')"
proof (cases "GetCodeByCode code db")
  case None
  let ?f = "failure ResultInvalidCode msg_rs_invalid_code"
  have "\<not> (usable v db c b \<and> co_code c = code)" for c b
    using GetCodeByCode_complete [OF assms(3), of c b] None by (auto simp: usable_def)
  then have no: "\<not> (\<exists>c b. usable v db c b \<and> co_code c = code)" by blast
  have "\<exists>r db'. recordFailure req code key None None ?f db = Inr (r, db') \<and> turned_down code r db db'"
    using recordFailure_returns [OF assms(1), of code key None None ?f db]
      refused [OF _ assms(1) failure_refuses(1) failure_not_ok] by blast
  then show ?thesis by (simp only: redeem_code_def None option.case no if_False)
next
  case (Some p)
  then obtain c b where cb: "GetCodeByCode code db = Some (c, b)" by (cases p) simp
  have "usable v db c' b' \<and> co_code c' = code \<Longrightarrow> c' = c \<and> b' = b" for c' b'
    using GetCodeByCode_complete [OF assms(3), of c' b'] cb by (auto simp: usable_def)
  then have "(\<exists>c' b'. usable v db c' b' \<and> co_code c' = code) \<longleftrightarrow> usable v db c b"
    using GetCodeByCode_Some [OF cb] by blast
  then show ?thesis using redeem_code_known [OF assms(1,2) cb] by simp
qed

text \<open>C3 (functional). A single request that passes the checks of its fields is answered
  with success exactly when its code exists, is not disabled or used up, its
  batch is active and not expired, and a credential is in stock if the batch
  hands one out. Success means: the code is used once more and no other code is,
  the shown code reads back as the code, and the credential in the answer was
  free, is the oldest such one and is marked as used. Every other answer changes
  nothing but the log, which gets one row with its result; a failing data base
  changes nothing at all.\<close>

theorem redeem_decides:
  assumes "request_accepted U req" "rq_key req = []" "db_ok db" "fresh_event v db"
  shows "if sv_fails v then Redeem U sha v req db = (Inl ErrOther, db)
    else \<exists>r db'. Redeem U sha v req db = (Inr r, db')
      \<and> (rr_ok r \<longleftrightarrow> (\<exists>c b. usable v db c b \<and> co_code c = NormalizeCode U (rq_code req)))
      \<and> (rr_ok r \<longrightarrow> NormalizeCode U (rr_code r) = NormalizeCode U (rq_code req)
          \<and> (\<forall>x. use_of x db' = use_of x db + (if x = NormalizeCode U (rq_code req) then 1 else 0))
          \<and> (\<forall>j. rr_credential r = Some j \<longrightarrow> (\<exists>b d. free_credential v b db d \<and> cd_data d = j
               \<and> (\<forall>e. free_credential v b db e \<longrightarrow> cd_id d \<le> cd_id e)
               \<and> d\<lparr>cd_used := True, cd_redemption := Some (db_next db)\<rparr> \<in> set (db_credentials db'))))
      \<and> (\<not> rr_ok r \<longrightarrow> turned_down (NormalizeCode U (rq_code req)) r db db')"
proof (cases "sv_fails v")
  case True
  then show ?thesis using Redeem_accepted [OF assms(1)] by (simp add: in_tx_def)
next
  case False
  let ?code = "NormalizeCode U (rq_code req)"
  have ids: "ids_ok db" using assms(3) by (simp add: db_ok_def)
  have "rq_key (trimmed req) = []" using assms(2) by simp
  from redeem_code_decides [OF this assms(4) ids, of U ?code "NormalizeUserKey U (rq_user (trimmed req))"]
  obtain r db' where run: "redeem_code U v (trimmed req) ?code (NormalizeUserKey U (rq_user (trimmed req))) db = Inr (r, db')"
    and decided: "if \<exists>c b. usable v db c b \<and> co_code c = ?code then granted U v ?code r db db' else turned_down ?code r db db'"
    by blast
  have redeem: "Redeem U sha v req db = (Inr r, db')"
    using run assms(2) False by (simp add: Redeem_accepted [OF assms(1)] in_tx_def redeem_tx_def Let_def)
  show ?thesis
  proof (cases "\<exists>c b. usable v db c b \<and> co_code c = ?code")
    case True
    then have g: "granted U v ?code r db db'" using decided by simp
    then obtain c b cd where c: "usable v db c b" "co_code c = ?code" "consumed c b cd db db'"
        "rr_code r = DisplayCode U ?code (ba_prefix b)" "rr_credential r = map_option cd_data cd"
        "\<forall>d. cd = Some d \<longrightarrow> free_credential v b db d \<and> (\<forall>e. free_credential v b db e \<longrightarrow> cd_id d \<le> cd_id e)"
      unfolding granted_def by blast
    have ok: "rr_ok r" using g by (simp add: granted_def)
    have "clean_code ?code" using ids c(1,2) by (metis ids_ok_def usable_def)
    then have "NormalizeCode U (rr_code r) = ?code"
      unfolding c(4) by (simp add: NormalizeCode_normalizeCdk normalize_display)
    moreover have "use_of x db' = use_of x db + (if x = ?code then 1 else 0)" for x
      using consumed_use_of [OF c(3) ids, of x] by (simp add: c(2))
    moreover have "\<exists>b d. free_credential v b db d \<and> cd_data d = j
        \<and> (\<forall>e. free_credential v b db e \<longrightarrow> cd_id d \<le> cd_id e)
        \<and> d\<lparr>cd_used := True, cd_redemption := Some (db_next db)\<rparr> \<in> set (db_credentials db')"
      if j: "rr_credential r = Some j" for j
    proof -
      obtain d where d: "cd = Some d" "cd_data d = j" using j c(5) by auto
      have "d \<in> set (db_credentials db)" using c(6) d(1) by (simp add: free_credential_def)
      then have "d\<lparr>cd_used := True, cd_redemption := Some (db_next db)\<rparr> \<in> set (db_credentials db')"
        using c(3) by (force simp: consumed_def d(1))
      then show ?thesis using c(6) d by blast
    qed
    ultimately show ?thesis using redeem False True ok by auto
  next
    case none: False
    then have t: "turned_down ?code r db db'" using decided by simp
    then show ?thesis using redeem False none by (auto simp: turned_down_def)
  qed
qed

text \<open>C3: The sample code, spelled in lower case with a dash.\<close>

lemma redeem_decides_witness:
  "\<exists>r db'. Redeem sample_unicode id sample_env (single (js ''u'') (js ''aa-aa'')) sample_db = (Inr r, db')
     \<and> rr_ok r \<and> use_of (js ''AAAA'') db' = 1"
proof -
  let ?q = "single (js ''u'') (js ''aa-aa'')"
  have u: "TrimSpace (js ''u'') = js ''u''" by (simp add: TrimSpace_def go_is_space_def)
  note code = sample_code [of sample_unicode]
  have acc: "request_accepted sample_unicode ?q"
    unfolding request_accepted_def single_def RedeemRequest.simps u code
    by (simp add: go_runes_def go_len_def blob_size_def validIdempotencyKey_def)
  have f: "fresh_event sample_env sample_db"
    by (simp add: fresh_event_def sample_db_def empty_db_def)
  have "usable sample_env sample_db (sample_codes ! 0) (sample_batch\<lparr>ba_id := 1\<rparr>)"
    by (simp add: usable_def sample_db_def sample_codes_def sample_batch_def)
  moreover have "co_code (sample_codes ! 0) = NormalizeCode sample_unicode (rq_code ?q)"
    unfolding single_def RedeemRequest.simps code by (simp add: sample_codes_def)
  moreover have "\<not> sv_fails sample_env" "rq_key ?q = []" by (simp_all add: sample_env_def single_def)
  moreover have "use_of (js ''AAAA'') sample_db = 0"
    by (simp add: use_of_def sample_db_def sample_codes_def)
  ultimately show ?thesis
    using redeem_decides [OF acc _ sample_db_ok f, of id] code unfolding single_def RedeemRequest.simps
    by (metis add_0)
qed


end
