(* ===== verification/RedeemHandler.thy ===== *)
theory RedeemHandler
  imports RedeemBatch
begin

text \<open>
  The public handlers internal/httpapi/redeem.go: reading the body, the limits on
  requests, the status of the answer and its JSON. \<open>allow\<close> is the rate limiter:
  whether the key may make one more request.
\<close>

section \<open>Answers\<close>

record http_answer =
  ha_status :: int
  ha_body :: json

definition RespondError :: "int \<Rightarrow> gostr \<Rightarrow> gostr list \<Rightarrow> http_answer" where
  "RespondError status message errors =
     \<lparr>ha_status = status,
      ha_body = JObj ([(js ''ok'', JBool False), (js ''message'', JStr message)]
        @ (if errors = [] then [] else [(js ''errors'', JArr (map JStr errors))]))\<rparr>"

text \<open>Fields with \<^verbatim>\<open>omitempty\<close>.\<close>

definition opt_string :: "string \<Rightarrow> gostr \<Rightarrow> (jstr \<times> json) list" where
  "opt_string key s = (if s = [] then [] else [(js key, JStr s)])"

definition opt_json :: "string \<Rightarrow> json option \<Rightarrow> (jstr \<times> json) list" where
  "opt_json key v = (case v of None \<Rightarrow> [] | Some j \<Rightarrow> [(js key, j)])"

definition redeem_json :: "RedeemResponse \<Rightarrow> json" where
  "redeem_json r = JObj
     ([(js ''ok'', JBool (rr_ok r)), (js ''result'', JStr (rr_result r)), (js ''message'', JStr (rr_message r))]
      @ opt_string ''batch'' (rr_batch r) @ opt_string ''code'' (rr_code r) @ opt_string ''user_id'' (rr_user r)
      @ opt_json ''payload'' (rr_payload r) @ opt_json ''credential'' (rr_credential r)
      @ opt_string ''redeemed_at'' (rr_redeemed_at r))"

definition item_json :: "BatchRedeemItem \<Rightarrow> json" where
  "item_json i = JObj
     ([(js ''code'', JStr (it_code i)), (js ''ok'', JBool (it_ok i)), (js ''result'', JStr (it_result i)),
       (js ''message'', JStr (it_message i))]
      @ opt_json ''redemption'' (map_option redeem_json (it_redemption i)))"

definition batch_answer_json :: "BatchRedeemResponse \<Rightarrow> json" where
  "batch_answer_json b = JObj
     ([(js ''ok'', JBool (bp_ok b))] @ opt_string ''message'' (bp_message b)
      @ [(js ''total'', jint (int (bp_total b))), (js ''succeeded'', jint (int (bp_succeeded b))),
         (js ''failed'', jint (int (bp_failed b)))]
      @ (if bp_results b = [] then [] else [(js ''results'', JArr (map item_json (bp_results b)))]))"

section \<open>Reading the body\<close>

text \<open>At most 64 KiB, one JSON value and nothing after it.\<close>

definition read_body :: "body \<Rightarrow> json option" where
  "read_body b = (case b of
     TextBody t \<Rightarrow> if 65536 < blob_size t then None else JSON_parse t
   | _ \<Rightarrow> None)"

text \<open>
  Field names are compared without case; unknown fields are refused; null leaves a
  field alone. (Of a name the body repeats the model reads the last value.)
\<close>

definition fold_name :: "go_unicode \<Rightarrow> gostr \<Rightarrow> nat list" where
  "fold_name U s = map (\<lambda>p. if p < 128 then unat (upper_cu (of_nat p)) else gu_fold U p) (code_points s)"

definition is_field :: "go_unicode \<Rightarrow> string \<Rightarrow> jstr \<Rightarrow> bool" where
  "is_field U name key \<longleftrightarrow> fold_name U (json_string key) = fold_name U (js name)"

fun decode_string :: "gostr \<Rightarrow> json \<Rightarrow> gostr option" where
  "decode_string old (JStr s) = Some (json_string s)"
| "decode_string old JNull = Some old"
| "decode_string old _ = None"

fun decode_strings :: "json list \<Rightarrow> gostr list option" where
  "decode_strings [] = Some []"
| "decode_strings (v # vs) =
     Option.bind (decode_string [] v) (\<lambda>s. map_option (\<lambda>ss. s # ss) (decode_strings vs))"

fun decode_redeem :: "go_unicode \<Rightarrow> (jstr \<times> json) list \<Rightarrow> RedeemRequest \<Rightarrow> RedeemRequest option" where
  "decode_redeem U [] req = Some req"
| "decode_redeem U ((key, v) # rest) req =
     (if is_field U ''user_id'' key
      then Option.bind (decode_string (rq_user req) v) (\<lambda>s. decode_redeem U rest (req\<lparr>rq_user := s\<rparr>))
      else if is_field U ''code'' key
      then Option.bind (decode_string (rq_code req) v) (\<lambda>s. decode_redeem U rest (req\<lparr>rq_code := s\<rparr>))
      else None)"

fun decode_batch :: "go_unicode \<Rightarrow> (jstr \<times> json) list \<Rightarrow> BatchRedeemRequest \<Rightarrow> BatchRedeemRequest option" where
  "decode_batch U [] req = Some req"
| "decode_batch U ((key, v) # rest) req =
     (if is_field U ''user_id'' key
      then Option.bind (decode_string (bq_user req) v) (\<lambda>s. decode_batch U rest (req\<lparr>bq_user := s\<rparr>))
      else if is_field U ''codes'' key
      then (case v of
              JArr vs \<Rightarrow> Option.bind (decode_strings vs) (\<lambda>cs. decode_batch U rest (req\<lparr>bq_codes := cs\<rparr>))
            | JNull \<Rightarrow> decode_batch U rest (req\<lparr>bq_codes := []\<rparr>)
            | _ \<Rightarrow> None)
      else None)"

definition read_redeem :: "go_unicode \<Rightarrow> body \<Rightarrow> RedeemRequest option" where
  "read_redeem U b = (case read_body b of
     Some (JObj kvs) \<Rightarrow> decode_redeem U kvs (single [] [])
   | Some JNull \<Rightarrow> Some (single [] [])
   | _ \<Rightarrow> None)"

definition read_batch_request :: "go_unicode \<Rightarrow> body \<Rightarrow> BatchRedeemRequest option" where
  "read_batch_request U b = (case read_body b of
     Some (JObj kvs) \<Rightarrow> decode_batch U kvs (sent_batch [] [])
   | Some JNull \<Rightarrow> Some (sent_batch [] [])
   | _ \<Rightarrow> None)"

definition header :: "string \<Rightarrow> http_request \<Rightarrow> gostr" where
  "header name req =
     (case find (\<lambda>(k, v). js_toLowerCase k = js_toLowerCase (js name)) (hr_headers req) of
        None \<Rightarrow> [] | Some (k, v) \<Rightarrow> v)"

section \<open>The handlers\<close>

definition caller :: "gostr \<Rightarrow> gostr" where
  "caller ip = (if ip = [] then js ''unknown'' else ip)"

definition redeem_status :: "RedeemResponse \<Rightarrow> int" where
  "redeem_status r = (if rr_ok r then 200 else if rr_result r = ResultRateLimited then 429 else 400)"

definition handle_redeem :: "go_unicode \<Rightarrow> (gostr \<Rightarrow> gostr) \<Rightarrow> (gostr \<Rightarrow> bool) \<Rightarrow> service_env \<Rightarrow> gostr
    \<Rightarrow> http_request \<Rightarrow> database \<Rightarrow> http_answer \<times> database" where
  "handle_redeem U sha allow v ip r db =
     (case read_redeem U (hr_body r) of
        None \<Rightarrow> (RespondError 400 msg_rh_bad_request [], db)
      | Some req0 \<Rightarrow>
          let req = req0\<lparr>rq_key := header ''Idempotency-Key'' r\<rparr> in
          if \<not> allow (js ''redeem:ip:'' @ caller ip) then (RespondError 429 msg_rh_too_many [], db)
          else if rq_user req \<noteq> [] \<and> \<not> allow (js ''redeem:user:'' @ NormalizeUserKey U (rq_user req))
            then (RespondError 429 msg_rh_too_many [], db)
          else (case Redeem U sha v req db of
                  (Inl ErrIdempotencyConflict, db') \<Rightarrow> (RespondError 409 msg_rh_key_conflict [], db')
                | (Inl ErrOther, db') \<Rightarrow> (RespondError 500 msg_rh_redeem_failed [], db')
                | (Inr resp, db') \<Rightarrow> (\<lparr>ha_status = redeem_status resp, ha_body = redeem_json resp\<rparr>, db')))"

definition handle_batch :: "go_unicode \<Rightarrow> (gostr \<Rightarrow> gostr) \<Rightarrow> (gostr \<Rightarrow> bool) \<Rightarrow> (nat \<Rightarrow> service_env) \<Rightarrow> bool \<Rightarrow> bool
    \<Rightarrow> gostr \<Rightarrow> http_request \<Rightarrow> database \<Rightarrow> http_answer \<times> database" where
  "handle_batch U sha allow vs f g ip r db =
     (case read_batch_request U (hr_body r) of
        None \<Rightarrow> (RespondError 400 msg_rh_bad_request [], db)
      | Some req0 \<Rightarrow>
          let req = req0\<lparr>bq_key := header ''Idempotency-Key'' r\<rparr> in
          if bq_codes req = [] then (RespondError 400 msg_rh_need_code [], db)
          else if \<not> allow (js ''redeem:batch:ip:'' @ caller ip) then (RespondError 429 msg_rh_too_many [], db)
          else if bq_user req \<noteq> [] \<and> \<not> allow (js ''redeem:batch:user:'' @ NormalizeUserKey U (bq_user req))
            then (RespondError 429 msg_rh_too_many [], db)
          else (case BatchRedeem U sha vs f g req db of
                  (Inl ErrIdempotencyConflict, db') \<Rightarrow> (RespondError 409 msg_rh_key_conflict [], db')
                | (Inl ErrOther, db') \<Rightarrow> (RespondError 500 msg_rh_batch_failed [], db')
                | (Inr resp, db') \<Rightarrow>
                    (\<lparr>ha_status = (if bp_ok resp then 200 else 400), ha_body = batch_answer_json resp\<rparr>, db')))"

end
