(* ===== verification/AdminServer.thy ===== *)
theory AdminServer
  imports RedeemHandler "HOL-Library.Monad_Syntax"
begin

text \<open>
  The handler that creates a batch, \<^verbatim>\<open>CreateBatch\<close> of internal/httpapi/admin.go: how the
  body is read, its validation, the expiry in RFC 3339, the stock of credentials
  and the call of internal/batch/batch.go. \<open>valid_url\<close> is \<^verbatim>\<open>webhook.ValidateURL\<close>, which
  asks the name service; \<open>detail\<close> is the text of a decoding error. Time is in
  nanoseconds since 1970. The secret of the webhook is not a column of the model's
  table, so the one the handler draws for an empty secret is left out.
\<close>

section \<open>RFC 3339\<close>

text \<open>\<^verbatim>\<open>getnum\<close> of the package \<^verbatim>\<open>time\<close>: two digits, or one where the layout allows it.\<close>

fun getnum :: "bool \<Rightarrow> gostr \<Rightarrow> (nat \<times> gostr) option" where
  "getnum fixed (a # b # s) =
     (if \<not> is_digit a then None
      else if is_digit b then Some (10 * digit_val a + digit_val b, s)
      else if fixed then None else Some (digit_val a, b # s))"
| "getnum fixed [a] = (if is_digit a \<and> \<not> fixed then Some (digit_val a, []) else None)"
| "getnum fixed [] = None"

fun skip :: "cu \<Rightarrow> gostr \<Rightarrow> gostr option" where
  "skip c (x # s) = (if x = c then Some s else None)"
| "skip c [] = None"

definition check :: "bool \<Rightarrow> unit option" where
  "check b = (if b then Some () else None)"

definition parse_year :: "gostr \<Rightarrow> (nat \<times> gostr) option" where
  "parse_year s = (if 4 \<le> length s \<and> list_all is_digit (take 4 s)
     then Some (digits_val (take 4 s), drop 4 s) else None)"

text \<open>A fraction may follow the seconds although the layout has none.\<close>

definition parse_fraction :: "gostr \<Rightarrow> nat \<times> gostr" where
  "parse_fraction s = (case s of
     p # d # _ \<Rightarrow>
       if (p = 46 \<or> p = 44) \<and> is_digit d
       then (let ds = takeWhile is_digit (tl s); used = take 9 ds in
             (digits_val used * 10 ^ (9 - length used), drop (length ds) (tl s)))
       else (0, s)
   | _ \<Rightarrow> (0, s))"

text \<open>The offset in seconds and what is left.\<close>

definition parse_zone :: "gostr \<Rightarrow> (int \<times> gostr) option" where
  "parse_zone s =
     (if s \<noteq> [] \<and> hd s = 90 then Some (0, tl s)
      else if length s < 6 \<or> s ! 3 \<noteq> 58 then None
      else do {
        (hr, _) \<leftarrow> getnum True (take 2 (drop 1 s));
        (mm, _) \<leftarrow> getnum True (take 2 (drop 4 s));
        check (hr \<le> 24 \<and> mm \<le> 60);
        (if hd s = 43 then Some (int ((hr * 60 + mm) * 60), drop 6 s)
         else if hd s = 45 then Some (- int ((hr * 60 + mm) * 60), drop 6 s)
         else None)
      })"

definition is_leap :: "nat \<Rightarrow> bool" where
  "is_leap y \<longleftrightarrow> y mod 4 = 0 \<and> (y mod 100 \<noteq> 0 \<or> y mod 400 = 0)"

definition daysIn :: "nat \<Rightarrow> nat \<Rightarrow> nat" where
  "daysIn m y = (if m = 2 then (if is_leap y then 29 else 28) else if m \<in> {4, 6, 9, 11} then 30 else 31)"

text \<open>Days since 1 January 1970; \<open>int y - 1\<close> whole years lie before the year \<open>y\<close>.\<close>

definition day_number :: "nat \<Rightarrow> nat \<Rightarrow> nat \<Rightarrow> int" where
  "day_number y m d = (let p = int y - 1 in
     365 * p + p div 4 - p div 100 + p div 400 + int (sum_list (map (\<lambda>k. daysIn k y) [1..<m])) + int d - 1 - 719162)"

definition parse_rfc3339 :: "gostr \<Rightarrow> int option" where
  "parse_rfc3339 s0 = do {
     (y, s1) \<leftarrow> parse_year s0;
     s2 \<leftarrow> skip 45 s1;
     (mo, s3) \<leftarrow> getnum True s2;
     check (1 \<le> mo \<and> mo \<le> 12);
     s4 \<leftarrow> skip 45 s3;
     (d, s5) \<leftarrow> getnum True s4;
     s6 \<leftarrow> skip 84 s5;
     (h, s7) \<leftarrow> getnum False s6;
     check (h < 24);
     s8 \<leftarrow> skip 58 s7;
     (mi, s9) \<leftarrow> getnum True s8;
     check (mi < 60);
     s10 \<leftarrow> skip 58 s9;
     (sec, s11) \<leftarrow> getnum True s10;
     check (sec < 60);
     (nanos, s12) \<leftarrow> Some (parse_fraction s11);
     (offset, s13) \<leftarrow> parse_zone s12;
     check (s13 = [] \<and> 1 \<le> d \<and> d \<le> daysIn mo y);
     Some ((day_number y mo d * 86400 + int (h * 3600 + mi * 60 + sec) - offset) * 1000000000 + int nanos)
   }"

section \<open>The request\<close>

record CreateBatchBody =
  cb_name :: gostr
  cb_description :: gostr
  cb_payload :: gostr
  cb_prefix :: gostr
  cb_code_length :: int
  cb_count :: int
  cb_max_uses :: int
  cb_max_redeems :: int
  cb_expires :: "gostr option"
  cb_webhook_url :: gostr
  cb_webhook_secret :: gostr
  cb_assign :: bool
  cb_plan :: gostr

definition empty_body :: CreateBatchBody where
  "empty_body = \<lparr>cb_name = [], cb_description = [], cb_payload = [], cb_prefix = [], cb_code_length = 0,
     cb_count = 0, cb_max_uses = 0, cb_max_redeems = 0, cb_expires = None, cb_webhook_url = [],
     cb_webhook_secret = [], cb_assign = False, cb_plan = []\<rparr>"

text \<open>A number that is a whole one of 32 bits; the client prints such a number without an exponent.\<close>

fun decode_int32 :: "int \<Rightarrow> json \<Rightarrow> int option" where
  "decode_int32 old (JNum m e) =
     (if 0 \<le> e \<and> - 2147483648 \<le> m * 10 ^ nat e \<and> m * 10 ^ nat e \<le> 2147483647
      then Some (m * 10 ^ nat e) else None)"
| "decode_int32 old JNull = Some old"
| "decode_int32 old _ = None"

fun decode_bool :: "bool \<Rightarrow> json \<Rightarrow> bool option" where
  "decode_bool old (JBool b) = Some b"
| "decode_bool old JNull = Some old"
| "decode_bool old _ = None"

fun decode_pointer :: "json \<Rightarrow> gostr option option" where
  "decode_pointer (JStr s) = Some (Some (json_string s))"
| "decode_pointer JNull = Some None"
| "decode_pointer _ = None"

definition create_field :: "go_unicode \<Rightarrow> jstr \<Rightarrow> json \<Rightarrow> CreateBatchBody \<Rightarrow> CreateBatchBody option" where
  "create_field U key v req =
     (if is_field U ''name'' key then map_option (\<lambda>x. req\<lparr>cb_name := x\<rparr>) (decode_string (cb_name req) v)
      else if is_field U ''description'' key
      then map_option (\<lambda>x. req\<lparr>cb_description := x\<rparr>) (decode_string (cb_description req) v)
      else if is_field U ''payload_json'' key
      then map_option (\<lambda>x. req\<lparr>cb_payload := x\<rparr>) (decode_string (cb_payload req) v)
      else if is_field U ''prefix'' key
      then map_option (\<lambda>x. req\<lparr>cb_prefix := x\<rparr>) (decode_string (cb_prefix req) v)
      else if is_field U ''code_length'' key
      then map_option (\<lambda>x. req\<lparr>cb_code_length := x\<rparr>) (decode_int32 (cb_code_length req) v)
      else if is_field U ''count'' key
      then map_option (\<lambda>x. req\<lparr>cb_count := x\<rparr>) (decode_int32 (cb_count req) v)
      else if is_field U ''max_uses_per_code'' key
      then map_option (\<lambda>x. req\<lparr>cb_max_uses := x\<rparr>) (decode_int32 (cb_max_uses req) v)
      else if is_field U ''max_redeems_per_user'' key
      then map_option (\<lambda>x. req\<lparr>cb_max_redeems := x\<rparr>) (decode_int32 (cb_max_redeems req) v)
      else if is_field U ''expires_at'' key
      then map_option (\<lambda>x. req\<lparr>cb_expires := x\<rparr>) (decode_pointer v)
      else if is_field U ''webhook_url'' key
      then map_option (\<lambda>x. req\<lparr>cb_webhook_url := x\<rparr>) (decode_string (cb_webhook_url req) v)
      else if is_field U ''webhook_secret'' key
      then map_option (\<lambda>x. req\<lparr>cb_webhook_secret := x\<rparr>) (decode_string (cb_webhook_secret req) v)
      else if is_field U ''assign_credential'' key
      then map_option (\<lambda>x. req\<lparr>cb_assign := x\<rparr>) (decode_bool (cb_assign req) v)
      else if is_field U ''credential_plan_type'' key
      then map_option (\<lambda>x. req\<lparr>cb_plan := x\<rparr>) (decode_string (cb_plan req) v)
      else None)"

fun decode_create :: "go_unicode \<Rightarrow> (jstr \<times> json) list \<Rightarrow> CreateBatchBody \<Rightarrow> CreateBatchBody option" where
  "decode_create U [] req = Some req"
| "decode_create U ((key, v) # rest) req = Option.bind (create_field U key v req) (decode_create U rest)"

text \<open>At most 1 MiB for the first JSON value; nothing is asked of what follows it.\<close>

definition read_first :: "body \<Rightarrow> json option" where
  "read_first b = (case b of
     TextBody t \<Rightarrow>
       (case pv (2 * length t + 2) t of
          None \<Rightarrow> None
        | Some (j, rest) \<Rightarrow>
            if 1048576 < blob_size (take (length t - length rest) t) then None else Some j)
   | _ \<Rightarrow> None)"

definition read_create :: "go_unicode \<Rightarrow> body \<Rightarrow> CreateBatchBody option" where
  "read_create U b = (case read_first b of
     Some (JObj kvs) \<Rightarrow> decode_create U kvs empty_body
   | Some JNull \<Rightarrow> Some empty_body
   | _ \<Rightarrow> None)"

section \<open>Validation\<close>

text \<open>\<^verbatim>\<open>json.Unmarshal\<close> into \<^verbatim>\<open>any\<close>: JSON whose numbers are finite as float64.\<close>

definition go_float :: "int \<Rightarrow> int \<Rightarrow> bool" where
  "go_float m e \<longleftrightarrow>
     (if 0 \<le> e then \<bar>m\<bar> * 10 ^ nat e < 2 ^ 1024 - 2 ^ 970 else \<bar>m\<bar> < (2 ^ 1024 - 2 ^ 970) * 10 ^ nat (- e))"

fun go_floats :: "json \<Rightarrow> bool" where
  "go_floats (JNum m e) = go_float m e"
| "go_floats (JArr vs) = list_all go_floats vs"
| "go_floats (JObj kvs) = list_all (\<lambda>(k, v). go_floats v) kvs"
| "go_floats _ = True"

definition unmarshals :: "gostr \<Rightarrow> bool" where
  "unmarshals t = (case JSON_parse t of None \<Rightarrow> False | Some v \<Rightarrow> go_floats v)"

definition go_is_control :: "nat \<Rightarrow> bool" where
  "go_is_control p \<longleftrightarrow> p \<le> 31 \<or> (127 \<le> p \<and> p \<le> 159)"

definition normalizeCredentialPlanType :: "gostr \<Rightarrow> gostr + gostr" where
  "normalizeCredentialPlanType raw =
     (let v = TrimSpace raw; n = go_runes v in
      if n < 1 \<or> 100 < n then Inl msg_as_plan_length
      else if list_ex go_is_control (code_points v) then Inl msg_as_plan_control
      else Inr v)"

definition validateCreateBatch :: "(gostr \<Rightarrow> bool) \<Rightarrow> CreateBatchBody \<Rightarrow> gostr list" where
  "validateCreateBatch valid_url req =
     (if TrimSpace (cb_name req) = [] then [msg_as_need_name] else [])
     @ (if 200 < go_runes (cb_name req) then [msg_as_long_name] else [])
     @ (if 1000 < go_runes (cb_description req) then [msg_as_long_description] else [])
     @ (if cb_code_length req < 8 \<or> 20 < cb_code_length req then [msg_as_code_length] else [])
     @ (if cb_count req < 1 \<or> 10000 < cb_count req then [msg_as_count] else [])
     @ (if cb_max_uses req < 1 \<or> 100000 < cb_max_uses req then [msg_as_max_uses] else [])
     @ (if cb_max_redeems req < 1 \<or> 100000 < cb_max_redeems req then [msg_as_max_redeems] else [])
     @ (if 8 < go_len (cb_prefix req) then [msg_as_long_prefix] else [])
     @ (if cb_prefix req \<noteq> [] \<and> \<not> isASCIIAlphanumeric (cb_prefix req) then [msg_as_prefix_chars] else [])
     @ (if cb_webhook_url req \<noteq> [] then
          (if 2000 < go_len (cb_webhook_url req) then [msg_as_long_url]
           else if \<not> valid_url (cb_webhook_url req) then [msg_as_bad_url] else [])
        else [])
     @ (if 512 < go_len (cb_webhook_secret req) then [msg_as_long_secret] else [])
     @ (if cb_assign req
        then (case normalizeCredentialPlanType (cb_plan req) of Inl m \<Rightarrow> [m] | Inr _ \<Rightarrow> [])
        else if 100 < go_runes (cb_plan req) then [msg_as_long_plan] else [])
     @ (if cb_payload req \<noteq> [] \<and> \<not> unmarshals (cb_payload req) then [msg_as_bad_payload] else [])"

section \<open>The handler\<close>

definition trim_create :: "go_unicode \<Rightarrow> CreateBatchBody \<Rightarrow> CreateBatchBody" where
  "trim_create U req = req
     \<lparr>cb_name := TrimSpace (cb_name req), cb_prefix := ToUpper U (TrimSpace (cb_prefix req)),
      cb_webhook_url := TrimSpace (cb_webhook_url req), cb_plan := TrimSpace (cb_plan req)\<rparr>"

definition CountAvailableCredentialsByPlan :: "service_env \<Rightarrow> gostr \<Rightarrow> database \<Rightarrow> nat" where
  "CountAvailableCredentialsByPlan v plan db =
     length (filter (\<lambda>c. cd_plan c = plan \<and> \<not> cd_used c
       \<and> (case cd_expired c of None \<Rightarrow> True | Some t \<Rightarrow> t > sv_db_now v)) (db_credentials db))"

text \<open>The columns of the new batch; the table keeps microseconds.\<close>

definition new_batch :: "CreateBatchBody \<Rightarrow> int option \<Rightarrow> batch_row" where
  "new_batch req expires =
     \<lparr>ba_id = 0, ba_name = cb_name req, ba_prefix = cb_prefix req,
      ba_payload = (if cb_payload req = [] then JObj [] else the (JSON_parse (cb_payload req))),
      ba_status = BatchActive, ba_expires = map_option (\<lambda>t. t div 1000 * 1000) expires,
      ba_max_uses = cb_max_uses req, ba_webhook_url = cb_webhook_url req, ba_assign = cb_assign req,
      ba_plan = cb_plan req\<rparr>"

text \<open>The checks of the handler, \<open>stock_fails\<close> when the stock cannot be counted: an answer, or the request with its expiry.\<close>

definition check_create :: "go_unicode \<Rightarrow> (gostr \<Rightarrow> bool) \<Rightarrow> gostr \<Rightarrow> bool \<Rightarrow> service_env \<Rightarrow> http_request \<Rightarrow> database
    \<Rightarrow> http_answer + CreateBatchBody \<times> int option" where
  "check_create U valid_url detail stock_fails v r db =
     (case read_create U (hr_body r) of
        None \<Rightarrow> Inl (RespondError 400 msg_as_bad_request [detail])
      | Some req0 \<Rightarrow>
          let req = trim_create U req0; errors = validateCreateBatch valid_url req in
          if errors \<noteq> [] then Inl (RespondError 400 msg_as_bad_input errors)
          else (case (case cb_expires req of
                   None \<Rightarrow> Some None
                 | Some t \<Rightarrow> if t = [] then Some None else map_option Some (parse_rfc3339 t)) of
                  None \<Rightarrow> Inl (RespondError 400 msg_as_bad_expiry [])
                | Some expires \<Rightarrow>
                    if cb_assign req \<and> stock_fails
                    then Inl (RespondError 500 msg_as_stock_failed [])
                    else if cb_assign req \<and> CountAvailableCredentialsByPlan v (cb_plan req) db < 1
                    then Inl (RespondError 400 msg_as_no_stock [])
                    else Inr (req, expires)))"

definition handle_create :: "go_unicode \<Rightarrow> (gostr \<Rightarrow> bool) \<Rightarrow> gostr \<Rightarrow> bool \<Rightarrow> service_env \<Rightarrow> nat list list \<Rightarrow> http_request
    \<Rightarrow> database \<Rightarrow> http_answer \<times> database" where
  "handle_create U valid_url detail stock_fails v draws r db =
     (case check_create U valid_url detail stock_fails v r db of
        Inl answer \<Rightarrow> (answer, db)
      | Inr (req, expires) \<Rightarrow>
          (case (if sv_fails v then None
                 else CreateBatch U (nat (cb_code_length req)) (nat (cb_count req)) draws (new_batch req expires) db) of
             None \<Rightarrow> (RespondError 500 msg_as_create_failed [], db)
           | Some db' \<Rightarrow>
               (\<lparr>ha_status = 200,
                 ha_body = JObj [(js ''batch_id'', jint (db_next db)), (js ''message'', JStr msg_as_created),
                   (js ''ok'', JBool True)]\<rparr>, db')))"


end
