(* ===== verification/RedeemFlow.thy ===== *)
theory RedeemFlow
  imports RedeemHandler RedeemKeys RedeemProofs
begin

text \<open>
  Page and server together: the request a submission of the redeem page makes
  goes through the server's handler, the answer comes back through the client's
  \<^verbatim>\<open>request\<close> into the page.
\<close>

section \<open>How the client reads the answer\<close>

definition field :: "json \<Rightarrow> string \<Rightarrow> json option" where
  "field j key = (case get_prop (Some j) (js key) of Inl _ \<Rightarrow> None | Inr v \<Rightarrow> v)"

fun as_text :: "json option \<Rightarrow> jstr" where
  "as_text (Some (JStr s)) = s"
| "as_text _ = []"

fun as_int :: "json option \<Rightarrow> int" where
  "as_int (Some (JNum m e)) = m * 10 ^ nat e"
| "as_int _ = 0"

fun as_list :: "json option \<Rightarrow> json list" where
  "as_list (Some (JArr vs)) = vs"
| "as_list _ = []"

text \<open>The cast of an answer to \<^verbatim>\<open>RedeemBatchResponse\<close>: the properties the page reads.\<close>

definition cast_item :: "json \<Rightarrow> RedeemBatchItem" where
  "cast_item j = \<lparr>ri_code = as_text (field j ''code''), ri_ok = (field j ''ok'' = Some (JBool True)),
     ri_result = as_text (field j ''result''), ri_message = as_text (field j ''message''),
     ri_redemption = field j ''redemption''\<rparr>"

definition cast_batch :: "json \<Rightarrow> RedeemBatchResponse" where
  "cast_batch j = \<lparr>rb_ok = (field j ''ok'' = Some (JBool True)), rb_total = as_int (field j ''total''),
     rb_succeeded = as_int (field j ''succeeded''), rb_failed = as_int (field j ''failed''),
     rb_results = map cast_item (as_list (field j ''results''))\<rparr>"

definition seen_item :: "BatchRedeemItem \<Rightarrow> RedeemBatchItem" where
  "seen_item i = \<lparr>ri_code = it_code i, ri_ok = it_ok i, ri_result = it_result i, ri_message = it_message i,
     ri_redemption = map_option redeem_json (it_redemption i)\<rparr>"

definition seen_batch :: "BatchRedeemResponse \<Rightarrow> RedeemBatchResponse" where
  "seen_batch b = \<lparr>rb_ok = bp_ok b, rb_total = int (bp_total b), rb_succeeded = int (bp_succeeded b),
     rb_failed = int (bp_failed b), rb_results = map seen_item (bp_results b)\<rparr>"

lemma norm_num_value:
  "norm_num m e = (m', e') \<Longrightarrow> 0 \<le> e \<Longrightarrow> 0 \<le> e' \<and> m' * 10 ^ nat e' = m * 10 ^ nat e"
proof (induction m e rule: norm_num.induct)
  case (1 m e)
  show ?case
  proof (cases "m \<noteq> 0 \<and> m mod 10 = 0")
    case True
    then have "norm_num (m div 10) (e + 1) = (m', e')"
      using "1.prems" by (simp add: norm_num.simps [of m e])
    then have IH: "0 \<le> e' \<and> m' * 10 ^ nat e' = m div 10 * 10 ^ nat (e + 1)"
      using "1.IH" True "1.prems"(2) by simp
    have "nat (e + 1) = Suc (nat e)" using "1.prems"(2) by simp
    moreover have "m div 10 * 10 = m" using True by presburger
    ultimately show ?thesis using IH by (metis mult.assoc power_Suc)
  next
    case False
    then show ?thesis using "1.prems" by (auto simp: norm_num.simps [of m e] split: if_splits)
  qed
qed

lemma as_int_jint [simp]: "as_int (Some (jint (int n))) = int n"
proof -
  obtain m e where me: "norm_num n 0 = (m, e)" by force
  have "m * 10 ^ nat e = n" using norm_num_value [OF me] by simp
  then have "int m * 10 ^ nat e = int n" by (metis of_nat_mult of_nat_numeral of_nat_power)
  then show ?thesis by (simp add: jint_def me)
qed

lemma cast_item_json: "cast_item (item_json i) = seen_item i"
  by (cases "it_redemption i")
    (simp_all add: cast_item_def seen_item_def item_json_def field_def get_prop_def opt_json_def)

lemma cast_batch_json: "cast_batch (batch_answer_json b) = seen_batch b"
  by (cases "bp_results b = []"; cases "bp_message b = []")
    (simp_all add: cast_batch_def seen_batch_def batch_answer_json_def field_def get_prop_def opt_string_def
      cast_item_json)

section \<open>The request reaches the service\<close>

lemma units_code_points: "sum_list (map (\<lambda>p. if p < 65536 then 1 else 2) (code_points s)) = length s"
proof (induction s rule: code_points.induct)
  case (2 c)
  have "unat c < 65536" using unsigned_less [of c] by simp
  then show ?case by simp
next
  case (3 c d s)
  have "unat c < 65536" using unsigned_less [of c] by simp
  then show ?case using 3 by simp
qed simp

lemma length_json_string: "length (json_string s) = length s"
proof -
  have "length (utf16_encode (if is_surrogate_point p then 65533 else p)) = (if p < 65536 then 1 else 2)" for p
    by (simp add: utf16_encode_def is_surrogate_point_def)
  then show ?thesis
    unfolding json_string_def of_runes_def length_concat map_map o_def by (simp add: units_code_points)
qed

lemma json_string_ascii:
  assumes "list_all (\<lambda>c. c < 128) s"
  shows "json_string s = s"
proof -
  have small: "unat c < 128" if "c \<in> set s" for c using assms that by (auto simp: list_all_iff word_less_nat_alt)
  then have "map (\<lambda>p. if is_surrogate_point p then 65533 else p) (map unat s) = map unat s"
    by (fastforce simp: is_surrogate_point_def)
  moreover have "of_runes (map unat s) = s"
    using small by (subst of_runes_ascii) (fastforce simp: list_all_iff o_def)+
  ultimately show ?thesis unfolding json_string_def code_points_ascii [OF assms] by (simp only:)
qed

lemma go_len_ascii:
  assumes "list_all (\<lambda>c. c < 128) s"
  shows "go_len s = length s"
proof -
  have "map utf8_len (map unat s) = map (\<lambda>_. 1) s"
    using assms by (auto simp: list_all_iff word_less_nat_alt)
  then have "go_len s = sum_list (map (\<lambda>_. 1) s)"
    unfolding go_len_def blob_size_def code_points_ascii [OF assms] by (simp only:)
  then show ?thesis by (simp add: sum_list_triv)
qed

lemma clean_ascii: "clean_code c \<Longrightarrow> list_all (\<lambda>x. x < 128) c"
  using clean_code_alnum alnum_ascii by (auto simp: list_all_iff)

lemma clean_space:
  assumes "clean_code c"
  shows "TrimSpace c = c"
proof -
  have "\<not> go_is_space x" if "x \<in> set c" for x
    using that clean_code_alnum [OF assms] unfolding list_all_iff
    by (fastforce simp: is_alnum_def is_upper_def is_lower_def is_digit_def go_is_space_def char_defs word_le_nat_alt)
  then have "dropWhile go_is_space c = c" "dropWhile go_is_space (rev c) = rev c"
    by (auto simp: dropWhile_eq_self_iff hd_in_set last_in_set hd_rev)
  then show ?thesis by (simp add: TrimSpace_def)
qed

lemma clean_proper:
  assumes "distinct cs" "list_all clean_code cs" "list_all (\<lambda>c. length c \<le> 128) cs"
  shows "proper_codes U cs" "map (NormalizeCode U) cs = cs" "map json_string cs = cs"
proof -
  show n: "map (NormalizeCode U) cs = cs"
    using assms(2) by (auto simp: NormalizeCode_normalizeCdk list_all_iff normalize_clean intro: map_idI)
  then have "NormalizeCode U c = c" if "c \<in> set cs" for c
    using that by (metis map_eq_conv list.map_ident)
  then show "proper_codes U cs"
    using assms n clean_ascii by (auto simp: proper_codes_def list_all_iff go_len_ascii clean_code_def)
  show "map json_string cs = cs"
    using assms(2) by (intro map_idI json_string_ascii clean_ascii) (simp add: list_all_iff)
qed

text \<open>An accepted address survives trimming and fits the server's limit.\<close>

lemma email_at: "isValidEmail u \<Longrightarrow> 64 \<in> set u \<and> length u \<le> 254"
  by (auto simp: isValidEmail_def email_re_iff)

lemma utf16_at: "(64 :: cu) \<in> set u \<Longrightarrow> 64 \<in> set (code_points u)"
  by (induction u rule: code_points.induct) (auto simp: char_defs)

lemma set_dropWhile_keep: "x \<in> set xs \<Longrightarrow> \<not> P x \<Longrightarrow> x \<in> set (dropWhile P xs)"
  by (induction xs) auto

lemma in_concat_maps: "x \<in> set xs \<Longrightarrow> y \<in> set (f (g x)) \<Longrightarrow> y \<in> set (concat (map f (map g xs)))"
  by auto

lemma json_string_at: "64 \<in> set s \<Longrightarrow> 64 \<in> set (json_string s)"
  unfolding json_string_def of_runes_def
  by (rule in_concat_maps [where x = 64]) (simp add: utf16_at, simp add: utf16_encode_def is_surrogate_point_def)

lemma TrimSpace_keeps: "x \<in> set s \<Longrightarrow> \<not> go_is_space x \<Longrightarrow> x \<in> set (TrimSpace s)"
  by (simp add: TrimSpace_def set_dropWhile_keep)

lemma length_TrimSpace: "length (TrimSpace s) \<le> length s"
  unfolding TrimSpace_def by (metis length_dropWhile_le length_rev order_trans)

lemma email_fine:
  assumes "isValidEmail u"
  shows "TrimSpace (json_string u) \<noteq> []" "go_runes (TrimSpace (json_string u)) \<le> 256"
proof -
  have "64 \<in> set (TrimSpace (json_string u))"
    by (intro TrimSpace_keeps json_string_at conjunct1 [OF email_at [OF assms]]) (simp add: go_is_space_def)
  then show "TrimSpace (json_string u) \<noteq> []" by (metis list.set(1) empty_iff)
  have "length (code_points (TrimSpace (json_string u))) \<le> length (json_string u)"
    by (rule order_trans [OF length_code_points length_TrimSpace])
  then show "go_runes (TrimSpace (json_string u)) \<le> 256"
    using email_at [OF assms] by (simp add: go_runes_def length_json_string)
qed

lemma sent_header_names:
  assumes "build_request cookie url init = Inr r" "init = None \<or> ri_headers (the init) = []"
  shows "fst ` set (hr_headers r) \<subseteq> {js ''Content-Type'', js ''X-CSRF-Token''}"
proof -
  obtain hs where hs: "fst ` set hs \<subseteq> {js ''Content-Type'', js ''X-CSRF-Token''}"
      "hr_headers r = (case init of None \<Rightarrow> hs | Some i \<Rightarrow> foldl (\<lambda>h (k, v). set_header h k v) hs (ri_headers i))"
  proof -
    have c: "fst ` set (content_header init) \<subseteq> {js ''Content-Type'', js ''X-CSRF-Token''}"
      unfolding content_header_def by (auto simp del: js_Cons)
    have "fst ` set (set_header h (js ''X-CSRF-Token'') t) \<subseteq> {js ''Content-Type'', js ''X-CSRF-Token''}"
      if "fst ` set h \<subseteq> {js ''Content-Type'', js ''X-CSRF-Token''}" for h t
      using that by (force simp: set_header_def split: if_splits simp del: js_Cons)
    note s = this [OF c]
    show thesis
    proof (cases "isMutatingMethod (Option.bind init ri_method)")
      case True
      then obtain tok where "getCSRFToken cookie = Inr tok"
        using assms(1) by (cases "getCSRFToken cookie") (auto simp: build_request_def bind_res_def)
      define hs where "hs = (case tok of Some t \<Rightarrow> (if t = [] then content_header init
          else set_header (content_header init) (js ''X-CSRF-Token'') t) | None \<Rightarrow> content_header init)"
      have "fst ` set hs \<subseteq> {js ''Content-Type'', js ''X-CSRF-Token''}"
        using c s by (simp add: hs_def split: option.split del: js_Cons)
      moreover have "hr_headers r = (case init of None \<Rightarrow> hs | Some i \<Rightarrow> foldl (\<lambda>h (k, v). set_header h k v) hs (ri_headers i))"
        using assms(1) True \<open>getCSRFToken cookie = Inr tok\<close> unfolding hs_def
        by (cases init; cases tok) (auto simp: build_request_def bind_res_def simp del: js_Cons)
      ultimately show thesis by (rule that)
    next
      case False
      then show thesis
        using assms(1) c that by (auto simp: build_request_def bind_res_def simp del: js_Cons)
    qed
  qed
  then show ?thesis using assms(2) by (cases init) auto
qed

lemma no_key_header:
  assumes "build_request cookie url init = Inr r" "init = None \<or> ri_headers (the init) = []"
  shows "header ''Idempotency-Key'' r = []"
proof -
  have "js_toLowerCase k \<noteq> js_toLowerCase (js ''Idempotency-Key'')"
    if "k \<in> {js ''Content-Type'', js ''X-CSRF-Token''}" for k
    using that by (auto simp: char_defs)
  then have "find (\<lambda>(k, v). js_toLowerCase k = js_toLowerCase (js ''Idempotency-Key'')) (hr_headers r) = None"
    using sent_header_names [OF assms] by (force simp: find_None_iff)
  then show ?thesis by (simp add: header_def)
qed

lemma fields_differ:
  "is_field U ''user_id'' (js ''user_id'')" "\<not> is_field U ''user_id'' (js ''codes'')"
  "is_field U ''codes'' (js ''codes'')"
proof -
  have ascii: "list_all (\<lambda>c. c < 128) (js ''user_id'')" "list_all (\<lambda>c. c < 128) (js ''codes'')"
    by simp_all
  show "is_field U ''user_id'' (js ''user_id'')" "\<not> is_field U ''user_id'' (js ''codes'')"
    "is_field U ''codes'' (js ''codes'')"
    unfolding is_field_def fold_name_def json_string_ascii [OF ascii(1)] json_string_ascii [OF ascii(2)]
      code_points_ascii [OF ascii(1)] code_points_ascii [OF ascii(2)]
    by (simp_all add: char_defs upper_cu_def)
qed

lemma decode_strings_all: "decode_strings (map JStr cs) = Some (map json_string cs)"
  by (induction cs) simp_all

text \<open>What the server makes of the body of a batch submission.\<close>

lemma read_sent_batch:
  assumes "build_request cookie (fst (api_redeemBatch u cs)) (snd (api_redeemBatch u cs)) = Inr r"
    "hr_body r = TextBody t" "blob_size t \<le> 65536"
  shows "read_batch_request U (hr_body r) = Some (sent_batch (json_string u) (map json_string cs))"
proof -
  obtain t' where "hr_body r = TextBody t'"
      "JSON_parse t' = Some (JObj [(js ''user_id'', JStr u), (js ''codes'', JArr (map JStr cs))])"
    using redeemBatch_body_roundtrip [OF assms(1)] by blast
  then have "read_body (hr_body r) = Some (JObj [(js ''user_id'', JStr u), (js ''codes'', JArr (map JStr cs))])"
    using assms(2,3) by (simp add: read_body_def del: js_Cons)
  then show ?thesis
    by (simp add: read_batch_request_def fields_differ decode_strings_all del: js_Cons)
qed


section \<open>What a batch leaves in the text area\<close>

lemma pick_failed:
  assumes "list_all2 (\<lambda>c i. (it_ok i \<longleftrightarrow> use_of c db' \<noteq> use_of c db) \<and> (\<not> it_ok i \<longrightarrow> it_code i = c)) cs items"
  shows "map it_code (filter (\<lambda>i. \<not> it_ok i) items) = filter (\<lambda>c. use_of c db' = use_of c db) cs"
  using assms by (induction cs items rule: list_all2_induct) auto

lemma clean_batch:
  assumes "distinct cs" "list_all clean_code cs" "\<forall>c \<in> set cs. length c \<le> 128" "cs \<noteq> []"
    "isValidEmail u" "db_ok db"
    "BatchRedeem U sha vs f g (sent_batch (json_string u) cs) db = (Inr resp, db')"
  shows "\<exists>items. resp = batch_response cs items
    \<and> map it_code (filter (\<lambda>i. \<not> it_ok i) items) = filter (\<lambda>c. use_of c db' = use_of c db) cs
    \<and> (\<forall>c \<in> set cs. use_of c db' = use_of c db \<or> use_of c db' = use_of c db + 1)
    \<and> (\<forall>x. x \<notin> set cs \<longrightarrow> use_of x db' = use_of x db)"
proof -
  have short: "list_all (\<lambda>c. length c \<le> 128) cs" using assms(3) by (simp add: list_all_iff)
  note proper = clean_proper [OF assms(1,2) short]
  note all = batch_as_singles [OF email_fine [OF assms(5)] assms(4) proper(1) [of U] assms(6),
      of sha vs f g, THEN conjunct2, rule_format, OF assms(7)]
  have norm: "NormalizeCode U c = c" if "c \<in> set cs" for c
    using proper(2) [of U] that by (metis map_eq_conv list.map_ident)
  obtain rs items where rs: "length rs = length cs" "resp = batch_response cs items"
      "items = map2 answered_item cs rs"
  proof -
    have eq: "BatchRedeem U sha vs f g (sent_batch (json_string u) cs) db =
        (case singles U sha (TrimSpace (json_string u)) vs 0 cs db of
           (Inl e, db') \<Rightarrow> (Inl e, db')
         | (Inr rs, db') \<Rightarrow> (Inr (batch_response cs (map2 answered_item cs rs)), db'))"
      by (rule batch_as_singles [OF email_fine [OF assms(5)] assms(4) proper(1) assms(6), THEN conjunct1])
    show thesis
    proof (cases "singles U sha (TrimSpace (json_string u)) vs 0 cs db")
      case (Pair r db1)
      then show thesis
        using assms(7) that singles_length [of U sha "TrimSpace (json_string u)" vs 0 cs db]
        unfolding eq by (cases r) auto
    qed
  qed
  have len: "length items = length cs" using rs(1,3) by simp
  have uses: "use_of (cs ! j) db' = use_of (cs ! j) db + (if it_ok (items ! j) then 1 else 0)"
    if "j < length cs" for j
  proof -
    have "\<forall>j < length cs. use_of (NormalizeCode U (cs ! j)) db'
        = use_of (NormalizeCode U (cs ! j)) db + (if it_ok (items ! j) then 1 else 0)"
      using all by (simp add: rs(2) batch_response_def)
    from this [rule_format, OF that] show ?thesis unfolding norm [OF nth_mem [OF that]] .
  qed
  have codes: "it_code (items ! j) = cs ! j" if "j < length cs" "\<not> it_ok (items ! j)" for j
    using that rs(1) assms(2) by (simp add: rs(3) clean_space answered_item_def list_all_length)
  have "map it_code (filter (\<lambda>i. \<not> it_ok i) items) = filter (\<lambda>c. use_of c db' = use_of c db) cs"
    using len uses codes by (intro pick_failed) (simp add: list_all2_conv_all_nth)
  moreover have "use_of c db' = use_of c db \<or> use_of c db' = use_of c db + 1" if c: "c \<in> set cs" for c
  proof -
    obtain j where "j < length cs" "c = cs ! j" using c by (auto simp: in_set_conv_nth)
    then show ?thesis using uses [of j] by simp
  qed
  moreover have "use_of x db' = use_of x db" if "x \<notin> set cs" for x
  proof -
    have "NormalizeCode U ` set cs = set cs" using norm by (simp cong: image_cong)
    then show ?thesis using all that by simp
  qed
  ultimately show ?thesis using rs(2) by (intro exI [of _ items]) simp
qed


lemma handle_batch_done:
  assumes "read_batch_request U (hr_body r) = Some (sent_batch u cs)" "header ''Idempotency-Key'' r = []"
    "handle_batch U sha allow vs f g ip r db = (a, db')" "resp_ok (ha_status a)"
  shows "\<exists>resp. BatchRedeem U sha vs f g (sent_batch u cs) db = (Inr resp, db') \<and> ha_body a = batch_answer_json resp"
proof -
  have key: "(sent_batch u cs)\<lparr>bq_key := []\<rparr> = sent_batch u cs" by (simp add: sent_batch_def)
  obtain x db1 where run: "BatchRedeem U sha vs f g (sent_batch u cs) db = (x, db1)" by fastforce
  show ?thesis
  proof (cases x)
    case (Inl e)
    then show ?thesis
      using assms(3,4) by (cases e) (auto simp: handle_batch_def Let_def assms(1,2) key run RespondError_def resp_ok_def
          simp del: js_Cons split: if_splits)
  next
    case (Inr resp)
    then show ?thesis
      using assms(3,4) by (auto simp: handle_batch_def Let_def assms(1,2) key run RespondError_def resp_ok_def
          simp del: js_Cons split: if_splits)
  qed
qed

lemma request_result_done:
  assumes "request_result (Response st txt) = Inr data" "JSON_parse txt = Some j"
  shows "resp_ok st \<and> data = j"
proof (cases "resp_ok st")
  case True
  then show ?thesis using assms by (simp add: request_result_def)
next
  case False
  then show ?thesis using assms by (simp add: request_result_def throw_api_def bind_res_def split: sum.splits if_splits)
qed

lemma redeem_batch_input:
  assumes "distinct (failed_codes (rb_results d))" "list_all clean_code (failed_codes (rb_results d))"
    "rb_failed d = 0 \<longrightarrow> failed_codes (rb_results d) = []"
  shows "parseCdkList (rp_codeInput (redeem_batch_done sts (Inr d) s)) = failed_codes (rb_results d)"
proof -
  have "rp_codeInput (redeem_batch_done sts (Inr d) s) = js_join [10] (failed_codes (rb_results d))"
    using assms(3) by (simp add: redeem_batch_done_def Let_def downloadArchive_def)
  then show ?thesis using parseCdkList_join [OF assms(1,2)] by simp
qed

lemma seen_failed:
  "failed_codes (rb_results (seen_batch b)) = map it_code (filter (\<lambda>i. \<not> it_ok i) (bp_results b))"
  by (simp add: failed_codes_def seen_batch_def seen_item_def filter_map o_def)



section \<open>A batch of two, of which one is valid\<close>

definition flow_sent :: redeem_page where
  "flow_sent = handleSubmit (changeCodeInput (js ''aa-aa bb'') (changeUserId (js ''a@b.c'') redeem_sample))"

lemma flow_sent_reachable: "rstep\<^sup>*\<^sup>* redeem_sample flow_sent"
proof -
  let ?typed = "changeCodeInput (js ''aa-aa bb'') (changeUserId (js ''a@b.c'') redeem_sample)"
  have "\<not> rp_loading ?typed"
    by (simp add: redeem_sample_def changeCodeInput_def changeUserId_def redeem_init_def)
  then have "rstep ?typed flow_sent" unfolding flow_sent_def by (rule rstep_edit(3))
  moreover have "rstep\<^sup>*\<^sup>* redeem_sample ?typed"
    by (blast intro: rstep_edit rtranclp.rtrancl_into_rtrancl rtranclp.rtrancl_refl)
  ultimately show ?thesis by (rule rtranclp.rtrancl_into_rtrancl [rotated])
qed

lemma flow_sent_pend: "CRedeemBatch (js ''a@b.c'') [js ''AAAA'', js ''BB''] \<in> set (pend flow_sent)"
  by code_simp

definition flow_used :: "gostr \<Rightarrow> database" where
  "flow_used u = sample_db\<lparr>
     db_codes := map (\<lambda>c. if co_id c = 2 then c\<lparr>co_use_count := 1\<rparr> else c) sample_codes,
     db_redemptions := [\<lparr>re_id = 4, re_code = Some 2, re_batch = Some 1, re_code_text = js ''AAAA'',
       re_user = u, re_user_key = NormalizeUserKey sample_unicode u, re_payload = JObj [], re_result = ResultSuccess,
       re_message = msg_rs_success, re_webhook = WebhookNone, re_key = None, re_event = None\<rparr>],
     db_next := 5\<rparr>"

lemma flow_first:
  assumes "TrimSpace u = u" "u \<noteq> []" "go_runes u \<le> 256"
  shows "\<exists>r. Redeem sample_unicode id sample_env (single u (js ''AAAA'')) sample_db = (Inr r, flow_used u)
    \<and> rr_payload r = Some (JObj []) \<and> rr_credential r = None"
proof -
  have code: "NormalizeCode sample_unicode (js ''AAAA'') = js ''AAAA''"
    by (simp add: NormalizeCode_normalizeCdk normalizeCdk_filter char_defs)
  show ?thesis using assms
    by (simp add: Redeem_def single_def Let_def code [simplified] go_len_def blob_size_def
        validIdempotencyKey_def in_tx_def redeem_tx_def sample_env_def redeem_code_def GetCodeByCode_def
        sample_db_def sample_codes_def sample_batch_def empty_db_def checkCodeState_def redeem_success_def
        IncrementCodeUseCount_def CreateRedemption_def success_row_def storeIdempotencyResponse_def
        flow_used_def stringPtr_def newEventID_def success_response_def)
qed

lemma flow_second:
  assumes "TrimSpace u = u" "u \<noteq> []" "go_runes u \<le> 256"
  shows "\<exists>r db. Redeem sample_unicode id sample_env (single u (js ''BB'')) (flow_used u) = (Inr r, db)
    \<and> rr_payload r = None \<and> rr_credential r = None \<and> db_codes db = db_codes (flow_used u)"
proof -
  have code: "NormalizeCode sample_unicode (js ''BB'') = js ''BB''"
    by (simp add: NormalizeCode_normalizeCdk normalizeCdk_filter char_defs)
  show ?thesis using assms
    by (simp add: Redeem_def single_def Let_def code [simplified] go_len_def blob_size_def
        validIdempotencyKey_def in_tx_def redeem_tx_def sample_env_def redeem_code_def GetCodeByCode_def
        sample_db_def sample_codes_def sample_batch_def empty_db_def recordFailure_def failure_def
        CreateRedemption_def storeIdempotencyResponse_def flow_used_def stringPtr_def)
qed

lemma flow_batch:
  assumes "TrimSpace u = u" "u \<noteq> []" "go_runes u \<le> 256"
  shows "\<exists>rs db'. BatchRedeem sample_unicode id (\<lambda>_. sample_env) False False (sent_batch u [js ''AAAA'', js ''BB'']) sample_db
      = (Inr (batch_response [js ''AAAA'', js ''BB''] (map2 answered_item [js ''AAAA'', js ''BB''] rs)), db')
    \<and> use_of (js ''AAAA'') db' = 1 \<and> use_of (js ''BB'') db' = 0
    \<and> list_all (\<lambda>r. case rr_payload r of None \<Rightarrow> True | Some j \<Rightarrow> wf_json j) rs
    \<and> list_all (\<lambda>r. rr_credential r = None) rs \<and> length rs = 2"
proof -
  have proper: "proper_codes sample_unicode [js ''AAAA'', js ''BB'']"
    by (rule clean_proper) (simp_all add: clean_code_def char_defs)
  have go: "TrimSpace u \<noteq> []" "go_runes (TrimSpace u) \<le> 256" using assms by simp_all
  note eq = batch_as_singles [OF go list.distinct(2) proper sample_db_ok, of id "\<lambda>_. sample_env" False False, THEN conjunct1]
  obtain r1 where r1: "Redeem sample_unicode id sample_env (single u (js ''AAAA'')) sample_db = (Inr r1, flow_used u)"
      "rr_payload r1 = Some (JObj [])" "rr_credential r1 = None"
    using flow_first [OF assms] by blast
  obtain r2 db2 where r2: "Redeem sample_unicode id sample_env (single u (js ''BB'')) (flow_used u) = (Inr r2, db2)"
      "rr_payload r2 = None" "rr_credential r2 = None" "db_codes db2 = db_codes (flow_used u)"
    using flow_second [OF assms] by blast
  have "singles sample_unicode id (TrimSpace u) (\<lambda>_. sample_env) 0 [js ''AAAA'', js ''BB''] sample_db = (Inr [r1, r2], db2)"
    using assms(1) by (simp add: r1 r2 del: js_Cons)
  moreover have "use_of (js ''AAAA'') db2 = 1" "use_of (js ''BB'') db2 = 0"
    by (simp_all add: use_of_def r2(4) flow_used_def sample_codes_def)
  ultimately show ?thesis
    unfolding eq by (intro exI [of _ "[r1, r2]"] exI [of _ db2]) (simp add: r1 r2 del: js_Cons)
qed

text \<open>Its answer is printable: the optional fields are a part of the list of all fields.\<close>

lemma wf_keys_subseq: "subseq xs ys \<Longrightarrow> wf_keys ys \<Longrightarrow> wf_keys xs"
proof (induction rule: list_emb.induct)
  case (list_emb_Cons2 x y xs ys)
  then show ?case by (auto simp: list_all_iff dest: list_emb_set)
qed auto

lemma opt_keys: "subseq (map fst (opt_string k s)) [js k]" "subseq (map fst (opt_json k v)) [js k]"
  by (cases "s = []"; simp add: opt_string_def) (cases v; simp add: opt_json_def)

lemma opt_values [simp]:
  "list_all (\<lambda>(k, v). wf_json v) (opt_string k s)"
  "list_all (\<lambda>(k, v). wf_json v) (opt_json k v) \<longleftrightarrow> (case v of None \<Rightarrow> True | Some j \<Rightarrow> wf_json j)"
  by (simp_all add: opt_string_def opt_json_def split: option.split)

lemma wf_redeem_json:
  assumes "case rr_payload r of None \<Rightarrow> True | Some j \<Rightarrow> wf_json j" "rr_credential r = None"
  shows "wf_json (redeem_json r)"
proof -
  have all: "wf_keys ([js ''ok'', js ''result'', js ''message''] @ [js ''batch''] @ [js ''code''] @ [js ''user_id'']
      @ [js ''payload''] @ [js ''credential''] @ [js ''redeemed_at''])"
    by code_simp
  show ?thesis
    unfolding redeem_json_def wf_json.simps
  proof (intro conjI)
    show "wf_keys (map fst ([(js ''ok'', JBool (rr_ok r)), (js ''result'', JStr (rr_result r)), (js ''message'', JStr (rr_message r))]
      @ opt_string ''batch'' (rr_batch r) @ opt_string ''code'' (rr_code r) @ opt_string ''user_id'' (rr_user r)
      @ opt_json ''payload'' (rr_payload r) @ opt_json ''credential'' (rr_credential r)
      @ opt_string ''redeemed_at'' (rr_redeemed_at r)))"
      unfolding map_append
      by (rule wf_keys_subseq [OF _ all], intro list_emb_append_mono opt_keys) (simp del: js_Cons)
  qed (use assms in \<open>simp del: js_Cons\<close>)
qed

lemma wf_item_json:
  assumes "\<forall>r. it_redemption i = Some r \<longrightarrow> wf_json (redeem_json r)"
  shows "wf_json (item_json i)"
proof -
  have all: "wf_keys ([js ''code'', js ''ok'', js ''result'', js ''message''] @ [js ''redemption''])"
    by code_simp
  show ?thesis
    unfolding item_json_def wf_json.simps
  proof (intro conjI)
    show "wf_keys (map fst ([(js ''code'', JStr (it_code i)), (js ''ok'', JBool (it_ok i)), (js ''result'', JStr (it_result i)),
       (js ''message'', JStr (it_message i))] @ opt_json ''redemption'' (map_option redeem_json (it_redemption i))))"
      unfolding map_append
      by (rule wf_keys_subseq [OF _ all], intro list_emb_append_mono opt_keys) (simp del: js_Cons)
  qed (use assms in \<open>simp del: js_Cons split: option.split\<close>)
qed

lemma wf_batch_json:
  assumes "list_all (\<lambda>i. wf_json (item_json i)) items" "codes \<noteq> []" "items \<noteq> []"
  shows "wf_json (batch_answer_json (batch_response codes items))"
proof -
  have "wf_keys [js ''ok'', js ''message'', js ''total'', js ''succeeded'', js ''failed'', js ''results'']"
    by code_simp
  then show ?thesis
    using assms by (simp add: batch_answer_json_def batch_response_def opt_string_def list_all_iff del: js_Cons)
qed



end
