(* ===== verification/CreateFlow.thy ===== *)
theory CreateFlow
  imports AdminServer RedeemFlow BatchNewProofs
begin

text \<open>
  The batch form and the server together: what the server still checks of a form
  that passed the checks of the page.
\<close>

section \<open>What the page sends\<close>

text \<open>The numbers of the form are JSON numbers, and no field edits the limit per user.\<close>

definition form_numbers :: "BatchInput \<Rightarrow> bool" where
  "form_numbers i \<longleftrightarrow> wf_json (bi_count i) \<and> wf_json (bi_code_length i) \<and> wf_json (bi_max_uses_per_code i)
     \<and> bi_max_redeems_per_user i = jint 1"

fun numbers_call :: "bn_call \<Rightarrow> bool" where
  "numbers_call (BCreate i) = form_numbers i"
| "numbers_call BPlans = True"

definition numbers_inv :: "bn_page \<Rightarrow> bool" where
  "numbers_inv s \<longleftrightarrow> form_numbers (bn_form s) \<and> list_all numbers_call (pend s)"

interpretation bn_numbers: page_system "\<lambda>s. \<exists>bytes. s = bn_init bytes" bn_offered bn_handle bn_settle numbers_inv
proof unfold_locales
  show "\<exists>bytes. s = bn_init bytes \<Longrightarrow> numbers_inv s" for s
    by (auto simp: bn_init_def bn_loadPlans_def numbers_inv_def INITIAL_def form_numbers_def)
  show "numbers_inv (bn_handle env e s)" if "numbers_inv s" for s env e
    using that by (cases e) (auto simp: numbers_inv_def set_form_def form_numbers_def number_input_wf bn_loadPlans_def
        bn_handleSubmit_def submitted_def Let_def)
  show "numbers_inv t" if i: "numbers_inv s" and c: "c \<in> set (pend s)" and t: "bn_settle env c a (settled c s) = Some t"
    for s c env a t
  proof (cases c)
    case BPlans
    then obtain r where "t = bn_plans_done (be_text env) r (settled BPlans s)" using t by (cases a) auto
    then show ?thesis using i by (auto simp: numbers_inv_def bn_plans_done_def list_all_remove1 split: sum.split)
  next
    case (BCreate j)
    then obtain r where "bn_create_done r (settled (BCreate j) s) = Some t" using t by (cases a) auto
    then show ?thesis
      using i by (auto simp: numbers_inv_def bn_create_done_def list_all_remove1 split: sum.splits js_error.splits)
  qed
qed

lemma wf_batch_input: "form_numbers i \<Longrightarrow> wf_json (batch_json i)"
  unfolding batch_json_def
proof (rule wf_json_obj [OF refl])
  show "wf_keys (map js (map fst
     [(''name'', JStr (bi_name i)), (''description'', JStr (bi_description i)),
      (''payload_json'', JStr (bi_payload_json i)), (''count'', bi_count i), (''prefix'', JStr (bi_prefix i)),
      (''code_length'', bi_code_length i), (''expires_at'', JStr (bi_expires_at i)),
      (''max_uses_per_code'', bi_max_uses_per_code i), (''max_redeems_per_user'', bi_max_redeems_per_user i),
      (''webhook_url'', JStr (bi_webhook_url i)), (''webhook_secret'', JStr (bi_webhook_secret i)),
      (''assign_credential'', JBool (bi_assign_credential i)),
      (''credential_plan_type'', JStr (bi_credential_plan_type i))]))"
    unfolding list.map fst_conv by code_simp
qed (simp add: form_numbers_def)

section \<open>What the server reads\<close>

lemma fold_ascii:
  assumes "list_all (\<lambda>c. c < 128) s"
  shows "fold_name U s = map (\<lambda>c. unat (upper_cu c)) s"
proof -
  have "unat c < 128" if "c \<in> set s" for c using assms that by (auto simp: list_all_iff word_less_nat_alt)
  then show ?thesis unfolding fold_name_def code_points_ascii [OF assms] by simp
qed

lemma is_field_ascii:
  assumes "list_all (\<lambda>c. c < 128) key" "list_all (\<lambda>c. c < 128) (js name)"
  shows "is_field U name key \<longleftrightarrow> map upper_cu key = map upper_cu (js name)"
proof -
  have "map (\<lambda>c. unat (upper_cu c)) s = map (\<lambda>c. unat (upper_cu c)) t \<longleftrightarrow> map upper_cu s = map upper_cu t" for s t
  proof -
    have "inj (unat :: cu \<Rightarrow> nat)" by (rule injI) (simp add: word_unat_eq_iff)
    from inj_map_eq_map [OF this, of "map upper_cu s" "map upper_cu t"] show ?thesis
      by (simp add: o_def)
  qed
  then show ?thesis
    unfolding is_field_def json_string_ascii [OF assms(1)] fold_ascii [OF assms(1)] fold_ascii [OF assms(2)] .
qed

definition create_names :: "string list" where
  "create_names = [''name'', ''description'', ''payload_json'', ''count'', ''prefix'', ''code_length'', ''expires_at'',
     ''max_uses_per_code'', ''max_redeems_per_user'', ''webhook_url'', ''webhook_secret'', ''assign_credential'',
     ''credential_plan_type'']"

lemma create_names_ascii: "list_all (\<lambda>a. list_all (\<lambda>c. c < 128) (js a)) create_names"
  by code_simp

lemma create_names_plain: "list_all (\<lambda>a. list_all (\<lambda>c. c = 95 \<or> is_lower c) (js a)) create_names"
  by code_simp

lemma js_inject: "js a = js b \<longleftrightarrow> a = b"
proof -
  have "inj (of_char :: char \<Rightarrow> cu)"
  proof (rule injI)
    fix c d assume "of_char c = (of_char d :: cu)"
    then have "(of_nat (of_char c) :: cu) = of_nat (of_char d)" by (simp add: of_nat_of_char)
    moreover have "(of_char x :: nat) < 2 ^ 16" for x
      by (rule less_trans [OF nat_of_char_less_256]) simp
    ultimately have "(of_char c :: nat) = of_char d"
      by (simp add: word_of_nat_eq_iff take_bit_nat_eq_self)
    then show "c = d" by simp
  qed
  then show ?thesis by (simp add: js_def inj_map_eq_map)
qed

lemma upper_cu_inj: "inj_on upper_cu {c. c = 95 \<or> is_lower c}"
  by (auto simp: inj_on_def upper_cu_def is_lower_def word_le_nat_alt unat_sub word_unat_eq_iff split: if_splits)

lemma is_create_field:
  "a \<in> set create_names \<Longrightarrow> b \<in> set create_names \<Longrightarrow> is_field U a (js b) \<longleftrightarrow> a = b"
proof -
  assume a: "a \<in> set create_names" and b: "b \<in> set create_names"
  have "list_all (\<lambda>c. c < 128) (js a)" "list_all (\<lambda>c. c < 128) (js b)"
    using create_names_ascii a b unfolding list_all_iff [of _ create_names] by blast+
  moreover have "a = b" if "map upper_cu (js b) = map upper_cu (js a)"
  proof -
    have "set (js a) \<union> set (js b) \<subseteq> {c. c = 95 \<or> is_lower c}"
      using create_names_plain a b unfolding list_all_iff by blast
    then have "inj_on upper_cu (set (js b) \<union> set (js a))"
      by (intro inj_on_subset [OF upper_cu_inj]) blast
    then have "js b = js a" using that by (rule map_inj_on [rotated])
    then show ?thesis by (simp add: js_inject)
  qed
  ultimately show ?thesis using is_field_ascii by blast
qed

lemma create_names_table: "list_all (\<lambda>a. list_all (\<lambda>b. is_field U a (js b) \<longleftrightarrow> a = b) create_names) create_names"
  unfolding list_all_iff [of _ create_names] using is_create_field by blast

lemmas create_name_facts = create_names_table [unfolded create_names_def list.pred_inject]

lemma create_fields:
  "create_field U (js ''name'') v req = map_option (\<lambda>x. req\<lparr>cb_name := x\<rparr>) (decode_string (cb_name req) v)"
  "create_field U (js ''description'') v req = map_option (\<lambda>x. req\<lparr>cb_description := x\<rparr>) (decode_string (cb_description req) v)"
  "create_field U (js ''payload_json'') v req = map_option (\<lambda>x. req\<lparr>cb_payload := x\<rparr>) (decode_string (cb_payload req) v)"
  "create_field U (js ''prefix'') v req = map_option (\<lambda>x. req\<lparr>cb_prefix := x\<rparr>) (decode_string (cb_prefix req) v)"
  "create_field U (js ''code_length'') v req = map_option (\<lambda>x. req\<lparr>cb_code_length := x\<rparr>) (decode_int32 (cb_code_length req) v)"
  "create_field U (js ''count'') v req = map_option (\<lambda>x. req\<lparr>cb_count := x\<rparr>) (decode_int32 (cb_count req) v)"
  "create_field U (js ''max_uses_per_code'') v req = map_option (\<lambda>x. req\<lparr>cb_max_uses := x\<rparr>) (decode_int32 (cb_max_uses req) v)"
  "create_field U (js ''max_redeems_per_user'') v req = map_option (\<lambda>x. req\<lparr>cb_max_redeems := x\<rparr>) (decode_int32 (cb_max_redeems req) v)"
  "create_field U (js ''expires_at'') v req = map_option (\<lambda>x. req\<lparr>cb_expires := x\<rparr>) (decode_pointer v)"
  "create_field U (js ''webhook_url'') v req = map_option (\<lambda>x. req\<lparr>cb_webhook_url := x\<rparr>) (decode_string (cb_webhook_url req) v)"
  "create_field U (js ''webhook_secret'') v req = map_option (\<lambda>x. req\<lparr>cb_webhook_secret := x\<rparr>) (decode_string (cb_webhook_secret req) v)"
  "create_field U (js ''assign_credential'') v req = map_option (\<lambda>x. req\<lparr>cb_assign := x\<rparr>) (decode_bool (cb_assign req) v)"
  "create_field U (js ''credential_plan_type'') v req = map_option (\<lambda>x. req\<lparr>cb_plan := x\<rparr>) (decode_string (cb_plan req) v)"
  unfolding create_field_def by (simp_all add: create_name_facts del: js_Cons)

text \<open>The number the server reads, if it is a whole one of 32 bits.\<close>

definition int32 :: "json \<Rightarrow> int option" where
  "int32 v = decode_int32 0 v"

definition read_input :: "BatchInput \<Rightarrow> int \<Rightarrow> int \<Rightarrow> int \<Rightarrow> CreateBatchBody" where
  "read_input i n len uses =
     \<lparr>cb_name = json_string (bi_name i), cb_description = json_string (bi_description i),
      cb_payload = json_string (bi_payload_json i), cb_prefix = json_string (bi_prefix i),
      cb_code_length = len, cb_count = n, cb_max_uses = uses, cb_max_redeems = 1,
      cb_expires = Some (json_string (bi_expires_at i)), cb_webhook_url = json_string (bi_webhook_url i),
      cb_webhook_secret = json_string (bi_webhook_secret i), cb_assign = bi_assign_credential i,
      cb_plan = json_string (bi_credential_plan_type i)\<rparr>"

lemma int32_one: "decode_int32 old (jint 1) = Some 1"
  by (simp add: jint_def norm_num.simps)

lemma decode_batch_input:
  assumes "bi_max_redeems_per_user i = jint 1"
  shows "batch_json i = JObj kvs \<Longrightarrow> decode_create U kvs empty_body =
    (case (int32 (bi_count i), int32 (bi_code_length i), int32 (bi_max_uses_per_code i)) of
       (Some n, Some len, Some uses) \<Rightarrow> Some (read_input i n len uses)
     | _ \<Rightarrow> None)"
  using assms
  by (cases "int32 (bi_count i)"; cases "int32 (bi_code_length i)"; cases "int32 (bi_max_uses_per_code i)")
    (auto simp: batch_json_def json_obj_def create_fields empty_body_def read_input_def int32_def int32_one
      simp del: js_Cons)


lemma blob_size_take: "blob_size (take n s) \<le> blob_size s"
proof (induction s arbitrary: n rule: code_points.induct)
  case 1
  then show ?case by simp
next
  case (2 c)
  then show ?case by (cases n) (simp_all add: blob_size_def)
next
  case (3 c d s)
  show ?case
  proof (cases n)
    case 0
    then show ?thesis by (simp add: blob_size_def)
  next
    case (Suc m)
    show ?thesis
    proof (cases m)
      case 0
      then show ?thesis using Suc by (simp add: blob_size_def)
    next
      case (Suc k)
      have n: "take n (c # d # s) = c # d # take k s" "take m (d # s) = d # take k s"
        using \<open>n = Suc m\<close> Suc by simp_all
      show ?thesis
      proof (cases "is_high_surrogate c \<and> is_low_surrogate d")
        case True
        then show ?thesis using 3(1) [of k] by (simp add: n blob_size_def)
      next
        case False
        then show ?thesis using 3(2) [of m] unfolding n by (auto simp: blob_size_def)
      qed
    qed
  qed
qed

text \<open>The body the page sends, read by the handler.\<close>

lemma read_sent_create:
  assumes "form_numbers i" "build_request cookie (fst (bn_endpoint (BCreate i))) (snd (bn_endpoint (BCreate i))) = Inr r"
    "blob_size (stringify (batch_json i)) \<le> 1048576"
  shows "read_create U (hr_body r) =
    (case (int32 (bi_count i), int32 (bi_code_length i), int32 (bi_max_uses_per_code i)) of
       (Some n, Some len, Some uses) \<Rightarrow> Some (read_input i n len uses)
     | _ \<Rightarrow> None)"
proof -
  let ?t = "stringify (batch_json i)"
  have sent: "hr_body r = TextBody ?t"
    using assms(2) by (auto simp: build_request_def bn_endpoint_def api_createBatch_def post_def init_of_def bind_res_def
        split: sum.splits simp del: js_Cons)
  have "JSON_parse ?t = Some (batch_json i)" by (rule compact.parse_print [OF wf_batch_input [OF assms(1)]])
  then obtain rest where rest: "pv (2 * length ?t + 2) ?t = Some (batch_json i, rest)"
    by (auto simp: JSON_parse_def split: option.splits if_splits)
  have "\<not> 1048576 < blob_size (take (length ?t - length rest) ?t)"
    using blob_size_take [of "length ?t - length rest" ?t] assms(3) by linarith
  then have first: "read_first (hr_body r) = Some (batch_json i)"
    unfolding read_first_def sent body.case rest option.case prod.case by (simp only: if_False)
  obtain kvs where kvs: "batch_json i = JObj kvs" by (simp add: batch_json_def json_obj_def)
  show ?thesis
    unfolding read_create_def first kvs option.case json.case
    using decode_batch_input [OF _ kvs, of U] assms(1) by (simp add: form_numbers_def)
qed


section \<open>What the server still checks\<close>

lemma TrimSpace_ends: "TrimSpace s = [] \<or> \<not> go_is_space (hd (TrimSpace s)) \<and> \<not> go_is_space (last (TrimSpace s))"
proof -
  let ?a = "dropWhile go_is_space s"
  define b where "b = dropWhile go_is_space (rev ?a)"
  have b: "TrimSpace s = rev b" by (simp add: TrimSpace_def b_def)
  have "\<not> go_is_space (hd ?a)" if "?a \<noteq> []" using that by (rule hd_dropWhile)
  moreover have "\<exists>t. ?a = rev b @ t"
    using takeWhile_dropWhile_id [of go_is_space "rev ?a"] unfolding b_def by (metis rev_append rev_rev_ident)
  ultimately have "b \<noteq> [] \<longrightarrow> \<not> go_is_space (hd (rev b))"
    by (metis Nil_is_rev_conv append_is_Nil_conv hd_append2)
  moreover have "b \<noteq> [] \<longrightarrow> \<not> go_is_space (hd b)" unfolding b_def using hd_dropWhile by blast
  ultimately show ?thesis unfolding b last_rev Nil_is_rev_conv by blast
qed

lemma TrimSpace_TrimSpace [simp]: "TrimSpace (TrimSpace s) = TrimSpace s"
proof -
  let ?t = "TrimSpace s"
  have "dropWhile go_is_space ?t = ?t" "dropWhile go_is_space (rev ?t) = rev ?t"
    using TrimSpace_ends [of s] by (auto simp: dropWhile_eq_self_iff hd_rev)
  then show ?thesis unfolding TrimSpace_def [of ?t] by simp
qed

lemma TrimSpace_Nil: "TrimSpace s = [] \<longleftrightarrow> list_all go_is_space s"
proof
  show "list_all go_is_space s" if "TrimSpace s = []"
    using TrimSpace_keeps that by (metis empty_iff list.set(1) list_all_iff)
  show "TrimSpace s = []" if "list_all go_is_space s"
  proof -
    have "dropWhile go_is_space s = []" using that by (simp add: list_all_iff)
    then show ?thesis unfolding TrimSpace_def by (simp only: rev.simps dropWhile.simps)
  qed
qed

lemma go_len_bound: "go_len s \<le> 3 * length s"
  unfolding go_len_def blob_size_def
proof (induction s rule: code_points.induct)
  case (2 c)
  have "unat c < 65536" using unsigned_less [of c] by simp
  then show ?case by simp
next
  case (3 c d s)
  have "unat c < 65536" using unsigned_less [of c] by simp
  then show ?case using 3 by (cases "is_high_surrogate c \<and> is_low_surrogate d") (auto simp del: utf8_len.simps simp: utf8_len.simps)
qed simp

lemma go_runes_bound: "go_runes (TrimSpace s) \<le> length s" "go_runes s \<le> length s"
  unfolding go_runes_def by (rule order_trans [OF length_code_points length_TrimSpace], rule length_code_points)

text \<open>The checks that are left: those the page does not make.\<close>

definition server_accepts :: "go_unicode \<Rightarrow> (gostr \<Rightarrow> bool) \<Rightarrow> BatchInput \<Rightarrow> int \<Rightarrow> int \<Rightarrow> int \<Rightarrow> bool" where
  "server_accepts U valid_url i n len uses \<longleftrightarrow>
     8 \<le> len \<and> len \<le> 20 \<and> 1 \<le> n \<and> n \<le> 10000 \<and> 1 \<le> uses \<and> uses \<le> 100000
     \<and> \<not> list_all go_is_space (json_string (bi_name i))
     \<and> (let p = ToUpper U (TrimSpace (json_string (bi_prefix i))) in go_len p \<le> 8 \<and> isASCIIAlphanumeric p)
     \<and> (let w = TrimSpace (json_string (bi_webhook_url i)) in w = [] \<or> go_len w \<le> 2000 \<and> valid_url w)
     \<and> (bi_assign_credential i \<longrightarrow> normalizeCredentialPlanType (json_string (bi_credential_plan_type i)) \<in> range Inr)
     \<and> unmarshals (json_string (bi_payload_json i))"

lemma normalize_trimmed: "normalizeCredentialPlanType (TrimSpace p) = normalizeCredentialPlanType p"
  by (simp add: normalizeCredentialPlanType_def)

lemma json_string_Nil [simp]: "json_string s = [] \<longleftrightarrow> s = []"
  using length_json_string [of s] by (metis length_0_conv)

lemma json_string_empty [simp]: "json_string [] = []"
  by simp

lemma validate_sent:
  assumes "proper_input i"
  shows "validateCreateBatch valid_url (trim_create U (read_input i n len uses)) = []
    \<longleftrightarrow> server_accepts U valid_url i n len uses"
proof -
  let ?name = "json_string (bi_name i)" and ?plan = "json_string (bi_credential_plan_type i)"
  have bounds: "length ?name \<le> 100" "length (json_string (bi_description i)) \<le> 200"
      "length (json_string (bi_webhook_secret i)) \<le> 64"
    using assms by (simp_all add: proper_input_def length_json_string)
  have name: "\<not> 200 < go_runes (TrimSpace ?name)" "\<not> 1000 < go_runes (json_string (bi_description i))"
    using go_runes_bound(1) [of ?name] go_runes_bound(2) [of "json_string (bi_description i)"] bounds by linarith+
  have secret: "\<not> 512 < go_len (json_string (bi_webhook_secret i))"
    using go_len_bound [of "json_string (bi_webhook_secret i)"] bounds by linarith
  have plan: "\<not> bi_assign_credential i \<Longrightarrow> bi_credential_plan_type i = []" using assms by (simp add: proper_input_def)
  have payload: "bi_payload_json i \<noteq> []"
  proof -
    have "JSON_parse [] = None" by code_simp
    then show ?thesis using assms by (auto simp: proper_input_def)
  qed
  have empty: "isASCIIAlphanumeric []" by (simp add: isASCIIAlphanumeric_def)
  have none: "go_runes (TrimSpace []) = 0" by (simp add: TrimSpace_def go_runes_def)
  show ?thesis
    using plan unfolding validateCreateBatch_def trim_create_def read_input_def server_accepts_def
    by (auto simp: Let_def name secret payload TrimSpace_Nil normalize_trimmed empty none split: sum.splits)
qed


section \<open>The contract\<close>

lemma pending_create:
  assumes "bn_step\<^sup>*\<^sup>* (bn_init bytes) s" "BCreate i \<in> set (pend s)"
  shows "proper_input i" "form_numbers i"
proof -
  have "bn_inv s" "numbers_inv s"
    using bn.reachable_inv bn_numbers.reachable_inv assms(1) by blast+
  then show "proper_input i" "form_numbers i"
    using assms(2) by (auto simp: bn_inv_def numbers_inv_def list_all_iff)
qed

definition sent_numbers :: "BatchInput \<Rightarrow> (int \<times> int \<times> int) option" where
  "sent_numbers i = (case (int32 (bi_count i), int32 (bi_code_length i), int32 (bi_max_uses_per_code i)) of
     (Some n, Some len, Some uses) \<Rightarrow> Some (n, len, uses) | _ \<Rightarrow> None)"

lemma read_sent_numbers:
  assumes "form_numbers i" "build_request cookie (fst (bn_endpoint (BCreate i))) (snd (bn_endpoint (BCreate i))) = Inr r"
    "blob_size (stringify (batch_json i)) \<le> 1048576"
  shows "read_create U (hr_body r) = map_option (\<lambda>(n, len, uses). read_input i n len uses) (sent_numbers i)"
  unfolding read_sent_create [OF assms] sent_numbers_def by (simp split: option.split)

text \<open>The expiry of a form, as the handler reads it.\<close>

definition expiry_read :: "BatchInput \<Rightarrow> int option option" where
  "expiry_read i = (if bi_expires_at i = [] then Some None else map_option Some (parse_rfc3339 (json_string (bi_expires_at i))))"

lemma trim_read [simp]:
  "cb_expires (trim_create U (read_input i n len uses)) = Some (json_string (bi_expires_at i))"
  "cb_assign (trim_create U (read_input i n len uses)) = bi_assign_credential i"
  "cb_plan (trim_create U (read_input i n len uses)) = TrimSpace (json_string (bi_credential_plan_type i))"
  by (simp_all add: trim_create_def read_input_def)

lemma check_sent:
  assumes "proper_input i" "read_create U (hr_body r) = Some (read_input i n len uses)"
  shows "check_create U valid_url detail sf v r db =
    (if \<not> server_accepts U valid_url i n len uses
     then Inl (RespondError 400 msg_as_bad_input (validateCreateBatch valid_url (trim_create U (read_input i n len uses))))
     else case expiry_read i of
       None \<Rightarrow> Inl (RespondError 400 msg_as_bad_expiry [])
     | Some expires \<Rightarrow>
         if bi_assign_credential i \<and> sf then Inl (RespondError 500 msg_as_stock_failed [])
         else if bi_assign_credential i
           \<and> CountAvailableCredentialsByPlan v (TrimSpace (json_string (bi_credential_plan_type i))) db < 1
         then Inl (RespondError 400 msg_as_no_stock [])
         else Inr (trim_create U (read_input i n len uses), expires))"
proof -
  have e: "(case Some (json_string (bi_expires_at i)) of None \<Rightarrow> Some None
      | Some t \<Rightarrow> if t = [] then Some None else map_option Some (parse_rfc3339 t)) = expiry_read i"
    by (simp add: expiry_read_def)
  show ?thesis
    unfolding check_create_def assms(2) option.case(2) Let_def trim_read e [simplified option.case]
    by (simp add: validate_sent [OF assms(1)] split: option.split)
qed


section \<open>Expiry\<close>

text \<open>The value of an input of type datetime-local at its default step: no seconds, no zone.\<close>

definition local_datetime :: "jstr \<Rightarrow> bool" where
  "local_datetime v \<longleftrightarrow> length v = 16 \<and> list_all is_digit (take 4 v) \<and> v ! 4 = 45 \<and> is_digit (v ! 5) \<and> is_digit (v ! 6)
     \<and> v ! 7 = 45 \<and> is_digit (v ! 8) \<and> is_digit (v ! 9) \<and> v ! 10 = 84 \<and> is_digit (v ! 11) \<and> is_digit (v ! 12)
     \<and> v ! 13 = 58 \<and> is_digit (v ! 14) \<and> is_digit (v ! 15)"

lemma local_shape:
  assumes "local_datetime v"
  obtains a b c d f g i j l m p q where "v = [a, b, c, d, 45, f, g, 45, i, j, 84, l, m, 58, p, q]"
    "list_all is_digit [a, b, c, d, f, g, i, j, l, m, p, q]"
proof -
  obtain a b c d e f g h i j k l m n p q where v: "v = [a, b, c, d, e, f, g, h, i, j, k, l, m, n, p, q]"
    using assms by (auto simp: local_datetime_def numeral_eq_Suc length_Suc_conv)
  show thesis
    by (rule that [of a b c d f g i j l m p q]) (use assms in \<open>simp_all add: local_datetime_def v\<close>)
qed

lemma local_not_rfc3339: "local_datetime v \<Longrightarrow> parse_rfc3339 v = None"
  by (erule local_shape)
    (simp add: parse_rfc3339_def parse_year_def check_def Option.bind_def split: option.split)

lemma digit_ascii: "is_digit c \<Longrightarrow> c < 128"
  by (rule alnum_ascii) (simp add: is_alnum_def)

lemma local_ascii: "local_datetime v \<Longrightarrow> list_all (\<lambda>c. c < 128) v"
  by (erule local_shape) (simp add: digit_ascii)

lemma local_unread: "local_datetime (bi_expires_at i) \<Longrightarrow> expiry_read i = None"
  by (auto simp: expiry_read_def json_string_ascii local_ascii local_not_rfc3339 local_datetime_def)

lemma refused_answer:
  assumes "m \<noteq> []" "JSON_parse txt = Some (ha_body (RespondError st m errs))" "\<not> resp_ok st"
  shows "request_result (Response st txt)
    = Inl (ApiErr m st (if errs = [] then None else Some (JArr (map JStr errs))))"
proof -
  define kvs where "kvs = [(js ''ok'', JBool False), (js ''message'', JStr m)]
    @ (if errs = [] then [] else [(js ''errors'', JArr (map JStr errs))])"
  have k: "map_of kvs (js ''message'') = Some (JStr m)"
    "map_of kvs (js ''errors'') = (if errs = [] then None else Some (JArr (map JStr errs)))"
    by (simp_all add: kvs_def)
  have "throw_api (JObj kvs) st = Inl (ApiErr m st (if errs = [] then None else Some (JArr (map JStr errs))))"
    using throw_api_obj [OF k(1) assms(1), of st] unfolding k(2) .
  moreover have "JSON_parse txt = Some (JObj kvs)" using assms(2) by (simp only: RespondError_def http_answer.simps kvs_def)
  ultimately show ?thesis
    using assms(3) by (simp only: request_result_def fetch_outcome.case Let_def option.case) simp
qed

text \<open>C6 (error). No batch with an expiry is ever created: whatever time is picked in the
  form, the server refuses the request, the data base stays as it is, and when
  the rest of the form is fine the page shows the one message that the time has
  the wrong format.\<close>

theorem expiring_batch_refused:
  assumes "bn_step\<^sup>*\<^sup>* (bn_init bytes) s" "BCreate i \<in> set (pend s)"
    "build_request cookie (fst (bn_endpoint (BCreate i))) (snd (bn_endpoint (BCreate i))) = Inr r"
    "blob_size (stringify (batch_json i)) \<le> 1048576" "local_datetime (bi_expires_at i)"
    "handle_create U valid_url detail sf v draws r db = (a, db')" "JSON_parse txt = Some (ha_body a)"
  shows "db' = db \<and> ha_status a = 400
    \<and> (\<exists>m es. request_result (Response (ha_status a) txt) = Inl (ApiErr m 400 es)
         \<and> ((\<exists>n len uses. sent_numbers i = Some (n, len, uses) \<and> server_accepts U valid_url i n len uses) \<longrightarrow>
              bn_create_done (Inl (ApiErr m 400 es)) s
                = Some (s\<lparr>bn_errors := [msg_as_bad_expiry], bn_loading := False\<rparr>)))"
proof -
  note i = pending_create [OF assms(1,2)]
  note read = read_sent_numbers [OF i(2) assms(3,4), of U]
  have none: "expiry_read i = None" by (rule local_unread [OF assms(5)])
  have refused: "\<exists>m errs. check_create U valid_url detail sf v r db = Inl (RespondError 400 m errs) \<and> m \<noteq> []
      \<and> ((\<exists>n len uses. sent_numbers i = Some (n, len, uses) \<and> server_accepts U valid_url i n len uses) \<longrightarrow>
           m = msg_as_bad_expiry \<and> errs = [])"
  proof (cases "sent_numbers i")
    case None
    then show ?thesis
      using read by (intro exI [of _ msg_as_bad_request] exI [of _ "[detail]"]) (simp add: check_create_def msg_as_bad_request_def)
  next
    case (Some p)
    obtain n len uses where p: "p = (n, len, uses)" by (cases p)
    have "read_create U (hr_body r) = Some (read_input i n len uses)" using read Some p by simp
    note check = check_sent [OF i(1) this, of valid_url detail sf v db]
    show ?thesis
    proof (cases "server_accepts U valid_url i n len uses")
      case True
      then show ?thesis
        using check none by (intro exI [of _ msg_as_bad_expiry] exI [of _ "[]"]) (simp add: msg_as_bad_expiry_def)
    next
      case False
      then show ?thesis
        using check Some p by (intro exI [of _ msg_as_bad_input] exI) (simp add: msg_as_bad_input_def)
    qed
  qed
  then obtain m errs where m: "check_create U valid_url detail sf v r db = Inl (RespondError 400 m errs)" "m \<noteq> []"
      and fine: "(\<exists>n len uses. sent_numbers i = Some (n, len, uses) \<and> server_accepts U valid_url i n len uses) \<longrightarrow>
           m = msg_as_bad_expiry \<and> errs = []"
    by blast
  have a: "a = RespondError 400 m errs" "db' = db" using assms(6) m(1) by (simp_all add: handle_create_def)
  have answer: "request_result (Response 400 txt) = Inl (ApiErr m 400 (if errs = [] then None else Some (JArr (map JStr errs))))"
    using assms(7) by (intro refused_answer m(2)) (simp_all add: a resp_ok_def)
  have status: "ha_status a = 400" by (simp add: a RespondError_def)
  show ?thesis
    using answer fine unfolding status by (auto simp: a(2) bn_create_done_def)
qed


section \<open>A form with an expiry, and the same one without\<close>

text \<open>A name is typed, a time is picked or not, and the form is submitted.\<close>

definition form_typed :: "jstr \<Rightarrow> bn_page" where
  "form_typed v = set_form (bi_expires_at_update (\<lambda>_. v)) (set_form (bi_name_update (\<lambda>_. js ''a'')) (bn_init (\<lambda>_. 171)))"

definition typed_input :: "jstr \<Rightarrow> BatchInput" where
  "typed_input v = \<lparr>bi_name = js ''a'', bi_description = [], bi_payload_json = js ''{}'', bi_count = jint 100,
     bi_prefix = [], bi_code_length = jint 12, bi_expires_at = v, bi_max_uses_per_code = jint 1,
     bi_max_redeems_per_user = jint 1, bi_assign_credential = False, bi_credential_plan_type = [],
     bi_webhook_url = [], bi_webhook_secret = randomSecret (\<lambda>_. 171)\<rparr>"

lemma form_sent:
  "\<exists>s :: bn_page. bn_step\<^sup>*\<^sup>* (bn_init (\<lambda>_. 171)) s \<and> BCreate (typed_input v) \<in> set (pend s)"
proof -
  fix env
  let ?s0 = "bn_init (\<lambda>_. 171)"
  let ?s1 = "bn_handle env (EditName (js ''a'')) ?s0"
  let ?s2 = "bn_handle env (EditExpires v) ?s1"
  let ?s3 = "bn_handle env CreateBatch ?s2"
  have s1: "bn_step ?s0 ?s1"
    by (rule bn_stepI) (simp_all add: bn_init_fields offers_bn_name del: bn_handle.simps)
  have "offers (bn_view s) (EditExpires v)" for s by (simp add: bn_view_def bn_rules_view_def Let_def)
  then have s2: "bn_step ?s1 ?s2"
    by (intro bn_stepI) (simp_all add: bn_init_fields set_form_def)
  have s3: "bn_step ?s2 ?s3"
    by (intro bn_stepI offers_bn_create) (simp_all add: bn_init_fields set_form_def)
  have trim: "js_trim (js ''a'') = js ''a''" "js_trim [] = []" by code_simp+
  then have "acceptable ?s2"
    by (simp add: acceptable_def Let_def set_form_def bn_init_fields INITIAL_def)
  then have "validate (be_json_text env) ?s2 = []" by (simp add: validate_Nil)
  moreover have "submitted (bn_form ?s2) = typed_input v"
    using trim by (simp add: submitted_def set_form_def bn_init_fields INITIAL_def typed_input_def)
  ultimately have "BCreate (typed_input v) \<in> set (pend ?s3)" by (simp add: bn_handleSubmit_def)
  moreover have "bn_step\<^sup>*\<^sup>* ?s0 ?s3" using s1 s2 s3 by (meson converse_rtranclp_into_rtranclp rtranclp.rtrancl_refl)
  ultimately show ?thesis by blast
qed

lemma typed_request:
  "\<exists>r. build_request [] (fst (bn_endpoint (BCreate (typed_input v)))) (snd (bn_endpoint (BCreate (typed_input v)))) = Inr r"
proof -
  have "getCSRFToken [] = Inr None" by code_simp
  then show ?thesis
    by (simp add: build_request_def bn_endpoint_def api_createBatch_def post_def init_of_def isMutatingMethod_def del: js_Cons)
qed

lemma typed_numbers: "sent_numbers (typed_input v) = Some (100, 12, 1)"
proof -
  have "int32 (jint 100) = Some 100" "int32 (jint 12) = Some 12" "int32 (jint 1) = Some 1" by code_simp+
  then show ?thesis by (simp add: sent_numbers_def typed_input_def)
qed

lemma typed_accepted: "server_accepts sample_unicode (\<lambda>_. False) (typed_input v) 100 12 1"
proof -
  have ascii: "json_string (js ''a'') = js ''a''" "json_string (js ''{}'') = js ''{}''"
    by (rule json_string_ascii, simp)+
  have "unmarshals (js ''{}'')" using parse_empty_object by (simp add: unmarshals_def del: js_Cons)
  moreover have "\<not> list_all go_is_space (js ''a'')" by (simp add: go_is_space_def)
  ultimately show ?thesis
    unfolding server_accepts_def typed_input_def BatchInput.simps ascii
    by (simp add: TrimSpace_def ToUpper_def of_runes_def go_len_def blob_size_def isASCIIAlphanumeric_def)
qed

lemma typed_small:
  "blob_size (stringify (batch_json (typed_input []))) \<le> 1048576"
  "blob_size (stringify (batch_json (typed_input (js ''2026-12-31T23:59'')))) \<le> 1048576"
proof -
  have "length (stringify (batch_json (typed_input []))) \<le> 1000"
    "length (stringify (batch_json (typed_input (js ''2026-12-31T23:59'')))) \<le> 1000"
    by code_simp+
  then show "blob_size (stringify (batch_json (typed_input []))) \<le> 1048576"
    "blob_size (stringify (batch_json (typed_input (js ''2026-12-31T23:59'')))) \<le> 1048576"
    using go_len_bound [of "stringify (batch_json (typed_input []))"]
      go_len_bound [of "stringify (batch_json (typed_input (js ''2026-12-31T23:59'')))"]
    unfolding go_len_def by linarith+
qed


text \<open>C6: With the last minute of 2026 it is refused, for any answer text with this JSON.\<close>

lemma expiring_batch_refused_witness:
  "\<exists>s :: bn_page. \<exists>r a m es. BCreate (typed_input (js ''2026-12-31T23:59'')) \<in> set (pend s)
     \<and> handle_create sample_unicode (\<lambda>_. False) [] False sample_env [] r sample_db = (a, sample_db)
     \<and> request_result (Response (ha_status a) (stringify (ha_body a))) = Inl (ApiErr m 400 es)
     \<and> bn_create_done (Inl (ApiErr m 400 es)) s = Some (s\<lparr>bn_errors := [msg_as_bad_expiry], bn_loading := False\<rparr>)"
proof -
  let ?i = "typed_input (js ''2026-12-31T23:59'')"
  obtain s :: bn_page where s: "bn_step\<^sup>*\<^sup>* (bn_init (\<lambda>_. 171)) s" "BCreate ?i \<in> set (pend s)"
    using form_sent by blast
  obtain r where r: "build_request [] (fst (bn_endpoint (BCreate ?i))) (snd (bn_endpoint (BCreate ?i))) = Inr r"
    using typed_request by blast
  have local: "local_datetime (bi_expires_at ?i)"
    unfolding typed_input_def BatchInput.simps by code_simp
  note i = pending_create [OF s]
  have "read_create sample_unicode (hr_body r) = Some (read_input ?i 100 12 1)"
    using read_sent_numbers [OF i(2) r typed_small(2), of sample_unicode] typed_numbers by simp
  from check_sent [OF i(1) this, of "\<lambda>_. False" "[]" False sample_env sample_db]
  have run: "handle_create sample_unicode (\<lambda>_. False) [] False sample_env [] r sample_db
      = (RespondError 400 msg_as_bad_expiry [], sample_db)"
    using typed_accepted local_unread [OF local] by (simp add: handle_create_def)
  have "wf_json (ha_body (RespondError 400 msg_as_bad_expiry []))"
  proof -
    have "wf_keys [js ''ok'', js ''message'']" by code_simp
    then show ?thesis by (simp add: RespondError_def del: js_Cons)
  qed
  then have parsed: "JSON_parse (stringify (ha_body (RespondError 400 msg_as_bad_expiry []))) = Some (ha_body (RespondError 400 msg_as_bad_expiry []))"
    by (rule compact.parse_print)
  show ?thesis
    using expiring_batch_refused [OF s r typed_small(2) local run parsed] typed_numbers typed_accepted s(2) run by blast
qed

end
