(* ===== verification/Spec2Isabelle.thy ===== *)
theory Spec2Isabelle
  imports ConvertTab RedeemProofs CredentialsProofs AdminComposed AdminQuiet RedeemDecides CreateFlow
begin

text \<open>
  The CDK redemption system: the web client in web/src (TypeScript and React) and
  the part of the Go server in internal that decides about codes. Visitors redeem
  codes on a public page and convert account files there; administrators create
  batches of codes, look at them and at the redemption log, manage credentials,
  notes and the site's settings behind a login. The client talks to the server
  through a JSON API; the server keeps codes, batches, credentials, redemptions
  and idempotency keys in a data base.

  The parts, bottom up, and the theories that model them:

  \<^item> The language. \<open>JsPrelude\<close> has strings as lists of UTF-16 code units (16-bit
    words) with the methods the sources call and decimal printing; \<open>JsRegex\<close> a
    backtracking matcher with test, one-group match and split; \<open>Json\<close> the
    serializer and parser of JSON with numbers as exact decimals, \<open>JsonProofs\<close>
    their round trip (locale \<open>json_codec\<close>, interpreted for compact and indented
    printing), \<open>JsonTrim\<close> that trimming a text does not change the value it
    parses to; \<open>JsValue\<close> untyped values, thrown errors and results.
    \<open>Messages\<close>, \<open>UiMessages\<close> and \<open>AdminMessages\<close> hold the texts that are not ASCII.
  \<^item> Components as state machines. \<open>Page\<close> has the record every page extends
    (calls under way, effects so far), the locales \<open>invariant_system\<close> and
    \<open>logged_system\<close>, and lib/clipboard.ts. \<open>View\<close> has the tree a component
    renders and \<open>offers\<close>, which events a user can cause in it. \<open>AdminFrame\<close> has
    the one step relation of the admin pages, the locale \<open>page_system\<close> (a
    page's invariant from its handlers and continuations, an extension of
    \<open>invariant_system\<close>) and the locale \<open>draining\<close> (runs of answers end).
  \<^item> web/src/lib. \<open>Api\<close> and \<open>ApiProofs\<close>: api.ts, from the cookie and the request
    to the thrown error, and every endpoint. \<open>Types\<close>: the records of types.ts.
    \<open>Converter\<close>, \<open>ConverterProofs\<close>, \<open>ConverterProps\<close>: converter.ts.
    \<open>RedeemArchive\<close>: redeem-archive.ts. \<open>EntryNames\<close>: what both archives promise
    of their names (locale \<open>numbered_names\<close>).
  \<^item> web/src/components. \<open>Components\<close>: dialogs, pager, badges, JSON viewer, theme
    switch. \<open>SiteProvider\<close>: the site settings context, title, favicon and logo.
    \<open>Sidebar\<close> and \<open>SidebarProofs\<close>: ui/sidebar.tsx with hooks/use-mobile.ts (open
    state, cookie, shortcut, every part it draws). \<open>Chart\<close>: ui/chart.tsx (colours,
    tooltip and legend).
  \<^item> web/src/pages/redeem.tsx. \<open>CdkInput\<close> reads codes and addresses;
    \<open>RedeemHistory\<close>, \<open>RedeemPage\<close>, \<open>RedeemView\<close> have the history, the state with
    its handlers, and the view with the step relation; \<open>RedeemProofs\<close> the
    invariants; \<open>ConvertTab\<close> the converter tab.
  \<^item> web/src/pages/admin. \<open>Credentials\<close>, \<open>CredentialsView\<close>, \<open>CredentialsProofs\<close>:
    credentials.tsx. \<open>BatchNew\<close>, \<open>BatchNewProofs\<close>: batch-new.tsx. \<open>BatchDetail\<close>:
    batch-detail.tsx. \<open>Logs\<close>: logs.tsx. \<open>Faq\<close>: faq.tsx. \<open>SiteSettingsPage\<close>,
    \<open>SiteSettingsProofs\<close>: site-settings.tsx. \<open>Dashboard\<close>: dashboard.tsx and
    batches.tsx. \<open>AdminShell\<close>, \<open>AdminShellProofs\<close>: App.tsx, login.tsx and
    layouts/admin-layout.tsx.
  \<^item> Composition. \<open>AdminQuiet\<close> spans the admin pages. \<open>AdminComposed\<close> puts the
    layout, its sidebar and a page together to one screen with one step relation;
    the locale \<open>kept_component\<close> (a part that is mounted and unmounted keeps its
    invariant, a source of \<open>invariant_system\<close>) carries what is proved of a page
    alone over to the screen.

  \<^item> internal, the server. \<open>Codes\<close>: Go strings, batch/batch.go (drawing codes), how
    redeem/service.go shows a code and reads it back, the exports of
    httpapi/admin.go. \<open>RedeemServer\<close>: the tables, the queries of store/queries.sql.go
    and redeem/service.go (single and batch redemption, idempotency keys), with
    \<open>server_step\<close>, one request served. \<open>RedeemServerProofs\<close>: its invariant
    (interpretation \<open>dbi\<close> of \<open>invariant_system\<close>). \<open>RedeemDecides\<close>: when a redemption
    succeeds. \<open>RedeemBatch\<close>: a batch as a sequence of single redemptions.
    \<open>RedeemKeys\<close>: idempotency. \<open>RedeemHandler\<close>: httpapi/redeem.go and response.go.
    \<open>AdminServer\<close>: the creation of batches in httpapi/admin.go.
  \<^item> Client and server together. \<open>RedeemFlow\<close>: a batch from the redeem page through
    the client's request, the handler, the service and back into the text area.
    \<open>CreateFlow\<close>: a batch form from the page through the handler and back.

  How the server corresponds to its source. A table is a list of records, a query
  a function on the data base, an error return the old data base and an error
  value, a transaction the data base it commits. One request is one step, which
  is what the row locks of the queries give; what other requests can do to it
  meanwhile (locked credentials, a failing statement) is in \<open>service_env\<close>. A Go
  string is kept as the UTF-16 units of its text, so that it is the string the
  client sees; its bytes and runes are counted from them.

  How a page corresponds to its source. Its hooks and refs are the fields of a
  record; a handler is a function with the handler's name on that record, cut at
  each \<^verbatim>\<open>await\<close>: the first part records a call under way with whatever its
  closure captured (the filters of the render that started it, for one), the
  second part (\<open>..._done\<close>) runs when that call is answered. The view is a function
  of the state with every control, its handler and its disabled attribute. A step
  is a user event the view offers or the answer of any call under way, so that
  every interleaving is covered. Effects on the outside (toasts, navigation,
  downloads, the clipboard) are a log.

  What the lemmas show. For each page an invariant over all reachable states:
  at most one submission under way and only valid ones, selections inside the
  rows shown, histories that survive a reload, saves that are what the form
  shows, pages and filters that exist. For the library: requests carry the CSRF
  token, answers become values or errors, converted accounts carry everything
  but the tokens, archives have one safe entry each, parsers and printers are
  inverse. For the composition: pages behind the layout are usable exactly after
  the session check, a login leads back to where the visitor came from, and
  every admin page comes to rest when left alone. For the server: no code is used
  more often than its batch allows and no credential is handed out twice, a
  redemption succeeds exactly when it should, a batch is the sequence of its
  codes, a keyed request is answered once and for all. For both together: after
  a batch the page keeps exactly the codes the server did not use, exported
  codes read back on the page, and what the server still refuses of a form the
  page accepts, an expiry among it. Some theorems state what the
  code does against its purpose; the findings of the manifest name them.

  Bounds and fuel. The JSON parser runs with twice the length of its input plus
  two, which \<open>pv_more_fuel\<close> (JsonProofs) shows to be enough. Drawing codes
  consumes a list of draws, and \<open>generate_from_returns\<close> (Codes) shows that it ends
  once the draws hold enough different codes. Everything else recurses on its
  data or has a termination proof.

  Not modelled, and why. The browser, the data base engine and third-party packages
  are the environment: fetch, the clipboard, storage failures, random bytes, time,
  date parsing, picture decoding, Unicode upper case and the engine's error
  texts enter as inputs or answers; JSZip is the list of files handed to it, the
  router the table it is given. Of the server, sessions and login, rate limiting,
  the delivery of webhooks, site settings, uploads and the listings are left out:
  they live in Redis, a password library, name resolution and the network, or
  hand rows on to pages whose theorems hold for every answer. SHA-256, the tables
  of Unicode, the check of a webhook's address and the rate limiter's verdict are
  parameters; columns no modelled operation reads are left out. JSON numbers are exact decimals, so rounding to
  doubles and overflow to infinity are not seen. Of components/ui the sidebar and
  the chart frame are modelled; the other files only pass class names on to a
  headless library, and views name their elements. Class names, icons and layout
  are left out. An object URL is the file it stands for.

  What is left. The route table against the paths of the client, the delivery of
  webhooks as a state machine of its own, and a data base whose transactions
  interleave statement by statement instead of one request at a time.
\<close>

end
